(* ===== verification/Prelude.thy ===== *)
theory Prelude
  imports Main "HOL-Library.Word" "HOL-Library.Sublist"
begin

text \<open>
  Shared vocabulary of the development: the effect type of the model (explicit state
  passing, error values, non-termination as a value), its sequencing operators with
  their rewrite rules, the \<open>frame\<close> locale (relations on states that every operation
  of a component respects are respected by compositions), and generic lemmas on lists.
\<close>

section \<open>Effects\<close>

text \<open>
  A Go function that may fail and that acts on the outside world is a function from the
  state to an optional pair of a result and the next state. \<open>Some (Inl e, s')\<close> is a
  return with the error \<open>e\<close>, \<open>Some (Inr x, s')\<close> a return with the value \<open>x\<close>
  and a nil error, and \<open>None\<close> a call that never returns.
\<close>

type_synonym ('s, 'e, 'a) eff = "'s \<Rightarrow> (('e + 'a) \<times> 's) option"

named_theorems eff_simps \<open>rewrite rules of the effect operators\<close>
named_theorems keeps_intros \<open>closure rules for relations kept by effects\<close>

definition retE :: "'a \<Rightarrow> ('s, 'e, 'a) eff" where
  "retE x = (\<lambda>s. Some (Inr x, s))"

definition failE :: "'e \<Rightarrow> ('s, 'e, 'a) eff" where
  "failE e = (\<lambda>s. Some (Inl e, s))"

definition liftE :: "'e + 'a \<Rightarrow> ('s, 'e, 'a) eff" where
  "liftE r = (\<lambda>s. Some (r, s))"

text \<open>\<open>bindE m f\<close>: \<open>x, err := m; if err != nil { return err }; f(x)\<close>.\<close>

definition bindE :: "('s, 'e, 'a) eff \<Rightarrow> ('a \<Rightarrow> ('s, 'e, 'b) eff) \<Rightarrow> ('s, 'e, 'b) eff" where
  "bindE m f = (\<lambda>s. case m s of
      None \<Rightarrow> None
    | Some (Inl e, s') \<Rightarrow> Some (Inl e, s')
    | Some (Inr x, s') \<Rightarrow> f x s')"

abbreviation thenE :: "('s, 'e, 'a) eff \<Rightarrow> ('s, 'e, 'b) eff \<Rightarrow> ('s, 'e, 'b) eff" where
  "thenE m n \<equiv> bindE m (\<lambda>_. n)"

text \<open>\<open>mapErrE h m\<close>: \<open>if err != nil { return fmt.Errorf("...: %w", err) }\<close>.\<close>

definition mapErrE :: "('e \<Rightarrow> 'f) \<Rightarrow> ('s, 'e, 'a) eff \<Rightarrow> ('s, 'f, 'a) eff" where
  "mapErrE h m = (\<lambda>s. case m s of
      None \<Rightarrow> None
    | Some (Inl e, s') \<Rightarrow> Some (Inl (h e), s')
    | Some (Inr x, s') \<Rightarrow> Some (Inr x, s'))"

text \<open>\<open>catchE m h\<close>: \<open>x, err := m; if err != nil { x, err = h(err) }\<close>.\<close>

definition catchE :: "('s, 'e, 'a) eff \<Rightarrow> ('e \<Rightarrow> ('s, 'f, 'a) eff) \<Rightarrow> ('s, 'f, 'a) eff" where
  "catchE m h = (\<lambda>s. case m s of
      None \<Rightarrow> None
    | Some (Inl e, s') \<Rightarrow> h e s'
    | Some (Inr x, s') \<Rightarrow> Some (Inr x, s'))"

text \<open>\<open>attemptE m\<close>: the pair \<open>x, err\<close> of a call whose error the caller looks at itself.\<close>

definition attemptE :: "('s, 'e, 'a) eff \<Rightarrow> ('s, 'f, 'e + 'a) eff" where
  "attemptE m = (\<lambda>s. case m s of None \<Rightarrow> None | Some (r, s') \<Rightarrow> Some (Inr r, s'))"

lemma retE_apply [simp, eff_simps]: "retE x s = Some (Inr x, s)"
  by (simp add: retE_def)

lemma failE_apply [simp, eff_simps]: "failE e s = Some (Inl e, s)"
  by (simp add: failE_def)

lemma liftE_apply [simp, eff_simps]: "liftE r s = Some (r, s)"
  by (simp add: liftE_def)

lemma liftE_Inr [simp]: "liftE (Inr x) = retE x" and liftE_Inl [simp]: "liftE (Inl e) = failE e"
  by (simp_all add: liftE_def retE_def failE_def)

lemma bindE_retE [simp]: "bindE (retE x) f = f x"
  by (simp add: bindE_def)

lemma bindE_failE [simp]: "bindE (failE e) f = failE e"
  by (simp add: bindE_def failE_def)

lemma bindE_None [simp]: "m s = None \<Longrightarrow> bindE m f s = None"
  by (simp add: bindE_def)

lemma bindE_Inl [simp]: "m s = Some (Inl e, s') \<Longrightarrow> bindE m f s = Some (Inl e, s')"
  by (simp add: bindE_def)

lemma bindE_Inr [simp]: "m s = Some (Inr x, s') \<Longrightarrow> bindE m f s = f x s'"
  by (simp add: bindE_def)

lemma bindE_assoc: "bindE (bindE m f) g = bindE m (\<lambda>x. bindE (f x) g)"
  by (rule ext) (simp add: bindE_def split: option.split prod.split sum.split)

lemma bindE_Some_Inr:
  "bindE m f s = Some (Inr y, s'') \<longleftrightarrow> (\<exists>x s'. m s = Some (Inr x, s') \<and> f x s' = Some (Inr y, s''))"
  by (auto simp: bindE_def split: option.splits prod.splits sum.splits)

lemma bindE_Some_Inl:
  "bindE m f s = Some (Inl e, s'') \<longleftrightarrow>
     m s = Some (Inl e, s'') \<or> (\<exists>x s'. m s = Some (Inr x, s') \<and> f x s' = Some (Inl e, s''))"
  by (auto simp: bindE_def split: option.splits prod.splits sum.splits)

lemma bindE_Some:
  "bindE m f s = Some (r, s'') \<longleftrightarrow>
     (\<exists>e. m s = Some (Inl e, s'') \<and> r = Inl e) \<or>
     (\<exists>x s'. m s = Some (Inr x, s') \<and> f x s' = Some (r, s''))"
  by (auto simp: bindE_def split: option.splits prod.splits sum.splits)

lemma bindE_cong [fundef_cong]:
  assumes "m s = m' s'" and "\<And>x t. m' s' = Some (Inr x, t) \<Longrightarrow> f x t = g x t" and "s = s'"
  shows "bindE m f s = bindE m' g s'"
  using assms by (auto simp: bindE_def split: option.split prod.split sum.split)

lemma mapErrE_Some_Inr [simp]:
  "mapErrE h m s = Some (Inr x, s') \<longleftrightarrow> m s = Some (Inr x, s')"
  by (auto simp: mapErrE_def split: option.splits prod.splits sum.splits)

lemma mapErrE_Some_Inl:
  "mapErrE h m s = Some (Inl e, s') \<longleftrightarrow> (\<exists>e'. e = h e' \<and> m s = Some (Inl e', s'))"
  by (auto simp: mapErrE_def split: option.splits prod.splits sum.splits)

lemma mapErrE_None [simp]: "mapErrE h m s = None \<longleftrightarrow> m s = None"
  by (auto simp: mapErrE_def split: option.splits prod.splits sum.splits)

lemma mapErrE_Inl: "m s = Some (Inl e, s') \<Longrightarrow> mapErrE h m s = Some (Inl (h e), s')"
  by (simp add: mapErrE_def)

lemma mapErrE_retE [simp]: "mapErrE h (retE x) = retE x"
  by (simp add: mapErrE_def retE_def)

lemma mapErrE_failE [simp]: "mapErrE h (failE e) = failE (h e)"
  by (simp add: mapErrE_def failE_def)

lemma catchE_Some_Inr:
  "catchE m h s = Some (Inr x, s'') \<longleftrightarrow>
     m s = Some (Inr x, s'') \<or> (\<exists>e s'. m s = Some (Inl e, s') \<and> h e s' = Some (Inr x, s''))"
  by (auto simp: catchE_def split: option.splits prod.splits sum.splits)

lemma catchE_Inl [simp]: "m s = Some (Inl e, s') \<Longrightarrow> catchE m h s = h e s'"
  by (simp add: catchE_def)

lemma catchE_Inr [simp]: "m s = Some (Inr x, s') \<Longrightarrow> catchE m h s = Some (Inr x, s')"
  by (simp add: catchE_def)

lemma catchE_None [simp]: "m s = None \<Longrightarrow> catchE m h s = None"
  by (simp add: catchE_def)

lemma attemptE_Some:
  "attemptE m s = Some (r, s') \<longleftrightarrow> (\<exists>r'. m s = Some (r', s') \<and> r = Inr r')"
  by (auto simp: attemptE_def split: option.splits prod.splits)

lemma attemptE_apply [simp]: "m s = Some (r, s') \<Longrightarrow> attemptE m s = Some (Inr r, s')"
  by (simp add: attemptE_def)

lemma attemptE_None [simp]: "m s = None \<Longrightarrow> attemptE m s = None"
  by (simp add: attemptE_def)

lemmas eff_inv = bindE_Some_Inr bindE_Some_Inl mapErrE_Some_Inl catchE_Some_Inr attemptE_Some

lemmas eff_defs = bindE_def mapErrE_def catchE_def attemptE_def

section \<open>Relations kept by effects\<close>

text \<open>\<open>keeps R m\<close>: whatever \<open>m\<close> returns, the state before and the state after are related.\<close>

definition keeps :: "('s \<Rightarrow> 's \<Rightarrow> bool) \<Rightarrow> ('s, 'e, 'a) eff \<Rightarrow> bool" where
  "keeps R m \<longleftrightarrow> (\<forall>s r s'. m s = Some (r, s') \<longrightarrow> R s s')"

lemma keepsI: "(\<And>s r s'. m s = Some (r, s') \<Longrightarrow> R s s') \<Longrightarrow> keeps R m"
  by (simp add: keeps_def)

lemma keepsD: "keeps R m \<Longrightarrow> m s = Some (r, s') \<Longrightarrow> R s s'"
  by (simp add: keeps_def)

text \<open>
  The contract several operations share: a reflexive and transitive relation between the
  state before and the state after. Every sequence of operations that keep it keeps it.
\<close>

locale frame =
  fixes R :: "'s \<Rightarrow> 's \<Rightarrow> bool"
  assumes frame_refl: "R s s"
    and frame_trans: "R s t \<Longrightarrow> R t u \<Longrightarrow> R s u"
begin

lemma keeps_retE: "keeps R (retE x)"
  by (rule keepsI) (simp add: frame_refl)

lemma keeps_failE: "keeps R (failE e)"
  by (rule keepsI) (simp add: frame_refl)

lemma keeps_liftE: "keeps R (liftE r)"
  by (rule keepsI) (simp add: frame_refl)

lemma keeps_bindE: "keeps R m \<Longrightarrow> (\<And>x. keeps R (f x)) \<Longrightarrow> keeps R (bindE m f)"
  by (rule keepsI) (auto simp: bindE_Some dest: keepsD intro: frame_trans)

lemma keeps_mapErrE: "keeps R m \<Longrightarrow> keeps R (mapErrE h m)"
  by (rule keepsI) (auto simp: mapErrE_def dest: keepsD split: option.splits sum.splits prod.splits)

lemma keeps_catchE: "keeps R m \<Longrightarrow> (\<And>e. keeps R (h e)) \<Longrightarrow> keeps R (catchE m h)"
  by (rule keepsI)
    (auto simp: catchE_def dest: keepsD intro: frame_trans split: option.splits sum.splits prod.splits)

lemma keeps_attemptE: "keeps R m \<Longrightarrow> keeps R (attemptE m)"
  by (rule keepsI) (auto simp: attemptE_Some dest: keepsD)

lemma keeps_if: "keeps R m \<Longrightarrow> keeps R n \<Longrightarrow> keeps R (if b then m else n)"
  by simp

lemma keeps_case_sum: "(\<And>e. keeps R (f e)) \<Longrightarrow> (\<And>x. keeps R (g x)) \<Longrightarrow> keeps R (case r of Inl e \<Rightarrow> f e | Inr x \<Rightarrow> g x)"
  by (cases r) simp_all

text \<open>A run of a sequence whose first part keeps the relation: it stops there or goes on.\<close>

lemma keeps_bind_cases:
  assumes "bindE m f s = Some (r, s')" and "keeps R m"
  obtains (stop) e where "r = Inl e" "R s s'"
  | (go) x t where "m s = Some (Inr x, t)" "R s t" "f x t = Some (r, s')"
  using assms by (auto simp: bindE_Some dest: keepsD)

lemmas keeps_rules = keeps_retE keeps_failE keeps_liftE keeps_bindE keeps_mapErrE
  keeps_catchE keeps_attemptE keeps_if keeps_case_sum

end

section \<open>Recorded calls\<close>

text \<open>
  A handler takes its collaborators as values of Go interface types. To state which calls
  it makes, and in which order, the collaborators are wrapped: the state is paired with
  the list of the calls made so far, and every call through the interface adds its entry,
  with its outcome, after the wrapped operation has run. Nothing is assumed of the wrapped
  operation, so a theorem about the list holds for every collaborator.
\<close>

definition logged :: "('e + 'a \<Rightarrow> 'c) \<Rightarrow> ('s, 'e, 'a) eff \<Rightarrow> ('s \<times> 'c list, 'e, 'a) eff" where
  "logged ev m = (\<lambda>(s, l). case m s of None \<Rightarrow> None | Some (r, s') \<Rightarrow> Some (r, (s', l @ [ev r])))"

lemma logged_Some:
  "logged ev m sl = Some (r, sl') \<longleftrightarrow> (\<exists>s'. m (fst sl) = Some (r, s') \<and> sl' = (s', snd sl @ [ev r]))"
  by (auto simp: logged_def split: option.splits prod.splits)

lemma logged_pair [simp]:
  "logged ev m (s, l) = (case m s of None \<Rightarrow> None | Some (r, s') \<Rightarrow> Some (r, (s', l @ [ev r])))"
  by (simp add: logged_def)

text \<open>A recorded call whose outcome the caller looks at: its entry precedes what follows.\<close>

lemma bind_attempt_logged:
  "bindE (attemptE (logged ev m)) f (s, l) = Some (r, sl) \<longleftrightarrow>
     (\<exists>x s1. m s = Some (x, s1) \<and> f x (s1, l @ [ev x]) = Some (r, sl))"
  by (auto simp: bindE_def attemptE_def split: option.splits)

lemma bind_attempt:
  "bindE (attemptE m) f s = Some (r, s') \<longleftrightarrow> (\<exists>x s1. m s = Some (x, s1) \<and> f x s1 = Some (r, s'))"
  by (auto simp: bindE_def attemptE_def split: option.splits)

definition log_grows :: "'s \<times> 'c list \<Rightarrow> 's \<times> 'c list \<Rightarrow> bool" where
  "log_grows a b \<longleftrightarrow> prefix (snd a) (snd b)"

interpretation lg: frame log_grows
  by unfold_locales (auto simp: log_grows_def)

lemma keeps_logged [keeps_intros]: "keeps log_grows (logged ev m)"
  by (rule keepsI) (auto simp: logged_Some log_grows_def)

section \<open>Division\<close>

lemma div_eq_range:
  fixes x N k :: int
  assumes "0 < N"
  shows "x div N = k \<longleftrightarrow> k * N \<le> x \<and> x < k * N + N"
proof
  assume "x div N = k"
  then have "x = k * N + x mod N" by (metis div_mult_mod_eq)
  with pos_mod_bound [OF assms, of x] pos_mod_sign [OF assms, of x]
  show "k * N \<le> x \<and> x < k * N + N" by linarith
next
  assume "k * N \<le> x \<and> x < k * N + N"
  then show "x div N = k"
    by (intro int_div_pos_eq [of x N k "x - k * N"]) (auto simp: algebra_simps)
qed

section \<open>Lists\<close>

lemma find_Some_first:
  "List.find P xs = Some x \<longleftrightarrow> (\<exists>us vs. xs = us @ x # vs \<and> P x \<and> (\<forall>u \<in> set us. \<not> P u))"
  (is "?L xs \<longleftrightarrow> ?R xs")
proof
  show "?L xs \<Longrightarrow> ?R xs"
  proof (induction xs)
    case Nil
    then show ?case by simp
  next
    case (Cons y ys)
    show ?case
    proof (cases "P y")
      case True
      with Cons.prems have "y # ys = [] @ x # ys \<and> P x \<and> (\<forall>u \<in> set []. \<not> P u)" by simp
      then show ?thesis by blast
    next
      case False
      with Cons obtain us vs where "ys = us @ x # vs" "P x" "\<forall>u \<in> set us. \<not> P u" by auto
      with False have "y # ys = (y # us) @ x # vs \<and> P x \<and> (\<forall>u \<in> set (y # us). \<not> P u)" by simp
      then show ?thesis by blast
    qed
  qed
next
  assume "?R xs"
  then obtain us vs where "xs = us @ x # vs" "P x" "\<forall>u \<in> set us. \<not> P u" by blast
  then show "?L xs" by (induction us arbitrary: xs) auto
qed

end
