(* ===== verification/Loops.thy ===== *)
theory Loops
  imports Prelude
begin

text \<open>
  Go's \<open>for { ... }\<close>: the body returns (\<open>Some x\<close>), goes round again (\<open>None\<close>, which is what
  \<open>continue\<close> and reaching the end do) or returns an error. A loop that goes round for ever is
  a call that never returns.
\<close>

partial_function (option) loopE :: "('s, 'e, 'a option) eff \<Rightarrow> ('s, 'e, 'a) eff" where
  "loopE body s = (case body s of
      None \<Rightarrow> None
    | Some (r, s') \<Rightarrow> (case r of
        Inl e \<Rightarrow> Some (Inl e, s')
      | Inr x \<Rightarrow> (case x of None \<Rightarrow> loopE body s' | Some y \<Rightarrow> Some (Inr y, s'))))"

text \<open>\<open>again body\<close>: one round that goes on; \<open>stops body\<close>: the round that ends the loop.\<close>

definition again :: "('s, 'e, 'a option) eff \<Rightarrow> 's \<Rightarrow> 's \<Rightarrow> bool" where
  "again body s t \<longleftrightarrow> body s = Some (Inr None, t)"

definition stops :: "('s, 'e, 'a option) eff \<Rightarrow> 's \<Rightarrow> 'e + 'a \<Rightarrow> 's \<Rightarrow> bool" where
  "stops body t r s' \<longleftrightarrow> (case r of Inl e \<Rightarrow> body t = Some (Inl e, s') | Inr y \<Rightarrow> body t = Some (Inr (Some y), s'))"

lemma loopE_again: "again body s t \<Longrightarrow> loopE body s = loopE body t"
  by (subst loopE.simps) (simp add: again_def)

lemma loopE_stops: "stops body s r s' \<Longrightarrow> loopE body s = Some (r, s')"
  by (subst loopE.simps) (auto simp: stops_def split: sum.splits)

text \<open>The loop returns exactly by finitely many rounds and one that stops.\<close>

lemma loopE_Some_iff:
  fixes body :: "('s, 'e, 'a option) eff"
  shows "loopE body s = Some (r, s') \<longleftrightarrow> (\<exists>t. (again body)\<^sup>*\<^sup>* s t \<and> stops body t r s')"
proof
  assume "\<exists>t. (again body)\<^sup>*\<^sup>* s t \<and> stops body t r s'"
  then obtain t where t: "(again body)\<^sup>*\<^sup>* s t" "stops body t r s'" by blast
  then have "loopE body s = loopE body t"
    by (induction rule: converse_rtranclp_induct) (simp_all add: loopE_again)
  with loopE_stops [OF t(2)] show "loopE body s = Some (r, s')" by simp
next
  have "\<exists>t. (again body)\<^sup>*\<^sup>* s t \<and> stops body t (fst y) (snd y)" if run: "loopE body s = Some y" for y
  proof (rule loopE.raw_induct [where P = "\<lambda>body s y. \<exists>t. (again body)\<^sup>*\<^sup>* s t \<and> stops body t (fst y) (snd y)", OF _ run])
    fix loop and body :: "('s, 'e, 'a option) eff" and s y
    assume IH: "\<And>body s y. loop body s = Some y \<Longrightarrow> \<exists>t. (again body)\<^sup>*\<^sup>* s t \<and> stops body t (fst y) (snd y)"
      and step: "(case body s of None \<Rightarrow> None | Some (r, s') \<Rightarrow> (case r of
        Inl e \<Rightarrow> Some (Inl e, s')
      | Inr x \<Rightarrow> (case x of None \<Rightarrow> loop body s' | Some y \<Rightarrow> Some (Inr y, s')))) = Some y"
    from step obtain x s1 where x: "body s = Some (x, s1)" by (auto split: option.splits)
    show "\<exists>t. (again body)\<^sup>*\<^sup>* s t \<and> stops body t (fst y) (snd y)"
    proof (cases "x = Inr None")
      case True
      with x step have "loop body s1 = Some y" by simp
      from IH [OF this] obtain t where "(again body)\<^sup>*\<^sup>* s1 t" "stops body t (fst y) (snd y)" by blast
      moreover from x True have "again body s s1" by (simp add: again_def)
      ultimately show ?thesis by (meson converse_rtranclp_into_rtranclp)
    next
      case False
      with x step have "stops body s (fst y) (snd y)" by (auto simp: stops_def split: sum.splits option.splits)
      then show ?thesis by blast
    qed
  qed
  then show "loopE body s = Some (r, s') \<Longrightarrow> \<exists>t. (again body)\<^sup>*\<^sup>* s t \<and> stops body t r s'" by fastforce
qed

text \<open>An invariant of the rounds holds when the last round starts.\<close>

lemma loopE_invariant:
  assumes "loopE body s = Some (r, s')" and "I s"
    and "\<And>s t. I s \<Longrightarrow> again body s t \<Longrightarrow> I t"
  obtains t where "I t" and "stops body t r s'"
proof -
  from assms(1) obtain t where t: "(again body)\<^sup>*\<^sup>* s t" "stops body t r s'" by (auto simp: loopE_Some_iff)
  from t(1) assms(2) have "I t" by (induction rule: rtranclp_induct) (auto intro: assms(3))
  with t(2) that show ?thesis by blast
qed

text \<open>A loop that can always go round never returns.\<close>

lemma loopE_diverges:
  assumes "I s" and "\<And>s. I s \<Longrightarrow> \<exists>t. again body s t \<and> I t"
  shows "loopE body s = None"
proof (cases "loopE body s")
  case (Some rs)
  obtain r s' where "loopE body s = Some (r, s')" using Some by (cases rs) auto
  from this assms(1) show ?thesis
  proof (rule loopE_invariant)
    show "I t" if "I s" "again body s t" for s t
      using assms(2) [OF that(1)] that(2) by (auto simp: again_def)
  next
    fix t
    assume "I t" "stops body t r s'"
    with assms(2) [of t] show ?thesis by (auto simp: again_def stops_def split: sum.splits)
  qed
qed

text \<open>A loop whose every round returns, and goes on only with a smaller variant, returns.\<close>

lemma loopE_returns:
  fixes V :: "'s \<Rightarrow> nat"
  assumes "\<And>s. \<exists>r s'. body s = Some (r, s') \<and> (r = Inr None \<longrightarrow> V s' < V s)"
  shows "loopE body s \<noteq> None"
proof (induction "V s" arbitrary: s rule: less_induct)
  case less
  from assms obtain r s' where run: "body s = Some (r, s')" "r = Inr None \<longrightarrow> V s' < V s" by blast
  show ?case
  proof (cases "r = Inr None")
    case True
    with run less have "again body s s'" "loopE body s' \<noteq> None" by (simp_all add: again_def)
    then show ?thesis by (simp add: loopE_again)
  next
    case False
    with run have "\<exists>r'. stops body s r' s'"
      by (cases r) (auto simp: stops_def intro: exI [where x = "Inl _"] exI [where x = "Inr _"])
    then show ?thesis using loopE_stops by fastforce
  qed
qed

context frame
begin

lemma keeps_loopE: "keeps R body \<Longrightarrow> keeps R (loopE body)"
proof (rule keepsI)
  fix s r s'
  assume k: "keeps R body" and "loopE body s = Some (r, s')"
  then obtain t where t: "(again body)\<^sup>*\<^sup>* s t" "stops body t r s'" by (auto simp: loopE_Some_iff)
  from t(1) have "R s t"
    by (induction rule: rtranclp_induct) (auto intro: frame_refl frame_trans dest: keepsD [OF k] simp: again_def)
  moreover from t(2) have "R t s'" by (auto simp: stops_def dest: keepsD [OF k] split: sum.splits)
  ultimately show "R s s'" by (rule frame_trans)
qed

end

section \<open>Effects on a part of the state\<close>

text \<open>Lifting an effect to a state with a component in front.\<close>

definition onSnd :: "('s, 'e, 'a) eff \<Rightarrow> ('p \<times> 's, 'e, 'a) eff" where
  "onSnd m = (\<lambda>(p, s). case m s of None \<Rightarrow> None | Some (r, s') \<Rightarrow> Some (r, (p, s')))"

lemma onSnd_pair [simp]: "onSnd m (p, s) = (case m s of None \<Rightarrow> None | Some (r, s') \<Rightarrow> Some (r, (p, s')))"
  by (simp add: onSnd_def)

lemma onSnd_Some: "onSnd m ps = Some (r, ps') \<longleftrightarrow> m (snd ps) = Some (r, snd ps') \<and> fst ps' = fst ps"
  by (cases ps; cases ps') (auto split: option.splits)

text \<open>A Go function without result: it returns or it does not.\<close>

definition doE :: "('s \<Rightarrow> 's option) \<Rightarrow> ('s, 'e, unit) eff" where
  "doE f = (\<lambda>s. case f s of None \<Rightarrow> None | Some s' \<Rightarrow> Some (Inr (), s'))"

lemma doE_Some: "doE f s = Some (r, s') \<longleftrightarrow> f s = Some s' \<and> r = Inr ()"
  by (auto simp: doE_def split: option.splits)

end
