(* ===== verification/GoTime.thy ===== *)
theory GoTime
  imports Prelude
begin

text \<open>
  The part of Go's standard package \<open>time\<close> the program uses: instants with a zone, the
  calendar date of an instant, midnight of a date, comparison, and the layout
  \<open>2006-01-02\<close>. The calendar is the proleptic Gregorian one on unbounded integers;
  a zone is the offset from UTC in force at the instant.
\<close>

section \<open>Instants\<close>

text \<open>
  \<open>nsec\<close>: nanoseconds since 1970-01-01T00:00:00Z. \<open>loc = None\<close> is UTC (the nil
  location pointer Go stores for it), \<open>loc = Some k\<close> a location \<open>k\<close> seconds east.
\<close>

record gotime =
  nsec :: int
  loc :: "int option"

definition nsPerSec :: int where "nsPerSec = 1000000000"

definition secPerDay :: int where "secPerDay = 86400"

definition nsPerDay :: int where "nsPerDay = 86400000000000"

definition zoneOffset :: "gotime \<Rightarrow> int" where
  "zoneOffset t = (case loc t of None \<Rightarrow> 0 | Some k \<Rightarrow> k)"

definition timeUTC :: "gotime \<Rightarrow> gotime" where
  "timeUTC t = t\<lparr>loc := None\<rparr>"

definition localNs :: "gotime \<Rightarrow> int" where
  "localNs t = nsec t + zoneOffset t * nsPerSec"

text \<open>Days since 1970-01-01 of the local date, and nanoseconds since local midnight.\<close>

definition dayNumber :: "gotime \<Rightarrow> int" where
  "dayNumber t = localNs t div nsPerDay"

definition nsOfDay :: "gotime \<Rightarrow> int" where
  "nsOfDay t = localNs t mod nsPerDay"

definition timeEqual :: "gotime \<Rightarrow> gotime \<Rightarrow> bool" where
  "timeEqual a b \<longleftrightarrow> nsec a = nsec b"

definition timeAfter :: "gotime \<Rightarrow> gotime \<Rightarrow> bool" where
  "timeAfter a b \<longleftrightarrow> nsec a > nsec b"

definition timeBefore :: "gotime \<Rightarrow> gotime \<Rightarrow> bool" where
  "timeBefore a b \<longleftrightarrow> nsec a < nsec b"

definition timeAdd :: "gotime \<Rightarrow> int \<Rightarrow> gotime" where
  "timeAdd t d = t\<lparr>nsec := nsec t + d\<rparr>"

text \<open>\<open>AddDate(0, 0, n)\<close>, where the zone's offset does not change over the \<open>n\<close> days.\<close>

definition timeAddDays :: "gotime \<Rightarrow> int \<Rightarrow> gotime" where
  "timeAddDays t n = timeAdd t (n * nsPerDay)"

definition timeHour :: "gotime \<Rightarrow> int" where
  "timeHour t = nsOfDay t div (3600 * nsPerSec)"

definition timeMinute :: "gotime \<Rightarrow> int" where
  "timeMinute t = nsOfDay t div (60 * nsPerSec) mod 60"

definition timeSecond :: "gotime \<Rightarrow> int" where
  "timeSecond t = nsOfDay t div nsPerSec mod 60"

definition timeNanosecond :: "gotime \<Rightarrow> int" where
  "timeNanosecond t = nsOfDay t mod nsPerSec"

lemmas time_consts = nsPerSec_def secPerDay_def nsPerDay_def

section \<open>The civil calendar\<close>

text \<open>
  A day number is cut into 400-year eras, centuries, four-year cycles and years that start
  on 1 March, so that a leap day is the last day of its year.
\<close>

definition centuryOf :: "int \<Rightarrow> int" where
  "centuryOf doe = min 3 (doe div 36524)"

definition cycleOf :: "int \<Rightarrow> int" where
  "cycleOf doe = (doe - 36524 * centuryOf doe) div 1461"

definition yearInCycle :: "int \<Rightarrow> int" where
  "yearInCycle doe = min 3 ((doe - 36524 * centuryOf doe - 1461 * cycleOf doe) div 365)"

definition yearOfEra :: "int \<Rightarrow> int" where
  "yearOfEra doe = 100 * centuryOf doe + 4 * cycleOf doe + yearInCycle doe"

definition dayOfYear :: "int \<Rightarrow> int" where
  "dayOfYear doe = doe - 36524 * centuryOf doe - 1461 * cycleOf doe - 365 * yearInCycle doe"

definition civilFromDays :: "int \<Rightarrow> int \<times> int \<times> int" where
  "civilFromDays z =
     (let n = z + 719468; era = n div 146097; doe = n mod 146097;
          doy = dayOfYear doe; mp = (5 * doy + 2) div 153;
          d = doy - (153 * mp + 2) div 5 + 1;
          m = (if mp < 10 then mp + 3 else mp - 9);
          y = 400 * era + yearOfEra doe + (if m \<le> 2 then 1 else 0)
      in (y, m, d))"

definition daysFromCivil :: "int \<times> int \<times> int \<Rightarrow> int" where
  "daysFromCivil ymd = (case ymd of (y, m, d) \<Rightarrow>
     (let y' = (if m \<le> 2 then y - 1 else y); era = y' div 400; yoe = y' mod 400;
          mp = (if m \<le> 2 then m + 9 else m - 3);
          doy = (153 * mp + 2) div 5 + d - 1;
          doe = 365 * yoe + yoe div 4 - yoe div 100 + doy
      in 146097 * era + doe - 719468))"

definition timeDate :: "gotime \<Rightarrow> int \<times> int \<times> int" where
  "timeDate t = civilFromDays (dayNumber t)"

definition timeYear :: "gotime \<Rightarrow> int" where "timeYear t = fst (timeDate t)"

definition timeMonth :: "gotime \<Rightarrow> int" where "timeMonth t = fst (snd (timeDate t))"

definition timeDay :: "gotime \<Rightarrow> int" where "timeDay t = snd (snd (timeDate t))"

text \<open>\<open>time.Date(y, m, d, 0, 0, 0, 0, time.UTC)\<close> for a date in range.\<close>

definition midnightUTC :: "int \<times> int \<times> int \<Rightarrow> gotime" where
  "midnightUTC ymd = \<lparr>nsec = daysFromCivil ymd * nsPerDay, loc = None\<rparr>"

text \<open>The zero value \<open>time.Time{}\<close>: 1 January of year 1, UTC.\<close>

definition zeroTime :: gotime where
  "zeroTime = \<lparr>nsec = -62135596800000000000, loc = None\<rparr>"

lemma zeroTime_date: "timeDate zeroTime = (1, 1, 1)"
  by code_simp

lemma civil_leap_day: "civilFromDays 19782 = (2024, 2, 29)"
  by code_simp

lemma civil_no_leap_1900: "civilFromDays (-25509) = (1900, 2, 28) \<and> civilFromDays (-25508) = (1900, 3, 1)"
  by code_simp

lemma era_parts:
  assumes "0 \<le> doe" and "doe < 146097"
  shows "0 \<le> centuryOf doe" "centuryOf doe \<le> 3" "0 \<le> cycleOf doe" "cycleOf doe \<le> 24"
    "0 \<le> yearInCycle doe" "yearInCycle doe \<le> 3" "0 \<le> dayOfYear doe" "dayOfYear doe \<le> 365"
proof -
  define c where "c = centuryOf doe"
  define r where "r = doe - 36524 * c"
  have c: "0 \<le> c" "c \<le> 3" "0 \<le> r" "r \<le> 36524"
    using assms by (auto simp: c_def r_def centuryOf_def min_def split: if_splits)
  define q where "q = r div 1461"
  have q: "0 \<le> q" "q \<le> 24" "cycleOf doe = q"
    using c by (auto simp: q_def cycleOf_def r_def c_def)
  define r2 where "r2 = r - 1461 * q"
  have r2: "0 \<le> r2" "r2 < 1461" by (auto simp: r2_def q_def)
  define a where "a = min 3 (r2 div 365)"
  have a: "0 \<le> a" "a \<le> 3" "0 \<le> r2 - 365 * a" "r2 - 365 * a \<le> 365"
    using r2 by (auto simp: a_def min_def split: if_splits)
  have ya: "yearInCycle doe = a"
    by (simp add: yearInCycle_def a_def r2_def r_def c_def q)
  have dy: "dayOfYear doe = r2 - 365 * a"
    by (simp add: dayOfYear_def ya q r2_def r_def c_def)
  show "0 \<le> centuryOf doe" "centuryOf doe \<le> 3" "0 \<le> cycleOf doe" "cycleOf doe \<le> 24"
    "0 \<le> yearInCycle doe" "yearInCycle doe \<le> 3" "0 \<le> dayOfYear doe" "dayOfYear doe \<le> 365"
    using c q a ya dy by (simp_all add: c_def)
qed

lemma yearOfEra_parts:
  assumes "0 \<le> doe" and "doe < 146097"
  shows "0 \<le> yearOfEra doe" "yearOfEra doe < 400"
    "365 * yearOfEra doe + yearOfEra doe div 4 - yearOfEra doe div 100 + dayOfYear doe = doe"
proof -
  note e = era_parts [OF assms]
  let ?c = "centuryOf doe" and ?q = "cycleOf doe" and ?a = "yearInCycle doe"
  have y: "yearOfEra doe = 100 * ?c + 4 * ?q + ?a" by (simp add: yearOfEra_def)
  have s4: "yearOfEra doe = ?a + (25 * ?c + ?q) * 4" using y by simp
  have 4: "yearOfEra doe div 4 = 25 * ?c + ?q"
    unfolding s4 using e by (simp add: div_pos_pos_trivial)
  have s100: "yearOfEra doe = (4 * ?q + ?a) + ?c * 100" using y by simp
  have 100: "yearOfEra doe div 100 = ?c"
    unfolding s100 using e by (simp add: div_pos_pos_trivial)
  show "0 \<le> yearOfEra doe" "yearOfEra doe < 400" using e y by simp_all
  show "365 * yearOfEra doe + yearOfEra doe div 4 - yearOfEra doe div 100 + dayOfYear doe = doe"
    unfolding 4 100 by (simp add: y dayOfYear_def)
qed

lemma month_index:
  assumes "0 \<le> doy" and "doy \<le> 365"
  shows "0 \<le> (5 * doy + 2) div (153::int)" "(5 * doy + 2) div 153 \<le> 11"
    "1 \<le> doy - (153 * ((5 * doy + 2) div 153) + 2) div 5 + 1"
    "doy - (153 * ((5 * doy + 2) div 153) + 2) div 5 + 1 \<le> 31"
proof -
  define mp where "mp = (5 * doy + 2) div 153"
  define r where "r = (5 * doy + 2) mod 153"
  define g where "g = (153 * mp + 2) div 5"
  define t where "t = (153 * mp + 2) mod 5"
  have r: "0 \<le> r" "r < 153" "5 * doy + 2 = 153 * mp + r" by (simp_all add: r_def mp_def)
  have t: "0 \<le> t" "t < 5" "153 * mp + 2 = 5 * g + t" by (simp_all add: t_def g_def)
  have d: "5 * (doy - g) = r + t - 4" using r t by simp
  have "0 \<le> mp" using assms by (simp add: mp_def)
  moreover have "153 * mp < 153 * 12" using r(1,3) assms(2) by simp
  then have "mp \<le> 11" by simp
  moreover have "5 * (- 1) < 5 * (doy - g)" using d r(1) t(1) by simp
  then have "1 \<le> doy - g + 1" by simp
  moreover have "5 * (doy - g) < 5 * 31" using d r(2) t(2) by simp
  then have "doy - g + 1 \<le> 31" by simp
  ultimately show "0 \<le> (5 * doy + 2) div (153::int)" "(5 * doy + 2) div 153 \<le> 11"
    "1 \<le> doy - (153 * ((5 * doy + 2) div 153) + 2) div 5 + 1"
    "doy - (153 * ((5 * doy + 2) div 153) + 2) div 5 + 1 \<le> 31"
    by (simp_all add: mp_def g_def)
qed

text \<open>The parts of a civil date, with their bounds.\<close>

lemma civil_parts:
  obtains era doe mp where "0 \<le> doe" "doe < 146097" "z + 719468 = 146097 * era + doe"
    "0 \<le> mp" "mp \<le> 11" "1 \<le> dayOfYear doe - (153 * mp + 2) div 5 + 1"
    "dayOfYear doe - (153 * mp + 2) div 5 + 1 \<le> 31"
    "civilFromDays z = (400 * era + yearOfEra doe + (if mp < 10 then 0 else 1),
       (if mp < 10 then mp + 3 else mp - 9), dayOfYear doe - (153 * mp + 2) div 5 + 1)"
proof -
  define doe where "doe = (z + 719468) mod 146097"
  define mp where "mp = (5 * dayOfYear doe + 2) div 153"
  have b: "0 \<le> doe" "doe < 146097" by (simp_all add: doe_def)
  note m = month_index [OF era_parts(7,8) [OF b], folded mp_def]
  show ?thesis
  proof (rule that [of doe "(z + 719468) div 146097" mp])
    show "z + 719468 = 146097 * ((z + 719468) div 146097) + doe" by (simp add: doe_def)
    show "civilFromDays z = (400 * ((z + 719468) div 146097) + yearOfEra doe + (if mp < 10 then 0 else 1),
       (if mp < 10 then mp + 3 else mp - 9), dayOfYear doe - (153 * mp + 2) div 5 + 1)"
      unfolding civilFromDays_def Let_def doe_def [symmetric] mp_def [symmetric] using m by simp
  qed (use b m in simp_all)
qed

lemma civil_range:
  assumes "civilFromDays z = (y, m, d)"
  shows "1 \<le> m \<and> m \<le> 12 \<and> 1 \<le> d \<and> d \<le> 31"
  using assms by (cases z rule: civil_parts) (simp split: if_splits)

text \<open>A date determines its day: \<open>daysFromCivil\<close> undoes \<open>civilFromDays\<close>.\<close>

lemma daysFromCivil_civilFromDays [simp]: "daysFromCivil (civilFromDays z) = z"
proof (cases z rule: civil_parts)
  case (1 era doe mp)
  note e = yearOfEra_parts [OF 1(1,2)]
  have ym: "yearOfEra doe mod 400 = yearOfEra doe" and yd: "yearOfEra doe div 400 = 0"
    using e(1,2) by (simp_all add: div_pos_pos_trivial mod_pos_pos_trivial)
  have "daysFromCivil (civilFromDays z) = 146097 * era + doe - 719468"
  proof (cases "mp < 10")
    case True
    with 1(4) e(3) show ?thesis
      unfolding 1(8) by (simp add: daysFromCivil_def Let_def yd ym)
  next
    case False
    with 1(4,5) e(3) show ?thesis
      unfolding 1(8) by (simp add: daysFromCivil_def Let_def yd ym)
  qed
  with 1(3) show ?thesis by simp
qed

lemma civilFromDays_inj: "civilFromDays a = civilFromDays b \<longleftrightarrow> a = b"
  by (metis daysFromCivil_civilFromDays)

lemma midnightUTC_timeDate: "midnightUTC (timeDate t) = \<lparr>nsec = dayNumber t * nsPerDay, loc = None\<rparr>"
  by (simp add: midnightUTC_def timeDate_def)

lemma dayNumber_midnight [simp]: "dayNumber \<lparr>nsec = k * nsPerDay, loc = None\<rparr> = k"
  by (simp add: dayNumber_def localNs_def zoneOffset_def nsPerDay_def)

lemma nsOfDay_midnight [simp]: "nsOfDay \<lparr>nsec = k * nsPerDay, loc = None\<rparr> = 0"
  by (simp add: nsOfDay_def localNs_def zoneOffset_def nsPerDay_def)

lemma timeUTC_None [simp]: "loc t = None \<Longrightarrow> timeUTC t = t"
  by (simp add: timeUTC_def)

lemma loc_timeUTC [simp]: "loc (timeUTC t) = None" and nsec_timeUTC [simp]: "nsec (timeUTC t) = nsec t"
  by (simp_all add: timeUTC_def)

lemma dayNumber_timeUTC: "dayNumber (timeUTC t) = nsec t div nsPerDay"
  by (simp add: dayNumber_def localNs_def zoneOffset_def)

lemma dayNumber_mono: "loc a = loc b \<Longrightarrow> nsec a \<le> nsec b \<Longrightarrow> dayNumber a \<le> dayNumber b"
  by (simp add: dayNumber_def localNs_def zoneOffset_def nsPerDay_def zdiv_mono1)

lemma dayNumber_addDays: "dayNumber (timeAddDays t n) = dayNumber t + n"
proof -
  have "localNs (timeAddDays t n) = localNs t + n * nsPerDay"
    by (simp add: localNs_def zoneOffset_def timeAddDays_def timeAdd_def)
  then show ?thesis by (simp add: dayNumber_def nsPerDay_def)
qed

text \<open>The clock fields determine midnight.\<close>

lemma midnight_fields:
  "timeHour t = 0 \<and> timeMinute t = 0 \<and> timeSecond t = 0 \<and> timeNanosecond t = 0 \<longleftrightarrow> nsOfDay t = 0"
proof
  assume h: "timeHour t = 0 \<and> timeMinute t = 0 \<and> timeSecond t = 0 \<and> timeNanosecond t = 0"
  define n where "n = nsOfDay t"
  define sec where "sec = n div nsPerSec"
  define mn where "mn = sec div 60"
  have "n div (60 * nsPerSec) = mn" "n div (3600 * nsPerSec) = mn div 60"
    by (simp_all add: mn_def sec_def nsPerSec_def zdiv_zmult2_eq [symmetric])
  with h have z: "mn div 60 = 0" "mn mod 60 = 0" "sec mod 60 = 0" "n mod nsPerSec = 0"
    by (simp_all add: timeHour_def timeMinute_def timeSecond_def timeNanosecond_def n_def sec_def)
  from z(1,2) have "mn = 0" by (metis add.right_neutral div_mult_mod_eq mult_zero_left)
  with z(3) have "sec = 0" by (metis add.right_neutral div_mult_mod_eq mult_zero_left mn_def)
  with z(4) have "n = 0" by (metis add.right_neutral div_mult_mod_eq mult_zero_left sec_def)
  then show "nsOfDay t = 0" by (simp add: n_def)
next
  assume "nsOfDay t = 0"
  then show "timeHour t = 0 \<and> timeMinute t = 0 \<and> timeSecond t = 0 \<and> timeNanosecond t = 0"
    by (simp add: timeHour_def timeMinute_def timeSecond_def timeNanosecond_def)
qed

section \<open>The layout 2006-01-02\<close>

definition digitChar :: "nat \<Rightarrow> char" where
  "digitChar n = char_of (48 + n)"

fun decimal :: "nat \<Rightarrow> string" where
  "decimal n = (if n < 10 then [digitChar n] else decimal (n div 10) @ [digitChar (n mod 10)])"

declare decimal.simps [simp del]

definition zeroPad :: "nat \<Rightarrow> string \<Rightarrow> string" where
  "zeroPad w s = replicate (w - length s) (CHR ''0'') @ s"

definition formatYear :: "int \<Rightarrow> string" where
  "formatYear y = (if y < 0 then CHR ''-'' # zeroPad 4 (decimal (nat (- y))) else zeroPad 4 (decimal (nat y)))"

definition formatCivil :: "int \<times> int \<times> int \<Rightarrow> string" where
  "formatCivil ymd = (case ymd of (y, m, d) \<Rightarrow>
     formatYear y @ ''-'' @ zeroPad 2 (decimal (nat m)) @ ''-'' @ zeroPad 2 (decimal (nat d)))"

definition formatDay :: "gotime \<Rightarrow> string" where
  "formatDay t = formatCivil (timeDate t)"

text \<open>Reading the digits back gives the number, so the layout loses nothing.\<close>

definition readDecimal :: "string \<Rightarrow> nat" where
  "readDecimal s = foldl (\<lambda>a c. 10 * a + (of_char c - 48)) 0 s"

lemma of_char_digitChar [simp]: "n < 10 \<Longrightarrow> (of_char (digitChar n) :: nat) = 48 + n"
  by (simp add: digitChar_def)

lemma readDecimal_snoc: "readDecimal (s @ [c]) = 10 * readDecimal s + (of_char c - 48)"
  by (simp add: readDecimal_def)

lemma readDecimal_decimal [simp]: "readDecimal (decimal n) = n"
proof (induction n rule: decimal.induct)
  case (1 n)
  show ?case
  proof (cases "n < 10")
    case True
    then show ?thesis by (subst decimal.simps) (simp add: readDecimal_def)
  next
    case False
    with 1 have "readDecimal (decimal (n div 10)) = n div 10" by simp
    with False show ?thesis by (subst decimal.simps) (simp add: readDecimal_snoc)
  qed
qed

lemma readDecimal_zeros: "readDecimal (replicate k (CHR ''0'') @ s) = readDecimal s"
proof -
  have "foldl (\<lambda>a c. 10 * a + (of_char c - 48)) 0 (replicate k (CHR ''0'')) = (0::nat)"
    by (induction k) simp_all
  then show ?thesis by (simp add: readDecimal_def)
qed

lemma readDecimal_zeroPad [simp]: "readDecimal (zeroPad w (decimal n)) = n"
  by (simp add: zeroPad_def readDecimal_zeros)

lemma zeroPad_inj: "zeroPad w (decimal a) = zeroPad w (decimal b) \<longleftrightarrow> a = b"
  by (metis readDecimal_zeroPad)

lemma length_decimal_le2: "n < 100 \<Longrightarrow> length (decimal n) \<le> 2"
  by (subst decimal.simps) (simp add: decimal.simps [of "n div 10"])

lemma length_zeroPad2 [simp]: "n < 100 \<Longrightarrow> length (zeroPad 2 (decimal n)) = 2"
  using length_decimal_le2 [of n] by (simp add: zeroPad_def)

lemma digitChar_neq_dash: "n < 10 \<Longrightarrow> digitChar n \<noteq> CHR ''-''"
proof
  assume n: "n < 10" and "digitChar n = CHR ''-''"
  then have "(of_char (digitChar n) :: nat) = of_char (CHR ''-'')" by simp
  with n show False by simp
qed

lemma dash_notin_decimal: "CHR ''-'' \<notin> set (decimal n)"
proof (induction n rule: decimal.induct)
  case (1 n)
  have "n mod 10 < 10" by simp
  with 1 show ?case
    by (subst decimal.simps) (auto dest: digitChar_neq_dash [THEN not_sym] simp del: mod_less_divisor)
qed

lemma dash_notin_zeroPad: "CHR ''-'' \<notin> set (zeroPad w (decimal n))"
  by (simp add: zeroPad_def dash_notin_decimal)

lemma formatYear_inj: "formatYear a = formatYear b \<longleftrightarrow> a = b"
proof
  assume h: "formatYear a = formatYear b"
  have d: "CHR ''-'' # xs \<noteq> zeroPad w (decimal n)" for xs w n
    using dash_notin_zeroPad [of w n] by (metis list.set_intros(1))
  show "a = b"
  proof (cases "a < 0")
    case True
    then have "b < 0" using h d by (auto simp: formatYear_def split: if_splits)
    with True h show ?thesis by (simp add: formatYear_def zeroPad_inj)
  next
    case False
    then have "\<not> b < 0" using h d [symmetric] by (auto simp: formatYear_def split: if_splits)
    with False h show ?thesis by (simp add: formatYear_def zeroPad_inj)
  qed
qed simp

lemma formatCivil_inj:
  assumes "1 \<le> m" "m \<le> 12" "1 \<le> d" "d \<le> 31" "1 \<le> m'" "m' \<le> 12" "1 \<le> d'" "d' \<le> (31::int)"
  shows "formatCivil (y, m, d) = formatCivil (y', m', d') \<longleftrightarrow> (y, m, d) = (y', m', d')"
proof
  assume "formatCivil (y, m, d) = formatCivil (y', m', d')"
  then have h: "formatYear y @ (''-'' @ zeroPad 2 (decimal (nat m)) @ ''-'' @ zeroPad 2 (decimal (nat d)))
    = formatYear y' @ (''-'' @ zeroPad 2 (decimal (nat m')) @ ''-'' @ zeroPad 2 (decimal (nat d')))"
    by (simp add: formatCivil_def)
  have "nat m < 100" "nat d < 100" "nat m' < 100" "nat d' < 100" using assms by simp_all
  with h have "formatYear y = formatYear y'" "zeroPad 2 (decimal (nat m)) = zeroPad 2 (decimal (nat m'))"
    "zeroPad 2 (decimal (nat d)) = zeroPad 2 (decimal (nat d'))"
    by (simp_all add: append_eq_append_conv)
  then have "y = y'" "nat m = nat m'" "nat d = nat d'" by (simp_all add: formatYear_inj zeroPad_inj)
  with assms show "(y, m, d) = (y', m', d')" by (simp add: eq_nat_nat_iff)
qed simp

lemma formatDay_eq_iff: "formatDay a = formatDay b \<longleftrightarrow> dayNumber a = dayNumber b"
proof -
  obtain y m d y' m' d' where a: "timeDate a = (y, m, d)" and b: "timeDate b = (y', m', d')"
    by (metis prod_cases3)
  have "formatDay a = formatDay b \<longleftrightarrow> timeDate a = timeDate b"
    using civil_range [of "dayNumber a"] civil_range [of "dayNumber b"] a b
    by (simp add: formatDay_def timeDate_def formatCivil_inj del: prod.inject)
  then show ?thesis by (simp add: timeDate_def civilFromDays_inj)
qed

lemma formatDay_example: "formatDay \<lparr>nsec = 1717200000000000000, loc = None\<rparr> = ''2024-06-01''"
  by code_simp

end
