(* ===== verification/GoErrors.thy ===== *)
theory GoErrors
  imports GoTime
begin

text \<open>
  The error values of the program (\<open>internal/domain/errors\<close>, the package-level sentinels,
  the errors \<open>fmt.Errorf\<close> builds) and the standard package \<open>errors\<close> on them: \<open>errors.Is\<close>
  and \<open>errors.As\<close> walk the tree of wrapped errors. An error message is kept as its format
  string and its arguments, so two errors of the model are equal when the code builds them
  from the same format and the same values.
\<close>

text \<open>\<open>bson.ObjectID\<close> is a 12-byte array, compared with \<open>==\<close>; all zero is \<open>bson.NilObjectID\<close>.\<close>

type_synonym objectID = "96 word"

abbreviation NilObjectID :: objectID where "NilObjectID \<equiv> 0"

text \<open>Package-level \<open>errors.New\<close> values and library sentinels, compared by identity.\<close>

datatype sentinel =
    SErrBookingRepo | SErrCottageRepo | SErrGuestRepo
  | SErrCacheMiss
  | SErrNoDocuments
  | SErrEmptyMessageID
  | SErrUnexpectedGuestResponse
  | SErrUnexpectedResponse
  | SErrDayChangeStreamClosed
  | SErrRedisNil | SErrServerClosed
  | SErrCanceled | SErrDeadlineExceeded

text \<open>Arguments of a format string; \<open>FGuest\<close> is a guest document, as its fields of each type.\<close>

datatype fmtArg = FStr string | FId objectID | FTime gotime | FDay gotime | FInt int
  | FGuest objectID "string list" "gotime option list"

text \<open>
  \<open>NetErr b\<close> is a library error that implements \<open>net.Error\<close> and whose \<open>Timeout()\<close> is \<open>b\<close>;
  \<open>LibErr\<close> is any other library error. \<open>Wrapf\<close> is \<open>fmt.Errorf\<close> with one \<open>%w\<close>; the optional
  last argument of \<open>WrapV\<close> is an error that is only printed, with \<open>%v\<close>.
\<close>

datatype gerr =
    ErrValidationConstrain string string
  | ErrGuestDoesNotExist objectID string
  | ErrCottageDoesNotExist string
  | Sentinel sentinel
  | NetErr bool
  | LibErr string
  | Errorf string "fmtArg list"
  | Wrapf string "fmtArg list" gerr
  | WrapV string "fmtArg list" gerr gerr
  | AckNotReceivedErr gerr
  | ReplyNotReceivedErr gerr
  | UnexpectedErr string gerr
  | Joined "gerr list"

type_synonym ('s, 'a) io = "('s, gerr, 'a) eff"

text \<open>The errors \<open>errors.Is\<close> and \<open>errors.As\<close> look at, in their order.\<close>

fun errTree :: "gerr \<Rightarrow> gerr list" where
  "errTree (Wrapf f as e) = Wrapf f as e # errTree e"
| "errTree (WrapV f as e p) = WrapV f as e p # errTree e"
| "errTree (AckNotReceivedErr e) = AckNotReceivedErr e # errTree e"
| "errTree (ReplyNotReceivedErr e) = ReplyNotReceivedErr e # errTree e"
| "errTree (UnexpectedErr m e) = UnexpectedErr m e # errTree e"
| "errTree (Joined es) = Joined es # concat (map errTree es)"
| "errTree e = [e]"

definition errorsIs :: "gerr \<Rightarrow> sentinel \<Rightarrow> bool" where
  "errorsIs e t \<longleftrightarrow> Sentinel t \<in> set (errTree e)"

definition isAckNotReceived :: "gerr \<Rightarrow> bool" where
  "isAckNotReceived e \<longleftrightarrow> (case e of AckNotReceivedErr _ \<Rightarrow> True | _ \<Rightarrow> False)"

definition isValidationErr :: "gerr \<Rightarrow> bool" where
  "isValidationErr e \<longleftrightarrow> (case e of ErrValidationConstrain _ _ \<Rightarrow> True | _ \<Rightarrow> False)"

text \<open>\<open>context.DeadlineExceeded\<close> implements \<open>net.Error\<close> too, with \<open>Timeout() == true\<close>.\<close>

definition isNetError :: "gerr \<Rightarrow> bool" where
  "isNetError e \<longleftrightarrow> (case e of NetErr _ \<Rightarrow> True | Sentinel SErrDeadlineExceeded \<Rightarrow> True | _ \<Rightarrow> False)"

definition netTimeout :: "gerr \<Rightarrow> bool" where
  "netTimeout e \<longleftrightarrow> (case e of NetErr b \<Rightarrow> b | _ \<Rightarrow> True)"

text \<open>\<open>errors.As\<close>: the first error of the tree with the wanted type.\<close>

definition errorsAs :: "(gerr \<Rightarrow> bool) \<Rightarrow> gerr \<Rightarrow> gerr option" where
  "errorsAs P e = List.find P (errTree e)"

definition hasErr :: "(gerr \<Rightarrow> bool) \<Rightarrow> gerr \<Rightarrow> bool" where
  "hasErr P e \<longleftrightarrow> errorsAs P e \<noteq> None"

text \<open>\<open>errors.Join(acc, err)\<close> with a non-nil \<open>err\<close>; \<open>None\<close> is the nil error.\<close>

definition errorsJoin :: "gerr option \<Rightarrow> gerr \<Rightarrow> gerr option" where
  "errorsJoin acc e = Some (Joined (case acc of None \<Rightarrow> [e] | Some a \<Rightarrow> [a, e]))"

lemma errTree_self: "e \<in> set (errTree e)"
  by (cases e) simp_all

lemma hasErr_iff: "hasErr P e \<longleftrightarrow> (\<exists>x \<in> set (errTree e). P x)"
  by (auto simp: hasErr_def errorsAs_def find_None_iff)

lemma hasErr_Ack [simp]: "hasErr isAckNotReceived (AckNotReceivedErr e)"
  by (simp add: hasErr_iff isAckNotReceived_def)

lemma errorsIs_Wrapf [simp]: "errorsIs (Wrapf f as e) t \<longleftrightarrow> errorsIs e t"
  and errorsIs_WrapV [simp]: "errorsIs (WrapV f as e p) t \<longleftrightarrow> errorsIs e t"
  and errorsIs_Sentinel [simp]: "errorsIs (Sentinel u) t \<longleftrightarrow> t = u"
  by (auto simp: errorsIs_def)

lemma hasErr_Wrapf_validation [simp]: "hasErr isValidationErr (Wrapf f as e) \<longleftrightarrow> hasErr isValidationErr e"
  by (simp add: hasErr_iff isValidationErr_def)

end
