(* ===== verification/Paths.thy ===== *)
theory Paths
  imports Loops GoErrors
begin

text \<open>
  Paths of a state machine, and a small logic that shows that the recorded calls of an effect
  are a path of the machine: one rule per operator of the effects. The effects of the
  environment's choices and of deferred calls are here too.
\<close>

section \<open>Choices and deferred calls\<close>

text \<open>A choice of the environment: it never fails, but it may not come.\<close>

definition pickE :: "('s \<Rightarrow> ('a \<times> 's) option) \<Rightarrow> ('s, 'a) io" where
  "pickE f = (\<lambda>s. case f s of None \<Rightarrow> None | Some (x, s') \<Rightarrow> Some (Inr x, s'))"

text \<open>\<open>defer f()\<close>: it runs when \<open>m\<close> has returned, whatever it returned.\<close>

definition finallyE :: "('s, 'e, 'a) eff \<Rightarrow> ('s \<Rightarrow> 's) \<Rightarrow> ('s, 'e, 'a) eff" where
  "finallyE m deferred = (\<lambda>s. case m s of None \<Rightarrow> None | Some (r, s') \<Rightarrow> Some (r, deferred s'))"

definition loggedPick :: "('a \<Rightarrow> 'c) \<Rightarrow> ('s \<Rightarrow> ('a \<times> 's) option) \<Rightarrow> 's \<times> 'c list \<Rightarrow> ('a \<times> 's \<times> 'c list) option" where
  "loggedPick ev f = (\<lambda>(s, l). case f s of None \<Rightarrow> None | Some (x, s') \<Rightarrow> Some (x, (s', l @ [ev x])))"

definition loggedDo :: "'c \<Rightarrow> ('s \<Rightarrow> 's) \<Rightarrow> 's \<times> 'c list \<Rightarrow> 's \<times> 'c list" where
  "loggedDo c f = (\<lambda>(s, l). (f s, l @ [c]))"

text \<open>
  Using a nil interface value or a nil pointer panics. The program itself recovers no panic, so it ends a
  handler as an error does: deferred calls run, nothing else of the program does, and the recovery
  of gin answers 500 when the connection is still its own.
\<close>

definition nilDereference :: gerr where
  "nilDereference = LibErr ''invalid memory address or nil pointer dereference''"

definition derefE :: "'a option \<Rightarrow> ('s, 'a) io" where
  "derefE p = (case p of None \<Rightarrow> failE nilDereference | Some x \<Rightarrow> retE x)"

section \<open>Paths of a state machine and the calls of an effect\<close>

inductive path :: "('p \<Rightarrow> 'c \<Rightarrow> 'p \<Rightarrow> bool) \<Rightarrow> 'p \<Rightarrow> 'c list \<Rightarrow> 'p \<Rightarrow> bool" for step where
  path_Nil: "path step p [] p"
| path_Cons: "step p c q \<Longrightarrow> path step q cs r \<Longrightarrow> path step p (c # cs) r"

inductive_simps path_Nil_iff [simp]: "path step p [] q"
inductive_simps path_Cons_iff: "path step p (c # cs) q"

lemma path_append: "path step p (cs @ ds) r \<longleftrightarrow> (\<exists>q. path step p cs q \<and> path step q ds r)"
  by (induction cs arbitrary: p) (auto simp: path_Cons_iff)

lemma path_single: "path step p [c] q \<longleftrightarrow> step p c q"
  by (simp add: path_Cons_iff)

lemma path_at: "path step p (pre @ c # post) r \<longleftrightarrow> (\<exists>a b. path step p pre a \<and> step a c b \<and> path step b post r)"
  by (auto simp: path_append path_Cons_iff)

text \<open>Rule induction from the front: what each step adds to the calls made so far.\<close>

lemma path_forward [consumes 1, case_names init step]:
  assumes "path step p cs q" and "I [] p"
    and "\<And>acc a c b. path step p acc a \<Longrightarrow> I acc a \<Longrightarrow> step a c b \<Longrightarrow> I (acc @ [c]) b"
  shows "I cs q"
proof -
  have "path step a cs q \<Longrightarrow> path step p acc a \<Longrightarrow> I acc a \<Longrightarrow> I (acc @ cs) q" for a acc
  proof (induction cs arbitrary: a acc)
    case Nil
    then show ?case by simp
  next
    case (Cons c cs)
    then obtain b where b: "step a c b" "path step b cs q" by (auto simp: path_Cons_iff)
    have "path step p (acc @ [c]) b" using Cons.prems(2) b(1) by (auto simp: path_append path_single)
    from Cons.IH [OF b(2) this assms(3) [OF Cons.prems(2,3) b(1)]] show ?case by simp
  qed
  from this [OF assms(1) path_Nil assms(2)] show ?thesis by simp
qed

text \<open>
  \<open>runs step p m Q\<close>: from phase \<open>p\<close> the calls \<open>m\<close> makes are a path, and \<open>Q\<close> relates its
  result with the phase reached.
\<close>

definition runs ::
  "('p \<Rightarrow> 'c \<Rightarrow> 'p \<Rightarrow> bool) \<Rightarrow> 'p \<Rightarrow> ('s \<times> 'c list, 'e, 'a) eff \<Rightarrow> ('e + 'a \<Rightarrow> 'p \<Rightarrow> bool) \<Rightarrow> bool" where
  "runs step p m Q \<longleftrightarrow> (\<forall>s l r s' l'. m (s, l) = Some (r, (s', l')) \<longrightarrow>
     (\<exists>new q. l' = l @ new \<and> path step p new q \<and> Q r q))"

lemma runsD:
  assumes "runs step p m Q" and "m (s, l) = Some (r, (s', l'))"
  obtains new q where "l' = l @ new" "path step p new q" "Q r q"
  using assms unfolding runs_def by blast

lemma runs_mono: "runs step p m R \<Longrightarrow> (\<And>r q. R r q \<Longrightarrow> Q r q) \<Longrightarrow> runs step p m Q"
  unfolding runs_def by blast

lemma runs_retE: "Q (Inr x) p \<Longrightarrow> runs step p (retE x) Q"
  by (auto simp: runs_def)

lemma runs_failE: "Q (Inl e) p \<Longrightarrow> runs step p (failE e) Q"
  by (auto simp: runs_def)

lemma runs_bindE:
  assumes m: "runs step p m R" and inl: "\<And>e q. R (Inl e) q \<Longrightarrow> Q (Inl e) q"
    and inr: "\<And>x q. R (Inr x) q \<Longrightarrow> runs step q (f x) Q"
  shows "runs step p (bindE m f) Q"
  unfolding runs_def
proof (intro allI impI)
  fix s l r s' l'
  assume "bindE m f (s, l) = Some (r, (s', l'))"
  then consider (stop) e where "r = Inl e" "m (s, l) = Some (Inl e, (s', l'))"
    | (go) x s1 l1 where "m (s, l) = Some (Inr x, (s1, l1))" "f x (s1, l1) = Some (r, (s', l'))"
    by (auto simp: bindE_Some)
  then show "\<exists>new q. l' = l @ new \<and> path step p new q \<and> Q r q"
  proof cases
    case stop
    from runsD [OF m stop(2)] inl stop(1) show ?thesis by metis
  next
    case go
    from runsD [OF m go(1)] obtain new q where a: "l1 = l @ new" "path step p new q" "R (Inr x) q" by metis
    from runsD [OF inr [OF a(3)] go(2)] obtain new' q' where "l' = l1 @ new'" "path step q new' q'" "Q r q'" by metis
    with a show ?thesis by (intro exI [of _ "new @ new'"] exI [of _ q']) (auto simp: path_append)
  qed
qed

lemma runs_mapErrE: "runs step p m (\<lambda>r. case r of Inl e \<Rightarrow> Q (Inl (h e)) | Inr x \<Rightarrow> Q (Inr x)) \<Longrightarrow> runs step p (mapErrE h m) Q"
  unfolding runs_def mapErrE_def by (fastforce split: option.splits sum.splits)

lemma runs_attemptE: "runs step p m (\<lambda>r. Q (Inr r)) \<Longrightarrow> runs step p (attemptE m) Q"
  unfolding runs_def by (fastforce simp: attemptE_Some)

lemma runs_logged: "(\<And>r. step p (ev r) (q r)) \<Longrightarrow> (\<And>r. Q r (q r)) \<Longrightarrow> runs step p (logged ev m) Q"
  unfolding runs_def
  by (auto simp: path_single split: option.splits intro!: exI [where x = "[ev _]"])

lemma runs_pick:
  "(\<And>x. step p (ev x) (q x)) \<Longrightarrow> (\<And>x. Q (Inr x) (q x)) \<Longrightarrow> runs step p (pickE (loggedPick ev f)) Q"
  unfolding runs_def pickE_def loggedPick_def
  by (auto simp: path_single split: option.splits intro!: exI [where x = "[ev _]"])

lemma runs_finallyE:
  assumes "runs step p m R" and "\<And>r q. R r q \<Longrightarrow> \<exists>q'. step q c q' \<and> Q r q'"
  shows "runs step p (finallyE m (loggedDo c f)) Q"
  unfolding runs_def
proof (intro allI impI)
  fix s l r s' l'
  assume "finallyE m (loggedDo c f) (s, l) = Some (r, (s', l'))"
  then obtain s1 l1 where m: "m (s, l) = Some (r, (s1, l1))" and l': "l' = l1 @ [c]"
    by (auto simp: finallyE_def loggedDo_def split: option.splits)
  from runsD [OF assms(1) m] obtain new q where a: "l1 = l @ new" "path step p new q" "R r q" by metis
  from assms(2) [OF a(3)] obtain q' where "step q c q'" "Q r q'" by blast
  with a l' show "\<exists>new q. l' = l @ new \<and> path step p new q \<and> Q r q"
    by (intro exI [of _ "new @ [c]"] exI [of _ q']) (auto simp: path_append path_single)
qed

text \<open>A loop whose rounds go on in phases that satisfy \<open>I\<close>.\<close>

lemma runs_loopE:
  fixes body :: "('s \<times> 'c list, 'e, 'a option) eff"
  assumes start: "I p" and body: "\<And>p. I p \<Longrightarrow> runs step p body
      (\<lambda>r q. case r of Inl e \<Rightarrow> Q (Inl e) q | Inr None \<Rightarrow> I q | Inr (Some x) \<Rightarrow> Q (Inr x) q)"
  shows "runs step p (loopE body) Q"
  unfolding runs_def
proof (intro allI impI)
  fix s l r s' l'
  assume "loopE body (s, l) = Some (r, (s', l'))"
  then obtain t where "\<exists>new q. snd t = l @ new \<and> path step p new q \<and> I q" and t: "stops body t r (s', l')"
  proof (rule loopE_invariant [where I = "\<lambda>t. \<exists>new q. snd t = l @ new \<and> path step p new q \<and> I q"])
    show "\<exists>new q. snd (s, l) = l @ new \<and> path step p new q \<and> I q"
      using start by (auto intro: exI [of _ "[]"] path_Nil)
  next
    fix x y :: "'s \<times> 'c list"
    assume "\<exists>new q. snd x = l @ new \<and> path step p new q \<and> I q" and ag: "again body x y"
    then obtain new q where a: "snd x = l @ new" "path step p new q" "I q" by blast
    from ag have "body (fst x, snd x) = Some (Inr None, (fst y, snd y))" by (simp add: again_def)
    from runsD [OF body [OF a(3)] this] obtain new' q' where "snd y = snd x @ new'" "path step q new' q'" "I q'" by auto
    with a show "\<exists>new q. snd y = l @ new \<and> path step p new q \<and> I q"
      by (intro exI [of _ "new @ new'"] exI [of _ q']) (auto simp: path_append)
  qed
  then obtain new q where a: "snd t = l @ new" "path step p new q" "I q" by blast
  let ?r = "case r of Inl e \<Rightarrow> Inl e | Inr x \<Rightarrow> Inr (Some x)"
  have "body (fst t, snd t) = Some (?r, (s', l'))" using t by (auto simp: stops_def split: sum.splits)
  from runsD [OF body [OF a(3)] this] obtain new' q' where "l' = snd t @ new'" "path step q new' q'"
    "case ?r of Inl e \<Rightarrow> Q (Inl e) q' | Inr None \<Rightarrow> I q' | Inr (Some x) \<Rightarrow> Q (Inr x) q'" by metis
  with a show "\<exists>new q. l' = l @ new \<and> path step p new q \<and> Q r q"
    by (intro exI [of _ "new @ new'"] exI [of _ q']) (auto simp: path_append split: sum.splits)
qed

text \<open>A recorded call in front: the errors go out, the values go on.\<close>

lemma runs_call:
  assumes "\<And>r. step p (ev r) (q r)" and "\<And>e. Q (Inl e) (q (Inl e))" and "\<And>x. runs step (q (Inr x)) (f x) Q"
  shows "runs step p (bindE (logged ev m) f) Q"
proof (rule runs_bindE)
  show "runs step p (logged ev m) (\<lambda>r s. s = q r)" by (rule runs_logged, rule assms(1), rule refl)
qed (use assms(2,3) in auto)

lemma runs_call_attempt:
  assumes "\<And>r. step p (ev r) (q r)" and "\<And>r. runs step (q r) (f r) Q"
  shows "runs step p (bindE (attemptE (logged ev m)) f) Q"
proof (rule runs_bindE)
  show "runs step p (attemptE (logged ev m)) (\<lambda>r s. \<exists>x. r = Inr x \<and> s = q x)"
    by (rule runs_attemptE, rule runs_logged, rule assms(1)) simp
qed (use assms(2) in auto)

lemma runs_call_pick:
  assumes "\<And>x. step p (ev x) (q x)" and "\<And>x. runs step (q x) (f x) Q"
  shows "runs step p (bindE (pickE (loggedPick ev g)) f) Q"
proof (rule runs_bindE)
  show "runs step p (pickE (loggedPick ev g)) (\<lambda>r s. \<exists>x. r = Inr x \<and> s = q x)"
    by (rule runs_pick, rule assms(1)) simp
qed (use assms(2) in auto)

end
