(* ===== verification/Validation.thy ===== *)
theory Validation
  imports GoErrors
begin

text \<open>
  \<open>internal/app/validation\<close>: a validator is a list of deferred steps, each step a closure that
  returns an error or nil; \<open>Validate\<close> runs them in order and returns the first error. The
  e-mail pattern is a regular expression with its language and a derivative matcher.
\<close>

section \<open>The validator\<close>

text \<open>
  A step reports no violation, a violation, or panics: \<open>reflect.ValueOf(nil).IsZero()\<close>
  panics when the value is an interface holding nothing.
\<close>

datatype stepResult = StepOk | StepErr gerr | StepPanic

type_synonym validationStep = "unit \<Rightarrow> stepResult"

record validator =
  steps :: "validationStep list"

definition newValidator :: validator where
  "newValidator = \<lparr>steps = []\<rparr>"

definition addStep :: "validator \<Rightarrow> validationStep \<Rightarrow> validator" where
  "addStep v st = v\<lparr>steps := steps v @ [st]\<rparr>"

fun runSteps :: "validationStep list \<Rightarrow> stepResult" where
  "runSteps [] = StepOk"
| "runSteps (st # sts) = (case st () of StepOk \<Rightarrow> runSteps sts | StepErr e \<Rightarrow> StepErr e | StepPanic \<Rightarrow> StepPanic)"

definition Validate :: "validator \<Rightarrow> stepResult" where
  "Validate v = runSteps (steps v)"

definition violation :: "string \<Rightarrow> string \<Rightarrow> stepResult" where
  "violation field msg = StepErr (ErrValidationConstrain field msg)"

lemma runSteps_append:
  "runSteps (xs @ ys) = (case runSteps xs of StepOk \<Rightarrow> runSteps ys | r \<Rightarrow> r)"
  by (induction xs) (auto split: stepResult.split)

lemma Validate_addStep [simp]:
  "Validate (addStep v st) = (case Validate v of StepOk \<Rightarrow> st () | r \<Rightarrow> r)"
  by (auto simp: Validate_def addStep_def runSteps_append split: stepResult.split)

lemma Validate_new [simp]: "Validate newValidator = StepOk"
  by (simp add: Validate_def newValidator_def)

text \<open>The first step that objects decides, whatever the steps after it are.\<close>

lemma runSteps_StepErr_iff:
  "runSteps sts = StepErr e \<longleftrightarrow>
     (\<exists>us st vs. sts = us @ st # vs \<and> (\<forall>u \<in> set us. u () = StepOk) \<and> st () = StepErr e)"
  (is "?L sts \<longleftrightarrow> ?R sts")
proof
  show "?L sts \<Longrightarrow> ?R sts"
  proof (induction sts)
    case Nil
    then show ?case by simp
  next
    case (Cons a sts)
    show ?case
    proof (cases "a ()")
      case StepOk
      with Cons obtain us st vs where "sts = us @ st # vs" "\<forall>u \<in> set us. u () = StepOk" "st () = StepErr e"
        by auto
      with StepOk have "a # sts = (a # us) @ st # vs \<and> (\<forall>u \<in> set (a # us). u () = StepOk) \<and> st () = StepErr e"
        by simp
      then show ?thesis by blast
    next
      case (StepErr x)
      with Cons.prems have "a # sts = [] @ a # sts \<and> (\<forall>u \<in> set []. u () = StepOk) \<and> a () = StepErr e" by simp
      then show ?thesis by blast
    next
      case StepPanic
      with Cons.prems show ?thesis by simp
    qed
  qed
next
  assume "?R sts"
  then obtain us st vs where "sts = us @ st # vs" "\<forall>u \<in> set us. u () = StepOk" "st () = StepErr e" by blast
  then show "?L sts" by (induction us arbitrary: sts) auto
qed

section \<open>Blank strings\<close>

text \<open>
  A Go string is its UTF-8 bytes. \<open>strings.TrimSpace\<close> removes the characters of
  \<open>unicode.IsSpace\<close> at both ends: the ASCII ones, U+0085, U+00A0, U+1680, U+2000 to U+200A,
  U+2028, U+2029, U+202F, U+205F and U+3000, here as byte sequences. The result is empty
  exactly when trimming the left end leaves nothing.
\<close>

definition byteOf :: "char \<Rightarrow> nat" where
  "byteOf c = of_char c"

definition isSpace1 :: "char \<Rightarrow> bool" where
  "isSpace1 a \<longleftrightarrow> byteOf a \<in> {9, 10, 11, 12, 13, 32}"

definition isSpace2 :: "char \<Rightarrow> char \<Rightarrow> bool" where
  "isSpace2 a b \<longleftrightarrow> byteOf a = 194 \<and> byteOf b \<in> {133, 160}"

definition isSpace3 :: "char \<Rightarrow> char \<Rightarrow> char \<Rightarrow> bool" where
  "isSpace3 a b c \<longleftrightarrow>
     (byteOf a = 225 \<and> byteOf b = 154 \<and> byteOf c = 128) \<or>
     (byteOf a = 226 \<and> byteOf b = 128 \<and> (128 \<le> byteOf c \<and> byteOf c \<le> 138 \<or> byteOf c \<in> {168, 169, 175})) \<or>
     (byteOf a = 226 \<and> byteOf b = 129 \<and> byteOf c = 159) \<or>
     (byteOf a = 227 \<and> byteOf b = 128 \<and> byteOf c = 128)"

fun trimLeftSpace :: "string \<Rightarrow> string" where
  "trimLeftSpace [] = []"
| "trimLeftSpace (a # s) =
     (if isSpace1 a then trimLeftSpace s
      else case s of
        [] \<Rightarrow> [a]
      | b # s' \<Rightarrow>
          if isSpace2 a b then trimLeftSpace s'
          else case s' of
            [] \<Rightarrow> [a, b]
          | c # s'' \<Rightarrow> if isSpace3 a b c then trimLeftSpace s'' else a # b # c # s'')"

definition isBlank :: "string \<Rightarrow> bool" where
  "isBlank s \<longleftrightarrow> trimLeftSpace s = []"

lemma isBlank_Nil [simp]: "isBlank []"
  by (simp add: isBlank_def)

lemma isBlank_spaces: "\<forall>c \<in> set s. isSpace1 c \<Longrightarrow> isBlank s"
  by (induction s) (auto simp: isBlank_def)

lemma not_isBlank_ascii: "\<not> isSpace1 a \<Longrightarrow> byteOf a < 128 \<Longrightarrow> \<not> isBlank (a # s)"
  by (auto simp: isBlank_def isSpace2_def isSpace3_def split: list.splits)

section \<open>The e-mail pattern\<close>

text \<open>Regular expressions over bytes: a character class, concatenation and repetition.\<close>

datatype regex =
    RNone | REmpty | RClass "char \<Rightarrow> bool" | RSeq regex regex | RAlt regex regex | RStar regex

fun lang :: "regex \<Rightarrow> string set" where
  "lang RNone = {}"
| "lang REmpty = {[]}"
| "lang (RClass p) = {[c] | c. p c}"
| "lang (RSeq r q) = {u @ v | u v. u \<in> lang r \<and> v \<in> lang q}"
| "lang (RAlt r q) = lang r \<union> lang q"
| "lang (RStar r) = {concat us | us. \<forall>u \<in> set us. u \<in> lang r}"

fun nullable :: "regex \<Rightarrow> bool" where
  "nullable RNone = False"
| "nullable REmpty = True"
| "nullable (RClass p) = False"
| "nullable (RSeq r q) = (nullable r \<and> nullable q)"
| "nullable (RAlt r q) = (nullable r \<or> nullable q)"
| "nullable (RStar r) = True"

fun deriv :: "char \<Rightarrow> regex \<Rightarrow> regex" where
  "deriv c RNone = RNone"
| "deriv c REmpty = RNone"
| "deriv c (RClass p) = (if p c then REmpty else RNone)"
| "deriv c (RSeq r q) = (if nullable r then RAlt (RSeq (deriv c r) q) (deriv c q) else RSeq (deriv c r) q)"
| "deriv c (RAlt r q) = RAlt (deriv c r) (deriv c q)"
| "deriv c (RStar r) = RSeq (deriv c r) (RStar r)"

fun regexMatch :: "regex \<Rightarrow> string \<Rightarrow> bool" where
  "regexMatch r [] = nullable r"
| "regexMatch r (c # s) = regexMatch (deriv c r) s"

definition rPlus :: "regex \<Rightarrow> regex" where
  "rPlus r = RSeq r (RStar r)"

definition isLetter :: "char \<Rightarrow> bool" where
  "isLetter c \<longleftrightarrow> (97 \<le> byteOf c \<and> byteOf c \<le> 122) \<or> (65 \<le> byteOf c \<and> byteOf c \<le> 90)"

definition isDigit :: "char \<Rightarrow> bool" where
  "isDigit c \<longleftrightarrow> 48 \<le> byteOf c \<and> byteOf c \<le> 57"

definition localChar :: "char \<Rightarrow> bool" where
  "localChar c \<longleftrightarrow> isLetter c \<or> isDigit c \<or> c \<in> {CHR ''.'', CHR ''_'', CHR ''%'', CHR ''+'', CHR ''-''}"

definition domainChar :: "char \<Rightarrow> bool" where
  "domainChar c \<longleftrightarrow> isLetter c \<or> isDigit c \<or> c \<in> {CHR ''.'', CHR ''-''}"

text \<open>\<open>^[a-zA-Z0-9._%+\-]+@[a-zA-Z0-9.\-]+\.[A-Za-z]{2,}$\<close>\<close>

definition emailRe :: regex where
  "emailRe = RSeq (rPlus (RClass localChar)) (RSeq (RClass (\<lambda>c. c = CHR ''@''))
     (RSeq (rPlus (RClass domainChar)) (RSeq (RClass (\<lambda>c. c = CHR ''.''))
       (RSeq (RClass isLetter) (RSeq (RClass isLetter) (RStar (RClass isLetter)))))))"

definition emailMatches :: "string \<Rightarrow> bool" where
  "emailMatches s = regexMatch emailRe s"

lemma nullable_iff: "nullable r \<longleftrightarrow> [] \<in> lang r"
proof (induction r)
  case (RStar r)
  have "concat [] \<in> lang (RStar r)" by (simp del: concat.simps) (rule exI [of _ "[]"], simp)
  then show ?case by simp
qed auto

lemma Cons_in_star:
  "c # s \<in> lang (RStar r) \<longleftrightarrow> (\<exists>u v. s = u @ v \<and> c # u \<in> lang r \<and> v \<in> lang (RStar r))"
proof
  assume "c # s \<in> lang (RStar r)"
  then obtain us where us: "c # s = concat us" "\<forall>u \<in> set us. u \<in> lang r" by auto
  from us show "\<exists>u v. s = u @ v \<and> c # u \<in> lang r \<and> v \<in> lang (RStar r)"
  proof (induction us)
    case Nil
    then show ?case by simp
  next
    case (Cons w ws)
    show ?case
    proof (cases w)
      case Nil
      with Cons show ?thesis by simp
    next
      case (Cons d w')
      with Cons.prems have "s = w' @ concat ws" "c # w' \<in> lang r" "\<forall>u \<in> set ws. u \<in> lang r" by auto
      then show ?thesis by auto
    qed
  qed
next
  assume "\<exists>u v. s = u @ v \<and> c # u \<in> lang r \<and> v \<in> lang (RStar r)"
  then obtain u us where "s = u @ concat us" "c # u \<in> lang r" "\<forall>w \<in> set us. w \<in> lang r" by auto
  then have "c # s = concat ((c # u) # us) \<and> (\<forall>w \<in> set ((c # u) # us). w \<in> lang r)" by simp
  then show "c # s \<in> lang (RStar r)" unfolding lang.simps by blast
qed

lemma Cons_in_seq:
  "c # s \<in> lang (RSeq r q) \<longleftrightarrow>
     (\<exists>u v. s = u @ v \<and> c # u \<in> lang r \<and> v \<in> lang q) \<or> ([] \<in> lang r \<and> c # s \<in> lang q)"
  by (auto simp: Cons_eq_append_conv)

lemma deriv_lang: "s \<in> lang (deriv c r) \<longleftrightarrow> c # s \<in> lang r"
proof (induction r arbitrary: s)
  case (RSeq r q)
  then show ?case unfolding Cons_in_seq by (auto simp: nullable_iff)
next
  case (RStar r)
  then show ?case unfolding Cons_in_star by auto
qed auto

lemma regexMatch_iff: "regexMatch r s \<longleftrightarrow> s \<in> lang r"
  by (induction s arbitrary: r) (simp_all add: nullable_iff deriv_lang)

lemma lang_star_class: "lang (RStar (RClass p)) = {s. \<forall>c \<in> set s. p c}"
proof (rule set_eqI)
  fix s
  show "s \<in> lang (RStar (RClass p)) \<longleftrightarrow> s \<in> {s. \<forall>c \<in> set s. p c}"
  proof (induction s)
    case Nil
    show ?case using nullable_iff [of "RStar (RClass p)"] by simp
  next
    case (Cons c s)
    then show ?case unfolding Cons_in_star by auto
  qed
qed

lemma lang_plus_class: "lang (rPlus (RClass p)) = {s. s \<noteq> [] \<and> (\<forall>c \<in> set s. p c)}"
  unfolding rPlus_def lang.simps(4) lang_star_class
  by (auto simp: neq_Nil_conv) (metis append_Cons append_Nil)

lemma Cons_in_class_seq: "s \<in> lang (RSeq (RClass p) q) \<longleftrightarrow> (\<exists>c u. s = c # u \<and> p c \<and> u \<in> lang q)"
proof
  assume "\<exists>c u. s = c # u \<and> p c \<and> u \<in> lang q"
  then obtain c u where "s = [c] @ u" "[c] \<in> lang (RClass p)" "u \<in> lang q" by auto
  then show "s \<in> lang (RSeq (RClass p) q)" unfolding lang.simps(4) by blast
qed auto

lemma char_seq: "s \<in> lang (RSeq (RClass (\<lambda>c. c = a)) q) \<longleftrightarrow> (\<exists>u. s = a # u \<and> u \<in> lang q)"
  unfolding Cons_in_class_seq by blast

lemma in_plus_seq:
  "s \<in> lang (RSeq (rPlus (RClass p)) q) \<longleftrightarrow> (\<exists>u v. s = u @ v \<and> u \<noteq> [] \<and> list_all p u \<and> v \<in> lang q)"
  by (simp add: lang_plus_class list_all_iff)

lemma two_or_more: "(\<exists>a b w'. w = a # b # w' \<and> p a \<and> p b \<and> list_all p w') \<longleftrightarrow> 2 \<le> length w \<and> list_all p w"
  by (cases w; cases "tl w") auto

text \<open>C29: the e-mail check accepts exactly the strings of the form \<open>local@domain.tld\<close> with a
  non-empty local part and domain over their character classes and at least two letters after
  the last dot used: the matcher of the compiled pattern decides its language.\<close>

theorem emailMatches_iff:
  "emailMatches s \<longleftrightarrow> (\<exists>u v w. s = u @ ''@'' @ v @ ''.'' @ w \<and>
     u \<noteq> [] \<and> list_all localChar u \<and> v \<noteq> [] \<and> list_all domainChar v \<and>
     2 \<le> length w \<and> list_all isLetter w)"
proof -
  have tld: "w \<in> lang (RSeq (RClass isLetter) (RSeq (RClass isLetter) (RStar (RClass isLetter)))) \<longleftrightarrow>
      2 \<le> length w \<and> list_all isLetter w" for w
    unfolding Cons_in_class_seq lang_star_class two_or_more [symmetric] by (auto simp: list_all_iff)
  have "s \<in> lang emailRe \<longleftrightarrow> (\<exists>u x. s = u @ x \<and> u \<noteq> [] \<and> list_all localChar u \<and>
     (\<exists>v z. x = CHR ''@'' # v @ z \<and> v \<noteq> [] \<and> list_all domainChar v \<and>
       (\<exists>w. z = CHR ''.'' # w \<and> 2 \<le> length w \<and> list_all isLetter w)))"
    unfolding emailRe_def in_plus_seq char_seq tld by blast
  also have "\<dots> \<longleftrightarrow> (\<exists>u v w. s = u @ ''@'' @ v @ ''.'' @ w \<and>
     u \<noteq> [] \<and> list_all localChar u \<and> v \<noteq> [] \<and> list_all domainChar v \<and>
     2 \<le> length w \<and> list_all isLetter w)"
    unfolding append_Cons append_Nil by blast
  finally show ?thesis by (simp only: emailMatches_def regexMatch_iff)
qed

section \<open>The steps\<close>

definition EmailFormat :: "string \<Rightarrow> validator \<Rightarrow> validator" where
  "EmailFormat email v = addStep v (\<lambda>_.
     if \<not> emailMatches email then violation ''email'' ''email not valid'' else StepOk)"

definition PeriodStep :: "gotime \<Rightarrow> gotime \<Rightarrow> validator \<Rightarrow> validator" where
  "PeriodStep start end v = addStep v (\<lambda>_.
     if timeAfter start end \<or> timeEqual start end
     then violation ''start'' ''start date must be before end date'' else StepOk)"

definition NotBlank :: "string \<Rightarrow> string \<Rightarrow> validator \<Rightarrow> validator" where
  "NotBlank field value v = addStep v (\<lambda>_.
     if isBlank value then violation field ''must not be blank'' else StepOk)"

text \<open>What \<open>reflect.ValueOf(value)\<close> sees: nothing, a zero value of its type, or another value.\<close>

datatype reflected = RInvalid | RZero | RNonZero

definition reflectPtr :: "'a option \<Rightarrow> reflected" where
  "reflectPtr p = (case p of None \<Rightarrow> RZero | Some _ \<Rightarrow> RNonZero)"

definition reflectTime :: "gotime \<Rightarrow> reflected" where
  "reflectTime t = (if t = zeroTime then RZero else RNonZero)"

definition NotZeroValue :: "string \<Rightarrow> reflected \<Rightarrow> validator \<Rightarrow> validator" where
  "NotZeroValue field value v = addStep v (\<lambda>_. case value of
     RInvalid \<Rightarrow> StepPanic
   | RZero \<Rightarrow> violation field ''must not be zero value''
   | RNonZero \<Rightarrow> StepOk)"

definition PositiveValue :: "string \<Rightarrow> int \<Rightarrow> validator \<Rightarrow> validator" where
  "PositiveValue field value v = addStep v (\<lambda>_.
     if value \<le> 0 then violation field ''must be greater than 0'' else StepOk)"

definition NotNilObjectID :: "string \<Rightarrow> objectID \<Rightarrow> validator \<Rightarrow> validator" where
  "NotNilObjectID field i v = addStep v (\<lambda>_.
     if i = NilObjectID then violation field ''must not be nil'' else StepOk)"

lemmas step_defs = EmailFormat_def PeriodStep_def NotBlank_def NotZeroValue_def PositiveValue_def
  NotNilObjectID_def violation_def

text \<open>
  \<open>if err := v.Validate(); err != nil { return zero, err }\<close> where no step can panic.
\<close>

definition validated :: "validator \<Rightarrow> 'a \<Rightarrow> gerr + 'a" where
  "validated v x = (case Validate v of StepErr e \<Rightarrow> Inl e | _ \<Rightarrow> Inr x)"

definition validE :: "validator \<Rightarrow> ('s, unit) io" where
  "validE v = liftE (validated v ())"

lemma validE_apply [simp]: "validE v s = Some (validated v (), s)"
  by (simp add: validE_def)

lemma validated_Inr_iff: "validated v x = Inr y \<longleftrightarrow> (\<forall>e. Validate v \<noteq> StepErr e) \<and> y = x"
  by (auto simp: validated_def split: stepResult.splits)

lemma validated_Inl_iff: "validated v x = Inl e \<longleftrightarrow> Validate v = StepErr e"
  by (auto simp: validated_def split: stepResult.splits)

end
