(* ===== verification/DomainModel.thy ===== *)
theory DomainModel
  imports Validation
begin

text \<open>
  \<open>internal/domain\<close>, \<open>internal/domain/documents\<close>, \<open>internal/domain/enum\<close> and the plain data
  transfer objects of \<open>internal/domain/dto\<close>: the entities, the documents they are stored as,
  their validating constructors and the conversions between the two.
\<close>

section \<open>Enumerations: Go string types with named constants\<close>

definition FullyCleaned :: string where "FullyCleaned = ''fully_cleaned''"

definition KeyHolderGuest :: string where "KeyHolderGuest = ''guest''"

definition KeyHolderCottage :: string where "KeyHolderCottage = ''cottage''"

definition BookingStatusConfirmed :: string where "BookingStatusConfirmed = ''confirmed''"

definition BookingStatusPast :: string where "BookingStatusPast = ''past''"

definition PrepareForGuest :: string where "PrepareForGuest = ''prepareForGuest''"

definition DailyCleaning :: string where "DailyCleaning = ''dailyCleaning''"

definition FullCleaning :: string where "FullCleaning = ''fullCleaning''"

definition PrepareForSleep :: string where "PrepareForSleep = ''prepareForSleep''"

lemmas enum_defs = FullyCleaned_def KeyHolderGuest_def KeyHolderCottage_def BookingStatusConfirmed_def
  BookingStatusPast_def PrepareForGuest_def DailyCleaning_def FullCleaning_def PrepareForSleep_def

section \<open>Documents\<close>

record periodDoc =
  dCheckIn :: gotime
  dCheckOut :: gotime

record bookingDoc =
  dbId :: objectID
  dbMainGuest :: objectID
  dbNumberOfGuests :: int
  dbStayPeriod :: periodDoc
  dbCottageName :: string
  dbStatus :: string

record guestDoc =
  dgId :: objectID
  dgDocumentId :: string
  dgGivenNames :: string
  dgSurname :: string
  dgEmail :: string
  dgBillingAddress :: string
  dgCreatedAt :: "gotime option"
  dgLastUpdate :: "gotime option"

record keyDoc =
  kNumber :: string
  kHolder :: string

record cottageDetailsDoc =
  cdDescription :: string
  cdView :: string
  cdFurnitureDescription :: string
  cdBathroomDescription :: string
  cdAmenitiesDescription :: string

text \<open>\<open>PricePerNight\<close> is a \<open>float32\<close> the program only carries; its bits are kept.\<close>

record cottageDoc =
  dcId :: objectID
  dcName :: string
  dcView :: string
  dcDetails :: cottageDetailsDoc
  dcPhotos :: "string list"
  dcPricePerNight :: "32 word"
  dcBookings :: "objectID list"
  dcCurrentGuest :: objectID
  dcCleaningStatus :: string
  dcKey :: keyDoc

definition zeroBookingDoc :: bookingDoc where
  "zeroBookingDoc = \<lparr>dbId = NilObjectID, dbMainGuest = NilObjectID, dbNumberOfGuests = 0,
     dbStayPeriod = \<lparr>dCheckIn = zeroTime, dCheckOut = zeroTime\<rparr>, dbCottageName = [], dbStatus = []\<rparr>"

definition zeroGuestDoc :: guestDoc where
  "zeroGuestDoc = \<lparr>dgId = NilObjectID, dgDocumentId = [], dgGivenNames = [], dgSurname = [],
     dgEmail = [], dgBillingAddress = [], dgCreatedAt = None, dgLastUpdate = None\<rparr>"

section \<open>Periods\<close>

record period =
  CheckIn :: gotime
  CheckOut :: gotime

definition zeroPeriod :: period where
  "zeroPeriod = \<lparr>CheckIn = zeroTime, CheckOut = zeroTime\<rparr>"

definition startOfDay :: "gotime \<Rightarrow> gotime" where
  "startOfDay t = midnightUTC (timeYear t, timeMonth t, timeDay t)"

definition NewPeriod :: "gotime \<Rightarrow> gotime \<Rightarrow> gerr + period" where
  "NewPeriod start end = validated (PeriodStep start end newValidator)
     \<lparr>CheckIn = startOfDay start, CheckOut = startOfDay end\<rparr>"

section \<open>Bookings\<close>

record booking =
  bId :: objectID
  bMainGuest :: objectID
  bNumberOfGuests :: int
  bStayPeriod :: period
  bCottageName :: string
  bStatus :: string

definition zeroBooking :: booking where
  "zeroBooking = \<lparr>bId = NilObjectID, bMainGuest = NilObjectID, bNumberOfGuests = 0,
     bStayPeriod = zeroPeriod, bCottageName = [], bStatus = []\<rparr>"

definition bookingValidator :: "objectID \<Rightarrow> int \<Rightarrow> period \<Rightarrow> string \<Rightarrow> string \<Rightarrow> validator" where
  "bookingValidator i n p c st =
     NotBlank ''Status'' st
       (NotBlank ''CottageName'' c
         (NotZeroValue ''StayPeriod'' (if p = zeroPeriod then RZero else RNonZero)
           (PositiveValue ''NumberOfGuests'' n
             (NotNilObjectID ''Id'' i newValidator))))"

definition NewBooking ::
  "objectID \<Rightarrow> objectID \<Rightarrow> int \<Rightarrow> period \<Rightarrow> string \<Rightarrow> string \<Rightarrow> gerr + booking" where
  "NewBooking i mainGuest n p c st = validated (bookingValidator i n p c st)
     \<lparr>bId = i, bMainGuest = mainGuest, bNumberOfGuests = n, bStayPeriod = p, bCottageName = c, bStatus = st\<rparr>"

record periodDto =
  toCheckIn :: gotime
  toCheckOut :: gotime

record bookingDto =
  toNumberOfGuests :: int
  toStayPeriod :: periodDto
  toCottageName :: string
  toStatus :: string

definition bookingToDto :: "booking \<Rightarrow> bookingDto" where
  "bookingToDto b = \<lparr>toNumberOfGuests = bNumberOfGuests b,
     toStayPeriod = \<lparr>toCheckIn = CheckIn (bStayPeriod b), toCheckOut = CheckOut (bStayPeriod b)\<rparr>,
     toCottageName = bCottageName b, toStatus = bStatus b\<rparr>"

section \<open>Guests\<close>

record guest =
  gId :: objectID
  gDocumentId :: string
  gGivenNames :: string
  gSurname :: string
  gEmail :: string
  gBillingAddress :: string
  gCreatedAt :: "gotime option"
  gLastUpdate :: "gotime option"

definition guestValidator ::
  "objectID \<Rightarrow> string \<Rightarrow> string \<Rightarrow> string \<Rightarrow> string \<Rightarrow> string \<Rightarrow> gotime option \<Rightarrow> validator" where
  "guestValidator i doc given sur email addr created =
     NotZeroValue ''createdTime'' (reflectPtr created)
       (NotBlank ''billingAddress'' addr
         (EmailFormat email
           (NotBlank ''surname'' sur
             (NotBlank ''givenNames'' given
               (NotBlank ''documentId'' doc
                 (NotNilObjectID ''Id'' i newValidator))))))"

definition NewGuest ::
  "objectID \<Rightarrow> string \<Rightarrow> string \<Rightarrow> string \<Rightarrow> string \<Rightarrow> string \<Rightarrow> gotime option \<Rightarrow> gotime option
    \<Rightarrow> gerr + guest" where
  "NewGuest i doc given sur email addr created updated =
     validated (guestValidator i doc given sur email addr created)
       \<lparr>gId = i, gDocumentId = doc, gGivenNames = given, gSurname = sur, gEmail = email,
        gBillingAddress = addr, gCreatedAt = created, gLastUpdate = updated\<rparr>"

record guestDto =
  toDocumentId :: string
  toGivenNames :: string
  toSurname :: string
  toEmail :: string
  toBillingAddress :: string
  toCreatedAt :: "gotime option"
  toLastUpdate :: "gotime option"

definition guestToDto :: "guest \<Rightarrow> guestDto" where
  "guestToDto g = \<lparr>toDocumentId = gDocumentId g, toGivenNames = gGivenNames g, toSurname = gSurname g,
     toEmail = gEmail g, toBillingAddress = gBillingAddress g, toCreatedAt = gCreatedAt g,
     toLastUpdate = gLastUpdate g\<rparr>"

definition guestToMongoDoc :: "guest \<Rightarrow> guestDoc" where
  "guestToMongoDoc g = \<lparr>dgId = gId g, dgDocumentId = gDocumentId g, dgGivenNames = gGivenNames g,
     dgSurname = gSurname g, dgEmail = gEmail g, dgBillingAddress = gBillingAddress g,
     dgCreatedAt = gCreatedAt g, dgLastUpdate = gLastUpdate g\<rparr>"

section \<open>Cleaning orders\<close>

datatype requestType =
  RT_UNSPECIFIED | RT_PREPARE_FOR_GUEST | RT_DAILY_CLEANING | RT_FULL_CLEANING | RT_PREPARE_FOR_SLEEP

definition cleaningOrderTypeDtoMap :: "string \<rightharpoonup> requestType" where
  "cleaningOrderTypeDtoMap = map_of [(PrepareForGuest, RT_PREPARE_FOR_GUEST),
     (DailyCleaning, RT_DAILY_CLEANING), (FullCleaning, RT_FULL_CLEANING),
     (PrepareForSleep, RT_PREPARE_FOR_SLEEP)]"

record cleaningOrder =
  RoomName :: string
  RequestType :: string

record cleaningRequest =
  crRoomName :: string
  crRequest :: requestType

definition NewCleaningOrder :: "string \<Rightarrow> string \<Rightarrow> gerr + cleaningOrder" where
  "NewCleaningOrder room ty = validated (NotBlank ''RoomName'' room newValidator)
     \<lparr>RoomName = room, RequestType = ty\<rparr>"

definition cleaningOrderToDto :: "cleaningOrder \<Rightarrow> cleaningRequest" where
  "cleaningOrderToDto r = \<lparr>crRoomName = RoomName r,
     crRequest = (case cleaningOrderTypeDtoMap (RequestType r) of None \<Rightarrow> RT_UNSPECIFIED | Some t \<Rightarrow> t)\<rparr>"

section \<open>The constructors, branch by branch\<close>

lemma startOfDay_eq: "startOfDay t = \<lparr>nsec = dayNumber t * nsPerDay, loc = None\<rparr>"
  by (simp add: startOfDay_def timeYear_def timeMonth_def timeDay_def midnightUTC_timeDate)

lemma NewPeriod_eq:
  "NewPeriod start end =
     (if nsec start < nsec end
      then Inr \<lparr>CheckIn = startOfDay start, CheckOut = startOfDay end\<rparr>
      else Inl (ErrValidationConstrain ''start'' ''start date must be before end date''))"
  by (auto simp: NewPeriod_def validated_def step_defs timeAfter_def timeEqual_def split: stepResult.splits)

lemma NewBooking_Inr_iff:
  "NewBooking i m n p c st = Inr b \<longleftrightarrow>
     i \<noteq> NilObjectID \<and> 0 < n \<and> p \<noteq> zeroPeriod \<and> \<not> isBlank c \<and> \<not> isBlank st \<and>
     b = \<lparr>bId = i, bMainGuest = m, bNumberOfGuests = n, bStayPeriod = p, bCottageName = c, bStatus = st\<rparr>"
  by (auto simp: NewBooking_def validated_def bookingValidator_def step_defs split: stepResult.splits)

lemma NewBooking_not_zero: "NewBooking i m n p c st = Inr b \<Longrightarrow> b \<noteq> zeroBooking"
  by (auto simp: NewBooking_Inr_iff zeroBooking_def)

lemma NewBooking_fields:
  "NewBooking i m n p c st = Inr b \<Longrightarrow>
     bId b = i \<and> bMainGuest b = m \<and> bNumberOfGuests b = n \<and> bStayPeriod b = p \<and> bCottageName b = c \<and> bStatus b = st"
  by (auto simp: NewBooking_Inr_iff)

lemma NewGuest_Inr_iff:
  "NewGuest i doc given sur email addr created updated = Inr g \<longleftrightarrow>
     i \<noteq> NilObjectID \<and> \<not> isBlank doc \<and> \<not> isBlank given \<and> \<not> isBlank sur \<and> emailMatches email \<and>
     \<not> isBlank addr \<and> created \<noteq> None \<and>
     g = \<lparr>gId = i, gDocumentId = doc, gGivenNames = given, gSurname = sur, gEmail = email,
        gBillingAddress = addr, gCreatedAt = created, gLastUpdate = updated\<rparr>"
  by (auto simp: NewGuest_def validated_def guestValidator_def step_defs reflectPtr_def
      split: stepResult.splits option.splits if_splits)

lemma NewGuest_Inl_validation:
  "NewGuest i doc given sur email addr created updated = Inl e \<Longrightarrow> isValidationErr e"
  by (auto simp: NewGuest_def validated_def guestValidator_def step_defs reflectPtr_def isValidationErr_def
      split: stepResult.splits option.splits if_splits)

lemma NewCleaningOrder_eq:
  "NewCleaningOrder room ty =
     (if isBlank room then Inl (ErrValidationConstrain ''RoomName'' ''must not be blank'')
      else Inr \<lparr>RoomName = room, RequestType = ty\<rparr>)"
  by (auto simp: NewCleaningOrder_def validated_def step_defs)

section \<open>Properties\<close>

lemma startOfDay_midnight: "nsOfDay (startOfDay t) = 0" "loc (startOfDay t) = None" "dayNumber (startOfDay t) = dayNumber t"
  by (simp_all add: startOfDay_eq)

lemma startOfDay_idem [simp]: "startOfDay (startOfDay t) = startOfDay t"
  by (simp add: startOfDay_eq)

lemma nsec_startOfDay: "nsec (startOfDay t) = dayNumber t * nsPerDay"
  by (simp add: startOfDay_eq)

lemma nsec_startOfDay_less: "nsec (startOfDay a) < nsec (startOfDay b) \<longleftrightarrow> dayNumber a < dayNumber b"
  by (simp add: nsec_startOfDay nsPerDay_def)

text \<open>C28: a stay period is accepted exactly when it starts before it ends; both ends are moved to
  midnight UTC of their own local date, and the stored period can be read back through the same
  constructor exactly when the two dates differ (a stay within one date is accepted once, and its
  normalised form is then refused).\<close>

theorem NewPeriod_normalises:
  assumes "NewPeriod start end = Inr p"
  shows "timeBefore start end \<and>
    nsOfDay (CheckIn p) = 0 \<and> dayNumber (CheckIn p) = dayNumber start \<and>
    nsOfDay (CheckOut p) = 0 \<and> dayNumber (CheckOut p) = dayNumber end \<and>
    (NewPeriod (CheckIn p) (CheckOut p) = Inr p \<longleftrightarrow> dayNumber start < dayNumber end)"
  using assms
  by (auto simp: NewPeriod_eq timeBefore_def startOfDay_midnight nsec_startOfDay_less split: if_splits)

theorem NewPeriod_normalises_witness:
  "\<exists>p. NewPeriod \<lparr>nsec = 1717243200000000000, loc = None\<rparr> \<lparr>nsec = 1717408800000000000, loc = Some 7200\<rparr> = Inr p \<and>
     dayNumber (CheckIn p) = 19875 \<and> dayNumber (CheckOut p) = 19877 \<and> NewPeriod (CheckIn p) (CheckOut p) = Inr p"
proof -
  let ?s = "\<lparr>nsec = 1717243200000000000, loc = None\<rparr>" and ?e = "\<lparr>nsec = 1717408800000000000, loc = Some 7200\<rparr>"
  have h: "NewPeriod ?s ?e = Inr \<lparr>CheckIn = startOfDay ?s, CheckOut = startOfDay ?e\<rparr>" by (simp add: NewPeriod_eq)
  have d: "dayNumber ?s = 19875" "dayNumber ?e = 19877"
    by (simp_all add: dayNumber_def localNs_def zoneOffset_def time_consts)
  show ?thesis using h NewPeriod_normalises [OF h] d by simp
qed

text \<open>The constructor of guests reports the first violation in the order identifier,
  document, given names, surname, e-mail, billing address, creation time, and otherwise returns
  the guest with exactly the given fields.\<close>

lemma NewGuest_first_violation:
  "NewGuest i doc given sur email addr created updated =
     (if i = NilObjectID then Inl (ErrValidationConstrain ''Id'' ''must not be nil'')
      else if isBlank doc then Inl (ErrValidationConstrain ''documentId'' ''must not be blank'')
      else if isBlank given then Inl (ErrValidationConstrain ''givenNames'' ''must not be blank'')
      else if isBlank sur then Inl (ErrValidationConstrain ''surname'' ''must not be blank'')
      else if \<not> emailMatches email then Inl (ErrValidationConstrain ''email'' ''email not valid'')
      else if isBlank addr then Inl (ErrValidationConstrain ''billingAddress'' ''must not be blank'')
      else if created = None then Inl (ErrValidationConstrain ''createdTime'' ''must not be zero value'')
      else Inr \<lparr>gId = i, gDocumentId = doc, gGivenNames = given, gSurname = sur, gEmail = email,
        gBillingAddress = addr, gCreatedAt = created, gLastUpdate = updated\<rparr>)"
  by (simp add: NewGuest_def validated_def guestValidator_def step_defs reflectPtr_def split: option.split)

text \<open>Every cleaning request type of the program has its own wire value, and a type outside
  the table is sent as UNSPECIFIED.\<close>

lemma cleaningOrderToDto_request:
  "crRequest (cleaningOrderToDto \<lparr>RoomName = r, RequestType = ty\<rparr>) =
     (if ty = ''prepareForGuest'' then RT_PREPARE_FOR_GUEST
      else if ty = ''dailyCleaning'' then RT_DAILY_CLEANING
      else if ty = ''fullCleaning'' then RT_FULL_CLEANING
      else if ty = ''prepareForSleep'' then RT_PREPARE_FOR_SLEEP
      else RT_UNSPECIFIED)"
  by (simp add: cleaningOrderToDto_def cleaningOrderTypeDtoMap_def enum_defs)

end
