(* ===== verification/Ports.thy ===== *)
theory Ports
  imports DomainModel
begin

text \<open>
  \<open>internal/port\<close>: the Go interfaces the services are written against. An interface value is
  a record of operations over the state; the program's own implementations are built in the
  theories of the components, and a service takes any value of the interface.
\<close>

section \<open>Messages on the broker\<close>

record checkInTodayNotification =
  nBookingId :: string
  nGuestId :: string
  nCottageName :: string
  nCheckIn :: gotime
  nCheckOut :: gotime
  nNumberOfGuests :: int
  nNotificationDay :: gotime

datatype protoMessage = MsgCleaningRequest cleaningRequest | MsgCheckInToday checkInTodayNotification

section \<open>Interfaces\<close>

record 's guestRepo =
  grGetById :: "objectID \<Rightarrow> ('s, guestDoc) io"
  grGetByDocument :: "string \<Rightarrow> ('s, guestDoc) io"
  grAdd :: "guestDoc \<Rightarrow> ('s, objectID) io"
  grUpdate :: "objectID \<Rightarrow> guestDoc \<Rightarrow> ('s, guestDoc) io"

record 's cottageRepo =
  ctGetByName :: "string \<Rightarrow> ('s, cottageDoc) io"
  ctUpdateCurrentGuest :: "string \<Rightarrow> objectID \<Rightarrow> ('s, unit) io"
  ctUpdateKeyHolder :: "string \<Rightarrow> string \<Rightarrow> string \<Rightarrow> ('s, unit) io"
  ctRemovePastBooking :: "objectID \<Rightarrow> ('s, unit) io"

record 's bookingRepo =
  brFindByGuestId :: "objectID \<Rightarrow> ('s, bookingDoc list) io"
  brFindByCheckInDate :: "gotime \<Rightarrow> ('s, bookingDoc list) io"
  brFindByGuestIdAndCheckIn :: "objectID \<Rightarrow> gotime \<Rightarrow> ('s, bookingDoc) io"
  brFindByGuestIdAndBookingNumber :: "objectID \<Rightarrow> string \<Rightarrow> ('s, bookingDoc) io"
  brUpdateStatus :: "objectID \<Rightarrow> string \<Rightarrow> ('s, unit) io"

text \<open>Expirations are in nanoseconds, as \<open>time.Duration\<close>.\<close>

record 's cachePort =
  cacheGetBytes :: "string \<Rightarrow> ('s, string) io"
  cacheSetBytes :: "string \<Rightarrow> string \<Rightarrow> int \<Rightarrow> ('s, unit) io"

record 's mqPublisher =
  pubPublish :: "protoMessage \<Rightarrow> string \<Rightarrow> ('s, unit) io"

text \<open>\<open>Now\<close> returns a pointer to a time.\<close>

record 's clockClient =
  clockNow :: "('s, gotime option) io"

section \<open>Recorded repositories\<close>

text \<open>
  The calls a service makes on its collaborators, with their outcomes: \<open>logged\<close> applied to
  every operation of an interface value.
\<close>

datatype call =
    CGuestGetById objectID "gerr + guestDoc"
  | CGuestGetByDocument string "gerr + guestDoc"
  | CGuestAdd guestDoc "gerr + objectID"
  | CGuestUpdate objectID guestDoc "gerr + guestDoc"
  | CCottageGetByName string "gerr + cottageDoc"
  | CUpdateCurrentGuest string objectID "gerr + unit"
  | CUpdateKeyHolder string string string "gerr + unit"
  | CRemovePastBooking objectID "gerr + unit"
  | CFindByGuestId objectID "gerr + bookingDoc list"
  | CFindByCheckInDate gotime "gerr + bookingDoc list"
  | CFindByGuestIdAndCheckIn objectID gotime "gerr + bookingDoc"
  | CFindByGuestIdAndBookingNumber objectID string "gerr + bookingDoc"
  | CUpdateStatus objectID string "gerr + unit"
  | CCacheGet string "gerr + string"
  | CCacheSet string string "gerr + unit"
  | CPublish protoMessage string "gerr + unit"

definition logGuestRepo :: "'s guestRepo \<Rightarrow> ('s \<times> call list) guestRepo" where
  "logGuestRepo g = \<lparr>grGetById = (\<lambda>i. logged (CGuestGetById i) (grGetById g i)),
     grGetByDocument = (\<lambda>d. logged (CGuestGetByDocument d) (grGetByDocument g d)),
     grAdd = (\<lambda>d. logged (CGuestAdd d) (grAdd g d)),
     grUpdate = (\<lambda>i d. logged (CGuestUpdate i d) (grUpdate g i d))\<rparr>"

definition logCottageRepo :: "'s cottageRepo \<Rightarrow> ('s \<times> call list) cottageRepo" where
  "logCottageRepo c = \<lparr>ctGetByName = (\<lambda>n. logged (CCottageGetByName n) (ctGetByName c n)),
     ctUpdateCurrentGuest = (\<lambda>n g. logged (CUpdateCurrentGuest n g) (ctUpdateCurrentGuest c n g)),
     ctUpdateKeyHolder = (\<lambda>n k h. logged (CUpdateKeyHolder n k h) (ctUpdateKeyHolder c n k h)),
     ctRemovePastBooking = (\<lambda>b. logged (CRemovePastBooking b) (ctRemovePastBooking c b))\<rparr>"

definition logBookingRepo :: "'s bookingRepo \<Rightarrow> ('s \<times> call list) bookingRepo" where
  "logBookingRepo b = \<lparr>brFindByGuestId = (\<lambda>g. logged (CFindByGuestId g) (brFindByGuestId b g)),
     brFindByCheckInDate = (\<lambda>d. logged (CFindByCheckInDate d) (brFindByCheckInDate b d)),
     brFindByGuestIdAndCheckIn = (\<lambda>g d. logged (CFindByGuestIdAndCheckIn g d) (brFindByGuestIdAndCheckIn b g d)),
     brFindByGuestIdAndBookingNumber =
       (\<lambda>g n. logged (CFindByGuestIdAndBookingNumber g n) (brFindByGuestIdAndBookingNumber b g n)),
     brUpdateStatus = (\<lambda>i st. logged (CUpdateStatus i st) (brUpdateStatus b i st))\<rparr>"

definition logCache :: "'s cachePort \<Rightarrow> ('s \<times> call list) cachePort" where
  "logCache c = \<lparr>cacheGetBytes = (\<lambda>k. logged (CCacheGet k) (cacheGetBytes c k)),
     cacheSetBytes = (\<lambda>k v d. logged (CCacheSet k v) (cacheSetBytes c k v d))\<rparr>"

definition logPublisher :: "'s mqPublisher \<Rightarrow> ('s \<times> call list) mqPublisher" where
  "logPublisher p = \<lparr>pubPublish = (\<lambda>m k. logged (CPublish m k) (pubPublish p m k))\<rparr>"

lemmas log_defs = logGuestRepo_def logCottageRepo_def logBookingRepo_def logCache_def logPublisher_def

lemma log_sel [simp]:
  "grGetById (logGuestRepo g) i = logged (CGuestGetById i) (grGetById g i)"
  "grGetByDocument (logGuestRepo g) d = logged (CGuestGetByDocument d) (grGetByDocument g d)"
  "grAdd (logGuestRepo g) x = logged (CGuestAdd x) (grAdd g x)"
  "grUpdate (logGuestRepo g) i x = logged (CGuestUpdate i x) (grUpdate g i x)"
  "ctGetByName (logCottageRepo c) n = logged (CCottageGetByName n) (ctGetByName c n)"
  "ctUpdateCurrentGuest (logCottageRepo c) n i = logged (CUpdateCurrentGuest n i) (ctUpdateCurrentGuest c n i)"
  "ctUpdateKeyHolder (logCottageRepo c) n k h = logged (CUpdateKeyHolder n k h) (ctUpdateKeyHolder c n k h)"
  "ctRemovePastBooking (logCottageRepo c) i = logged (CRemovePastBooking i) (ctRemovePastBooking c i)"
  "brFindByGuestId (logBookingRepo b) i = logged (CFindByGuestId i) (brFindByGuestId b i)"
  "brFindByCheckInDate (logBookingRepo b) t = logged (CFindByCheckInDate t) (brFindByCheckInDate b t)"
  "brFindByGuestIdAndCheckIn (logBookingRepo b) i t = logged (CFindByGuestIdAndCheckIn i t) (brFindByGuestIdAndCheckIn b i t)"
  "brFindByGuestIdAndBookingNumber (logBookingRepo b) i n =
     logged (CFindByGuestIdAndBookingNumber i n) (brFindByGuestIdAndBookingNumber b i n)"
  "brUpdateStatus (logBookingRepo b) i st = logged (CUpdateStatus i st) (brUpdateStatus b i st)"
  "cacheGetBytes (logCache ca) k = logged (CCacheGet k) (cacheGetBytes ca k)"
  "cacheSetBytes (logCache ca) k v e = logged (CCacheSet k v) (cacheSetBytes ca k v e)"
  "pubPublish (logPublisher p) m k = logged (CPublish m k) (pubPublish p m k)"
  by (simp_all add: log_defs)

text \<open>The calls that change stored data or send a message.\<close>

fun isWrite :: "call \<Rightarrow> bool" where
  "isWrite (CGuestAdd _ _) = True"
| "isWrite (CGuestUpdate _ _ _) = True"
| "isWrite (CUpdateCurrentGuest _ _ _) = True"
| "isWrite (CUpdateKeyHolder _ _ _ _) = True"
| "isWrite (CRemovePastBooking _ _) = True"
| "isWrite (CUpdateStatus _ _ _) = True"
| "isWrite (CCacheSet _ _ _) = True"
| "isWrite (CPublish _ _ _) = True"
| "isWrite _ = False"

section \<open>Scripts of calls\<close>

text \<open>
  An operation that follows a script makes the calls of the script in order, stops with an
  error at the first that fails, and succeeds when all of them succeed.
\<close>

fun scriptRun :: "(gerr + unit \<Rightarrow> 'c) list \<Rightarrow> 'c list \<Rightarrow> bool \<Rightarrow> bool" where
  "scriptRun [] l ok \<longleftrightarrow> l = [] \<and> ok"
| "scriptRun (ev # evs) l ok \<longleftrightarrow>
     (\<exists>res rest. l = ev res # rest \<and> (case res of Inl _ \<Rightarrow> rest = [] \<and> \<not> ok | Inr _ \<Rightarrow> scriptRun evs rest ok))"

definition follows :: "(gerr + unit \<Rightarrow> 'c) list \<Rightarrow> ('s \<times> 'c list, 'a) io \<Rightarrow> bool" where
  "follows evs m \<longleftrightarrow> (\<forall>s l r s' l'. m (s, l) = Some (r, (s', l')) \<longrightarrow>
     (\<exists>new. l' = l @ new \<and> scriptRun evs new (\<exists>x. r = Inr x)))"

lemma followsD: "follows evs m \<Longrightarrow> m (s, l) = Some (r, (s', l')) \<Longrightarrow>
    \<exists>new. l' = l @ new \<and> scriptRun evs new (\<exists>x. r = Inr x)"
  by (simp add: follows_def)

lemma follows_retE: "follows [] (retE x)"
  by (simp add: follows_def)

lemma follows_last: "follows [ev] (mapErrE h (logged ev m))"
  unfolding follows_def
  by (auto simp: mapErrE_def split: option.splits sum.splits)

lemma follows_then:
  assumes "follows evs n"
  shows "follows (ev # evs) (thenE (mapErrE h (logged ev m)) n)"
  unfolding follows_def
proof (intro allI impI)
  fix s l r s' l'
  assume run: "thenE (mapErrE h (logged ev m)) n (s, l) = Some (r, (s', l'))"
  show "\<exists>new. l' = l @ new \<and> scriptRun (ev # evs) new (\<exists>x. r = Inr x)"
  proof (cases "m s")
    case None
    with run show ?thesis by (simp add: bindE_def mapErrE_def)
  next
    case (Some ys)
    obtain y s1 where y: "ys = (y, s1)" by fastforce
    show ?thesis
    proof (cases y)
      case (Inl e)
      with run Some y have "l' = l @ [ev (Inl e)]" "\<not> (\<exists>x. r = Inr x)" by (auto simp: bindE_def mapErrE_def)
      then show ?thesis by auto
    next
      case (Inr u)
      with run Some y have "n (s1, l @ [ev (Inr u)]) = Some (r, (s', l'))" by (simp add: bindE_def mapErrE_def)
      from followsD [OF assms this] obtain new where "l' = l @ ev (Inr u) # new" "scriptRun evs new (\<exists>x. r = Inr x)"
        by auto
      then show ?thesis by auto
    qed
  qed
qed

lemmas follows_rules = follows_retE follows_last follows_then

end
