(* ===== verification/Broker.thy ===== *)
theory Broker
  imports Paths Ports "HOL-Library.AList"
begin

text \<open>
  The message broker client (\<open>internal/infra/mq\<close>): one connection that is dialed again when it
  has died, channels that are opened again when they have, consumers and producers over them.
  The AMQP library, the tracing propagator and the wall clock are the parameter \<open>amqpLib\<close>: an
  operation per library call, over a state that any of them may change. What the program itself
  keeps is the record \<open>broker\<close>; the objects \<open>RabbitMqChannel\<close> are addressed by numbers, so that
  two owners of one object share it.
\<close>

section \<open>Configuration\<close>

record exchangeConfig =
  exName :: string
  exKind :: string
  exDurable :: bool
  exAutoDelete :: bool
  exInternal :: bool
  exNoWait :: bool

record queueConfig =
  quName :: string
  quDurable :: bool
  quAutoDelete :: bool
  quExclusive :: bool
  quNoWait :: bool

record bindingConfig =
  biExchangeName :: string
  biRoutingKey :: string
  biNoWait :: bool

record publishConfig =
  pcMandatory :: bool
  pcImmediate :: bool

record consumeConfig =
  ccConsumer :: string
  ccAutoAck :: bool
  ccExclusive :: bool
  ccNoLocal :: bool
  ccNoWait :: bool

record rabbitMqProducerConfig =
  rpExchange :: exchangeConfig
  rpPublish :: publishConfig

record rabbitMqConsumerConfig =
  rcQueue :: queueConfig
  rcBinding :: bindingConfig
  rcConsume :: consumeConfig

record rabbitMqConfig =
  rmUsername :: string
  rmPassword :: string
  rmHost :: string
  rmPort :: int
  rmCleaning :: rabbitMqProducerConfig
  rmGuestCommunication :: rabbitMqProducerConfig
  rmHourChange :: rabbitMqConsumerConfig
  rmDayChange :: rabbitMqConsumerConfig

section \<open>The library\<close>

type_synonym handle = nat

datatype deliveryMode = Transient | Persistent

record publishing =
  puContentType :: string
  puBody :: string
  puDeliveryMode :: deliveryMode
  puHeaders :: "(string \<times> string) list"
  puTimestamp :: gotime

text \<open>
  \<open>amSleep\<close> is \<open>time.Sleep\<close>, \<open>amNow\<close> is \<open>time.Now\<close>, \<open>amCarrier\<close> is what the propagator injects
  when the span has a trace identifier, \<open>amMarshal\<close> is \<open>proto.Marshal\<close>.
\<close>

record 's amqpLib =
  amUri :: "string \<Rightarrow> string \<Rightarrow> string \<Rightarrow> string \<Rightarrow> int \<Rightarrow> string"
  amDial :: "string \<Rightarrow> ('s, handle) io"
  amSleep :: "int \<Rightarrow> 's \<Rightarrow> 's"
  amConnIsClosed :: "handle \<Rightarrow> 's \<Rightarrow> (bool \<times> 's) option"
  amConnClose :: "handle \<Rightarrow> ('s, unit) io"
  amChannel :: "handle \<Rightarrow> ('s, handle) io"
  amChanIsClosed :: "handle \<Rightarrow> 's \<Rightarrow> (bool \<times> 's) option"
  amChanClose :: "handle \<Rightarrow> ('s, unit) io"
  amQueueDeclare :: "handle \<Rightarrow> string \<Rightarrow> bool \<Rightarrow> bool \<Rightarrow> bool \<Rightarrow> bool \<Rightarrow> ('s, string) io"
  amQueueBind :: "handle \<Rightarrow> string \<Rightarrow> string \<Rightarrow> string \<Rightarrow> bool \<Rightarrow> ('s, unit) io"
  amConsume :: "handle \<Rightarrow> string \<Rightarrow> string \<Rightarrow> bool \<Rightarrow> bool \<Rightarrow> bool \<Rightarrow> bool \<Rightarrow> ('s, handle) io"
  amExchangeDeclare :: "handle \<Rightarrow> string \<Rightarrow> string \<Rightarrow> bool \<Rightarrow> bool \<Rightarrow> bool \<Rightarrow> bool \<Rightarrow> ('s, unit) io"
  amPublish :: "handle \<Rightarrow> string \<Rightarrow> string \<Rightarrow> bool \<Rightarrow> bool \<Rightarrow> publishing \<Rightarrow> ('s, unit) io"
  amCarrier :: "'s \<Rightarrow> (string \<times> string) list option"
  amNow :: "'s \<Rightarrow> gotime"
  amMarshal :: "protoMessage \<Rightarrow> gerr + string"

section \<open>State\<close>

text \<open>
  \<open>bkConn\<close>, \<open>bkClosed\<close>, \<open>bkCfg\<close>: the fields of the one \<open>RabbitMqConnection\<close>. \<open>bkChannels\<close>,
  \<open>bkQueues\<close>, \<open>bkExchanges\<close>: the fields that the operations change of the channel, consumer and
  producer objects; \<open>bkNext\<close> is the next free address.
\<close>

record 's broker =
  bkConn :: "handle option"
  bkClosed :: bool
  bkCfg :: rabbitMqConfig
  bkChannels :: "nat \<Rightarrow> handle option"
  bkQueues :: "nat \<Rightarrow> string option"
  bkExchanges :: "nat \<Rightarrow> string \<times> string"
  bkNext :: nat
  bkWorld :: 's

definition readE :: "('s \<Rightarrow> 'a) \<Rightarrow> ('s, 'a) io" where
  "readE f = (\<lambda>s. Some (Inr (f s), s))"

definition modE :: "('s \<Rightarrow> 's) \<Rightarrow> ('s, unit) io" where
  "modE f = (\<lambda>s. Some (Inr (), f s))"

definition onWorld :: "('s, 'a) io \<Rightarrow> ('s broker, 'a) io" where
  "onWorld m = (\<lambda>b. case m (bkWorld b) of None \<Rightarrow> None | Some (r, w) \<Rightarrow> Some (r, b\<lparr>bkWorld := w\<rparr>))"

section \<open>The connection\<close>

definition rabbitDialAttempts :: nat where "rabbitDialAttempts = 5"

definition rabbitDialBackoff :: int where "rabbitDialBackoff = 2 * 1000000000"

definition connectionClosed :: gerr where
  "connectionClosed = Errorf ''rabbitmq connection closed'' []"

definition dialFailed :: "gerr option \<Rightarrow> gerr" where
  "dialFailed lastErr = (let f = ''dial rabbitmq after %d attempts: %w''; as = [FInt (int rabbitDialAttempts)] in
     case lastErr of None \<Rightarrow> Errorf f as | Some e \<Rightarrow> Wrapf f as e)"

fun dialLoop :: "'s amqpLib \<Rightarrow> string \<Rightarrow> nat list \<Rightarrow> gerr option \<Rightarrow> ('s broker, unit) io" where
  "dialLoop a uri [] lastErr = failE (dialFailed lastErr)"
| "dialLoop a uri (attempt # rest) lastErr =
     bindE (attemptE (onWorld (amDial a uri))) (\<lambda>r. case r of
       Inr conn \<Rightarrow> modE (\<lambda>b. b\<lparr>bkConn := Some conn\<rparr>)
     | Inl e \<Rightarrow> thenE (if attempt < rabbitDialAttempts
           then modE (\<lambda>b. b\<lparr>bkWorld := amSleep a rabbitDialBackoff (bkWorld b)\<rparr>) else retE ())
         (dialLoop a uri rest (Some e)))"

definition brokerUri :: "'s amqpLib \<Rightarrow> rabbitMqConfig \<Rightarrow> string" where
  "brokerUri a cfg = amUri a ''amqp'' (rmUsername cfg) (rmPassword cfg) (rmHost cfg) (rmPort cfg)"

definition reconnectLocked :: "'s amqpLib \<Rightarrow> ('s broker, unit) io" where
  "reconnectLocked a = bindE (readE bkClosed) (\<lambda>closed. if closed then failE connectionClosed
     else bindE (readE bkCfg) (\<lambda>cfg. dialLoop a (brokerUri a cfg) [1..<Suc rabbitDialAttempts] None))"

definition NewRabbitMqConnection :: "'s amqpLib \<Rightarrow> rabbitMqConfig \<Rightarrow> ('s broker, unit) io" where
  "NewRabbitMqConnection a cfg =
     thenE (modE (\<lambda>b. b\<lparr>bkConn := None, bkClosed := False, bkCfg := cfg\<rparr>)) (reconnectLocked a)"

definition IsConnectionOpen :: "'s amqpLib \<Rightarrow> ('s broker, bool) io" where
  "IsConnectionOpen a = bindE (readE bkConn) (\<lambda>conn. case conn of
     None \<Rightarrow> retE False
   | Some c \<Rightarrow> bindE (onWorld (pickE (amConnIsClosed a c))) (\<lambda>isClosed. retE (\<not> isClosed)))"

definition rabbitClose :: "'s amqpLib \<Rightarrow> ('s broker, unit) io" where
  "rabbitClose a = thenE (modE (\<lambda>b. b\<lparr>bkClosed := True\<rparr>)) (bindE (readE bkConn) (\<lambda>conn. case conn of
     None \<Rightarrow> retE ()
   | Some c \<Rightarrow> bindE (onWorld (pickE (amConnIsClosed a c))) (\<lambda>isClosed.
       if isClosed then retE () else onWorld (amConnClose a c))))"

text \<open>The test of \<open>openConnection\<close> is the one of \<open>IsConnectionOpen\<close>, inside the lock.\<close>

definition openConnection :: "'s amqpLib \<Rightarrow> ('s broker, handle option) io" where
  "openConnection a = bindE (readE bkClosed) (\<lambda>closed. if closed then failE connectionClosed
     else bindE (IsConnectionOpen a) (\<lambda>live. if live then readE bkConn
       else thenE (reconnectLocked a) (readE bkConn)))"

section \<open>Channels\<close>

definition setChannel :: "nat \<Rightarrow> handle \<Rightarrow> ('s broker, unit) io" where
  "setChannel p ch = modE (\<lambda>b. b\<lparr>bkChannels := (bkChannels b)(p := Some ch)\<rparr>)"

definition openChannel :: "'s amqpLib \<Rightarrow> nat \<Rightarrow> ('s broker, unit) io" where
  "openChannel a p = bindE (openConnection a) (\<lambda>conn. bindE (derefE conn) (\<lambda>c.
     bindE (attemptE (onWorld (amChannel a c))) (\<lambda>r. case r of
       Inr ch \<Rightarrow> setChannel p ch
     | Inl e \<Rightarrow> bindE (onWorld (pickE (amConnIsClosed a c))) (\<lambda>isClosed.
         if \<not> isClosed then failE e
         else bindE (openConnection a) (\<lambda>conn'. bindE (derefE conn') (\<lambda>c'.
           bindE (onWorld (amChannel a c')) (\<lambda>ch. setChannel p ch)))))))"

definition reopenChannel :: "'s amqpLib \<Rightarrow> nat \<Rightarrow> ('s broker, unit) io" where
  "reopenChannel a p = mapErrE (UnexpectedErr ''unexpected error when reopening channel'') (openChannel a p)"

text \<open>The test \<open>r.channel == nil \<or> r.channel.IsClosed()\<close>.\<close>

definition channelDown :: "'s amqpLib \<Rightarrow> nat \<Rightarrow> ('s broker, bool) io" where
  "channelDown a p = bindE (readE (\<lambda>b. bkChannels b p)) (\<lambda>ch. case ch of
     None \<Rightarrow> retE True
   | Some c \<Rightarrow> onWorld (pickE (amChanIsClosed a c)))"

definition ensureChannel :: "'s amqpLib \<Rightarrow> nat \<Rightarrow> ('s broker, unit) io" where
  "ensureChannel a p = bindE (channelDown a p) (\<lambda>down. if down then reopenChannel a p else retE ())"

definition channelOf :: "nat \<Rightarrow> ('s broker, handle) io" where
  "channelOf p = bindE (readE (\<lambda>b. bkChannels b p)) derefE"

definition CloseChannel :: "'s amqpLib \<Rightarrow> nat \<Rightarrow> ('s broker, unit) io" where
  "CloseChannel a p = bindE (channelDown a p) (\<lambda>down. if down then retE ()
     else bindE (channelOf p) (\<lambda>ch. onWorld (amChanClose a ch)))"

text \<open>\<open>NewRabbitMqChannel\<close> allocates the object; the address is its identity.\<close>

definition NewRabbitMqChannel :: "('s broker, nat) io" where
  "NewRabbitMqChannel = bindE (readE bkNext) (\<lambda>p. thenE (modE (\<lambda>b. b\<lparr>bkNext := Suc p,
     bkChannels := (bkChannels b)(p := None)\<rparr>)) (retE p))"

section \<open>Consumers\<close>

text \<open>The verb \<open>%q\<close> on a string of printable characters.\<close>

definition goQuote :: "string \<Rightarrow> string" where
  "goQuote s = [CHR 0x22] @ concat (map (\<lambda>c. if c = CHR 0x22 \<or> c = CHR 0x5C then [CHR 0x5C, c] else [c]) s) @ [CHR 0x22]"

record rabbitmqConsumer =
  coChannel :: nat
  coConsume :: consumeConfig

definition NewRabbitmqConsumer :: "'s amqpLib \<Rightarrow> consumeConfig \<Rightarrow> ('s broker, rabbitmqConsumer) io" where
  "NewRabbitmqConsumer a cc = bindE NewRabbitMqChannel (\<lambda>p.
     thenE (modE (\<lambda>b. b\<lparr>bkQueues := (bkQueues b)(p := None)\<rparr>))
     (thenE (openChannel a p) (retE \<lparr>coChannel = p, coConsume = cc\<rparr>)))"

definition DeclareQueue :: "'s amqpLib \<Rightarrow> rabbitmqConsumer \<Rightarrow> queueConfig \<Rightarrow> ('s broker, unit) io" where
  "DeclareQueue a c q = thenE (ensureChannel a (coChannel c)) (bindE (channelOf (coChannel c)) (\<lambda>ch.
     bindE (mapErrE (Wrapf ''declare queue %q: %w'' [FStr (quName q)])
         (onWorld (amQueueDeclare a ch (quName q) (quDurable q) (quAutoDelete q) (quExclusive q) (quNoWait q))))
       (\<lambda>name. modE (\<lambda>b. b\<lparr>bkQueues := (bkQueues b)(coChannel c := Some name)\<rparr>))))"

definition BindQueue :: "'s amqpLib \<Rightarrow> rabbitmqConsumer \<Rightarrow> bindingConfig \<Rightarrow> ('s broker, unit) io" where
  "BindQueue a c bi = thenE (ensureChannel a (coChannel c)) (bindE (readE (\<lambda>b. bkQueues b (coChannel c))) (\<lambda>queue.
     case queue of
       None \<Rightarrow> failE (Errorf ''queue not declared'' [])
     | Some q \<Rightarrow> if biExchangeName bi = '''' then failE (Errorf ''exchange name is required'' [])
         else bindE (channelOf (coChannel c)) (\<lambda>ch.
           mapErrE (Wrapf ''bind queue %q to exchange %q with routing key %q: %w''
               [FStr q, FStr (biExchangeName bi), FStr (biRoutingKey bi)])
             (onWorld (amQueueBind a ch q (biRoutingKey bi) (biExchangeName bi) (biNoWait bi))))))"

definition Consume :: "'s amqpLib \<Rightarrow> rabbitmqConsumer \<Rightarrow> ('s broker, handle) io" where
  "Consume a c = bindE (readE (\<lambda>b. bkChannels b (coChannel c))) (\<lambda>ch0.
     thenE (if ch0 = None then reopenChannel a (coChannel c) else retE ())
     (bindE (channelOf (coChannel c)) (\<lambda>ch. bindE (bindE (readE (\<lambda>b. bkQueues b (coChannel c))) derefE) (\<lambda>q.
       mapErrE (UnexpectedErr (''start consuming queue '' @ goQuote q))
         (onWorld (amConsume a ch q (ccConsumer (coConsume c)) (ccAutoAck (coConsume c))
           (ccExclusive (coConsume c)) (ccNoLocal (coConsume c)) (ccNoWait (coConsume c))))))))"

section \<open>Producers\<close>

record rabbitmqProducer =
  prChannel :: nat
  prPublish :: publishConfig

definition NewRabbitmqProducer :: "'s amqpLib \<Rightarrow> publishConfig \<Rightarrow> ('s broker, rabbitmqProducer) io" where
  "NewRabbitmqProducer a pc = bindE NewRabbitMqChannel (\<lambda>p.
     thenE (modE (\<lambda>b. b\<lparr>bkExchanges := (bkExchanges b)(p := ('''', ''''))\<rparr>))
     (thenE (openChannel a p) (retE \<lparr>prChannel = p, prPublish = pc\<rparr>)))"

definition DeclareExchange :: "'s amqpLib \<Rightarrow> rabbitmqProducer \<Rightarrow> exchangeConfig \<Rightarrow> ('s broker, unit) io" where
  "DeclareExchange a p ex = (let kind = if exKind ex = '''' then ''direct'' else exKind ex in
     thenE (modE (\<lambda>b. b\<lparr>bkExchanges := (bkExchanges b)(prChannel p := (exName ex, kind))\<rparr>))
     (thenE (ensureChannel a (prChannel p)) (bindE (channelOf (prChannel p)) (\<lambda>ch.
       mapErrE (Wrapf ''declare exchange %q: %w'' [FStr (exName ex)])
         (onWorld (amExchangeDeclare a ch (exName ex) kind (exDurable ex) (exAutoDelete ex) (exInternal ex) (exNoWait ex)))))))"

fun messageType :: "protoMessage \<Rightarrow> string" where
  "messageType (MsgCleaningRequest _) = ''staff.CleaningRequest''"
| "messageType (MsgCheckInToday _) = ''lodging.v1.CheckInTodayNotification''"

definition messageHeaders :: "(string \<times> string) list option \<Rightarrow> protoMessage \<Rightarrow> (string \<times> string) list" where
  "messageHeaders carrier m = AList.update ''message_type'' (messageType m)
     (case carrier of None \<Rightarrow> [] | Some kvs \<Rightarrow> fold (\<lambda>(k, v). AList.update k v) kvs [])"

definition newPublishing :: "'s amqpLib \<Rightarrow> protoMessage \<Rightarrow> string \<Rightarrow> 's \<Rightarrow> publishing" where
  "newPublishing a m payload w = \<lparr>puContentType = ''application/protobuf'', puBody = payload,
     puDeliveryMode = Persistent, puHeaders = messageHeaders (amCarrier a w) m, puTimestamp = amNow a w\<rparr>"

definition Publish :: "'s amqpLib \<Rightarrow> rabbitmqProducer \<Rightarrow> protoMessage \<Rightarrow> string \<Rightarrow> ('s broker, unit) io" where
  "Publish a p m key = thenE (ensureChannel a (prChannel p)) (case amMarshal a m of
     Inl e \<Rightarrow> failE (UnexpectedErr ''failed to marshal message'' e)
   | Inr payload \<Rightarrow> bindE (channelOf (prChannel p)) (\<lambda>ch.
       bindE (readE (\<lambda>b. (fst (bkExchanges b (prChannel p)), newPublishing a m payload (bkWorld b)))) (\<lambda>(exchange, msg).
         mapErrE (UnexpectedErr ''failed to publish message'')
           (onWorld (amPublish a ch exchange key (pcMandatory (prPublish p)) (pcImmediate (prPublish p)) msg)))))"

text \<open>The producer as a value of the interface \<open>port.MqPublisher\<close> the services use.\<close>

definition brokerPublisher :: "'s amqpLib \<Rightarrow> rabbitmqProducer \<Rightarrow> 's broker mqPublisher" where
  "brokerPublisher a p = \<lparr>pubPublish = Publish a p\<rparr>"

end
