(* ===== verification/BrokerRun.thy ===== *)
theory BrokerRun
  imports Broker
begin

text \<open>
  What the broker client does to the library: the recorded calls, the connections that are open
  after them, and the states a client reaches by any operations in any order.
\<close>

section \<open>Recorded library calls\<close>

datatype brokerCall =
    BDial string "gerr + handle"
  | BSleep int
  | BConnIsClosed handle bool
  | BConnClose handle "gerr + unit"
  | BChannel handle "gerr + handle"
  | BChanIsClosed handle bool
  | BChanClose handle "gerr + unit"
  | BQueueDeclare handle string "gerr + string"
  | BQueueBind handle string string string "gerr + unit"
  | BConsume handle string "gerr + handle"
  | BExchangeDeclare handle string string "gerr + unit"
  | BPublish handle string string publishing "gerr + unit"

definition logAmqp :: "'s amqpLib \<Rightarrow> ('s \<times> brokerCall list) amqpLib" where
  "logAmqp a = \<lparr>amUri = amUri a,
     amDial = (\<lambda>u. logged (BDial u) (amDial a u)),
     amSleep = (\<lambda>d. loggedDo (BSleep d) (amSleep a d)),
     amConnIsClosed = (\<lambda>c. loggedPick (BConnIsClosed c) (amConnIsClosed a c)),
     amConnClose = (\<lambda>c. logged (BConnClose c) (amConnClose a c)),
     amChannel = (\<lambda>c. logged (BChannel c) (amChannel a c)),
     amChanIsClosed = (\<lambda>c. loggedPick (BChanIsClosed c) (amChanIsClosed a c)),
     amChanClose = (\<lambda>c. logged (BChanClose c) (amChanClose a c)),
     amQueueDeclare = (\<lambda>c n d ad ex nw. logged (BQueueDeclare c n) (amQueueDeclare a c n d ad ex nw)),
     amQueueBind = (\<lambda>c q k e nw. logged (BQueueBind c q k e) (amQueueBind a c q k e nw)),
     amConsume = (\<lambda>c q n aa ex nl nw. logged (BConsume c q) (amConsume a c q n aa ex nl nw)),
     amExchangeDeclare = (\<lambda>c n k d ad i nw. logged (BExchangeDeclare c n k) (amExchangeDeclare a c n k d ad i nw)),
     amPublish = (\<lambda>c e k ma im msg. logged (BPublish c e k msg) (amPublish a c e k ma im msg)),
     amCarrier = (\<lambda>s. amCarrier a (fst s)),
     amNow = (\<lambda>s. amNow a (fst s)),
     amMarshal = amMarshal a\<rparr>"

lemma amqp_sel [simp]:
  "amUri (logAmqp a) = amUri a"
  "amDial (logAmqp a) u = logged (BDial u) (amDial a u)"
  "amSleep (logAmqp a) t = loggedDo (BSleep t) (amSleep a t)"
  "amConnIsClosed (logAmqp a) c = loggedPick (BConnIsClosed c) (amConnIsClosed a c)"
  "amConnClose (logAmqp a) c = logged (BConnClose c) (amConnClose a c)"
  "amChannel (logAmqp a) c = logged (BChannel c) (amChannel a c)"
  "amChanIsClosed (logAmqp a) c = loggedPick (BChanIsClosed c) (amChanIsClosed a c)"
  "amChanClose (logAmqp a) c = logged (BChanClose c) (amChanClose a c)"
  "amQueueDeclare (logAmqp a) c n d ad ex nw = logged (BQueueDeclare c n) (amQueueDeclare a c n d ad ex nw)"
  "amQueueBind (logAmqp a) c q k e nw = logged (BQueueBind c q k e) (amQueueBind a c q k e nw)"
  "amConsume (logAmqp a) c q nm aa ex nl nw = logged (BConsume c q) (amConsume a c q nm aa ex nl nw)"
  "amExchangeDeclare (logAmqp a) c n k d ad i nw = logged (BExchangeDeclare c n k) (amExchangeDeclare a c n k d ad i nw)"
  "amPublish (logAmqp a) c e k ma im msg = logged (BPublish c e k msg) (amPublish a c e k ma im msg)"
  "amCarrier (logAmqp a) s = amCarrier a (fst s)"
  "amNow (logAmqp a) s = amNow a (fst s)"
  "amMarshal (logAmqp a) = amMarshal a"
  by (simp_all add: logAmqp_def)

abbreviation calls :: "('s \<times> brokerCall list) broker \<Rightarrow> brokerCall list" where
  "calls b \<equiv> snd (bkWorld b)"

text \<open>
  The connections dialed and neither given to \<open>Close\<close> nor seen closed since.
\<close>

fun openAfter :: "handle set \<Rightarrow> brokerCall \<Rightarrow> handle set" where
  "openAfter H (BDial _ (Inr c)) = insert c H"
| "openAfter H (BConnIsClosed c True) = H - {c}"
| "openAfter H (BConnClose c _) = H - {c}"
| "openAfter H _ = H"

definition openConns :: "brokerCall list \<Rightarrow> handle set" where
  "openConns l = foldl openAfter {} l"

lemma openConns_Nil [simp]: "openConns [] = {}"
  by (simp add: openConns_def)

lemma openConns_append [simp]: "openConns (l @ m) = foldl openAfter (openConns l) m"
  by (simp add: openConns_def)

section \<open>One connection\<close>

text \<open>
  Every connection still open is the one the program holds, and none is once it was closed.
\<close>

definition oneConn :: "('s \<times> brokerCall list) broker \<Rightarrow> bool" where
  "oneConn b \<longleftrightarrow> openConns (calls b) \<subseteq> (if bkClosed b then {} else set_option (bkConn b))"

definition conn_kept :: "('s \<times> brokerCall list) broker \<Rightarrow> ('s \<times> brokerCall list) broker \<Rightarrow> bool" where
  "conn_kept b b' \<longleftrightarrow> (oneConn b \<longrightarrow> oneConn b') \<and> (bkClosed b \<longrightarrow> bkClosed b' \<and> bkConn b' = bkConn b)"

interpretation bc: frame conn_kept
  by unfold_locales (auto simp: conn_kept_def)

lemma readE_Some [simp]: "readE f s = Some (r, s') \<longleftrightarrow> r = Inr (f s) \<and> s' = s"
  by (auto simp: readE_def)

lemma modE_Some [simp]: "modE f s = Some (r, s') \<longleftrightarrow> r = Inr () \<and> s' = f s"
  by (auto simp: modE_def)

lemma onWorld_Some: "onWorld m b = Some (r, b') \<longleftrightarrow> (\<exists>w. m (bkWorld b) = Some (r, w) \<and> b' = b\<lparr>bkWorld := w\<rparr>)"
  by (auto simp: onWorld_def split: option.splits)

text \<open>A library call other than dialing.\<close>

lemma kept_logged:
  assumes "\<And>H r. openAfter H (ev r) \<subseteq> H"
  shows "keeps conn_kept (onWorld (logged ev m))"
  by (rule keepsI) (use assms in \<open>fastforce simp: onWorld_Some logged_Some conn_kept_def oneConn_def\<close>)

lemma kept_pick:
  assumes "\<And>H x. openAfter H (ev x) \<subseteq> H"
  shows "keeps conn_kept (onWorld (pickE (loggedPick ev g)))"
  by (rule keepsI) (use assms in \<open>fastforce simp: onWorld_Some pickE_def loggedPick_def conn_kept_def oneConn_def
      split: option.splits prod.splits\<close>)

lemma kept_mod:
  assumes "\<And>b. bkConn (f b) = bkConn b \<and> bkClosed (f b) = bkClosed b \<and> bkWorld (f b) = bkWorld b"
  shows "keeps conn_kept (modE f)"
  by (rule keepsI) (use assms in \<open>auto simp: conn_kept_def oneConn_def\<close>)

lemma kept_read: "keeps conn_kept (readE f)"
  by (rule keepsI) (auto simp: conn_kept_def)

lemma kept_deref: "keeps conn_kept (derefE p)"
  by (cases p) (auto simp: derefE_def intro: bc.keeps_retE bc.keeps_failE)

lemma openAfter_isClosed: "openAfter H (BConnIsClosed c x) \<subseteq> H"
  by (cases x) auto

lemma kept_isClosed: "keeps conn_kept (onWorld (pickE (loggedPick (BConnIsClosed c) g)))"
  by (rule kept_pick) (rule openAfter_isClosed)

text \<open>
  Dialing: the failures so far are followed by a wait each, the fifth ends the attempts.
\<close>

definition dialWaits :: "string \<Rightarrow> gerr list \<Rightarrow> brokerCall list" where
  "dialWaits uri es = concat (map (\<lambda>e. [BDial uri (Inl e), BSleep rabbitDialBackoff]) es)"

definition dialed :: "string \<Rightarrow> ('s \<times> brokerCall list) broker \<Rightarrow> gerr + unit \<Rightarrow> ('s \<times> brokerCall list) broker \<Rightarrow> gerr list \<Rightarrow> bool" where
  "dialed uri b r b' es \<longleftrightarrow> bkClosed b' = bkClosed b \<and> bkCfg b' = bkCfg b \<and>
     (case r of
       Inr _ \<Rightarrow> length es < rabbitDialAttempts \<and>
         (\<exists>c. bkConn b' = Some c \<and> calls b' = calls b @ dialWaits uri es @ [BDial uri (Inr c)])
     | Inl e \<Rightarrow> length es = rabbitDialAttempts \<and> e = dialFailed (Some (last es)) \<and> bkConn b' = bkConn b \<and>
         calls b' = calls b @ dialWaits uri (butlast es) @ [BDial uri (Inl (last es))])"

lemma openConns_waits [simp]: "foldl openAfter H (dialWaits uri es) = H"
  by (induction es) (simp_all add: dialWaits_def)

lemma dialLoop_one:
  "dialLoop (logAmqp a) uri (n # ns) le b = (case amDial a uri (fst (bkWorld b)) of
      None \<Rightarrow> None
    | Some (Inr c, w) \<Rightarrow> Some (Inr (), b\<lparr>bkWorld := (w, calls b @ [BDial uri (Inr c)]), bkConn := Some c\<rparr>)
    | Some (Inl e, w) \<Rightarrow> if n < rabbitDialAttempts
        then dialLoop (logAmqp a) uri ns (Some e) (b\<lparr>bkWorld := (amSleep a rabbitDialBackoff w,
          calls b @ [BDial uri (Inl e), BSleep rabbitDialBackoff])\<rparr>)
        else dialLoop (logAmqp a) uri ns (Some e) (b\<lparr>bkWorld := (w, calls b @ [BDial uri (Inl e)])\<rparr>))"
  by (cases "bkWorld b") (auto simp: bindE_def attemptE_def onWorld_def modE_def loggedDo_def split: option.splits sum.splits)

lemmas dialLoop_none = dialLoop.simps(1)

declare dialLoop.simps [simp del]

lemma dialLoop_dialed:
  assumes "dialLoop (logAmqp a) uri [n..<Suc rabbitDialAttempts] le b = Some (r, b')"
    and "0 < n" and "n \<le> rabbitDialAttempts" and "length es = n - 1"
    and "calls b = l @ dialWaits uri es"
  shows "\<exists>es'. length (es @ es') \<le> rabbitDialAttempts \<and> dialed uri (b\<lparr>bkWorld := (w, l)\<rparr>) r b' (es @ es')"
  using assms
proof (induction "rabbitDialAttempts - n" arbitrary: n le b es)
  case 0
  then have n: "n = rabbitDialAttempts" by simp
  show ?case
  proof (cases "amDial a uri (fst (bkWorld b))")
    case None
    with 0 n show ?thesis by (simp add: dialLoop_one dialLoop_none)
  next
    case (Some y)
    obtain x w1 where "y = (x, w1)" by fastforce
    with Some 0 n show ?thesis
      by (cases x) (auto simp: dialLoop_one dialLoop_none dialed_def rabbitDialAttempts_def intro: exI [of _ "[]"] exI [of _ "[_]"])
  qed
next
  case (Suc k)
  then have n: "n < rabbitDialAttempts" and up: "[n..<Suc rabbitDialAttempts] = n # [Suc n..<Suc rabbitDialAttempts]"
    by (simp_all add: upt_conv_Cons)
  show ?case
  proof (cases "amDial a uri (fst (bkWorld b))")
    case None
    with Suc.prems(1) up show ?thesis by (simp add: dialLoop_one dialLoop_none del: upt_Suc)
  next
    case (Some y)
    obtain x w1 where y: "y = (x, w1)" by fastforce
    show ?thesis
    proof (cases x)
      case (Inr c)
      with Some y Suc.prems up n show ?thesis
        by (auto simp: dialLoop_one dialLoop_none dialed_def simp del: upt_Suc intro!: exI [of _ "[]"])
    next
      case (Inl e)
      let ?b = "b\<lparr>bkWorld := (amSleep a rabbitDialBackoff w1, calls b @ [BDial uri (Inl e), BSleep rabbitDialBackoff])\<rparr>"
      have run: "dialLoop (logAmqp a) uri [Suc n..<Suc rabbitDialAttempts] (Some e) ?b = Some (r, b')"
        using Suc.prems(1) n unfolding up by (simp add: dialLoop_one dialLoop_none Some y Inl del: upt_Suc)
      have "\<exists>es'. length ((es @ [e]) @ es') \<le> rabbitDialAttempts \<and> dialed uri (?b\<lparr>bkWorld := (w, l)\<rparr>) r b' ((es @ [e]) @ es')"
        by (rule Suc.hyps(1) [OF _ run]) (use Suc.hyps(2) Suc.prems n in \<open>auto simp: dialWaits_def\<close>)
      then obtain es' where "length (es @ e # es') \<le> rabbitDialAttempts" "dialed uri (b\<lparr>bkWorld := (w, l)\<rparr>) r b' (es @ e # es')" by auto
      then show ?thesis by blast
    qed
  qed
qed

lemma reconnect_closed: "bkClosed b \<Longrightarrow> reconnectLocked a b = Some (Inl connectionClosed, b)"
  by (simp add: reconnectLocked_def bindE_def readE_def)

lemma reconnect_loop: "\<not> bkClosed b \<Longrightarrow> reconnectLocked a b =
    dialLoop a (brokerUri a (bkCfg b)) [1..<Suc rabbitDialAttempts] None b"
  by (simp add: reconnectLocked_def bindE_def readE_def del: upt_Suc)

lemma brokerUri_log [simp]: "brokerUri (logAmqp a) cfg = brokerUri a cfg"
  by (simp add: brokerUri_def)

lemma reconnect_dialed:
  assumes "reconnectLocked (logAmqp a) b = Some (r, b')" and "\<not> bkClosed b"
  shows "\<exists>es. dialed (brokerUri a (bkCfg b)) b r b' es"
proof -
  have "dialLoop (logAmqp a) (brokerUri a (bkCfg b)) [1..<Suc rabbitDialAttempts] None b = Some (r, b')"
    using assms by (simp add: reconnect_loop del: upt_Suc)
  from dialLoop_dialed [OF this, of "[]" "calls b" "fst (bkWorld b)"]
  show ?thesis by (auto simp: rabbitDialAttempts_def dialWaits_def)
qed

lemma openConns_dialed:
  assumes "dialed uri b r b' es"
  shows "openConns (calls b') = openConns (calls b) \<union> (case r of Inl _ \<Rightarrow> {} | Inr _ \<Rightarrow> set_option (bkConn b'))"
  using assms by (auto simp: dialed_def openConns_def split: sum.splits)

lemma reconnect_oneConn:
  assumes run: "reconnectLocked (logAmqp a) b = Some (r, b')" and "openConns (calls b) = {}"
  shows "oneConn b' \<and> (bkClosed b \<longrightarrow> b' = b) \<and> (r = Inr () \<longrightarrow> (\<exists>c. bkConn b' = Some c))"
proof (cases "bkClosed b")
  case True
  with assms show ?thesis by (auto simp: reconnect_closed oneConn_def)
next
  case False
  from reconnect_dialed [OF run False] obtain es where d: "dialed (brokerUri a (bkCfg b)) b r b' es" ..
  with openConns_dialed [OF d] False assms(2) show ?thesis
    by (auto simp: oneConn_def dialed_def split: sum.splits)
qed

lemma isOpen_Some:
  "IsConnectionOpen (logAmqp a) b = Some (r, b') \<longleftrightarrow> (case bkConn b of
      None \<Rightarrow> r = Inr False \<and> b' = b
    | Some c \<Rightarrow> (\<exists>x w. amConnIsClosed a c (fst (bkWorld b)) = Some (x, w) \<and> r = Inr (\<not> x) \<and>
        b' = b\<lparr>bkWorld := (w, calls b @ [BConnIsClosed c x])\<rparr>))"
  by (cases "bkWorld b") (auto simp: IsConnectionOpen_def bindE_def readE_def onWorld_def pickE_def loggedPick_def
      split: option.splits)

lemma kept_openConnection: "keeps conn_kept (openConnection (logAmqp a))"
proof (rule keepsI)
  fix b r b'
  assume run: "openConnection (logAmqp a) b = Some (r, b')"
  show "conn_kept b b'"
  proof (cases "bkClosed b")
    case True
    with run show ?thesis by (simp add: openConnection_def bindE_def readE_def conn_kept_def)
  next
    case open_: False
    with run obtain x b1 where x: "IsConnectionOpen (logAmqp a) b = Some (Inr x, b1)"
      by (auto simp: openConnection_def bindE_Some isOpen_Some split: option.splits)
    show ?thesis
    proof (cases x)
      case True
      with x run open_ have "b' = b1" by (simp add: openConnection_def bindE_def readE_def)
      with x open_ True show ?thesis by (auto simp: isOpen_Some conn_kept_def oneConn_def split: option.splits)
    next
      case False
      with x run open_ obtain r1 where r1: "reconnectLocked (logAmqp a) b1 = Some (r1, b')"
        by (auto simp: openConnection_def bindE_Some readE_def)
      have "openConns (calls b1) = {}" if "oneConn b"
        using that x False open_ by (auto simp: isOpen_Some oneConn_def split: option.splits)
      with reconnect_oneConn [OF r1] open_ show ?thesis by (auto simp: conn_kept_def)
    qed
  qed
qed

lemma openConnection_has: "openConnection a b = Some (Inr conn, b') \<Longrightarrow> bkConn b' = conn"
  by (auto simp: openConnection_def bindE_Some split: if_splits)

lemmas kept_intros = bc.keeps_rules kept_logged kept_isClosed kept_pick kept_mod kept_read kept_deref kept_openConnection

lemma kept_openChannel: "keeps conn_kept (openChannel (logAmqp a) p)"
  unfolding openChannel_def setChannel_def
  by (auto intro!: kept_intros simp: split: sum.splits)

lemma kept_down: "keeps conn_kept (channelDown (logAmqp a) p)"
  unfolding channelDown_def by (auto intro!: kept_intros split: option.splits)

lemma kept_channelOf: "keeps conn_kept (channelOf p)"
  unfolding channelOf_def by (intro kept_intros)

lemma kept_ensure: "keeps conn_kept (ensureChannel (logAmqp a) p)"
  unfolding ensureChannel_def reopenChannel_def by (intro kept_intros kept_down kept_openChannel)

lemma kept_new: "keeps conn_kept NewRabbitMqChannel"
  unfolding NewRabbitMqChannel_def by (auto intro!: kept_intros)

lemmas kept_ops = kept_intros kept_down kept_channelOf kept_ensure kept_new kept_openChannel

lemma kept_CloseChannel: "keeps conn_kept (CloseChannel (logAmqp a) p)"
  unfolding CloseChannel_def by (auto intro!: kept_ops)

lemma kept_NewConsumer: "keeps conn_kept (NewRabbitmqConsumer (logAmqp a) cc)"
  unfolding NewRabbitmqConsumer_def by (auto intro!: kept_ops)

lemma kept_DeclareQueue: "keeps conn_kept (DeclareQueue (logAmqp a) c q)"
  unfolding DeclareQueue_def by (auto intro!: kept_ops)

lemma kept_BindQueue: "keeps conn_kept (BindQueue (logAmqp a) c bi)"
  unfolding BindQueue_def by (auto intro!: kept_ops split: option.splits)

lemma kept_Consume: "keeps conn_kept (Consume (logAmqp a) c)"
  unfolding Consume_def reopenChannel_def by (auto intro!: kept_ops)

lemma kept_NewProducer: "keeps conn_kept (NewRabbitmqProducer (logAmqp a) pc)"
  unfolding NewRabbitmqProducer_def by (auto intro!: kept_ops)

lemma kept_DeclareExchange: "keeps conn_kept (DeclareExchange (logAmqp a) p ex)"
  unfolding DeclareExchange_def Let_def by (auto intro!: kept_ops)

lemma kept_Publish: "keeps conn_kept (Publish (logAmqp a) p m key)"
  unfolding Publish_def by (auto intro!: kept_ops split: sum.splits prod.splits)

lemma kept_isOpen: "keeps conn_kept (IsConnectionOpen (logAmqp a))"
  unfolding IsConnectionOpen_def by (auto intro!: kept_ops split: option.splits)

lemma close_kept:
  assumes "rabbitClose (logAmqp a) b = Some (r, b')"
  shows "bkClosed b' \<and> (oneConn b \<longrightarrow> oneConn b') \<and> bkConn b' = bkConn b"
proof (cases "bkConn b")
  case None
  with assms show ?thesis by (auto simp: rabbitClose_def bindE_Some oneConn_def)
next
  case (Some c)
  with assms show ?thesis
    by (auto simp: rabbitClose_def bindE_Some onWorld_Some pickE_def loggedPick_def logged_Some oneConn_def
        split: option.splits prod.splits if_splits)
qed

lemma kept_close: "keeps conn_kept (rabbitClose (logAmqp a))"
  by (rule keepsI) (auto simp: conn_kept_def dest: close_kept)

lemmas kept_client = kept_isOpen kept_close kept_NewProducer kept_DeclareExchange kept_Publish kept_NewConsumer
  kept_DeclareQueue kept_BindQueue kept_Consume kept_CloseChannel

section \<open>Clients\<close>

text \<open>The states a client of the package reaches from a new connection, by any operations in any order.\<close>

inductive brokerReach :: "'s amqpLib \<Rightarrow> 's broker \<Rightarrow> 's broker \<Rightarrow> bool" for a :: "'s amqpLib" and b0 :: "'s broker" where
  connected: "NewRabbitMqConnection a cfg b0 = Some (Inr (), b) \<Longrightarrow> brokerReach a b0 b"
| is_open: "brokerReach a b0 b \<Longrightarrow> IsConnectionOpen a b = Some (x, b') \<Longrightarrow> brokerReach a b0 b'"
| closed: "brokerReach a b0 b \<Longrightarrow> rabbitClose a b = Some (u, b') \<Longrightarrow> brokerReach a b0 b'"
| producer: "brokerReach a b0 b \<Longrightarrow> NewRabbitmqProducer a pc b = Some (p, b') \<Longrightarrow> brokerReach a b0 b'"
| exchange: "brokerReach a b0 b \<Longrightarrow> DeclareExchange a q ex b = Some (u, b') \<Longrightarrow> brokerReach a b0 b'"
| publish: "brokerReach a b0 b \<Longrightarrow> Publish a q m key b = Some (u, b') \<Longrightarrow> brokerReach a b0 b'"
| consumer: "brokerReach a b0 b \<Longrightarrow> NewRabbitmqConsumer a cc b = Some (c, b') \<Longrightarrow> brokerReach a b0 b'"
| queue: "brokerReach a b0 b \<Longrightarrow> DeclareQueue a d qc b = Some (u, b') \<Longrightarrow> brokerReach a b0 b'"
| bind: "brokerReach a b0 b \<Longrightarrow> BindQueue a d bi b = Some (u, b') \<Longrightarrow> brokerReach a b0 b'"
| consume: "brokerReach a b0 b \<Longrightarrow> Consume a d b = Some (h, b') \<Longrightarrow> brokerReach a b0 b'"
| close_channel: "brokerReach a b0 b \<Longrightarrow> CloseChannel a ch b = Some (u, b') \<Longrightarrow> brokerReach a b0 b'"

lemma connected_oneConn:
  assumes "NewRabbitMqConnection (logAmqp a) cfg b0 = Some (r, b)" and "openConns (calls b0) = {}"
  shows "oneConn b"
  using assms reconnect_oneConn [of a "b0\<lparr>bkConn := None, bkClosed := False, bkCfg := cfg\<rparr>" r b]
  by (auto simp: NewRabbitMqConnection_def bindE_Some)

lemma reach_oneConn:
  assumes "brokerReach (logAmqp a) b0 b" and "openConns (calls b0) = {}"
  shows "oneConn b"
  using assms
  by (induction rule: brokerReach.induct)
    (auto dest: connected_oneConn kept_client [THEN keepsD] simp: conn_kept_def)

section \<open>Calls that only connect\<close>

fun connects :: "brokerCall \<Rightarrow> bool" where
  "connects (BDial _ _) = True"
| "connects (BSleep _) = True"
| "connects (BConnIsClosed _ _) = True"
| "connects (BChannel _ _) = True"
| "connects (BChanIsClosed _ _) = True"
| "connects _ = False"

definition connecting :: "('s \<times> brokerCall list) broker \<Rightarrow> ('s \<times> brokerCall list) broker \<Rightarrow> bool" where
  "connecting b b' \<longleftrightarrow> bkExchanges b' = bkExchanges b \<and>
     (\<exists>new. calls b' = calls b @ new \<and> list_all connects new)"

interpretation cn: frame connecting
  by unfold_locales (auto simp: connecting_def)

lemma connecting_logged:
  "(\<And>r. connects (ev r)) \<Longrightarrow> keeps connecting (onWorld (logged ev m))"
  by (rule keepsI) (auto simp: onWorld_Some logged_Some connecting_def)

lemma connecting_pick:
  "(\<And>x. connects (ev x)) \<Longrightarrow> keeps connecting (onWorld (pickE (loggedPick ev g)))"
  by (rule keepsI) (auto simp: onWorld_Some pickE_def loggedPick_def connecting_def split: option.splits prod.splits)

lemma connecting_mod:
  "(\<And>b. bkExchanges (f b) = bkExchanges b \<and> calls (f b) = calls b) \<Longrightarrow> keeps connecting (modE f)"
  by (rule keepsI) (auto simp: connecting_def)

lemma connecting_read: "keeps connecting (readE f)"
  by (rule keepsI) (auto simp: connecting_def)

lemma connecting_deref: "keeps connecting (derefE p)"
  by (cases p) (auto simp: derefE_def intro: cn.keeps_retE cn.keeps_failE)

lemma connecting_sleep: "keeps connecting (modE (\<lambda>b. b\<lparr>bkWorld := amSleep (logAmqp a) d (bkWorld b)\<rparr>))"
  by (rule keepsI) (auto simp: connecting_def loggedDo_def split: prod.splits)

lemma connecting_setConn: "keeps connecting (modE (\<lambda>b. b\<lparr>bkConn := c\<rparr>))"
  by (rule connecting_mod) simp

lemmas connecting_intros = cn.keeps_rules connecting_logged connecting_pick connecting_mod connecting_read
  connecting_deref connecting_sleep

lemma connecting_dialLoop: "keeps connecting (dialLoop (logAmqp a) uri ns le)"
  by (induction ns arbitrary: le)
    (auto intro!: cn.keeps_rules connecting_logged connecting_sleep connecting_setConn simp: dialLoop.simps
      simp del: amqp_sel(3) split: sum.splits)

lemma connecting_openConnection: "keeps connecting (openConnection (logAmqp a))"
  unfolding openConnection_def IsConnectionOpen_def reconnectLocked_def
  by (auto intro!: connecting_intros connecting_dialLoop split: option.splits)

lemma connecting_openChannel: "keeps connecting (openChannel (logAmqp a) p)"
  unfolding openChannel_def setChannel_def
  by (auto intro!: connecting_intros connecting_openConnection split: sum.splits)

lemma connecting_ensure: "keeps connecting (ensureChannel (logAmqp a) p)"
  unfolding ensureChannel_def reopenChannel_def channelDown_def
  by (auto intro!: connecting_intros connecting_openChannel split: option.splits)

text \<open>\<open>ends Q m\<close>: \<open>m\<close> succeeds only in states that satisfy \<open>Q\<close>; it is enough to look at its last operation.\<close>

definition ends :: "('s \<Rightarrow> bool) \<Rightarrow> ('s, 'a) io \<Rightarrow> bool" where
  "ends Q m \<longleftrightarrow> (\<forall>s x s'. m s = Some (Inr x, s') \<longrightarrow> Q s')"

lemma endsD: "ends Q m \<Longrightarrow> m s = Some (Inr x, s') \<Longrightarrow> Q s'"
  by (auto simp: ends_def)

lemma ends_bind: "(\<And>x. ends Q (f x)) \<Longrightarrow> ends Q (bindE m f)"
  by (auto simp: ends_def bindE_Some)

lemma ends_fail: "ends Q (failE e)"
  by (simp add: ends_def)

lemma ends_mapErr: "ends Q m \<Longrightarrow> ends Q (mapErrE h m)"
  by (auto simp: ends_def)

lemma ends_if: "ends Q m \<Longrightarrow> ends Q n \<Longrightarrow> ends Q (if c then m else n)"
  by simp

lemma openChannel_has: "ends (\<lambda>b. \<exists>ch. bkChannels b p = Some ch) (openChannel a p)"
proof -
  have set: "ends (\<lambda>b. \<exists>ch. bkChannels b p = Some ch) (setChannel p ch)" for ch
    by (simp add: ends_def setChannel_def)
  show ?thesis
    unfolding openChannel_def by (auto intro!: ends_bind ends_fail set split: sum.splits)
qed

lemma ensureChannel_has:
  assumes "ensureChannel a p b = Some (Inr (), b')"
  shows "\<exists>ch. bkChannels b' p = Some ch"
proof -
  from assms obtain down b1 where d: "channelDown a p b = Some (Inr down, b1)"
    and rest: "(if down then reopenChannel a p else retE ()) b1 = Some (Inr (), b')"
    by (auto simp: ensureChannel_def bindE_Some)
  show ?thesis
  proof (cases down)
    case True
    with rest show ?thesis by (auto simp: reopenChannel_def dest: endsD [OF openChannel_has])
  next
    case False
    with d rest show ?thesis by (auto simp: channelDown_def bindE_Some onWorld_Some split: option.splits)
  qed
qed

text \<open>Dialing returns when every dial does.\<close>

lemma dialLoop_total:
  assumes "\<And>s. amDial a uri s \<noteq> None"
  shows "dialLoop a uri ns le b \<noteq> None"
proof (induction ns arbitrary: le b)
  case (Cons n ns)
  obtain r w where "amDial a uri (bkWorld b) = Some (r, w)" using assms by fast
  with Cons show ?case by (cases r) (auto simp: dialLoop.simps bindE_def attemptE_def onWorld_def modE_def)
qed (simp add: dialLoop.simps)

section \<open>Properties\<close>

text \<open>C19: connecting makes at most five dials and returns when they do: it stops at the first that
  succeeds, waits two seconds after each failure but the fifth, and after five failures reports the
  last one. The connection it holds afterwards is the one just dialed, or the one it had.\<close>

theorem reconnect_dials:
  assumes "\<not> bkClosed b" and "\<And>s. amDial a (brokerUri a (bkCfg b)) s \<noteq> None"
  shows "\<exists>r b' es. reconnectLocked (logAmqp a) b = Some (r, b') \<and> (case r of
      Inr _ \<Rightarrow> length es < 5 \<and> (\<exists>c. bkConn b' = Some c \<and>
        calls b' = calls b @ dialWaits (brokerUri a (bkCfg b)) es @ [BDial (brokerUri a (bkCfg b)) (Inr c)])
    | Inl e \<Rightarrow> length es = 5 \<and> bkConn b' = bkConn b \<and>
        e = Wrapf ''dial rabbitmq after %d attempts: %w'' [FInt 5] (last es) \<and>
        calls b' = calls b @ dialWaits (brokerUri a (bkCfg b)) (butlast es) @ [BDial (brokerUri a (bkCfg b)) (Inl (last es))])"
proof -
  have "amDial (logAmqp a) (brokerUri a (bkCfg b)) s \<noteq> None" for s
    using assms(2) [of "fst s"] by (cases s) auto
  with assms(1) have "reconnectLocked (logAmqp a) b \<noteq> None" by (simp add: reconnect_loop dialLoop_total del: upt_Suc)
  then obtain r b' where run: "reconnectLocked (logAmqp a) b = Some (r, b')" by auto
  from reconnect_dialed [OF run assms(1)] obtain es where "dialed (brokerUri a (bkCfg b)) b r b' es" ..
  with run show ?thesis
    by (intro exI [of _ r] exI [of _ b'] exI [of _ es])
      (auto simp: dialed_def dialFailed_def rabbitDialAttempts_def Let_def split: sum.splits)
qed

text \<open>A broker whose first \<open>n\<close> dials fail and whose other calls succeed.\<close>

definition slowBroker :: "nat amqpLib" where
  "slowBroker = \<lparr>amUri = (\<lambda>_ _ _ h _. h),
     amDial = (\<lambda>_ n. Some (if n = 0 then Inr 9 else Inl (LibErr ''refused''), n - 1)),
     amSleep = (\<lambda>_ n. n), amConnIsClosed = (\<lambda>_ n. Some (False, n)), amConnClose = (\<lambda>_. retE ()),
     amChannel = (\<lambda>c. retE (c + 1)), amChanIsClosed = (\<lambda>_ n. Some (False, n)), amChanClose = (\<lambda>_. retE ()),
     amQueueDeclare = (\<lambda>_ q _ _ _ _. retE q), amQueueBind = (\<lambda>_ _ _ _ _. retE ()),
     amConsume = (\<lambda>_ _ _ _ _ _ _. retE 0), amExchangeDeclare = (\<lambda>_ _ _ _ _ _ _. retE ()),
     amPublish = (\<lambda>_ _ _ _ _ _. retE ()), amCarrier = (\<lambda>_. None), amNow = (\<lambda>_. \<lparr>nsec = 0, loc = None\<rparr>),
     amMarshal = (\<lambda>_. Inr ''payload'')\<rparr>"

definition sampleExchange :: exchangeConfig where
  "sampleExchange = \<lparr>exName = ''ex'', exKind = '''', exDurable = True, exAutoDelete = False, exInternal = False, exNoWait = False\<rparr>"

definition sampleProducer :: rabbitMqProducerConfig where
  "sampleProducer = \<lparr>rpExchange = sampleExchange, rpPublish = \<lparr>pcMandatory = False, pcImmediate = False\<rparr>\<rparr>"

definition sampleConsumer :: "string \<Rightarrow> rabbitMqConsumerConfig" where
  "sampleConsumer q = \<lparr>rcQueue = \<lparr>quName = q, quDurable = True, quAutoDelete = False, quExclusive = False, quNoWait = False\<rparr>,
     rcBinding = \<lparr>biExchangeName = ''time'', biRoutingKey = q, biNoWait = False\<rparr>,
     rcConsume = \<lparr>ccConsumer = '''', ccAutoAck = False, ccExclusive = False, ccNoLocal = False, ccNoWait = False\<rparr>\<rparr>"

definition sampleRabbit :: rabbitMqConfig where
  "sampleRabbit = \<lparr>rmUsername = ''u'', rmPassword = ''p'', rmHost = ''mq'', rmPort = 5672, rmCleaning = sampleProducer,
     rmGuestCommunication = sampleProducer, rmHourChange = sampleConsumer ''hour'', rmDayChange = sampleConsumer ''day''\<rparr>"

definition freshBroker :: "nat \<Rightarrow> (nat \<times> brokerCall list) broker" where
  "freshBroker n = \<lparr>bkConn = None, bkClosed = False, bkCfg = sampleRabbit, bkChannels = (\<lambda>_. None), bkQueues = (\<lambda>_. None),
     bkExchanges = (\<lambda>_. ('''', '''')), bkNext = 0, bkWorld = (n, [])\<rparr>"

theorem reconnect_dials_witness:
  "\<exists>r b'. reconnectLocked (logAmqp slowBroker) (freshBroker 2) = Some (r, b')"
  using reconnect_dials [of "freshBroker 2" slowBroker] by (auto simp: freshBroker_def slowBroker_def)

text \<open>C14: whatever operations a client makes on a connection and its channels, and whatever the
  library answers, at most one connection is open at a time, it is the one the program holds, and
  none is open any more once the connection was closed.\<close>

theorem one_connection:
  assumes "brokerReach (logAmqp a) b0 b" and "calls b0 = []"
  shows "openConns (calls b) \<subseteq> set_option (bkConn b) \<and> (bkClosed b \<longrightarrow> openConns (calls b) = {})"
  using reach_oneConn [OF assms(1)] assms(2) by (auto simp: oneConn_def split: if_splits)

lemma slow_connected:
  "NewRabbitMqConnection (logAmqp slowBroker) sampleRabbit (freshBroker 0) =
     Some (Inr (), (freshBroker 0)\<lparr>bkConn := Some 9, bkWorld := (0, [BDial ''mq'' (Inr 9)])\<rparr>)"
  by (simp add: NewRabbitMqConnection_def reconnect_loop bindE_def modE_def freshBroker_def dialLoop_one
      slowBroker_def brokerUri_def sampleRabbit_def rabbitDialAttempts_def upt_conv_Cons del: upt_Suc)

theorem one_connection_witness:
  "openConns (calls ((freshBroker 0)\<lparr>bkConn := Some 9, bkWorld := (0, [BDial ''mq'' (Inr 9)])\<rparr>)) \<subseteq> {9}"
  using one_connection [OF connected [OF slow_connected]] by (simp add: freshBroker_def)

lemma ensureChannel_error: "ensureChannel (logAmqp a) p b = Some (Inl err, b1) \<Longrightarrow> \<exists>t c. err = UnexpectedErr t c"
  by (auto simp: ensureChannel_def reopenChannel_def channelDown_def bindE_Some onWorld_Some pickE_def
      mapErrE_Some_Inl split: option.splits if_splits)

lemma newPublishing_sel: "puBody (newPublishing a m payload w) = payload" "puDeliveryMode (newPublishing a m payload w) = Persistent"
  "map_of (puHeaders (newPublishing a m payload w)) ''message_type'' = Some (messageType m)"
  by (simp_all add: newPublishing_def messageHeaders_def update_conv')

text \<open>The publishing call itself: its entry, and its error wrapped.\<close>

lemma amPublish_logged:
  assumes "mapErrE (UnexpectedErr t) (onWorld (amPublish (logAmqp a) ch ex key mand imm msg)) b = Some (r, b')"
  shows "\<exists>y. calls b' = calls b @ [BPublish ch ex key msg y] \<and> bkChannels b' = bkChannels b \<and>
    r = (case y of Inl c \<Rightarrow> Inl (UnexpectedErr t c) | Inr v \<Rightarrow> Inr v)"
proof -
  from assms obtain y w where "amPublish a ch ex key mand imm msg (fst (bkWorld b)) = Some (y, w)"
    and "r = (case y of Inl c \<Rightarrow> Inl (UnexpectedErr t c) | Inr v \<Rightarrow> Inr v)"
    and "b' = b\<lparr>bkWorld := (w, calls b @ [BPublish ch ex key msg y])\<rparr>"
    by (auto simp: mapErrE_def onWorld_def logged_def split: option.splits prod.splits sum.splits)
  then show ?thesis by (intro exI [of _ y]) simp
qed

text \<open>C18: a message is published once or not at all: a successful \<open>Publish\<close> ends with the one call of
  the library that publishes, on the producer's channel, to the exchange declared, with the message
  encoded as its payload and its type in the headers; before it there are only calls that
  reopen the connection or the channel. Every failure is an \<open>UnexpectedErr\<close>.\<close>

theorem publish_once:
  assumes "Publish (logAmqp a) p m key b = Some (r, b')"
  shows "\<exists>pre. list_all connects pre \<and> (case r of
      Inr _ \<Rightarrow> \<exists>ch msg. calls b' = calls b @ pre @ [BPublish ch (fst (bkExchanges b (prChannel p))) key msg (Inr ())] \<and>
        bkChannels b' (prChannel p) = Some ch \<and> amMarshal a m = Inr (puBody msg) \<and>
        puDeliveryMode msg = Persistent \<and> map_of (puHeaders msg) ''message_type'' = Some (messageType m)
    | Inl e \<Rightarrow> (\<exists>t c. e = UnexpectedErr t c) \<and> (calls b' = calls b @ pre \<or>
        (\<exists>ch msg c. calls b' = calls b @ pre @ [BPublish ch (fst (bkExchanges b (prChannel p))) key msg (Inl c)] \<and>
          e = UnexpectedErr ''failed to publish message'' c)))"
proof -
  from assms obtain x b1 where e: "ensureChannel (logAmqp a) (prChannel p) b = Some (x, b1)"
    by (cases "ensureChannel (logAmqp a) (prChannel p) b") (auto simp: Publish_def bindE_def)
  from keepsD [OF connecting_ensure e] obtain pre where pre: "calls b1 = calls b @ pre" "list_all connects pre"
    and ex: "bkExchanges b1 = bkExchanges b" by (auto simp: connecting_def)
  show ?thesis
  proof (cases x)
    case (Inl err)
    moreover from e Inl have "\<exists>t c. err = UnexpectedErr t c" by (auto dest: ensureChannel_error)
    moreover have "r = Inl err" "b' = b1" using assms e Inl by (auto simp: Publish_def bindE_def)
    ultimately show ?thesis using pre by auto
  next
    case (Inr u)
    with ensureChannel_has e obtain ch where ch: "bkChannels b1 (prChannel p) = Some ch" by fastforce
    show ?thesis
    proof (cases "amMarshal a m")
      case (Inl err)
      with assms e Inr have "r = Inl (UnexpectedErr ''failed to marshal message'' err)" "b' = b1"
        by (auto simp: Publish_def bindE_def)
      with pre show ?thesis by auto
    next
      case payload: (Inr payload)
      let ?msg = "newPublishing (logAmqp a) m payload (bkWorld b1)"
      from assms e Inr payload ch ex have "mapErrE (UnexpectedErr ''failed to publish message'')
          (onWorld (amPublish (logAmqp a) ch (fst (bkExchanges b (prChannel p))) key (pcMandatory (prPublish p))
            (pcImmediate (prPublish p)) ?msg)) b1 = Some (r, b')"
        by (simp add: Publish_def bindE_def channelOf_def readE_def derefE_def)
      from amPublish_logged [OF this] obtain y where "calls b' = calls b1 @ [BPublish ch (fst (bkExchanges b (prChannel p))) key ?msg y]"
        "bkChannels b' = bkChannels b1"
        "r = (case y of Inl c \<Rightarrow> Inl (UnexpectedErr ''failed to publish message'' c) | Inr v \<Rightarrow> Inr v)"
        by blast
      with pre ch payload show ?thesis
        by (intro exI [of _ pre]) (cases y; fastforce simp: newPublishing_sel)
    qed
  qed
qed

lemma sample_publish:
  "Publish (logAmqp slowBroker) \<lparr>prChannel = 0, prPublish = \<lparr>pcMandatory = False, pcImmediate = False\<rparr>\<rparr>
       (MsgCleaningRequest \<lparr>crRoomName = ''Oak'', crRequest = RT_PREPARE_FOR_GUEST\<rparr>) ''staff''
       ((freshBroker 0)\<lparr>bkConn := Some 9, bkChannels := [0 \<mapsto> 10], bkExchanges := (\<lambda>_. (''ex'', ''direct''))\<rparr>) =
     Some (Inr (), (freshBroker 0)\<lparr>bkConn := Some 9, bkChannels := [0 \<mapsto> 10], bkExchanges := (\<lambda>_. (''ex'', ''direct'')),
       bkWorld := (0, [BChanIsClosed 10 False, BPublish 10 ''ex'' ''staff'' \<lparr>puContentType = ''application/protobuf'',
         puBody = ''payload'', puDeliveryMode = Persistent, puHeaders = [(''message_type'', ''staff.CleaningRequest'')],
         puTimestamp = \<lparr>nsec = 0, loc = None\<rparr>\<rparr> (Inr ())])\<rparr>)"
  by (simp add: Publish_def ensureChannel_def channelDown_def channelOf_def bindE_def readE_def onWorld_def pickE_def
      loggedPick_def derefE_def mapErrE_def newPublishing_def messageHeaders_def slowBroker_def freshBroker_def)

theorem publish_once_witness:
  "\<exists>pre. list_all connects pre \<and> (\<exists>ch msg.
     [BChanIsClosed 10 False, BPublish 10 ''ex'' ''staff'' \<lparr>puContentType = ''application/protobuf'',
         puBody = ''payload'', puDeliveryMode = Persistent, puHeaders = [(''message_type'', ''staff.CleaningRequest'')],
         puTimestamp = \<lparr>nsec = 0, loc = None\<rparr>\<rparr> (Inr ())] = pre @ [BPublish ch ''ex'' ''staff'' msg (Inr ())])"
  using publish_once [OF sample_publish] by (auto simp: freshBroker_def)

end
