(* ===== verification/MongoRepos.thy ===== *)
theory MongoRepos
  imports Ports
begin

text \<open>
  \<open>internal/infra/mdb\<close>: the three repositories over MongoDB collections. The driver is not part
  of the program: a collection is a record of driver operations, a parameter of every
  definition. Filters and updates are the \<open>bson.M\<close> values the code builds.
\<close>

section \<open>BSON values and the driver\<close>

datatype bval = BId objectID | BStr string | BTime gotime | BNull | BDoc "(string \<times> bval) list"

type_synonym bsonM = "(string \<times> bval) list"

text \<open>
  \<open>colFindOne\<close> is \<open>FindOne(filter).Decode(&v)\<close>, \<open>colFind\<close> and \<open>colAll\<close> are \<open>Find\<close> (its
  cursor a handle) and \<open>cursor.All\<close>, \<open>colInsertOne\<close> returns the inserted id, \<open>colUpdateOne\<close>
  the number of matched documents.
\<close>

record ('s, 'd) collection =
  colFindOne :: "bsonM \<Rightarrow> ('s, 'd) io"
  colFind :: "bsonM \<Rightarrow> ('s, nat) io"
  colAll :: "nat \<Rightarrow> ('s, 'd list) io"
  colInsertOne :: "'d \<Rightarrow> ('s, objectID) io"
  colUpdateOne :: "bsonM \<Rightarrow> bsonM \<Rightarrow> ('s, nat) io"

definition guestRepoErr :: "string \<Rightarrow> fmtArg list \<Rightarrow> gerr \<Rightarrow> gerr" where
  "guestRepoErr f as err = WrapV f as (Sentinel SErrGuestRepo) err"

definition cottageRepoErr :: "string \<Rightarrow> fmtArg list \<Rightarrow> gerr \<Rightarrow> gerr" where
  "cottageRepoErr f as err = WrapV f as (Sentinel SErrCottageRepo) err"

definition bookingRepoErr :: "string \<Rightarrow> fmtArg list \<Rightarrow> gerr \<Rightarrow> gerr" where
  "bookingRepoErr f as err = WrapV f as (Sentinel SErrBookingRepo) err"

section \<open>Guests\<close>

definition guestRepoGetById :: "('s, guestDoc) collection \<Rightarrow> objectID \<Rightarrow> ('s, guestDoc) io" where
  "guestRepoGetById c i = thenE (validE (NotNilObjectID ''id'' i newValidator))
     (mapErrE (\<lambda>err. if errorsIs err SErrNoDocuments then ErrGuestDoesNotExist i []
        else guestRepoErr ''%w: search by Id failed; could not decode guest; guestId=%s: %v'' [FId i] err)
       (colFindOne c [(''_id'', BId i)]))"

definition guestRepoGetByDocument :: "('s, guestDoc) collection \<Rightarrow> string \<Rightarrow> ('s, guestDoc) io" where
  "guestRepoGetByDocument c d = thenE (validE (NotBlank ''documentId'' d newValidator))
     (mapErrE (\<lambda>err. if errorsIs err SErrNoDocuments then ErrGuestDoesNotExist NilObjectID d
        else guestRepoErr ''%w: searchBy docoumentId failed; could not decode guest; documentId=%s: %v''
          [FStr d] err)
       (colFindOne c [(''document_id'', BStr d)]))"

definition reflectGuestDoc :: "guestDoc \<Rightarrow> reflected" where
  "reflectGuestDoc g = (if g = zeroGuestDoc then RZero else RNonZero)"

definition guestRepoAdd :: "('s, guestDoc) collection \<Rightarrow> guestDoc \<Rightarrow> ('s, objectID) io" where
  "guestRepoAdd c g = thenE (validE (NotZeroValue ''newGuest'' (reflectGuestDoc g) newValidator))
     (mapErrE (guestRepoErr ''%w: add new guest failed; guest=%v: %v''
         [FGuest (dgId g) [dgDocumentId g, dgGivenNames g, dgSurname g, dgEmail g, dgBillingAddress g] [dgCreatedAt g, dgLastUpdate g]])
       (colInsertOne c g))"

text \<open>
  The two helpers write through a pointer to the existing document as well as into the update:
  both new values are returned.
\<close>

definition setStringIfChanged :: "bsonM \<Rightarrow> string \<Rightarrow> string \<Rightarrow> string \<Rightarrow> bsonM \<times> string" where
  "setStringIfChanged m key current newVal =
     (if newVal \<noteq> [] \<and> newVal \<noteq> current then (m @ [(key, BStr newVal)], newVal) else (m, current))"

definition setTimePointerIfChanged ::
  "bsonM \<Rightarrow> string \<Rightarrow> gotime option \<Rightarrow> gotime option \<Rightarrow> bsonM \<times> gotime option" where
  "setTimePointerIfChanged m key current newVal = (case newVal of
     None \<Rightarrow> (if current \<noteq> None then (m @ [(key, BNull)], None) else (m, current))
   | Some t \<Rightarrow> (case current of
       None \<Rightarrow> (m @ [(key, BTime t)], Some t)
     | Some u \<Rightarrow> (if \<not> timeEqual t u then (m @ [(key, BTime t)], Some t) else (m, current))))"

definition guestUpdateFields :: "guestDoc \<Rightarrow> guestDoc \<Rightarrow> bsonM \<times> guestDoc" where
  "guestUpdateFields e u =
     (let (m1, v1) = setStringIfChanged [] ''document_id'' (dgDocumentId e) (dgDocumentId u);
          (m2, v2) = setStringIfChanged m1 ''given_names'' (dgGivenNames e) (dgGivenNames u);
          (m3, v3) = setStringIfChanged m2 ''surname'' (dgSurname e) (dgSurname u);
          (m4, v4) = setStringIfChanged m3 ''email'' (dgEmail e) (dgEmail u);
          (m5, v5) = setStringIfChanged m4 ''billing_address'' (dgBillingAddress e) (dgBillingAddress u);
          (m6, v6) = setTimePointerIfChanged m5 ''created_at'' (dgCreatedAt e) (dgCreatedAt u);
          (m7, v7) = setTimePointerIfChanged m6 ''last_update'' (dgLastUpdate e) (dgLastUpdate u)
      in (m7, \<lparr>dgId = dgId e, dgDocumentId = v1, dgGivenNames = v2, dgSurname = v3, dgEmail = v4,
           dgBillingAddress = v5, dgCreatedAt = v6, dgLastUpdate = v7\<rparr>))"

definition guestRepoUpdate ::
  "('s, guestDoc) collection \<Rightarrow> objectID \<Rightarrow> guestDoc \<Rightarrow> ('s, guestDoc) io" where
  "guestRepoUpdate c i u = thenE
     (validE (NotZeroValue ''updatedGuest'' (reflectGuestDoc u) (NotNilObjectID ''id'' i newValidator)))
     (bindE
       (mapErrE (\<lambda>err. if errorsIs err SErrNoDocuments then ErrGuestDoesNotExist i []
          else guestRepoErr ''%w: update guest failed; guestId=%s: %v'' [FId i] err)
         (colFindOne c [(''_id'', BId i)]))
       (\<lambda>existing. case guestUpdateFields existing u of (updateFields, existing') \<Rightarrow>
         if updateFields = [] then retE existing'
         else thenE (mapErrE (guestRepoErr ''%w: update guest failed; guestId=%s: %v'' [FId i])
                (colUpdateOne c [(''_id'', BId i)] [(''$set'', BDoc updateFields)]))
              (retE u)))"

definition newGuestRepo :: "('s, guestDoc) collection \<Rightarrow> 's guestRepo" where
  "newGuestRepo c = \<lparr>grGetById = guestRepoGetById c, grGetByDocument = guestRepoGetByDocument c,
     grAdd = guestRepoAdd c, grUpdate = guestRepoUpdate c\<rparr>"

section \<open>Cottages\<close>

definition cottageRepoGetByName :: "('s, cottageDoc) collection \<Rightarrow> string \<Rightarrow> ('s, cottageDoc) io" where
  "cottageRepoGetByName c room = thenE (validE (NotBlank ''roomName'' room newValidator))
     (mapErrE (cottageRepoErr ''%w: could not find cottage by name, roomName=%s: %v'' [FStr room])
       (colFindOne c [(''name'', BStr room)]))"

text \<open>The outcome of an update: \<open>result.MatchedCount == 0\<close> is the error \<open>notFound\<close>.\<close>

definition matchedOr :: "gerr \<Rightarrow> nat \<Rightarrow> ('s, unit) io" where
  "matchedOr notFound n = (if n = 0 then failE notFound else retE ())"

definition cottageRepoUpdateCurrentGuest ::
  "('s, cottageDoc) collection \<Rightarrow> string \<Rightarrow> objectID \<Rightarrow> ('s, unit) io" where
  "cottageRepoUpdateCurrentGuest c room g = thenE (validE (NotBlank ''roomName'' room newValidator))
     (bindE
       (mapErrE (cottageRepoErr
            ''%w: could not update current guest for the room, roomName=%s guestId=%s: %v'' [FStr room, FId g])
         (colUpdateOne c [(''name'', BStr room)] [(''$set'', BDoc [(''current_guest'', BId g)])]))
       (matchedOr (ErrCottageDoesNotExist room)))"

definition cottageRepoUpdateKeyHolder ::
  "('s, cottageDoc) collection \<Rightarrow> string \<Rightarrow> string \<Rightarrow> string \<Rightarrow> ('s, unit) io" where
  "cottageRepoUpdateKeyHolder c room keyNumber holder = thenE
     (validE (NotBlank ''holder'' holder (NotBlank ''keyNumber'' keyNumber (NotBlank ''roomName'' room newValidator))))
     (bindE
       (mapErrE (cottageRepoErr ''%w: could not update key holder for roomName=%s keyNumber=%s: %v''
            [FStr room, FStr keyNumber])
         (colUpdateOne c [(''name'', BStr room)]
            [(''$set'', BDoc [(''key.number'', BStr keyNumber), (''key.holder'', BStr holder)])]))
       (matchedOr (ErrCottageDoesNotExist room)))"

text \<open>The missing cottage is named by the booking's hexadecimal id: \<open>hex\<close> is the driver's.\<close>

definition cottageRepoRemovePastBooking ::
  "(objectID \<Rightarrow> string) \<Rightarrow> ('s, cottageDoc) collection \<Rightarrow> objectID \<Rightarrow> ('s, unit) io" where
  "cottageRepoRemovePastBooking hex c b = thenE (validE (NotNilObjectID ''bookingId'' b newValidator))
     (bindE
       (mapErrE (cottageRepoErr ''%w: could not remove past booking for bookingId=%s: %v'' [FId b])
         (colUpdateOne c [(''bookings'', BId b)]
            [(''$pull'', BDoc [(''bookings'', BId b)]),
             (''$set'', BDoc [(''current_guest'', BId NilObjectID)])]))
       (matchedOr (ErrCottageDoesNotExist (hex b))))"

definition newCottageRepo :: "(objectID \<Rightarrow> string) \<Rightarrow> ('s, cottageDoc) collection \<Rightarrow> 's cottageRepo" where
  "newCottageRepo hex c = \<lparr>ctGetByName = cottageRepoGetByName c,
     ctUpdateCurrentGuest = cottageRepoUpdateCurrentGuest c,
     ctUpdateKeyHolder = cottageRepoUpdateKeyHolder c,
     ctRemovePastBooking = cottageRepoRemovePastBooking hex c\<rparr>"

section \<open>Bookings\<close>

record periodDocumentCurrent =
  curCheckIn :: gotime
  curCheckOut :: gotime

record bookingDocumentCurrent =
  curId :: objectID
  curMainGuest :: objectID
  curNumberOfGuests :: int
  curStayPeriod :: periodDocumentCurrent
  curCottageName :: string
  curStatus :: string

text \<open>\<open>unm\<close> is \<open>bson.Unmarshal\<close> into the current document shape, \<open>'raw\<close> the driver's raw document.\<close>

definition decodeBooking :: "('raw \<Rightarrow> gerr + bookingDocumentCurrent) \<Rightarrow> 'raw \<Rightarrow> gerr + bookingDoc" where
  "decodeBooking unm raw = (case unm raw of
     Inl err \<Rightarrow> Inl err
   | Inr cur \<Rightarrow> Inr \<lparr>dbId = curId cur, dbMainGuest = curMainGuest cur, dbNumberOfGuests = curNumberOfGuests cur,
       dbStayPeriod = \<lparr>dCheckIn = curCheckIn (curStayPeriod cur), dCheckOut = curCheckOut (curStayPeriod cur)\<rparr>,
       dbCottageName = curCottageName cur, dbStatus = curStatus cur\<rparr>)"

fun decodeBookings :: "('raw \<Rightarrow> gerr + bookingDocumentCurrent) \<Rightarrow> 'raw list \<Rightarrow> gerr + bookingDoc list" where
  "decodeBookings unm [] = Inr []"
| "decodeBookings unm (raw # raws) = (case decodeBooking unm raw of
     Inl err \<Rightarrow> Inl err
   | Inr b \<Rightarrow> (case decodeBookings unm raws of Inl err \<Rightarrow> Inl err | Inr bs \<Rightarrow> Inr (b # bs)))"

definition bookingRepoFindByGuestId ::
  "('raw \<Rightarrow> gerr + bookingDocumentCurrent) \<Rightarrow> ('s, 'raw) collection \<Rightarrow> objectID \<Rightarrow> ('s, bookingDoc list) io" where
  "bookingRepoFindByGuestId unm c g = thenE (validE (NotNilObjectID ''guestId'' g newValidator))
     (let could_not_find = bookingRepoErr ''%w: could not find bookings for guestId=%s: %v'' [FId g] in
      bindE (mapErrE could_not_find (colFind c [(''main_guest'', BId g)])) (\<lambda>cursor.
      bindE (mapErrE could_not_find (colAll c cursor)) (\<lambda>raws.
      mapErrE (bookingRepoErr ''%w: could not decode bookings for guestId=%s: %v'' [FId g])
        (liftE (decodeBookings unm raws)))))"

definition checkInDateRange :: "gotime \<Rightarrow> gotime \<times> gotime" where
  "checkInDateRange date =
     (let start = midnightUTC (timeDate (timeUTC date)) in (start, timeAdd start (24 * 3600 * nsPerSec)))"

definition bookingRepoFindByCheckInDate ::
  "('raw \<Rightarrow> gerr + bookingDocumentCurrent) \<Rightarrow> ('s, 'raw) collection \<Rightarrow> gotime \<Rightarrow> ('s, bookingDoc list) io" where
  "bookingRepoFindByCheckInDate unm c date = thenE (validE (NotZeroValue ''date'' (reflectTime date) newValidator))
     (case checkInDateRange date of (start, nextDay) \<Rightarrow>
      bindE (mapErrE (bookingRepoErr ''%w: could not find bookings for checkInDate=%s: %v'' [FTime start])
        (colFind c [(''stay_period.check_in'', BDoc [(''$gte'', BTime start), (''$lt'', BTime nextDay)])]))
      (\<lambda>cursor.
      bindE (mapErrE (bookingRepoErr ''%w: could not decode bookings for checkInDate=%s: %v'' [FTime start])
        (colAll c cursor)) (\<lambda>raws.
      mapErrE (bookingRepoErr ''%w: could not decode bookings for checkInDate=%s: %v'' [FTime start])
        (liftE (decodeBookings unm raws)))))"

definition bookingRepoFindByGuestIdAndCheckIn ::
  "('raw \<Rightarrow> gerr + bookingDocumentCurrent) \<Rightarrow> ('s, 'raw) collection \<Rightarrow> objectID \<Rightarrow> gotime \<Rightarrow> ('s, bookingDoc) io" where
  "bookingRepoFindByGuestIdAndCheckIn unm c g checkIn = thenE
     (validE (NotZeroValue ''checkIn'' (reflectTime checkIn) (NotNilObjectID ''guestId'' g newValidator)))
     (bindE (mapErrE (bookingRepoErr ''%w: could not find booking for guestId=%s and checkIn=%s: %v''
            [FId g, FTime (timeUTC checkIn)])
        (colFindOne c [(''main_guest'', BId g), (''stay_period.check_in'', BTime checkIn)]))
      (\<lambda>raw. mapErrE (bookingRepoErr ''%w: could not decode booking for guestId=%s and checkIn=%s: %v''
            [FId g, FTime (timeUTC checkIn)])
        (liftE (decodeBooking unm raw))))"

text \<open>\<open>fromHex\<close> is the driver's \<open>bson.ObjectIDFromHex\<close>.\<close>

definition bookingRepoFindByGuestIdAndBookingNumber ::
  "(string \<Rightarrow> gerr + objectID) \<Rightarrow> ('raw \<Rightarrow> gerr + bookingDocumentCurrent) \<Rightarrow> ('s, 'raw) collection
    \<Rightarrow> objectID \<Rightarrow> string \<Rightarrow> ('s, bookingDoc) io" where
  "bookingRepoFindByGuestIdAndBookingNumber fromHex unm c g number = thenE
     (validE (NotBlank ''bookingNumber'' number (NotNilObjectID ''guestId'' g newValidator)))
     (bindE (mapErrE (bookingRepoErr ''%w: invalid booking number %q: %v'' [FStr number]) (liftE (fromHex number)))
      (\<lambda>bookingID.
      bindE (mapErrE (bookingRepoErr ''%w: could not find booking for guestId=%s and bookingNumber=%s: %v''
            [FId g, FStr number])
        (colFindOne c [(''_id'', BId bookingID), (''main_guest'', BId g)])) (\<lambda>raw.
      mapErrE (bookingRepoErr ''%w: could not decode booking for guestId=%s and bookingNumber=%s: %v''
            [FId g, FStr number])
        (liftE (decodeBooking unm raw)))))"

definition bookingRepoUpdateStatus :: "('s, 'raw) collection \<Rightarrow> objectID \<Rightarrow> string \<Rightarrow> ('s, unit) io" where
  "bookingRepoUpdateStatus c b st = thenE
     (validE (NotBlank ''status'' st (NotNilObjectID ''bookingId'' b newValidator)))
     (bindE
       (mapErrE (bookingRepoErr ''%w: could not update booking status for bookingId=%s: %v'' [FId b])
         (colUpdateOne c [(''_id'', BId b)] [(''$set'', BDoc [(''status'', BStr st)])]))
       (matchedOr (Wrapf ''%w: could not find booking for bookingId=%s'' [FId b] (Sentinel SErrBookingRepo))))"

definition newBookingRepo ::
  "(string \<Rightarrow> gerr + objectID) \<Rightarrow> ('raw \<Rightarrow> gerr + bookingDocumentCurrent) \<Rightarrow> ('s, 'raw) collection \<Rightarrow> 's bookingRepo" where
  "newBookingRepo fromHex unm c = \<lparr>brFindByGuestId = bookingRepoFindByGuestId unm c,
     brFindByCheckInDate = bookingRepoFindByCheckInDate unm c,
     brFindByGuestIdAndCheckIn = bookingRepoFindByGuestIdAndCheckIn unm c,
     brFindByGuestIdAndBookingNumber = bookingRepoFindByGuestIdAndBookingNumber fromHex unm c,
     brUpdateStatus = bookingRepoUpdateStatus c\<rparr>"

section \<open>What an update stores\<close>

text \<open>
  The stored form of a guest names its fields by the \<open>bson\<close> tags of \<open>documents.Guest\<close>;
  \<open>$set\<close> assigns the named fields and leaves the others.
\<close>

fun setGuestField :: "string \<times> bval \<Rightarrow> guestDoc \<Rightarrow> guestDoc" where
  "setGuestField (key, BStr v) g =
     (if key = ''document_id'' then g\<lparr>dgDocumentId := v\<rparr>
      else if key = ''given_names'' then g\<lparr>dgGivenNames := v\<rparr>
      else if key = ''surname'' then g\<lparr>dgSurname := v\<rparr>
      else if key = ''email'' then g\<lparr>dgEmail := v\<rparr>
      else if key = ''billing_address'' then g\<lparr>dgBillingAddress := v\<rparr>
      else g)"
| "setGuestField (key, BTime t) g =
     (if key = ''created_at'' then g\<lparr>dgCreatedAt := Some t\<rparr>
      else if key = ''last_update'' then g\<lparr>dgLastUpdate := Some t\<rparr>
      else g)"
| "setGuestField (key, BNull) g =
     (if key = ''created_at'' then g\<lparr>dgCreatedAt := None\<rparr>
      else if key = ''last_update'' then g\<lparr>dgLastUpdate := None\<rparr>
      else g)"
| "setGuestField _ g = g"

definition applySet :: "bsonM \<Rightarrow> guestDoc \<Rightarrow> guestDoc" where
  "applySet m g = fold setGuestField m g"

lemma applySet_snoc [simp]: "applySet (m @ [kv]) g = setGuestField kv (applySet m g)"
  by (simp add: applySet_def)

lemma applySet_Nil [simp]: "applySet [] g = g"
  by (simp add: applySet_def)

text \<open>One helper call: the update it extends and the field it writes through its pointer agree.\<close>

lemma setString_applied:
  assumes "setStringIfChanged m key cur new = (m', v)"
  shows "applySet m' g = (if v = cur then applySet m g else setGuestField (key, BStr v) (applySet m g))"
    and "v = (if new = [] then cur else new)"
  using assms by (auto simp: setStringIfChanged_def simp del: setGuestField.simps split: if_splits)

lemma setTime_applied:
  assumes "setTimePointerIfChanged m key cur new = (m', v)"
  shows "applySet m' g = (if v = cur then applySet m g
           else setGuestField (key, case v of None \<Rightarrow> BNull | Some t \<Rightarrow> BTime t) (applySet m g))"
    and "rel_option timeEqual v new"
  using assms
  by (auto simp: setTimePointerIfChanged_def timeEqual_def simp del: setGuestField.simps
      split: option.splits if_splits)

lemma guestUpdateFields_stored:
  assumes "guestUpdateFields e u = (m, e')"
  shows "applySet m e = e'" and "dgId e' = dgId e"
    and "dgDocumentId e' = (if dgDocumentId u = [] then dgDocumentId e else dgDocumentId u)"
    and "dgGivenNames e' = (if dgGivenNames u = [] then dgGivenNames e else dgGivenNames u)"
    and "dgSurname e' = (if dgSurname u = [] then dgSurname e else dgSurname u)"
    and "dgEmail e' = (if dgEmail u = [] then dgEmail e else dgEmail u)"
    and "dgBillingAddress e' = (if dgBillingAddress u = [] then dgBillingAddress e else dgBillingAddress u)"
    and "rel_option timeEqual (dgCreatedAt e') (dgCreatedAt u)"
    and "rel_option timeEqual (dgLastUpdate e') (dgLastUpdate u)"
proof -
  obtain m1 v1 where 1: "setStringIfChanged [] ''document_id'' (dgDocumentId e) (dgDocumentId u) = (m1, v1)" by fastforce
  obtain m2 v2 where 2: "setStringIfChanged m1 ''given_names'' (dgGivenNames e) (dgGivenNames u) = (m2, v2)" by fastforce
  obtain m3 v3 where 3: "setStringIfChanged m2 ''surname'' (dgSurname e) (dgSurname u) = (m3, v3)" by fastforce
  obtain m4 v4 where 4: "setStringIfChanged m3 ''email'' (dgEmail e) (dgEmail u) = (m4, v4)" by fastforce
  obtain m5 v5 where 5: "setStringIfChanged m4 ''billing_address'' (dgBillingAddress e) (dgBillingAddress u) = (m5, v5)"
    by fastforce
  obtain m6 v6 where 6: "setTimePointerIfChanged m5 ''created_at'' (dgCreatedAt e) (dgCreatedAt u) = (m6, v6)" by fastforce
  obtain m7 v7 where 7: "setTimePointerIfChanged m6 ''last_update'' (dgLastUpdate e) (dgLastUpdate u) = (m7, v7)" by fastforce
  have r: "m = m7" "e' = \<lparr>dgId = dgId e, dgDocumentId = v1, dgGivenNames = v2, dgSurname = v3, dgEmail = v4,
           dgBillingAddress = v5, dgCreatedAt = v6, dgLastUpdate = v7\<rparr>"
    using assms 1 2 3 4 5 6 7 by (auto simp: guestUpdateFields_def)
  have a1: "applySet m1 e = e\<lparr>dgDocumentId := v1\<rparr>" using setString_applied(1) [OF 1, of e] by auto
  have a2: "applySet m2 e = e\<lparr>dgDocumentId := v1, dgGivenNames := v2\<rparr>"
    using setString_applied(1) [OF 2, of e] a1 by auto
  have a3: "applySet m3 e = e\<lparr>dgDocumentId := v1, dgGivenNames := v2, dgSurname := v3\<rparr>"
    using setString_applied(1) [OF 3, of e] a2 by auto
  have a4: "applySet m4 e = e\<lparr>dgDocumentId := v1, dgGivenNames := v2, dgSurname := v3, dgEmail := v4\<rparr>"
    using setString_applied(1) [OF 4, of e] a3 by auto
  have a5: "applySet m5 e = e\<lparr>dgDocumentId := v1, dgGivenNames := v2, dgSurname := v3, dgEmail := v4,
      dgBillingAddress := v5\<rparr>"
    using setString_applied(1) [OF 5, of e] a4 by auto
  have a6: "applySet m6 e = e\<lparr>dgDocumentId := v1, dgGivenNames := v2, dgSurname := v3, dgEmail := v4,
      dgBillingAddress := v5, dgCreatedAt := v6\<rparr>"
    using setTime_applied(1) [OF 6, of e] a5 by (auto split: option.splits)
  show "applySet m e = e'"
    using setTime_applied(1) [OF 7, of e] a6 r by (cases e) (auto split: option.splits)
  show "dgId e' = dgId e"
    "dgDocumentId e' = (if dgDocumentId u = [] then dgDocumentId e else dgDocumentId u)"
    "dgGivenNames e' = (if dgGivenNames u = [] then dgGivenNames e else dgGivenNames u)"
    "dgSurname e' = (if dgSurname u = [] then dgSurname e else dgSurname u)"
    "dgEmail e' = (if dgEmail u = [] then dgEmail e else dgEmail u)"
    "dgBillingAddress e' = (if dgBillingAddress u = [] then dgBillingAddress e else dgBillingAddress u)"
    using 1 2 3 4 5 r by (simp_all add: setString_applied(2))
  show "rel_option timeEqual (dgCreatedAt e') (dgCreatedAt u)" "rel_option timeEqual (dgLastUpdate e') (dgLastUpdate u)"
    using 6 7 r by (simp_all add: setTime_applied(2))
qed

text \<open>The same document: equal text fields, timestamps that denote the same instants.\<close>

definition sameGuestData :: "guestDoc \<Rightarrow> guestDoc \<Rightarrow> bool" where
  "sameGuestData a b \<longleftrightarrow> dgDocumentId a = dgDocumentId b \<and> dgGivenNames a = dgGivenNames b \<and>
     dgSurname a = dgSurname b \<and> dgEmail a = dgEmail b \<and> dgBillingAddress a = dgBillingAddress b \<and>
     rel_option timeEqual (dgCreatedAt a) (dgCreatedAt b) \<and> rel_option timeEqual (dgLastUpdate a) (dgLastUpdate b)"

lemma rel_option_timeEqual_refl [simp]: "rel_option timeEqual x x"
  by (cases x) (simp_all add: timeEqual_def)

lemma rel_option_timeEqual_sym: "rel_option timeEqual x y \<Longrightarrow> rel_option timeEqual y x"
  by (cases x; cases y) (simp_all add: timeEqual_def)

lemma validated_NotNil [simp]:
  "validated (NotNilObjectID f i newValidator) x = (if i = NilObjectID then Inl (ErrValidationConstrain f ''must not be nil'') else Inr x)"
  by (simp add: validated_def step_defs)

lemma validated_NotBlank [simp]:
  "validated (NotBlank f v newValidator) x = (if isBlank v then Inl (ErrValidationConstrain f ''must not be blank'') else Inr x)"
  by (simp add: validated_def step_defs)

text \<open>An update of a guest whose text fields are all filled in returns the data the collection
  holds afterwards: the fields sent with \<open>$set\<close>, applied to the document found, give the returned
  document up to its identifier and the representation of its timestamps, and nothing is sent
  when nothing changes.\<close>

lemma guestRepoUpdate_returns_stored:
  assumes run: "guestRepoUpdate c i u s = Some (Inr g, s')"
    and filled: "dgDocumentId u \<noteq> []" "dgGivenNames u \<noteq> []" "dgSurname u \<noteq> []" "dgEmail u \<noteq> []"
      "dgBillingAddress u \<noteq> []"
  shows "\<exists>e s1 m. colFindOne c [(''_id'', BId i)] s = Some (Inr e, s1) \<and> sameGuestData g (applySet m e) \<and>
    (if m = [] then s' = s1
     else \<exists>n. colUpdateOne c [(''_id'', BId i)] [(''$set'', BDoc m)] s1 = Some (Inr n, s'))"
proof -
  from run obtain e s1 where f: "colFindOne c [(''_id'', BId i)] s = Some (Inr e, s1)"
    and k: "(case guestUpdateFields e u of (updateFields, existing') \<Rightarrow>
         if updateFields = [] then retE existing'
         else thenE (mapErrE (guestRepoErr ''%w: update guest failed; guestId=%s: %v'' [FId i])
                (colUpdateOne c [(''_id'', BId i)] [(''$set'', BDoc updateFields)])) (retE u)) s1 = Some (Inr g, s')"
    unfolding guestRepoUpdate_def by (auto simp: bindE_Some_Inr)
  obtain m e' where m: "guestUpdateFields e u = (m, e')" by fastforce
  note st = guestUpdateFields_stored [OF m]
  have u: "sameGuestData u e'"
    using filled st by (simp add: sameGuestData_def rel_option_timeEqual_sym)
  have e: "sameGuestData e' e'" by (simp add: sameGuestData_def)
  have "sameGuestData g (applySet m e) \<and> (if m = [] then s' = s1
     else \<exists>n. colUpdateOne c [(''_id'', BId i)] [(''$set'', BDoc m)] s1 = Some (Inr n, s'))"
  proof (cases "m = []")
    case True
    with k have "g = e'" "s' = s1" by (simp_all add: m)
    with True e st(1) show ?thesis by simp
  next
    case False
    with k have "g = u" "\<exists>n. colUpdateOne c [(''_id'', BId i)] [(''$set'', BDoc m)] s1 = Some (Inr n, s')"
      by (auto simp: m bindE_Some_Inr)
    with False u st(1) show ?thesis by simp
  qed
  with f show ?thesis by blast
qed

definition sampleGuestDoc :: guestDoc where
  "sampleGuestDoc = \<lparr>dgId = 1, dgDocumentId = ''D1'', dgGivenNames = ''Ada'', dgSurname = ''Byron'',
     dgEmail = ''ada@mail.org'', dgBillingAddress = ''Street 1'',
     dgCreatedAt = Some \<lparr>nsec = 0, loc = None\<rparr>, dgLastUpdate = None\<rparr>"

definition sampleGuestCollection :: "(unit, guestDoc) collection" where
  "sampleGuestCollection = \<lparr>colFindOne = (\<lambda>_. retE sampleGuestDoc), colFind = (\<lambda>_. retE 0),
     colAll = (\<lambda>_. retE []), colInsertOne = (\<lambda>_. retE 1), colUpdateOne = (\<lambda>_ _. retE 1)\<rparr>"

lemma guestRepoUpdate_sample:
  "guestRepoUpdate sampleGuestCollection 1 (sampleGuestDoc\<lparr>dgSurname := ''King''\<rparr>) () =
     Some (Inr (sampleGuestDoc\<lparr>dgSurname := ''King''\<rparr>), ())"
  by (simp add: guestRepoUpdate_def sampleGuestCollection_def sampleGuestDoc_def reflectGuestDoc_def
      zeroGuestDoc_def step_defs validated_def guestUpdateFields_def setStringIfChanged_def
      setTimePointerIfChanged_def timeEqual_def bindE_def)

text \<open>C23: the query for the bookings of a day selects a check-in instant exactly when it lies on the
  same UTC day as the given time.\<close>

theorem checkInDateRange_selects_day:
  "\<not> timeBefore t (fst (checkInDateRange date)) \<and> timeBefore t (snd (checkInDateRange date)) \<longleftrightarrow>
     dayNumber (timeUTC t) = dayNumber (timeUTC date)"
proof -
  have r: "checkInDateRange date = (\<lparr>nsec = dayNumber (timeUTC date) * nsPerDay, loc = None\<rparr>,
     \<lparr>nsec = dayNumber (timeUTC date) * nsPerDay + nsPerDay, loc = None\<rparr>)"
    by (simp add: checkInDateRange_def midnightUTC_timeDate timeAdd_def time_consts)
  have k: "nsec t div nsPerDay = k \<longleftrightarrow> k * nsPerDay \<le> nsec t \<and> nsec t < k * nsPerDay + nsPerDay" for k
    by (rule div_eq_range) (simp add: nsPerDay_def)
  show ?thesis
    unfolding r dayNumber_timeUTC [of t] k by (simp only: fst_conv snd_conv timeBefore_def gotime.simps not_less)
qed

lemma matched_update_iff:
  "thenE (validE v) (bindE (mapErrE h m) (matchedOr e)) s = Some (Inr (), s') \<longleftrightarrow>
     (\<forall>x. Validate v \<noteq> StepErr x) \<and> (\<exists>n. m s = Some (Inr (Suc n), s'))"
proof (cases "validated v ()")
  case (Inl x)
  then show ?thesis by (auto simp: bindE_Some_Inr validated_Inl_iff)
next
  case (Inr u)
  then have "\<forall>x. Validate v \<noteq> StepErr x" by (simp add: validated_Inr_iff)
  then show ?thesis using Inr by (auto simp: bindE_Some_Inr matchedOr_def gr0_conv_Suc split: if_splits)
qed

text \<open>An update operation of the repositories succeeds exactly when its arguments pass validation
  and the driver reports at least one matched document, so a missing document is always an error.\<close>

lemma repo_updates_match:
  "(cottageRepoUpdateCurrentGuest c room g s = Some (Inr (), s') \<longleftrightarrow> \<not> isBlank room \<and>
      (\<exists>n. colUpdateOne c [(''name'', BStr room)] [(''$set'', BDoc [(''current_guest'', BId g)])] s
         = Some (Inr (Suc n), s'))) \<and>
   (cottageRepoUpdateKeyHolder c room key holder s = Some (Inr (), s') \<longleftrightarrow>
      \<not> isBlank room \<and> \<not> isBlank key \<and> \<not> isBlank holder \<and>
      (\<exists>n. colUpdateOne c [(''name'', BStr room)]
         [(''$set'', BDoc [(''key.number'', BStr key), (''key.holder'', BStr holder)])] s = Some (Inr (Suc n), s'))) \<and>
   (cottageRepoRemovePastBooking hex c b s = Some (Inr (), s') \<longleftrightarrow> b \<noteq> NilObjectID \<and>
      (\<exists>n. colUpdateOne c [(''bookings'', BId b)]
         [(''$pull'', BDoc [(''bookings'', BId b)]), (''$set'', BDoc [(''current_guest'', BId NilObjectID)])] s
         = Some (Inr (Suc n), s'))) \<and>
   (bookingRepoUpdateStatus d b st s = Some (Inr (), s') \<longleftrightarrow> b \<noteq> NilObjectID \<and> \<not> isBlank st \<and>
      (\<exists>n. colUpdateOne d [(''_id'', BId b)] [(''$set'', BDoc [(''status'', BStr st)])] s = Some (Inr (Suc n), s')))"
  unfolding cottageRepoUpdateCurrentGuest_def cottageRepoUpdateKeyHolder_def
    cottageRepoRemovePastBooking_def bookingRepoUpdateStatus_def matched_update_iff
  by (simp add: step_defs)

end
