(* ===== verification/GuestService.thy ===== *)
theory GuestService
  imports MongoRepos
begin

text \<open>
  \<open>internal/app/guest_service.go\<close> and \<open>internal/app/cleaning_service.go\<close>: the guest service
  over the guest and booking repositories, and the cleaning service over the broker.
\<close>

section \<open>The guest service\<close>

record 's guestService =
  gsGetById :: "objectID \<Rightarrow> ('s, guest) io"
  gsGetByDocument :: "string \<Rightarrow> ('s, guest) io"
  gsAdd :: "guest \<Rightarrow> ('s, objectID) io"
  gsUpdate :: "objectID \<Rightarrow> guest \<Rightarrow> ('s, guest) io"
  gsGetBookings :: "objectID \<Rightarrow> ('s, booking list) io"
  gsGetBookingByDate :: "string \<Rightarrow> gotime \<Rightarrow> ('s, booking) io"

text \<open>
  The mapping \<open>GetById\<close>, \<open>GetByDocument\<close> and \<open>Update\<close> share: a validation error is returned
  as it is, any other error would be wrapped with the method's format.
\<close>

definition mapGuestDoc :: "string \<Rightarrow> fmtArg list \<Rightarrow> guestDoc \<Rightarrow> gerr + guest" where
  "mapGuestDoc f as d =
     (case NewGuest (dgId d) (dgDocumentId d) (dgGivenNames d) (dgSurname d) (dgEmail d)
        (dgBillingAddress d) (dgCreatedAt d) (dgLastUpdate d) of
        Inl err \<Rightarrow> if hasErr isValidationErr err then Inl err else Inl (Wrapf f as err)
      | Inr g \<Rightarrow> Inr g)"

definition guestServiceGetById :: "'s guestRepo \<Rightarrow> objectID \<Rightarrow> ('s, guest) io" where
  "guestServiceGetById gr i = bindE (grGetById gr i)
     (\<lambda>d. liftE (mapGuestDoc ''guestService.GetById(%s): mapping to domain: %w'' [FId i] d))"

definition guestServiceGetByDocument :: "'s guestRepo \<Rightarrow> string \<Rightarrow> ('s, guest) io" where
  "guestServiceGetByDocument gr doc = bindE (grGetByDocument gr doc)
     (\<lambda>d. liftE (mapGuestDoc ''guestService.GetByDocument(%s): mapping to domain: %w'' [FStr doc] d))"

definition guestServiceAdd :: "'s guestRepo \<Rightarrow> guest \<Rightarrow> ('s, objectID) io" where
  "guestServiceAdd gr g = grAdd gr (guestToMongoDoc g)"

definition guestServiceUpdate :: "'s guestRepo \<Rightarrow> objectID \<Rightarrow> guest \<Rightarrow> ('s, guest) io" where
  "guestServiceUpdate gr i g = bindE (grUpdate gr i (guestToMongoDoc g))
     (\<lambda>d. liftE (mapGuestDoc ''guestService.Update(%s): mapping to domain: %w'' [FId i] d))"

text \<open>The body of the loop over the documents; its first error ends \<open>GetBookings\<close>.\<close>

definition mapBookingDoc :: "bookingDoc \<Rightarrow> gerr + booking" where
  "mapBookingDoc b = (case NewPeriod (dCheckIn (dbStayPeriod b)) (dCheckOut (dbStayPeriod b)) of
     Inl err \<Rightarrow> Inl err
   | Inr stayPeriod \<Rightarrow>
       NewBooking (dbId b) (dbMainGuest b) (dbNumberOfGuests b) stayPeriod (dbCottageName b) (dbStatus b))"

fun mapBookingDocs :: "bookingDoc list \<Rightarrow> booking list \<Rightarrow> gerr + booking list" where
  "mapBookingDocs [] bookings = Inr bookings"
| "mapBookingDocs (b # bs) bookings = (case mapBookingDoc b of
     Inl err \<Rightarrow> Inl err
   | Inr x \<Rightarrow> mapBookingDocs bs (bookings @ [x]))"

definition guestServiceGetBookings :: "'s bookingRepo \<Rightarrow> objectID \<Rightarrow> ('s, booking list) io" where
  "guestServiceGetBookings br g = bindE (brFindByGuestId br g) (\<lambda>docs.
     if docs = [] then retE [] else liftE (mapBookingDocs docs []))"

text \<open>\<open>bookingIdx\<close>: the first document whose check-in date is the given one, -1 if there is none.\<close>

fun bookingIdxFrom :: "int \<Rightarrow> gotime \<Rightarrow> bookingDoc list \<Rightarrow> int" where
  "bookingIdxFrom i todayStart [] = -1"
| "bookingIdxFrom i todayStart (b # bs) =
     (if timeEqual (startOfDay (dCheckIn (dbStayPeriod b))) todayStart then i
      else bookingIdxFrom (i + 1) todayStart bs)"

definition guestServiceGetBookingByDate ::
  "'s guestRepo \<Rightarrow> 's bookingRepo \<Rightarrow> string \<Rightarrow> gotime \<Rightarrow> ('s, booking) io" where
  "guestServiceGetBookingByDate gr br document date =
     bindE (mapErrE (Wrapf ''failed to find guest %s: %w'' [FStr document]) (guestServiceGetByDocument gr document))
     (\<lambda>guest.
     bindE (mapErrE (Wrapf ''failed to find allBookings for guest %s: %w'' [FStr document])
       (brFindByGuestId br (gId guest)))
     (\<lambda>allBookings.
     let bookingIdx = bookingIdxFrom 0 (startOfDay date) allBookings in
     if bookingIdx = -1 then failE (Errorf ''no booking starting today for guest %s'' [FStr document])
     else let selected = allBookings ! nat bookingIdx in
       bindE (mapErrE (Wrapf ''map booking stay period for guest %s: %w'' [FStr document])
         (liftE (NewPeriod (dCheckIn (dbStayPeriod selected)) (dCheckOut (dbStayPeriod selected)))))
       (\<lambda>stayPeriod.
       mapErrE (Wrapf ''map booking to domain for guest %s: %w'' [FStr document])
         (liftE (NewBooking (dbId selected) (dbMainGuest selected) (dbNumberOfGuests selected) stayPeriod
            (dbCottageName selected) (dbStatus selected))))))"

definition newGuestService :: "'s guestRepo \<Rightarrow> 's bookingRepo \<Rightarrow> 's guestService" where
  "newGuestService gr br = \<lparr>gsGetById = guestServiceGetById gr, gsGetByDocument = guestServiceGetByDocument gr,
     gsAdd = guestServiceAdd gr, gsUpdate = guestServiceUpdate gr,
     gsGetBookings = guestServiceGetBookings br, gsGetBookingByDate = guestServiceGetBookingByDate gr br\<rparr>"

section \<open>The cleaning service\<close>

record 's cleaningService =
  csCleanRoom :: "cleaningOrder \<Rightarrow> ('s, unit) io"

definition cleaningServiceCleanRoom :: "'s mqPublisher \<Rightarrow> cleaningOrder \<Rightarrow> ('s, unit) io" where
  "cleaningServiceCleanRoom p r = pubPublish p (MsgCleaningRequest (cleaningOrderToDto r)) []"

definition newCleaningService :: "'s mqPublisher \<Rightarrow> 's cleaningService" where
  "newCleaningService p = \<lparr>csCleanRoom = cleaningServiceCleanRoom p\<rparr>"

section \<open>Mapping documents\<close>

text \<open>The wrapping branch of the mapping is unreachable: the constructor only reports violations.\<close>

lemma mapGuestDoc_eq:
  "mapGuestDoc f as d = NewGuest (dgId d) (dgDocumentId d) (dgGivenNames d) (dgSurname d) (dgEmail d)
        (dgBillingAddress d) (dgCreatedAt d) (dgLastUpdate d)"
proof -
  have "hasErr isValidationErr e" if "isValidationErr e" for e
    using that errTree_self [of e] by (auto simp: hasErr_iff)
  then show ?thesis by (auto simp: mapGuestDoc_def dest: NewGuest_Inl_validation split: sum.split)
qed

lemma mapGuestDoc_fields:
  "mapGuestDoc f as d = Inr g \<Longrightarrow> guestToMongoDoc g = d"
  by (cases d) (auto simp: mapGuestDoc_eq NewGuest_Inr_iff guestToMongoDoc_def)

lemma mapBookingDoc_Inr_iff:
  "mapBookingDoc d = Inr b \<longleftrightarrow>
     nsec (dCheckIn (dbStayPeriod d)) < nsec (dCheckOut (dbStayPeriod d)) \<and>
     dbId d \<noteq> NilObjectID \<and> 0 < dbNumberOfGuests d \<and>
     \<not> isBlank (dbCottageName d) \<and> \<not> isBlank (dbStatus d) \<and>
     bStayPeriod b \<noteq> zeroPeriod \<and>
     b = \<lparr>bId = dbId d, bMainGuest = dbMainGuest d, bNumberOfGuests = dbNumberOfGuests d,
       bStayPeriod = \<lparr>CheckIn = startOfDay (dCheckIn (dbStayPeriod d)), CheckOut = startOfDay (dCheckOut (dbStayPeriod d))\<rparr>,
       bCottageName = dbCottageName d, bStatus = dbStatus d\<rparr>"
  by (auto simp: mapBookingDoc_def NewPeriod_eq NewBooking_Inr_iff)

lemma mapBookingDocs_Inr:
  "mapBookingDocs docs acc = Inr bs \<longleftrightarrow> (\<exists>bs'. bs = acc @ bs' \<and> list_all2 (\<lambda>d b. mapBookingDoc d = Inr b) docs bs')"
proof (induction docs arbitrary: acc)
  case (Cons d docs)
  show ?case
  proof (cases "mapBookingDoc d")
    case (Inl e)
    then show ?thesis by (auto simp: list_all2_Cons1)
  next
    case (Inr b)
    then show ?thesis by (auto simp: Cons.IH list_all2_Cons1)
  qed
qed auto

lemma mapBookingDocs_Inl:
  "mapBookingDocs docs acc = Inl e \<longleftrightarrow>
     (\<exists>us d vs bs. docs = us @ d # vs \<and> list_all2 (\<lambda>d b. mapBookingDoc d = Inr b) us bs \<and> mapBookingDoc d = Inl e)"
  (is "_ \<longleftrightarrow> ?R docs")
proof (induction docs arbitrary: acc)
  case (Cons d docs)
  show ?case
  proof (cases "mapBookingDoc d")
    case (Inl e')
    have "?R (d # docs) \<longleftrightarrow> e' = e"
    proof
      assume "e' = e"
      with Inl have "d # docs = [] @ d # docs \<and> list_all2 (\<lambda>d b. mapBookingDoc d = Inr b) [] [] \<and> mapBookingDoc d = Inl e"
        by simp
      then show "?R (d # docs)" by blast
    qed (use Inl in \<open>auto simp: Cons_eq_append_conv list_all2_Cons1\<close>)
    with Inl show ?thesis by simp
  next
    case (Inr b)
    have "?R (d # docs) \<longleftrightarrow> ?R docs"
    proof
      assume "?R docs"
      then obtain us x vs bs where "docs = us @ x # vs" "list_all2 (\<lambda>d b. mapBookingDoc d = Inr b) us bs"
        "mapBookingDoc x = Inl e" by blast
      with Inr have "d # docs = (d # us) @ x # vs \<and> list_all2 (\<lambda>d b. mapBookingDoc d = Inr b) (d # us) (b # bs) \<and>
        mapBookingDoc x = Inl e" by simp
      then show "?R (d # docs)" by blast
    qed (use Inr in \<open>auto simp: Cons_eq_append_conv list_all2_Cons1, blast\<close>)
    with Inr show ?thesis by (simp add: Cons.IH)
  qed
qed simp

lemma bookingIdxFrom_spec:
  "(bookingIdxFrom i t bs = -1 \<and> 0 \<le> i \<and> (\<forall>b \<in> set bs. \<not> timeEqual (startOfDay (dCheckIn (dbStayPeriod b))) t)) \<or>
   (\<exists>us b vs. bs = us @ b # vs \<and> bookingIdxFrom i t bs = i + int (length us) \<and>
      timeEqual (startOfDay (dCheckIn (dbStayPeriod b))) t \<and>
      (\<forall>u \<in> set us. \<not> timeEqual (startOfDay (dCheckIn (dbStayPeriod u))) t))"
  if "0 \<le> i"
  using that
proof (induction bs arbitrary: i)
  case (Cons b bs)
  show ?case
  proof (cases "timeEqual (startOfDay (dCheckIn (dbStayPeriod b))) t")
    case True
    then have "b # bs = [] @ b # bs \<and> bookingIdxFrom i t (b # bs) = i + int (length [])" by simp
    with True show ?thesis by fastforce
  next
    case False
    note no = this
    show ?thesis
    proof (cases "\<forall>c \<in> set bs. \<not> timeEqual (startOfDay (dCheckIn (dbStayPeriod c))) t")
      case True
      with Cons.IH [of "i + 1"] Cons.prems no show ?thesis by auto
    next
      case False
      with Cons.IH [of "i + 1"] Cons.prems obtain us c vs where "bs = us @ c # vs"
        "bookingIdxFrom (i + 1) t bs = i + 1 + int (length us)"
        "timeEqual (startOfDay (dCheckIn (dbStayPeriod c))) t"
        "\<forall>u \<in> set us. \<not> timeEqual (startOfDay (dCheckIn (dbStayPeriod u))) t" by auto
      with no have "b # bs = (b # us) @ c # vs \<and> bookingIdxFrom i t (b # bs) = i + int (length (b # us)) \<and>
        timeEqual (startOfDay (dCheckIn (dbStayPeriod c))) t \<and>
        (\<forall>u \<in> set (b # us). \<not> timeEqual (startOfDay (dCheckIn (dbStayPeriod u))) t)" by simp
      then show ?thesis by blast
    qed
  qed
qed simp

text \<open>The loop finds what \<open>find\<close> finds.\<close>

lemma bookingIdx_find:
  "(if bookingIdxFrom 0 t bs = -1 then None else Some (bs ! nat (bookingIdxFrom 0 t bs))) =
     List.find (\<lambda>b. timeEqual (startOfDay (dCheckIn (dbStayPeriod b))) t) bs"
proof (cases "bookingIdxFrom 0 t bs = -1")
  case True
  then have "\<forall>b \<in> set bs. \<not> timeEqual (startOfDay (dCheckIn (dbStayPeriod b))) t"
    using bookingIdxFrom_spec [of 0 t bs] by auto
  with True show ?thesis by (simp add: find_None_iff [THEN iffD2] eq_commute [of None])
next
  case False
  then obtain us b vs where h: "bs = us @ b # vs" "bookingIdxFrom 0 t bs = int (length us)"
    "timeEqual (startOfDay (dCheckIn (dbStayPeriod b))) t"
    "\<forall>u \<in> set us. \<not> timeEqual (startOfDay (dCheckIn (dbStayPeriod u))) t"
    using bookingIdxFrom_spec [of 0 t bs] by auto
  then have "List.find (\<lambda>b. timeEqual (startOfDay (dCheckIn (dbStayPeriod b))) t) bs = Some b"
    unfolding find_Some_first by blast
  with h False show ?thesis by (simp add: nth_append)
qed

lemma sameDate_iff: "timeEqual (startOfDay a) (startOfDay b) \<longleftrightarrow> dayNumber a = dayNumber b"
  by (simp add: timeEqual_def nsec_startOfDay nsPerDay_def)

section \<open>Properties\<close>

text \<open>A guest the constructor accepts survives storage: when the collection returns the document
  the service would store for it, looking the guest up by its identifier through the repository and
  the service returns that guest.\<close>

lemma guest_roundtrip:
  assumes "NewGuest i doc given sur email addr created updated = Inr g"
    and "colFindOne c [(''_id'', BId i)] s = Some (Inr (guestToMongoDoc g), s')"
  shows "guestServiceGetById (newGuestRepo c) i s = Some (Inr g, s')"
  using assms
  by (auto simp: guestServiceGetById_def newGuestRepo_def guestRepoGetById_def bindE_def mapErrE_def
      NewGuest_Inr_iff mapGuestDoc_eq guestToMongoDoc_def)

definition sampleGuest :: guest where
  "sampleGuest = \<lparr>gId = 1, gDocumentId = ''D1'', gGivenNames = ''Ada'', gSurname = ''Byron'',
     gEmail = ''ada@mail.org'', gBillingAddress = ''Street 1'',
     gCreatedAt = Some \<lparr>nsec = 0, loc = None\<rparr>, gLastUpdate = None\<rparr>"

lemma sampleGuest_email: "emailMatches ''ada@mail.org''"
  by code_simp

lemma sampleGuest_new:
  "NewGuest 1 ''D1'' ''Ada'' ''Byron'' ''ada@mail.org'' ''Street 1'' (Some \<lparr>nsec = 0, loc = None\<rparr>) None = Inr sampleGuest"
  by (simp add: NewGuest_Inr_iff sampleGuest_def sampleGuest_email not_isBlank_ascii isSpace1_def byteOf_def)

text \<open>The bookings of a guest are listed all or none: the service returns one booking per
  document, in the documents' order and each built by the two constructors, or the error of the
  first document that has no booking.\<close>

lemma getBookings_in_order:
  "guestServiceGetBookings br g s = (case brFindByGuestId br g s of
      None \<Rightarrow> None
    | Some (Inl e, s') \<Rightarrow> Some (Inl e, s')
    | Some (Inr docs, s') \<Rightarrow>
        Some (case List.find (\<lambda>d. \<exists>e. mapBookingDoc d = Inl e) docs of
            Some d \<Rightarrow> Inl (projl (mapBookingDoc d))
          | None \<Rightarrow> Inr (map (\<lambda>d. projr (mapBookingDoc d)) docs), s'))"
proof -
  have m: "mapBookingDocs docs acc = (case List.find (\<lambda>d. \<exists>e. mapBookingDoc d = Inl e) docs of
            Some d \<Rightarrow> Inl (projl (mapBookingDoc d))
          | None \<Rightarrow> Inr (acc @ map (\<lambda>d. projr (mapBookingDoc d)) docs))" for docs acc
  proof (induction docs arbitrary: acc)
    case (Cons d docs)
    then show ?case by (cases "mapBookingDoc d") (auto split: option.split)
  qed simp
  show ?thesis
    by (auto simp: guestServiceGetBookings_def bindE_def m split: option.split sum.split prod.split)
qed

text \<open>The booking of a date is the first stored booking whose check-in falls on that calendar
  date, each read in its own zone; a date with no such booking is the error that names the
  guest's document, and the other errors are wrapped with what failed.\<close>

lemma getBookingByDate_first:
  assumes "guestServiceGetByDocument gr document s = Some (Inr guest, s1)"
    and "brFindByGuestId br (gId guest) s1 = Some (Inr docs, s2)"
  shows "guestServiceGetBookingByDate gr br document date s = Some
    (case List.find (\<lambda>d. dayNumber (dCheckIn (dbStayPeriod d)) = dayNumber date) docs of
       None \<Rightarrow> Inl (Errorf ''no booking starting today for guest %s'' [FStr document])
     | Some d \<Rightarrow> (case mapBookingDoc d of
         Inr b \<Rightarrow> Inr b
       | Inl e \<Rightarrow> Inl (if timeBefore (dCheckIn (dbStayPeriod d)) (dCheckOut (dbStayPeriod d))
           then Wrapf ''map booking to domain for guest %s: %w'' [FStr document] e
           else Wrapf ''map booking stay period for guest %s: %w'' [FStr document] e)), s2)"
proof -
  let ?i = "bookingIdxFrom 0 (startOfDay date) docs"
  let ?k = "\<lambda>sel. bindE (mapErrE (Wrapf ''map booking stay period for guest %s: %w'' [FStr document])
         (liftE (NewPeriod (dCheckIn (dbStayPeriod sel)) (dCheckOut (dbStayPeriod sel)))))
       (\<lambda>stayPeriod.
       mapErrE (Wrapf ''map booking to domain for guest %s: %w'' [FStr document])
         (liftE (NewBooking (dbId sel) (dbMainGuest sel) (dbNumberOfGuests sel) stayPeriod
            (dbCottageName sel) (dbStatus sel))))"
  have f: "List.find (\<lambda>d. dayNumber (dCheckIn (dbStayPeriod d)) = dayNumber date) docs =
      (if ?i = -1 then None else Some (docs ! nat ?i))"
    unfolding bookingIdx_find sameDate_iff ..
  have k: "?k d s2 = Some (case mapBookingDoc d of
         Inr b \<Rightarrow> Inr b
       | Inl e \<Rightarrow> Inl (if timeBefore (dCheckIn (dbStayPeriod d)) (dCheckOut (dbStayPeriod d))
           then Wrapf ''map booking to domain for guest %s: %w'' [FStr document] e
           else Wrapf ''map booking stay period for guest %s: %w'' [FStr document] e), s2)" for d
    by (simp add: bindE_def mapErrE_def mapBookingDoc_def NewPeriod_eq timeBefore_def split: sum.split)
  show ?thesis
    unfolding guestServiceGetBookingByDate_def f
    using assms k [of "docs ! nat ?i"] by (simp add: Let_def)
qed

definition sampleToday :: gotime where
  "sampleToday = \<lparr>nsec = 1717236000000000000, loc = None\<rparr>"

definition sampleBookingDoc :: bookingDoc where
  "sampleBookingDoc = \<lparr>dbId = 7, dbMainGuest = 1, dbNumberOfGuests = 2,
     dbStayPeriod = \<lparr>dCheckIn = \<lparr>nsec = 1717243200000000000, loc = None\<rparr>,
       dCheckOut = \<lparr>nsec = 1717408800000000000, loc = None\<rparr>\<rparr>,
     dbCottageName = ''Oak'', dbStatus = BookingStatusConfirmed\<rparr>"

definition sampleBooking :: booking where
  "sampleBooking = \<lparr>bId = 7, bMainGuest = 1, bNumberOfGuests = 2,
     bStayPeriod = \<lparr>CheckIn = \<lparr>nsec = 1717200000000000000, loc = None\<rparr>,
       CheckOut = \<lparr>nsec = 1717372800000000000, loc = None\<rparr>\<rparr>,
     bCottageName = ''Oak'', bStatus = BookingStatusConfirmed\<rparr>"

lemma not_isBlank_samples [simp]: "\<not> isBlank ''Oak''" "\<not> isBlank BookingStatusConfirmed" "\<not> isBlank ''D1''"
  by (simp_all add: not_isBlank_ascii isSpace1_def byteOf_def BookingStatusConfirmed_def)

lemma sampleBooking_mapped: "mapBookingDoc sampleBookingDoc = Inr sampleBooking"
  by (simp add: mapBookingDoc_Inr_iff sampleBookingDoc_def sampleBooking_def startOfDay_eq dayNumber_def
      localNs_def zoneOffset_def zeroPeriod_def zeroTime_def time_consts)

lemma sampleBooking_today: "dayNumber (dCheckIn (dbStayPeriod sampleBookingDoc)) = dayNumber sampleToday"
  by (simp add: sampleBookingDoc_def sampleToday_def dayNumber_def localNs_def zoneOffset_def time_consts)

definition sampleBookingRepo :: "'s bookingRepo" where
  "sampleBookingRepo = \<lparr>brFindByGuestId = (\<lambda>_. retE [sampleBookingDoc]),
     brFindByCheckInDate = (\<lambda>_. retE [sampleBookingDoc]), brFindByGuestIdAndCheckIn = (\<lambda>_ _. retE sampleBookingDoc),
     brFindByGuestIdAndBookingNumber = (\<lambda>_ _. retE sampleBookingDoc), brUpdateStatus = (\<lambda>_ _. retE ())\<rparr>"

end
