(* ===== verification/Reception.thy ===== *)
theory Reception
  imports GuestService
begin

text \<open>
  \<open>internal/app/reception_service.go\<close>: check-in (with the cached bookings of the day, and by
  booking number), check-out, and the hand-over of the cottage key.
\<close>

section \<open>The service\<close>

text \<open>The field \<open>clockEventConsumer\<close> of the struct is stored and never used.\<close>

record 's receptionService =
  rsGuestService :: "'s guestService"
  rsCleaningService :: "'s cleaningService"
  rsCottageRepo :: "'s cottageRepo"
  rsBookingRepo :: "'s bookingRepo"
  rsCache :: "'s cachePort"

definition sameUTCDay :: "gotime \<Rightarrow> gotime \<Rightarrow> bool" where
  "sameUTCDay left right = (let l = timeUTC left; r = timeUTC right in
     timeYear l = timeYear r \<and> timeMonth l = timeMonth r \<and> timeDay l = timeDay r)"

definition checkinKey :: "gotime \<Rightarrow> string" where
  "checkinKey day = ''checkin.'' @ formatDay (timeUTC day)"

text \<open>The first cached booking of the guest, the zero booking if there is none.\<close>

fun firstOfGuest :: "objectID \<Rightarrow> booking list \<Rightarrow> booking" where
  "firstOfGuest g [] = zeroBooking"
| "firstOfGuest g (b # bs) = (if bMainGuest b \<noteq> g then firstOfGuest g bs else b)"

text \<open>\<open>um\<close> is \<open>json.Unmarshal\<close> into \<open>[]domain.Booking\<close>.\<close>

definition getFromCache ::
  "(string \<Rightarrow> gerr + booking list) \<Rightarrow> 's receptionService \<Rightarrow> gotime \<Rightarrow> guest \<Rightarrow> ('s, booking) io" where
  "getFromCache um r today guest =
     bindE (attemptE (cacheGetBytes (rsCache r) (checkinKey today))) (\<lambda>res. case res of
       Inl err \<Rightarrow> retE zeroBooking
     | Inr cachedBookingsJSON \<Rightarrow> (case um cachedBookingsJSON of
         Inl err \<Rightarrow> retE zeroBooking
       | Inr cachedBookings \<Rightarrow> retE (firstOfGuest (gId guest) cachedBookings)))"

definition processCheckIn ::
  "'s receptionService \<Rightarrow> string \<Rightarrow> booking \<Rightarrow> guest \<Rightarrow> gotime \<Rightarrow> ('s, unit) io" where
  "processCheckIn r document booking guest today =
     (if \<not> sameUTCDay (CheckIn (bStayPeriod booking)) today then failE (Errorf ''checkin day not today'' [])
      else if bStatus booking \<noteq> BookingStatusConfirmed
      then failE (Errorf ''booking for guest %s is not confirmed'' [FStr document])
      else
        let room = bCottageName booking in
        bindE (mapErrE (Wrapf ''failed to get cottage %s: %w'' [FStr room]) (ctGetByName (rsCottageRepo r) room))
        (\<lambda>cottage.
          if dcCurrentGuest cottage \<noteq> NilObjectID \<or> dcCleaningStatus cottage \<noteq> FullyCleaned
          then failE (Errorf ''cottage %s is not available'' [FStr room])
          else
            thenE (mapErrE (Wrapf ''failed to update current guest for room %s: %w'' [FStr room])
              (ctUpdateCurrentGuest (rsCottageRepo r) room (gId guest)))
            (bindE (mapErrE (Wrapf ''failed to create cleaning request for room %s: %w'' [FStr room])
              (liftE (NewCleaningOrder room PrepareForGuest)))
            (\<lambda>cleaningRequest.
              mapErrE (Wrapf ''failed to request cottage preparation for room %s: %w'' [FStr room])
                (csCleanRoom (rsCleaningService r) cleaningRequest)))))"

definition receptionCheckIn ::
  "(string \<Rightarrow> gerr + booking list) \<Rightarrow> 's receptionService \<Rightarrow> string \<Rightarrow> gotime \<Rightarrow> ('s, booking) io" where
  "receptionCheckIn um r document today =
     bindE (mapErrE (Wrapf ''failed to get guest %s: %w'' [FStr document])
       (gsGetByDocument (rsGuestService r) document)) (\<lambda>guest.
     bindE (attemptE (getFromCache um r today guest)) (\<lambda>cached.
     let lookup = mapErrE (Wrapf ''failed to get booking for guest %s: %w'' [FStr document])
       (gsGetBookingByDate (rsGuestService r) document today) in
     bindE (case cached of Inl err \<Rightarrow> lookup | Inr b \<Rightarrow> if b = zeroBooking then lookup else retE b) (\<lambda>booking.
     if booking = zeroBooking then failE (Errorf ''no booking found for guest %s'' [FStr document])
     else thenE (processCheckIn r document booking guest today) (retE booking))))"

definition receptionCheckinFallback ::
  "'s receptionService \<Rightarrow> string \<Rightarrow> string \<Rightarrow> gotime \<Rightarrow> ('s, booking) io" where
  "receptionCheckinFallback r document bookingNumber today =
     bindE (mapErrE (Wrapf ''failed to get guest %s: %w'' [FStr document])
       (gsGetByDocument (rsGuestService r) document)) (\<lambda>guest.
     bindE (mapErrE (Wrapf ''failed to get booking for guest %s: %w'' [FStr document])
       (brFindByGuestIdAndBookingNumber (rsBookingRepo r) (gId guest) bookingNumber)) (\<lambda>doc.
     if doc = zeroBookingDoc then failE (Errorf ''no booking found for guest %s'' [FStr document])
     else if \<not> timeEqual (startOfDay (dCheckIn (dbStayPeriod doc))) (startOfDay today)
     then failE (Errorf ''booking %s is not valid for check-in on %s'' [FStr bookingNumber, FDay (timeUTC today)])
     else
       bindE (mapErrE (Wrapf ''failed to map booking period for guest %s: %w'' [FStr document])
         (liftE (NewPeriod (dCheckIn (dbStayPeriod doc)) (dCheckOut (dbStayPeriod doc))))) (\<lambda>stayPeriod.
       bindE (mapErrE (Wrapf ''failed to map booking for guest %s: %w'' [FStr document])
         (liftE (NewBooking (dbId doc) (dbMainGuest doc) (dbNumberOfGuests doc) stayPeriod
            (dbCottageName doc) (dbStatus doc)))) (\<lambda>booking.
       thenE (processCheckIn r document booking guest today) (retE booking)))))"

definition receptionCheckOut :: "'s receptionService \<Rightarrow> booking \<Rightarrow> gotime \<Rightarrow> ('s, unit) io" where
  "receptionCheckOut r booking today =
     (let cottageName = bCottageName booking in
      thenE (mapErrE (Wrapf ''failed to update booking status for room %s: %w'' [FStr cottageName])
        (brUpdateStatus (rsBookingRepo r) (bId booking) BookingStatusPast))
      (thenE (mapErrE (Wrapf ''failed to remove past booking for room %s: %w'' [FStr cottageName])
        (ctRemovePastBooking (rsCottageRepo r) (bId booking)))
      (thenE (mapErrE (Wrapf ''failed to update current guest for room %s: %w'' [FStr cottageName])
        (ctUpdateCurrentGuest (rsCottageRepo r) cottageName NilObjectID))
      (bindE (mapErrE (Wrapf ''failed to create cleaning request for room %s: %w'' [FStr cottageName])
        (liftE (NewCleaningOrder cottageName FullCleaning))) (\<lambda>cleaningRequest.
      mapErrE (Wrapf ''failed to request cleaning for room %s: %w'' [FStr cottageName])
        (csCleanRoom (rsCleaningService r) cleaningRequest))))))"

definition receptionReceiveCottageKey :: "'s receptionService \<Rightarrow> string \<Rightarrow> string \<Rightarrow> ('s, unit) io" where
  "receptionReceiveCottageKey r cottageName keyNumber =
     mapErrE (Wrapf ''failed to update cottage key holder for room %s: %w'' [FStr cottageName])
       (ctUpdateKeyHolder (rsCottageRepo r) cottageName keyNumber KeyHolderGuest)"

definition receptionReturnCottageKey :: "'s receptionService \<Rightarrow> string \<Rightarrow> string \<Rightarrow> ('s, unit) io" where
  "receptionReturnCottageKey r cottageName keyNumber =
     mapErrE (Wrapf ''failed to update cottage key holder for room %s: %w'' [FStr cottageName])
       (ctUpdateKeyHolder (rsCottageRepo r) cottageName keyNumber KeyHolderCottage)"

text \<open>The wiring of \<open>internal/app/init.go\<close>: the services over the repositories, the broker and the cache.\<close>

definition newReceptionService ::
  "'s guestService \<Rightarrow> 's cleaningService \<Rightarrow> 's cottageRepo \<Rightarrow> 's bookingRepo \<Rightarrow> 's cachePort \<Rightarrow> 's receptionService" where
  "newReceptionService gs cs ct br ca = \<lparr>rsGuestService = gs, rsCleaningService = cs, rsCottageRepo = ct,
     rsBookingRepo = br, rsCache = ca\<rparr>"

definition wiredReception ::
  "'s guestRepo \<Rightarrow> 's cottageRepo \<Rightarrow> 's bookingRepo \<Rightarrow> 's cachePort \<Rightarrow> 's mqPublisher \<Rightarrow> 's receptionService" where
  "wiredReception gr ct br ca pub =
     newReceptionService (newGuestService gr br) (newCleaningService pub) ct br ca"

text \<open>The same service with every call on its collaborators recorded.\<close>

definition loggedReception ::
  "'s guestRepo \<Rightarrow> 's cottageRepo \<Rightarrow> 's bookingRepo \<Rightarrow> 's cachePort \<Rightarrow> 's mqPublisher
    \<Rightarrow> ('s \<times> call list) receptionService" where
  "loggedReception gr ct br ca pub =
     wiredReception (logGuestRepo gr) (logCottageRepo ct) (logBookingRepo br) (logCache ca) (logPublisher pub)"

section \<open>The abstract specification of a check-in\<close>

text \<open>
  What the reception does to the cottage for a booking, as the list of its calls: nothing when
  the day or the status is wrong; otherwise it reads the cottage, claims it only when what it
  read is free and fully cleaned, and asks for the preparation only after a successful claim.
\<close>

definition available :: "cottageDoc \<Rightarrow> bool" where
  "available c \<longleftrightarrow> dcCurrentGuest c = NilObjectID \<and> dcCleaningStatus c = FullyCleaned"

definition admissible :: "booking \<Rightarrow> gotime \<Rightarrow> bool" where
  "admissible b today \<longleftrightarrow> dayNumber (timeUTC (CheckIn (bStayPeriod b))) = dayNumber (timeUTC today) \<and>
     bStatus b = BookingStatusConfirmed"

abbreviation preparation :: "string \<Rightarrow> protoMessage" where
  "preparation room \<equiv> MsgCleaningRequest \<lparr>crRoomName = room, crRequest = RT_PREPARE_FOR_GUEST\<rparr>"

inductive claimTrace :: "booking \<Rightarrow> objectID \<Rightarrow> gotime \<Rightarrow> call list \<Rightarrow> bool \<Rightarrow> bool" where
  refused: "\<not> admissible b today \<Longrightarrow> claimTrace b g today [] False"
| lookup_failed: "admissible b today \<Longrightarrow> claimTrace b g today [CCottageGetByName (bCottageName b) (Inl e)] False"
| not_ready: "admissible b today \<Longrightarrow> \<not> available c \<Longrightarrow>
    claimTrace b g today [CCottageGetByName (bCottageName b) (Inr c)] False"
| claim_failed: "admissible b today \<Longrightarrow> available c \<Longrightarrow>
    claimTrace b g today [CCottageGetByName (bCottageName b) (Inr c), CUpdateCurrentGuest (bCottageName b) g (Inl e)] False"
| blank_room: "admissible b today \<Longrightarrow> available c \<Longrightarrow> isBlank (bCottageName b) \<Longrightarrow>
    claimTrace b g today [CCottageGetByName (bCottageName b) (Inr c), CUpdateCurrentGuest (bCottageName b) g (Inr ())] False"
| prepared: "admissible b today \<Longrightarrow> available c \<Longrightarrow> \<not> isBlank (bCottageName b) \<Longrightarrow>
    claimTrace b g today [CCottageGetByName (bCottageName b) (Inr c), CUpdateCurrentGuest (bCottageName b) g (Inr ()),
      CPublish (preparation (bCottageName b)) [] res] (\<exists>u. res = Inr u)"

inductive_cases claimTrace_True: "claimTrace b g today l True"

section \<open>Lemmas\<close>

lemma sameUTCDay_iff: "sameUTCDay a b \<longleftrightarrow> dayNumber (timeUTC a) = dayNumber (timeUTC b)"
proof -
  have "sameUTCDay a b \<longleftrightarrow> timeDate (timeUTC a) = timeDate (timeUTC b)"
    by (auto simp: sameUTCDay_def Let_def timeYear_def timeMonth_def timeDay_def prod_eq_iff)
  then show ?thesis by (simp add: timeDate_def civilFromDays_inj)
qed

lemma firstOfGuest_find:
  "firstOfGuest g bs = (case List.find (\<lambda>b. bMainGuest b = g) bs of None \<Rightarrow> zeroBooking | Some b \<Rightarrow> b)"
  by (induction bs) auto

text \<open>Calls that write nothing.\<close>

definition reads_only :: "'s \<times> call list \<Rightarrow> 's \<times> call list \<Rightarrow> bool" where
  "reads_only a b \<longleftrightarrow> (\<exists>new. snd b = snd a @ new \<and> list_all (\<lambda>c. \<not> isWrite c) new)"

interpretation ro: frame reads_only
  by unfold_locales (fastforce simp: reads_only_def)+

lemma keeps_logged_read: "(\<And>r. \<not> isWrite (ev r)) \<Longrightarrow> keeps reads_only (logged ev m)"
  by (rule keepsI) (auto simp: logged_Some reads_only_def)

lemma keeps_getByDocument: "keeps reads_only (guestServiceGetByDocument (logGuestRepo gr) d)"
  unfolding guestServiceGetByDocument_def
  by (intro ro.keeps_rules) (simp add: keeps_logged_read)

lemma keeps_getBookingByDate:
  "keeps reads_only (guestServiceGetBookingByDate (logGuestRepo gr) (logBookingRepo br) d t)"
  unfolding guestServiceGetBookingByDate_def Let_def
  by (intro ro.keeps_rules keeps_getByDocument) (simp add: keeps_logged_read)

lemma keeps_getFromCache:
  "keeps reads_only (getFromCache um (loggedReception gr ct br ca pub) t g)"
proof -
  have "keeps reads_only (cacheGetBytes (rsCache (loggedReception gr ct br ca pub)) k)" for k
    by (simp add: loggedReception_def wiredReception_def newReceptionService_def keeps_logged_read)
  then show ?thesis unfolding getFromCache_def by (intro ro.keeps_rules)
qed

lemma reception_sel:
  "rsCottageRepo (loggedReception gr ct br ca pub) = logCottageRepo ct"
  "rsBookingRepo (loggedReception gr ct br ca pub) = logBookingRepo br"
  "csCleanRoom (rsCleaningService (loggedReception gr ct br ca pub)) =
     (\<lambda>o'. logged (CPublish (MsgCleaningRequest (cleaningOrderToDto o')) []) (pubPublish pub (MsgCleaningRequest (cleaningOrderToDto o')) []))"
  "gsGetByDocument (rsGuestService (loggedReception gr ct br ca pub)) = guestServiceGetByDocument (logGuestRepo gr)"
  "gsGetBookingByDate (rsGuestService (loggedReception gr ct br ca pub)) =
     guestServiceGetBookingByDate (logGuestRepo gr) (logBookingRepo br)"
  by (simp_all add: loggedReception_def wiredReception_def newReceptionService_def newGuestService_def
      newCleaningService_def cleaningServiceCleanRoom_def fun_eq_iff)

lemma preparation_dto:
  "cleaningOrderToDto \<lparr>RoomName = room, RequestType = PrepareForGuest\<rparr> = \<lparr>crRoomName = room, crRequest = RT_PREPARE_FOR_GUEST\<rparr>"
  by (simp add: cleaningOrderToDto_def cleaningOrderTypeDtoMap_def)

text \<open>The check-in of a booking, with the state written out.\<close>

lemma processCheckIn_eq:
  "processCheckIn r doc b g today s =
     (if \<not> admissible b today
      then Some (Inl (if sameUTCDay (CheckIn (bStayPeriod b)) today
        then Errorf ''booking for guest %s is not confirmed'' [FStr doc] else Errorf ''checkin day not today'' []), s)
      else case ctGetByName (rsCottageRepo r) (bCottageName b) s of
        None \<Rightarrow> None
      | Some (Inl e, s1) \<Rightarrow> Some (Inl (Wrapf ''failed to get cottage %s: %w'' [FStr (bCottageName b)] e), s1)
      | Some (Inr c, s1) \<Rightarrow>
          if \<not> available c then Some (Inl (Errorf ''cottage %s is not available'' [FStr (bCottageName b)]), s1)
          else case ctUpdateCurrentGuest (rsCottageRepo r) (bCottageName b) (gId g) s1 of
            None \<Rightarrow> None
          | Some (Inl e, s2) \<Rightarrow>
              Some (Inl (Wrapf ''failed to update current guest for room %s: %w'' [FStr (bCottageName b)] e), s2)
          | Some (Inr _, s2) \<Rightarrow> (case NewCleaningOrder (bCottageName b) PrepareForGuest of
              Inl e \<Rightarrow> Some (Inl (Wrapf ''failed to create cleaning request for room %s: %w'' [FStr (bCottageName b)] e), s2)
            | Inr order \<Rightarrow> mapErrE (Wrapf ''failed to request cottage preparation for room %s: %w'' [FStr (bCottageName b)])
                (csCleanRoom (rsCleaningService r) order) s2))"
  by (simp add: processCheckIn_def admissible_def available_def sameUTCDay_iff Let_def bindE_def mapErrE_def
      split: option.split sum.split prod.split)

text \<open>Every run of the check-in of a booking is a run of the specification.\<close>

lemma processCheckIn_claimTrace:
  assumes "processCheckIn (loggedReception gr ct br ca pub) doc b g today (s, l) = Some (r, (s', l'))"
  shows "\<exists>new. l' = l @ new \<and> claimTrace b (gId g) today new (\<exists>u. r = Inr u)"
proof -
  let ?room = "bCottageName b"
  note eq = assms [unfolded processCheckIn_eq reception_sel]
  have I: "?thesis" if "claimTrace b (gId g) today new k" "l' = l @ new" "(\<exists>u. r = Inr u) = k" for new k
    using that by blast
  show ?thesis
  proof (cases "admissible b today")
    case False
    with eq have "l' = l @ []" "(\<exists>u. r = Inr u) = False" by auto
    with I [OF claimTrace.refused [OF False, of "gId g"]] show ?thesis by simp
  next
    case True
    with eq obtain x s1 where get: "ctGetByName ct ?room s = Some (x, s1)" by (auto split: option.splits)
    show ?thesis
    proof (cases x)
      case (Inl e)
      with eq True get have "l' = l @ [CCottageGetByName ?room (Inl e)]" "(\<exists>u. r = Inr u) = False" by auto
      with I [OF claimTrace.lookup_failed [OF True]] show ?thesis by simp
    next
      case x: (Inr c)
      show ?thesis
      proof (cases "available c")
        case False
        with eq True get x have "l' = l @ [CCottageGetByName ?room (Inr c)]" "(\<exists>u. r = Inr u) = False" by auto
        with I [OF claimTrace.not_ready [OF True False]] show ?thesis by simp
      next
        case av: True
        with eq True get x obtain y s2 where upd: "ctUpdateCurrentGuest ct ?room (gId g) s1 = Some (y, s2)"
          by (auto split: option.splits)
        show ?thesis
        proof (cases y)
          case (Inl e)
          with eq True get x av upd have "l' = l @ [CCottageGetByName ?room (Inr c), CUpdateCurrentGuest ?room (gId g) (Inl e)]"
            "(\<exists>u. r = Inr u) = False" by auto
          with I [OF claimTrace.claim_failed [OF True av]] show ?thesis by simp
        next
          case y: (Inr u)
          show ?thesis
          proof (cases "isBlank ?room")
            case bl: True
            with eq True get x av upd y have "l' = l @ [CCottageGetByName ?room (Inr c), CUpdateCurrentGuest ?room (gId g) (Inr ())]"
              "(\<exists>u. r = Inr u) = False" by (auto simp: NewCleaningOrder_eq)
            with I [OF claimTrace.blank_room [OF True av bl]] show ?thesis by simp
          next
            case nb: False
            note run = eq True get x av upd y nb
            show ?thesis
            proof (cases "pubPublish pub (preparation ?room) [] s2")
              case None
              with run show ?thesis by (simp add: NewCleaningOrder_eq preparation_dto mapErrE_def)
            next
              case (Some zs)
              obtain z s3 where z: "zs = (z, s3)" by fastforce
              have "l' = l @ [CCottageGetByName ?room (Inr c), CUpdateCurrentGuest ?room (gId g) (Inr ()), CPublish (preparation ?room) [] z]"
                "(\<exists>u. r = Inr u) = (\<exists>u. z = Inr u)"
                using run Some z by (cases z; simp add: NewCleaningOrder_eq preparation_dto mapErrE_def; blast)+
              with I [OF claimTrace.prepared [OF True av nb, of "gId g" z]] show ?thesis by simp
            qed
          qed
        qed
      qed
    qed
  qed
qed

lemma getByDocument_log:
  assumes "guestServiceGetByDocument (logGuestRepo gr) doc (s, l) = Some (Inr g, (s', l'))"
  shows "\<exists>d. l' = l @ [CGuestGetByDocument doc (Inr d)] \<and> gId g = dgId d"
  using assms
  by (auto simp: guestServiceGetByDocument_def bindE_Some_Inr logged_Some mapGuestDoc_eq NewGuest_Inr_iff
      split: option.splits)

section \<open>Properties\<close>

text \<open>Two instants share the cache key of their check-in day exactly when they are on the same
  UTC day, so the day the check-in compares with is the day the cached bookings were stored under.\<close>

lemma checkinKey_sameUTCDay: "checkinKey a = checkinKey b \<longleftrightarrow> sameUTCDay a b"
  by (simp add: checkinKey_def formatDay_eq_iff sameUTCDay_iff)

lemma reads_only_snd: "reads_only (s, l) (s', l') \<Longrightarrow> \<exists>new. l' = l @ new \<and> list_all (\<lambda>c. \<not> isWrite c) new"
  by (simp add: reads_only_def)

text \<open>A check-in reads until it has a guest and a booking, or it fails; then it processes the booking.\<close>

lemma checkIn_reads_first:
  fixes gr :: "'s guestRepo"
  assumes run: "receptionCheckIn um (loggedReception gr ct br ca pub) doc today s0 = Some (r, s')"
  obtains (halt) e where "r = Inl e" "reads_only s0 s'"
  | (process) g b t1 t3 p where "guestServiceGetByDocument (logGuestRepo gr) doc s0 = Some (Inr g, t1)"
      "reads_only s0 t3" "reads_only t1 t3"
      "processCheckIn (loggedReception gr ct br ca pub) doc b g today t3 = Some (p, s')"
      "(\<exists>x. r = Inr x) = (\<exists>u. p = Inr u)" "\<forall>x. r = Inr x \<longrightarrow> x = b"
proof -
  let ?R = "loggedReception gr ct br ca pub"
  define lookup where "lookup = mapErrE (Wrapf ''failed to get booking for guest %s: %w'' [FStr doc])
     (guestServiceGetBookingByDate (logGuestRepo gr) (logBookingRepo br) doc today)"
  have k1: "keeps reads_only (mapErrE (Wrapf ''failed to get guest %s: %w'' [FStr doc])
     (guestServiceGetByDocument (logGuestRepo gr) doc))" by (intro ro.keeps_rules keeps_getByDocument)
  have k2: "keeps reads_only (attemptE (getFromCache um ?R today g))" for g
    by (intro ro.keeps_rules keeps_getFromCache)
  have k3: "keeps reads_only (case c of Inl err \<Rightarrow> lookup | Inr b \<Rightarrow> if b = zeroBooking then lookup else retE b)" for c
    unfolding lookup_def by (intro ro.keeps_rules keeps_getBookingByDate)
  note run' = run [unfolded receptionCheckIn_def reception_sel Let_def, folded lookup_def]
  from run' k1 show ?thesis
  proof (cases rule: ro.keeps_bind_cases)
    case guest: (go g t1)
    from guest(3) k2 show ?thesis
    proof (cases rule: ro.keeps_bind_cases)
      case (stop e)
      then show ?thesis by (rule halt [OF _ ro.frame_trans [OF guest(2)]])
    next
      case cached: (go c t2)
      note r2 = ro.frame_trans [OF guest(2) cached(2)]
      from cached(3) k3 show ?thesis
      proof (cases rule: ro.keeps_bind_cases)
        case (stop e)
        then show ?thesis by (rule halt [OF _ ro.frame_trans [OF r2]])
      next
        case (go b t3)
        note r3 = ro.frame_trans [OF r2 go(2)] and r13 = ro.frame_trans [OF cached(2) go(2)]
        show ?thesis
        proof (cases "b = zeroBooking")
          case True
          with go(3) r3 show ?thesis by (intro halt) auto
        next
          case False
          with go(3) guest(1) r3 r13 show ?thesis by (auto simp: bindE_Some intro: process)
        qed
      qed
    qed
  qed (rule halt)
qed

text \<open>C1: whatever its collaborators do, a check-in changes stored data or sends a message only as
  the specification allows: after reads only, it claims the cottage of a confirmed booking of
  today's UTC day, for the guest it looked up by the document, right after reading that cottage
  as free and fully cleaned; it requests the preparation only after the claim, and it returns the
  booking exactly when every one of these calls succeeded.\<close>

theorem checkIn_claims_only_available:
  assumes run: "receptionCheckIn um (loggedReception gr ct br ca pub) doc today (s, []) = Some (r, (s', l))"
  shows "\<exists>pre post. l = pre @ post \<and> list_all (\<lambda>c. \<not> isWrite c) pre \<and>
    ((post = [] \<and> (\<exists>e. r = Inl e)) \<or>
     (\<exists>b d. CGuestGetByDocument doc (Inr d) \<in> set pre \<and> claimTrace b (dgId d) today post (\<exists>x. r = Inr x) \<and>
        (\<forall>x. r = Inr x \<longrightarrow> x = b)))"
  using run
proof (cases rule: checkIn_reads_first)
  case (halt e)
  with reads_only_snd [OF halt(2)] show ?thesis by auto
next
  case (process g b t1 t3 p)
  obtain s1 l1 s3 l3 where t: "t1 = (s1, l1)" "t3 = (s3, l3)" by (cases t1; cases t3)
  from getByDocument_log [OF process(1) [unfolded t]] obtain d where
    d: "CGuestGetByDocument doc (Inr d) \<in> set l1" "gId g = dgId d" by auto
  from process(2) have pre: "list_all (\<lambda>c. \<not> isWrite c) l3" unfolding t by (auto dest: reads_only_snd)
  from process(3) d(1) have mem: "CGuestGetByDocument doc (Inr d) \<in> set l3" by (auto simp: t reads_only_def)
  from processCheckIn_claimTrace [OF process(4) [unfolded t]] d(2) obtain post where
    "l = l3 @ post" "claimTrace b (dgId d) today post (\<exists>x. r = Inr x)" unfolding process(5) by auto
  with pre mem process(6) show ?thesis by blast
qed

definition sampleGuestRepo :: "'s guestRepo" where
  "sampleGuestRepo = \<lparr>grGetById = (\<lambda>_. retE sampleGuestDoc), grGetByDocument = (\<lambda>_. retE sampleGuestDoc),
     grAdd = (\<lambda>_. retE 1), grUpdate = (\<lambda>_ _. retE sampleGuestDoc)\<rparr>"

definition sampleCottageDoc :: cottageDoc where
  "sampleCottageDoc = \<lparr>dcId = 3, dcName = ''Oak'', dcView = [], dcDetails = \<lparr>cdDescription = [], cdView = [],
     cdFurnitureDescription = [], cdBathroomDescription = [], cdAmenitiesDescription = []\<rparr>, dcPhotos = [],
     dcPricePerNight = 0, dcBookings = [7], dcCurrentGuest = NilObjectID, dcCleaningStatus = FullyCleaned,
     dcKey = \<lparr>kNumber = ''K1'', kHolder = KeyHolderCottage\<rparr>\<rparr>"

definition sampleCottageRepo :: "unit cottageRepo" where
  "sampleCottageRepo = \<lparr>ctGetByName = (\<lambda>_. retE sampleCottageDoc), ctUpdateCurrentGuest = (\<lambda>_ _. retE ()),
     ctUpdateKeyHolder = (\<lambda>_ _ _. retE ()), ctRemovePastBooking = (\<lambda>_. retE ())\<rparr>"

definition sampleCache :: "'s cachePort" where
  "sampleCache = \<lparr>cacheGetBytes = (\<lambda>_. failE (Sentinel SErrCacheMiss)), cacheSetBytes = (\<lambda>_ _ _. retE ())\<rparr>"

definition brokenPublisher :: "'s mqPublisher" where
  "brokenPublisher = \<lparr>pubPublish = (\<lambda>_ _. failE (LibErr ''broker''))\<rparr>"

definition samplePublisher :: "unit mqPublisher" where
  "samplePublisher = \<lparr>pubPublish = (\<lambda>_ _. retE ())\<rparr>"

abbreviation sampleReception :: "(unit \<times> call list) receptionService" where
  "sampleReception \<equiv> loggedReception sampleGuestRepo sampleCottageRepo sampleBookingRepo sampleCache samplePublisher"

lemma sample_getByDocument:
  "guestServiceGetByDocument (logGuestRepo sampleGuestRepo) d ((), l) =
     Some (Inr sampleGuest, ((), l @ [CGuestGetByDocument d (Inr sampleGuestDoc)]))"
  using sampleGuest_new
  by (simp add: guestServiceGetByDocument_def sampleGuestRepo_def bindE_def mapGuestDoc_eq sampleGuestDoc_def)

lemma sample_getBookingByDate:
  "guestServiceGetBookingByDate (logGuestRepo sampleGuestRepo) (logBookingRepo sampleBookingRepo) d sampleToday ((), l) =
     Some (Inr sampleBooking, ((), l @ [CGuestGetByDocument d (Inr sampleGuestDoc),
       CFindByGuestId (gId sampleGuest) (Inr [sampleBookingDoc])]))"
proof -
  have i: "bookingIdxFrom 0 (startOfDay sampleToday) [sampleBookingDoc] = 0"
    by (simp add: sameDate_iff sampleBooking_today)
  from sampleBooking_mapped obtain p where "NewPeriod (dCheckIn (dbStayPeriod sampleBookingDoc))
      (dCheckOut (dbStayPeriod sampleBookingDoc)) = Inr p"
    "NewBooking (dbId sampleBookingDoc) (dbMainGuest sampleBookingDoc) (dbNumberOfGuests sampleBookingDoc) p
      (dbCottageName sampleBookingDoc) (dbStatus sampleBookingDoc) = Inr sampleBooking"
    by (auto simp: mapBookingDoc_def split: sum.splits)
  then show ?thesis
    by (simp add: guestServiceGetBookingByDate_def bindE_def mapErrE_def sample_getByDocument sampleBookingRepo_def
        Let_def i sameDate_iff sampleBooking_today)
qed

lemma sample_admissible: "admissible sampleBooking sampleToday"
  by (simp add: admissible_def dayNumber_def localNs_def zoneOffset_def sampleBooking_def sampleToday_def nsPerDay_def)

lemma sample_processCheckIn:
  "processCheckIn sampleReception d sampleBooking sampleGuest sampleToday ((), l) =
     Some (Inr (), ((), l @ [CCottageGetByName ''Oak'' (Inr sampleCottageDoc), CUpdateCurrentGuest ''Oak'' 1 (Inr ()),
       CPublish (preparation ''Oak'') [] (Inr ())]))"
proof -
  have "available sampleCottageDoc" by (simp add: available_def sampleCottageDoc_def)
  moreover have "bCottageName sampleBooking = ''Oak''" "gId sampleGuest = 1"
    by (simp_all add: sampleBooking_def sampleGuest_def)
  ultimately show ?thesis
    by (simp add: processCheckIn_eq sample_admissible reception_sel NewCleaningOrder_eq preparation_dto mapErrE_def
        sampleCottageRepo_def samplePublisher_def)
qed

definition sampleCalls :: "call list" where
  "sampleCalls = [CGuestGetByDocument ''D1'' (Inr sampleGuestDoc),
       CCacheGet (checkinKey sampleToday) (Inl (Sentinel SErrCacheMiss)),
       CGuestGetByDocument ''D1'' (Inr sampleGuestDoc), CFindByGuestId (gId sampleGuest) (Inr [sampleBookingDoc]),
       CCottageGetByName ''Oak'' (Inr sampleCottageDoc), CUpdateCurrentGuest ''Oak'' 1 (Inr ()),
       CPublish (preparation ''Oak'') [] (Inr ())]"

lemma sample_checkIn:
  "receptionCheckIn (\<lambda>_. Inr []) sampleReception ''D1'' sampleToday ((), []) =
     Some (Inr sampleBooking, ((), sampleCalls))"
proof -
  have "rsCache sampleReception = logCache sampleCache"
    by (simp add: loggedReception_def wiredReception_def newReceptionService_def)
  then have "getFromCache (\<lambda>_. Inr []) sampleReception sampleToday sampleGuest ((), l) =
      Some (Inr zeroBooking, ((), l @ [CCacheGet (checkinKey sampleToday) (Inl (Sentinel SErrCacheMiss))]))" for l
    by (simp add: getFromCache_def sampleCache_def bindE_def attemptE_def)
  moreover have "sampleBooking \<noteq> zeroBooking" by (simp add: sampleBooking_def zeroBooking_def)
  ultimately show ?thesis
    by (simp add: receptionCheckIn_def reception_sel bindE_def mapErrE_def attemptE_def sample_getByDocument
        sample_getBookingByDate sample_processCheckIn sampleCalls_def)
qed

theorem checkIn_claims_only_available_witness:
  "\<exists>pre post d. sampleCalls = pre @ post \<and> list_all (\<lambda>c. \<not> isWrite c) pre \<and>
     CGuestGetByDocument ''D1'' (Inr d) \<in> set pre \<and> claimTrace sampleBooking (dgId d) sampleToday post True"
  using checkIn_claims_only_available [OF sample_checkIn] by simp

text \<open>C3: a check-in by booking number succeeds only for the stored booking found for the guest and
  the number, when that booking starts on today's date read in each zone as well as on today's
  UTC day, is confirmed, and its cottage was read as available, claimed and ordered prepared.\<close>

theorem checkinFallback_success:
  assumes "receptionCheckinFallback (loggedReception gr ct br ca pub) doc number today (s, []) = Some (Inr b, (s', l))"
  shows "\<exists>d bd c. dayNumber (dCheckIn (dbStayPeriod bd)) = dayNumber today \<and> mapBookingDoc bd = Inr b \<and>
    admissible b today \<and> available c \<and>
    l = [CGuestGetByDocument doc (Inr d), CFindByGuestIdAndBookingNumber (dgId d) number (Inr bd),
      CCottageGetByName (bCottageName b) (Inr c), CUpdateCurrentGuest (bCottageName b) (dgId d) (Inr ()),
      CPublish (preparation (bCottageName b)) [] (Inr ())]"
proof -
  let ?R = "loggedReception gr ct br ca pub"
  from assms obtain g s1 l1 bd s2 where
    g: "guestServiceGetByDocument (logGuestRepo gr) doc (s, []) = Some (Inr g, (s1, l1))" and
    bd: "brFindByGuestIdAndBookingNumber br (gId g) number s1 = Some (Inr bd, s2)" and
    day: "timeEqual (startOfDay (dCheckIn (dbStayPeriod bd))) (startOfDay today)" and
    map: "mapBookingDoc bd = Inr b" and
    p: "processCheckIn ?R doc b g today (s2, l1 @ [CFindByGuestIdAndBookingNumber (gId g) number (Inr bd)]) = Some (Inr (), (s', l))"
    unfolding receptionCheckinFallback_def reception_sel
    by (fastforce simp: bindE_Some_Inr logged_Some mapBookingDoc_def split: if_splits)
  from getByDocument_log [OF g] obtain d where d: "l1 = [CGuestGetByDocument doc (Inr d)]" "gId g = dgId d" by auto
  from processCheckIn_claimTrace [OF p] obtain post where
    post: "l = (l1 @ [CFindByGuestIdAndBookingNumber (gId g) number (Inr bd)]) @ post" "claimTrace b (gId g) today post True"
    by auto
  from post(2) obtain c where "admissible b today" "available c"
    "post = [CCottageGetByName (bCottageName b) (Inr c), CUpdateCurrentGuest (bCottageName b) (gId g) (Inr ()),
      CPublish (preparation (bCottageName b)) [] (Inr ())]"
    by (cases rule: claimTrace_True) auto
  with day map d post(1) show ?thesis by (auto simp: sameDate_iff)
qed

lemma sample_fallback:
  "\<exists>l. receptionCheckinFallback sampleReception ''D1'' ''07'' sampleToday ((), []) = Some (Inr sampleBooking, ((), l))"
proof -
  from sampleBooking_mapped obtain p where p: "NewPeriod (dCheckIn (dbStayPeriod sampleBookingDoc))
      (dCheckOut (dbStayPeriod sampleBookingDoc)) = Inr p"
    "NewBooking (dbId sampleBookingDoc) (dbMainGuest sampleBookingDoc) (dbNumberOfGuests sampleBookingDoc) p
      (dbCottageName sampleBookingDoc) (dbStatus sampleBookingDoc) = Inr sampleBooking"
    by (auto simp: mapBookingDoc_def split: sum.splits)
  have "sampleBookingDoc \<noteq> zeroBookingDoc" by (simp add: sampleBookingDoc_def zeroBookingDoc_def)
  moreover have "brFindByGuestIdAndBookingNumber sampleBookingRepo g n () = Some (Inr sampleBookingDoc, ())" for g n
    by (simp add: sampleBookingRepo_def)
  ultimately show ?thesis using p
    by (simp add: receptionCheckinFallback_def reception_sel bindE_def mapErrE_def sample_getByDocument
        sameDate_iff sampleBooking_today sample_processCheckIn)
qed

theorem checkinFallback_success_witness:
  "\<exists>l g. receptionCheckinFallback sampleReception ''D1'' ''07'' sampleToday ((), []) = Some (Inr sampleBooking, ((), l)) \<and>
     CUpdateCurrentGuest ''Oak'' g (Inr ()) \<in> set l"
proof -
  obtain l where l: "receptionCheckinFallback sampleReception ''D1'' ''07'' sampleToday ((), []) = Some (Inr sampleBooking, ((), l))"
    using sample_fallback by blast
  have "bCottageName sampleBooking = ''Oak''" by (simp add: sampleBooking_def)
  with l checkinFallback_success [OF l] show ?thesis by auto
qed

text \<open>The booking of \<open>reception_service_test.go\<close> (line 144): 24 to 27 March 2026.\<close>

definition marchBooking :: booking where
  "marchBooking = \<lparr>bId = 7, bMainGuest = 1, bNumberOfGuests = 2,
     bStayPeriod = \<lparr>CheckIn = \<lparr>nsec = 1774310400000000000, loc = None\<rparr>, CheckOut = \<lparr>nsec = 1774569600000000000, loc = None\<rparr>\<rparr>,
     bCottageName = ''Oak'', bStatus = BookingStatusConfirmed\<rparr>"

lemma march_checkOut:
  "receptionCheckOut sampleReception marchBooking (CheckIn (bStayPeriod marchBooking)) ((), []) =
     Some (Inr (), ((), [CUpdateStatus 7 BookingStatusPast (Inr ()), CRemovePastBooking 7 (Inr ()),
       CUpdateCurrentGuest ''Oak'' NilObjectID (Inr ()),
       CPublish (MsgCleaningRequest \<lparr>crRoomName = ''Oak'', crRequest = RT_FULL_CLEANING\<rparr>) [] (Inr ())]))"
  by (simp add: Let_def receptionCheckOut_def reception_sel marchBooking_def NewCleaningOrder_eq cleaningOrderToDto_def
      cleaningOrderTypeDtoMap_def enum_defs bindE_def mapErrE_def liftE_def sampleBookingRepo_def sampleCottageRepo_def
      samplePublisher_def)

text \<open>C2: a check-out closes the booking, removes it from the cottage, frees the cottage and requests
  the full cleaning, in this order; it stops at the first failure with an error and succeeds only
  when all four steps do. It does so on every day exactly as on the day of the departure: the
  check of the day is commented out (\<open>reception_service.go\<close>, lines 162-167). The test
  \<open>reception_service_test.go\<close>, lines 143-178, requires the error ''checkout day not today'' and no call
  on another day; the witness is the input of this test, and the check-out is carried out.\<close>

theorem checkOut_order:
  assumes "\<not> isBlank (bCottageName b)"
  shows "follows [CUpdateStatus (bId b) BookingStatusPast, CRemovePastBooking (bId b),
      CUpdateCurrentGuest (bCottageName b) NilObjectID,
      CPublish (MsgCleaningRequest \<lparr>crRoomName = bCottageName b, crRequest = RT_FULL_CLEANING\<rparr>) []]
    (receptionCheckOut (loggedReception gr ct br ca pub) b today) \<and>
    receptionCheckOut (loggedReception gr ct br ca pub) b today =
      receptionCheckOut (loggedReception gr ct br ca pub) b (CheckOut (bStayPeriod b))"
proof
  have dto: "cleaningOrderToDto \<lparr>RoomName = bCottageName b, RequestType = FullCleaning\<rparr> =
      \<lparr>crRoomName = bCottageName b, crRequest = RT_FULL_CLEANING\<rparr>"
    by (simp add: cleaningOrderToDto_def cleaningOrderTypeDtoMap_def enum_defs)
  from assms show "follows [CUpdateStatus (bId b) BookingStatusPast, CRemovePastBooking (bId b),
      CUpdateCurrentGuest (bCottageName b) NilObjectID,
      CPublish (MsgCleaningRequest \<lparr>crRoomName = bCottageName b, crRequest = RT_FULL_CLEANING\<rparr>) []]
    (receptionCheckOut (loggedReception gr ct br ca pub) b today)"
    unfolding receptionCheckOut_def reception_sel Let_def
    by (simp add: NewCleaningOrder_eq dto) (intro follows_rules)
qed (simp add: receptionCheckOut_def)

theorem checkOut_order_witness:
  "\<not> sameUTCDay (CheckOut (bStayPeriod marchBooking)) (CheckIn (bStayPeriod marchBooking)) \<and>
   receptionCheckOut sampleReception marchBooking (CheckIn (bStayPeriod marchBooking)) =
     receptionCheckOut sampleReception marchBooking (CheckOut (bStayPeriod marchBooking)) \<and>
   receptionCheckOut sampleReception marchBooking (CheckIn (bStayPeriod marchBooking)) ((), []) =
     Some (Inr (), ((), [CUpdateStatus 7 BookingStatusPast (Inr ()), CRemovePastBooking 7 (Inr ()),
       CUpdateCurrentGuest ''Oak'' NilObjectID (Inr ()),
       CPublish (MsgCleaningRequest \<lparr>crRoomName = ''Oak'', crRequest = RT_FULL_CLEANING\<rparr>) [] (Inr ())]))"
proof (intro conjI)
  show "\<not> sameUTCDay (CheckOut (bStayPeriod marchBooking)) (CheckIn (bStayPeriod marchBooking))"
    by (simp add: sameUTCDay_iff marchBooking_def dayNumber_def localNs_def zoneOffset_def nsPerDay_def)
  show "receptionCheckOut sampleReception marchBooking (CheckIn (bStayPeriod marchBooking)) =
     receptionCheckOut sampleReception marchBooking (CheckOut (bStayPeriod marchBooking))"
    using checkOut_order [of marchBooking sampleGuestRepo sampleCottageRepo sampleBookingRepo sampleCache samplePublisher
        "CheckIn (bStayPeriod marchBooking)"]
    by (simp add: marchBooking_def)
qed (rule march_checkOut)

end
