(* ===== verification/GoSet.thy ===== *)
theory GoSet
  imports Prelude
begin

text \<open>
  \<open>internal/domain/set_datatype.go\<close>: the set over a Go map, and the contract its clients rely
  on as a locale. The order in which Go iterates over a map is unspecified: it is a parameter
  \<open>iter\<close>, which permutes the keys.
\<close>

section \<open>The contract of a set\<close>

locale set_adt =
  fixes inv :: "'s \<Rightarrow> bool"
    and member :: "'s \<Rightarrow> 'a \<Rightarrow> bool"
    and empty :: 's
    and add :: "'s \<Rightarrow> 'a \<Rightarrow> 's"
    and remove :: "'s \<Rightarrow> 'a \<Rightarrow> 's"
    and elems :: "'s \<Rightarrow> 'a list"
  assumes inv_empty: "inv empty" and member_empty: "\<not> member empty x"
    and inv_add: "inv s \<Longrightarrow> inv (add s x)"
    and member_add: "inv s \<Longrightarrow> member (add s x) y \<longleftrightarrow> y = x \<or> member s y"
    and inv_remove: "inv s \<Longrightarrow> inv (remove s x)"
    and member_remove: "inv s \<Longrightarrow> member (remove s x) y \<longleftrightarrow> y \<noteq> x \<and> member s y"
    and set_elems: "inv s \<Longrightarrow> set (elems s) = {x. member s x}"
    and distinct_elems: "inv s \<Longrightarrow> distinct (elems s)"
begin

lemma elems_empty: "elems empty = []"
  using set_elems [OF inv_empty] by (simp add: member_empty)

lemma member_remove_add: "inv s \<Longrightarrow> member (remove (add s x) x) y \<longleftrightarrow> y \<noteq> x \<and> member s y"
  by (auto simp: inv_add member_add member_remove)

text \<open>Adding and removing a new element leaves the elements as they were.\<close>

lemma set_elems_remove_add: "inv s \<Longrightarrow> \<not> member s x \<Longrightarrow> set (elems (remove (add s x) x)) = set (elems s)"
  by (auto simp: set_elems inv_add inv_remove member_remove_add)

text \<open>Every element is listed once, so a loop over the elements visits it once.\<close>

lemma elem_once: "inv s \<Longrightarrow> member s x \<Longrightarrow> \<exists>us vs. elems s = us @ x # vs \<and> x \<notin> set us \<and> x \<notin> set vs"
proof -
  assume s: "inv s" "member s x"
  then have "x \<in> set (elems s)" by (simp add: set_elems)
  then obtain us vs where e: "elems s = us @ x # vs" by (blast dest: split_list)
  with distinct_elems [OF s(1)] show ?thesis by auto
qed

end

section \<open>The set of the program\<close>

text \<open>\<open>map[T]struct{}\<close>: its keys, each once.\<close>

record 'a goSet =
  setItems :: "'a list"

definition NewSet :: "'a goSet" where
  "NewSet = \<lparr>setItems = []\<rparr>"

definition setAdd :: "'a goSet \<Rightarrow> 'a \<Rightarrow> 'a goSet" where
  "setAdd s item = s\<lparr>setItems := List.insert item (setItems s)\<rparr>"

definition setRemove :: "'a goSet \<Rightarrow> 'a \<Rightarrow> 'a goSet" where
  "setRemove s item = s\<lparr>setItems := removeAll item (setItems s)\<rparr>"

definition setValues :: "('a list \<Rightarrow> 'a list) \<Rightarrow> 'a goSet \<Rightarrow> 'a list" where
  "setValues iter s = foldl (\<lambda>values item. values @ [item]) [] (iter (setItems s))"

definition permutes_lists :: "('a list \<Rightarrow> 'a list) \<Rightarrow> bool" where
  "permutes_lists iter \<longleftrightarrow> (\<forall>xs. set (iter xs) = set xs \<and> length (iter xs) = length xs)"

definition setInv :: "'a goSet \<Rightarrow> bool" where
  "setInv s \<longleftrightarrow> distinct (setItems s)"

definition setMember :: "'a goSet \<Rightarrow> 'a \<Rightarrow> bool" where
  "setMember s x \<longleftrightarrow> x \<in> set (setItems s)"

lemma foldl_snoc: "foldl (\<lambda>values item. values @ [item]) acc xs = acc @ xs"
  by (induction xs arbitrary: acc) simp_all

lemma setValues_eq [simp]: "setValues iter s = iter (setItems s)"
  by (simp add: setValues_def foldl_snoc)

lemma permutes_id: "permutes_lists id" and permutes_rev: "permutes_lists rev"
  by (simp_all add: permutes_lists_def)

text \<open>The program's set keeps the contract, whatever the iteration order of its map.\<close>

lemma goSet_contract:
  assumes "permutes_lists iter"
  shows "set_adt setInv setMember NewSet setAdd setRemove (setValues iter)"
proof
  fix s :: "'a goSet"
  assume "setInv s"
  then have "distinct (setItems s)" by (simp add: setInv_def)
  then have "card (set (iter (setItems s))) = length (iter (setItems s))"
    using assms by (simp add: permutes_lists_def distinct_card)
  then show "distinct (setValues iter s)" by (simp add: card_distinct)
qed (use assms in \<open>auto simp: setInv_def setMember_def NewSet_def setAdd_def setRemove_def permutes_lists_def
    distinct_removeAll\<close>)

interpretation gs: set_adt setInv setMember NewSet setAdd setRemove "setValues id"
  by (rule goSet_contract [OF permutes_id])

end
