(* ===== verification/TimeEvents.thy ===== *)
theory TimeEvents
  imports GoSet Ports "HOL-Library.Sublist"
begin

text \<open>
  \<open>internal/app/time_event_service.go\<close>: the service that turns the hour and day events of the
  broker into values on the channels its subscribers registered.

  The service runs in its own goroutine while subscribers register, unregister and receive:
  a run is a list of the steps the scheduler picks, and between two channel operations of one
  notification a subscriber may receive as well.
\<close>

section \<open>Channels\<close>

text \<open>
  A buffered channel of times: its buffer, its capacity, whether it is closed, and the values
  its receiver has taken so far. A channel is named by a number; the nil channel by \<open>None\<close>.
\<close>

record chan =
  cBuf :: "gotime list"
  cCap :: nat
  cClosed :: bool
  cTaken :: "gotime list"

type_synonym chanId = nat

definition makeChan :: "nat \<Rightarrow> chan" where
  "makeChan n = \<lparr>cBuf = [], cCap = n, cClosed = False, cTaken = []\<rparr>"

text \<open>The receiver takes up to \<open>k\<close> values.\<close>

definition chanTake :: "nat \<Rightarrow> chan \<Rightarrow> chan" where
  "chanTake k c = c\<lparr>cBuf := drop k (cBuf c), cTaken := cTaken c @ take k (cBuf c)\<rparr>"

text \<open>\<open>select { case ch <- v: ... default: ... }\<close>: \<open>None\<close> when the default branch is taken.\<close>

definition trySend :: "gotime \<Rightarrow> chan \<Rightarrow> chan option" where
  "trySend v c = (if length (cBuf c) < cCap c then Some (c\<lparr>cBuf := cBuf c @ [v]\<rparr>) else None)"

text \<open>\<open>select { case <-ch: default: }\<close>\<close>

definition tryDrop :: "chan \<Rightarrow> chan" where
  "tryDrop c = c\<lparr>cBuf := tl (cBuf c)\<rparr>"

section \<open>The service\<close>

datatype timeEventType = TimeEventHourChange | TimeEventDayChange | OtherTimeEvent string

record timeEventService =
  hourChangeChannels :: "chanId goSet"
  dayChangeChannels :: "chanId goSet"

definition NewTimeEventService :: "reflected \<Rightarrow> reflected \<Rightarrow> stepResult" where
  "NewTimeEventService hourChangeClient dayChangeClient =
     Validate (NotZeroValue ''dayChangeClient'' dayChangeClient
       (NotZeroValue ''hourChangeClient'' hourChangeClient newValidator))"

definition newTimeEventService :: timeEventService where
  "newTimeEventService = \<lparr>hourChangeChannels = NewSet, dayChangeChannels = NewSet\<rparr>"

definition Register :: "timeEventType \<Rightarrow> chanId option \<Rightarrow> timeEventService \<Rightarrow> timeEventService" where
  "Register eventType ch s = (case ch of
     None \<Rightarrow> s
   | Some c \<Rightarrow> (case eventType of
       TimeEventHourChange \<Rightarrow> s\<lparr>hourChangeChannels := setAdd (hourChangeChannels s) c\<rparr>
     | TimeEventDayChange \<Rightarrow> s\<lparr>dayChangeChannels := setAdd (dayChangeChannels s) c\<rparr>
     | OtherTimeEvent _ \<Rightarrow> s))"

definition Unregister :: "timeEventType \<Rightarrow> chanId option \<Rightarrow> timeEventService \<Rightarrow> timeEventService" where
  "Unregister eventType ch s = (case ch of
     None \<Rightarrow> s
   | Some c \<Rightarrow> (case eventType of
       TimeEventHourChange \<Rightarrow> s\<lparr>hourChangeChannels := setRemove (hourChangeChannels s) c\<rparr>
     | TimeEventDayChange \<Rightarrow> s\<lparr>dayChangeChannels := setRemove (dayChangeChannels s) c\<rparr>
     | OtherTimeEvent _ \<Rightarrow> s))"

text \<open>
  \<open>heap\<close> maps channel names to channels. \<open>recvs ch\<close> are the numbers of values the receiver of
  \<open>ch\<close> takes before the drop and before the second send.
\<close>

type_synonym heap = "chanId \<Rightarrow> chan"

text \<open>
  A subscription on a channel of capacity one, the fresh \<open>c\<close>, and what its goroutine does when the
  context ends: it unregisters and closes the channel. No caller uses the two; they are the
  only code that closes a subscriber's channel.
\<close>

definition subscription :: "timeEventType \<Rightarrow> chanId \<Rightarrow> timeEventService \<times> heap \<Rightarrow> timeEventService \<times> heap" where
  "subscription eventType c = (\<lambda>(s, h). (Register eventType (Some c) s, h(c := makeChan 1)))"

definition subscriptionDone :: "timeEventType \<Rightarrow> chanId \<Rightarrow> timeEventService \<times> heap \<Rightarrow> timeEventService \<times> heap" where
  "subscriptionDone eventType c = (\<lambda>(s, h). (Unregister eventType (Some c) s, h(c := (h c)\<lparr>cClosed := True\<rparr>)))"

definition dayChangeNotification :: "chanId \<Rightarrow> timeEventService \<times> heap \<Rightarrow> timeEventService \<times> heap" where
  "dayChangeNotification = subscription TimeEventDayChange"

definition hourChangeNotification :: "chanId \<Rightarrow> timeEventService \<times> heap \<Rightarrow> timeEventService \<times> heap" where
  "hourChangeNotification = subscription TimeEventHourChange"

fun notify :: "gotime \<Rightarrow> chanId list \<Rightarrow> heap \<Rightarrow> heap" where
  "notify currentTime [] heap = heap"
| "notify currentTime (ch # channels) heap = notify currentTime channels
     (case trySend currentTime (heap ch) of Some c \<Rightarrow> heap(ch := c) | None \<Rightarrow> heap)"

definition notifyLatestChan :: "nat \<times> nat \<Rightarrow> gotime \<Rightarrow> chan \<Rightarrow> chan" where
  "notifyLatestChan ks currentTime c = (case trySend currentTime c of
     Some c' \<Rightarrow> c'
   | None \<Rightarrow>
       let c1 = chanTake (fst ks) c;
           c2 = tryDrop c1;
           c3 = chanTake (snd ks) c2
       in (case trySend currentTime c3 of Some c' \<Rightarrow> c' | None \<Rightarrow> c3))"

fun notifyLatest :: "(chanId \<Rightarrow> nat \<times> nat) \<Rightarrow> gotime \<Rightarrow> chanId list \<Rightarrow> heap \<Rightarrow> heap" where
  "notifyLatest recvs currentTime [] heap = heap"
| "notifyLatest recvs currentTime (ch # channels) heap = notifyLatest recvs currentTime channels
     (heap(ch := notifyLatestChan (recvs ch) currentTime (heap ch)))"

definition isMidnightUTC :: "gotime \<Rightarrow> bool" where
  "isMidnightUTC currentTime = (let utcTime = timeUTC currentTime in
     timeHour utcTime = 0 \<and> timeMinute utcTime = 0 \<and> timeSecond utcTime = 0 \<and> timeNanosecond utcTime = 0)"

definition notifyHourChange ::
  "(chanId list \<Rightarrow> chanId list) \<Rightarrow> gotime \<Rightarrow> timeEventService \<Rightarrow> heap \<Rightarrow> heap" where
  "notifyHourChange iter currentTime s heap = notify currentTime (setValues iter (hourChangeChannels s)) heap"

definition notifyDayChange ::
  "(chanId list \<Rightarrow> chanId list) \<Rightarrow> (chanId \<Rightarrow> nat \<times> nat) \<Rightarrow> gotime \<Rightarrow> timeEventService \<Rightarrow> heap \<Rightarrow> heap" where
  "notifyDayChange iter recvs currentTime s heap =
     (if \<not> isMidnightUTC currentTime then heap
      else notifyLatest recvs currentTime (setValues iter (dayChangeChannels s)) heap)"

text \<open>\<open>um\<close> is \<open>proto.Unmarshal\<close> into a \<open>dto.TimeEvent\<close>: its time field, a pointer.\<close>

definition unmarshalTimeEvent :: "(string \<Rightarrow> gerr + gotime option) \<Rightarrow> string \<Rightarrow> gerr + gotime" where
  "unmarshalTimeEvent um body = (case um body of
     Inl err \<Rightarrow> Inl err
   | Inr t \<Rightarrow> (case Validate (NotZeroValue ''time'' (reflectPtr t) newValidator) of
       StepErr err \<Rightarrow> Inl err
     | _ \<Rightarrow> Inr (case t of Some x \<Rightarrow> timeUTC x | None \<Rightarrow> \<lparr>nsec = 0, loc = None\<rparr>)))"

section \<open>The loop\<close>

text \<open>
  One step of a run: what the \<open>select\<close> of \<open>Start\<close> received, or a step of another goroutine
  (a registration, or a subscriber that receives). A delivery carries its tag; \<open>Acked\<close> and
  \<open>Nacked\<close> are the answers sent to the broker.
\<close>

datatype timeStep =
    StepDone
  | StepHour nat string
  | StepHourClosed
  | StepDay nat string "chanId \<Rightarrow> nat \<times> nat"
  | StepDayClosed
  | StepRegister timeEventType "chanId option"
  | StepUnregister timeEventType "chanId option"
  | StepReceive chanId nat

datatype answer = Acked nat | Nacked nat

record timeEventState =
  tesService :: timeEventService
  tesHeap :: heap
  tesAnswers :: "answer list"
  tesRunning :: bool

definition otherStep :: "timeStep \<Rightarrow> timeEventState \<Rightarrow> timeEventState" where
  "otherStep st s = (case st of
     StepRegister ty ch \<Rightarrow> s\<lparr>tesService := Register ty ch (tesService s)\<rparr>
   | StepUnregister ty ch \<Rightarrow> s\<lparr>tesService := Unregister ty ch (tesService s)\<rparr>
   | StepReceive ch k \<Rightarrow> s\<lparr>tesHeap := (tesHeap s)(ch := chanTake k (tesHeap s ch))\<rparr>
   | _ \<Rightarrow> s)"

definition startStep ::
  "(string \<Rightarrow> gerr + gotime option) \<Rightarrow> (chanId list \<Rightarrow> chanId list) \<Rightarrow> timeStep \<Rightarrow> timeEventState \<Rightarrow> timeEventState" where
  "startStep um iter st s =
     (if \<not> tesRunning s then otherStep st s
      else case st of
        StepDone \<Rightarrow> s\<lparr>tesRunning := False\<rparr>
      | StepHourClosed \<Rightarrow> s\<lparr>tesRunning := False\<rparr>
      | StepDayClosed \<Rightarrow> s\<lparr>tesRunning := False\<rparr>
      | StepHour tag body \<Rightarrow> (case unmarshalTimeEvent um body of
          Inl err \<Rightarrow> s\<lparr>tesAnswers := tesAnswers s @ [Nacked tag]\<rparr>
        | Inr currentTime \<Rightarrow> s\<lparr>tesAnswers := tesAnswers s @ [Acked tag],
            tesHeap := notifyHourChange iter currentTime (tesService s) (tesHeap s)\<rparr>)
      | StepDay tag body recvs \<Rightarrow> (case unmarshalTimeEvent um body of
          Inl err \<Rightarrow> s\<lparr>tesAnswers := tesAnswers s @ [Nacked tag]\<rparr>
        | Inr currentTime \<Rightarrow> s\<lparr>tesAnswers := tesAnswers s @ [Acked tag],
            tesHeap := notifyDayChange iter recvs currentTime (tesService s) (tesHeap s)\<rparr>)
      | _ \<Rightarrow> otherStep st s)"

definition startLoop ::
  "(string \<Rightarrow> gerr + gotime option) \<Rightarrow> (chanId list \<Rightarrow> chanId list) \<Rightarrow> timeStep list \<Rightarrow> timeEventState \<Rightarrow> timeEventState" where
  "startLoop um iter run s = foldl (\<lambda>s st. startStep um iter st s) s run"

text \<open>\<open>hourConsume\<close> and \<open>dayConsume\<close> are the results of the two calls of \<open>Consume\<close>.\<close>

definition Start ::
  "(string \<Rightarrow> gerr + gotime option) \<Rightarrow> (chanId list \<Rightarrow> chanId list) \<Rightarrow> gerr + unit \<Rightarrow> gerr + unit
    \<Rightarrow> timeStep list \<Rightarrow> timeEventState \<Rightarrow> timeEventState" where
  "Start um iter hourConsume dayConsume run s = (case hourConsume of
     Inl err \<Rightarrow> startLoop um iter run (s\<lparr>tesRunning := False\<rparr>)
   | Inr _ \<Rightarrow> (case dayConsume of
       Inl err \<Rightarrow> startLoop um iter run (s\<lparr>tesRunning := False\<rparr>)
     | Inr _ \<Rightarrow> startLoop um iter run s))"

definition startState :: "heap \<Rightarrow> timeEventState" where
  "startState heap = \<lparr>tesService = newTimeEventService, tesHeap = heap, tesAnswers = [], tesRunning = True\<rparr>"

section \<open>Lemmas\<close>

lemma isMidnightUTC_iff: "isMidnightUTC t \<longleftrightarrow> nsec t mod nsPerDay = 0"
  by (simp add: isMidnightUTC_def Let_def midnight_fields nsOfDay_def localNs_def zoneOffset_def)

lemma unmarshalTimeEvent_Inr_iff: "unmarshalTimeEvent um body = Inr x \<longleftrightarrow> (\<exists>t. um body = Inr (Some t) \<and> x = timeUTC t)"
  by (auto simp: unmarshalTimeEvent_def step_defs reflectPtr_def split: sum.split option.splits)

lemma notify_pointwise:
  "distinct chs \<Longrightarrow> notify t chs heap ch =
     (if ch \<in> set chs then (case trySend t (heap ch) of Some c \<Rightarrow> c | None \<Rightarrow> heap ch) else heap ch)"
  by (induction chs arbitrary: heap) (auto split: option.splits)

lemma notifyLatest_pointwise:
  "distinct chs \<Longrightarrow> notifyLatest recvs t chs heap ch =
     (if ch \<in> set chs then notifyLatestChan (recvs ch) t (heap ch) else heap ch)"
  by (induction chs arbitrary: heap) auto

text \<open>The values a channel has been given, in order: those taken and those waiting.\<close>

definition history :: "chan \<Rightarrow> gotime list" where
  "history c = cTaken c @ cBuf c"

lemma history_take [simp]: "history (chanTake k c) = history c"
  by (simp add: history_def chanTake_def)

lemma history_trySend: "trySend v c = Some c' \<Longrightarrow> history c' = history c @ [v]"
  by (auto simp: history_def trySend_def split: if_splits)

text \<open>The channels the services create: capacity one, never more than one value waiting.\<close>

definition chanOk :: "chan \<Rightarrow> bool" where
  "chanOk c \<longleftrightarrow> cCap c = 1 \<and> length (cBuf c) \<le> 1"

lemma chanOk_make [simp]: "chanOk (makeChan (Suc 0))"
  by (simp add: chanOk_def makeChan_def)

lemma chanOk_take: "chanOk c \<Longrightarrow> chanOk (chanTake k c)"
  by (auto simp: chanOk_def chanTake_def)

lemma chanOk_trySend: "chanOk c \<Longrightarrow> trySend v c = Some c' \<Longrightarrow> chanOk c'"
  by (auto simp: chanOk_def trySend_def split: if_splits)

lemma tryDrop_empties: "chanOk c \<Longrightarrow> cBuf (tryDrop (chanTake k c)) = []"
  by (cases "cBuf c"; cases k) (auto simp: chanOk_def tryDrop_def chanTake_def)

lemma trySend_empty: "cCap c = 1 \<Longrightarrow> cBuf c = [] \<Longrightarrow> trySend v c = Some (c\<lparr>cBuf := [v]\<rparr>)"
  by (simp add: trySend_def)

text \<open>With one sender and capacity one the second send always succeeds.\<close>

lemma notifyLatestChan_last:
  assumes "chanOk c"
  shows "chanOk (notifyLatestChan ks v c) \<and> (\<exists>h. history (notifyLatestChan ks v c) = h @ [v])"
proof (cases "trySend v c")
  case (Some c')
  with assms chanOk_trySend history_trySend show ?thesis by (fastforce simp: notifyLatestChan_def)
next
  case None
  let ?c2 = "tryDrop (chanTake (fst ks) c)"
  let ?c3 = "chanTake (snd ks) ?c2"
  have e: "cBuf ?c2 = []" by (rule tryDrop_empties [OF assms])
  have cap: "cCap ?c3 = 1" using assms by (simp add: chanOk_def tryDrop_def chanTake_def)
  have b: "cBuf ?c3 = []" using e by (simp add: chanTake_def)
  from None have "notifyLatestChan ks v c = ?c3\<lparr>cBuf := [v]\<rparr>"
    by (simp add: notifyLatestChan_def Let_def trySend_empty [OF cap b])
  with cap show ?thesis by (simp add: chanOk_def history_def)
qed

text \<open>The registered channels form well-formed sets, in every reachable state.\<close>

definition serviceInv :: "timeEventService \<Rightarrow> bool" where
  "serviceInv s \<longleftrightarrow> setInv (hourChangeChannels s) \<and> setInv (dayChangeChannels s)"

lemma serviceInv_new: "serviceInv newTimeEventService"
  by (simp add: serviceInv_def newTimeEventService_def gs.inv_empty)

lemma serviceInv_Register: "serviceInv s \<Longrightarrow> serviceInv (Register ty ch s)"
  by (auto simp: serviceInv_def Register_def gs.inv_add split: option.split timeEventType.split)

lemma serviceInv_Unregister: "serviceInv s \<Longrightarrow> serviceInv (Unregister ty ch s)"
  by (auto simp: serviceInv_def Unregister_def gs.inv_remove split: option.split timeEventType.split)

definition subscribed :: "timeEventType \<Rightarrow> timeEventService \<Rightarrow> chanId \<Rightarrow> bool" where
  "subscribed ty s ch \<longleftrightarrow> (case ty of TimeEventHourChange \<Rightarrow> setMember (hourChangeChannels s) ch
     | TimeEventDayChange \<Rightarrow> setMember (dayChangeChannels s) ch | OtherTimeEvent _ \<Rightarrow> False)"

lemma values_hour:
  "serviceInv s \<Longrightarrow> permutes_lists iter \<Longrightarrow>
     distinct (setValues iter (hourChangeChannels s)) \<and>
     set (setValues iter (hourChangeChannels s)) = {ch. subscribed TimeEventHourChange s ch}"
  using set_adt.set_elems [OF goSet_contract] set_adt.distinct_elems [OF goSet_contract]
  by (fastforce simp: serviceInv_def subscribed_def simp del: setValues_eq)

lemma values_day:
  "serviceInv s \<Longrightarrow> permutes_lists iter \<Longrightarrow>
     distinct (setValues iter (dayChangeChannels s)) \<and>
     set (setValues iter (dayChangeChannels s)) = {ch. subscribed TimeEventDayChange s ch}"
  using set_adt.set_elems [OF goSet_contract] set_adt.distinct_elems [OF goSet_contract]
  by (fastforce simp: serviceInv_def subscribed_def simp del: setValues_eq)

section \<open>Properties\<close>

text \<open>Registering and unregistering change exactly the subscription named: of that event type,
  for that channel; a nil channel and an unknown event type change nothing, and registering twice
  is registering once.\<close>

lemma register_unregister:
  assumes "serviceInv s"
  shows "(subscribed ty' (Register ty (Some ch) s) ch' \<longleftrightarrow>
      ty' = ty \<and> ch' = ch \<and> (\<forall>x. ty \<noteq> OtherTimeEvent x) \<or> subscribed ty' s ch') \<and>
    (subscribed ty' (Unregister ty (Some ch) s) ch' \<longleftrightarrow> subscribed ty' s ch' \<and> \<not> (ty' = ty \<and> ch' = ch)) \<and>
    Register ty None s = s \<and> Unregister ty None s = s \<and>
    Register ty (Some ch) (Register ty (Some ch) s) = Register ty (Some ch) s"
proof -
  have i: "setInv (hourChangeChannels s)" "setInv (dayChangeChannels s)" using assms by (simp_all add: serviceInv_def)
  have twice: "setAdd (setAdd x ch) ch = setAdd x ch" for x by (simp add: setAdd_def)
  show ?thesis
    using i by (cases ty; cases ty') (auto simp: Register_def Unregister_def subscribed_def gs.member_add gs.member_remove twice)
qed

text \<open>C35: a day-change event that is not midnight UTC reaches nobody; one that is leaves it as the
  latest value of every channel subscribed to day changes, a waiting older value being replaced,
  whatever the receivers take meanwhile, and leaves the other channels alone.\<close>

theorem notifyDayChange_latest:
  assumes "serviceInv s" and "permutes_lists iter" and "\<forall>ch. subscribed TimeEventDayChange s ch \<longrightarrow> chanOk (heap ch)"
  shows "let heap' = notifyDayChange iter recvs t s heap in
    if nsec t mod nsPerDay = 0 \<and> subscribed TimeEventDayChange s ch
    then chanOk (heap' ch) \<and> (\<exists>h. history (heap' ch) = h @ [t]) else heap' ch = heap ch"
proof -
  note v = values_day [OF assms(1,2)]
  show ?thesis
    using notifyLatestChan_last [of "heap ch" "recvs ch" t] assms(3) v
    by (simp add: notifyDayChange_def isMidnightUTC_iff notifyLatest_pointwise Let_def del: setValues_eq)
qed

theorem notifyDayChange_latest_witness:
  "\<exists>h. history (notifyDayChange rev (\<lambda>_. (0, 0)) \<lparr>nsec = 86400000000000, loc = None\<rparr>
     (Register TimeEventDayChange (Some 3) newTimeEventService) (\<lambda>_. makeChan 1) 3) = h @ [\<lparr>nsec = 86400000000000, loc = None\<rparr>]"
proof -
  have "subscribed TimeEventDayChange (Register TimeEventDayChange (Some 3) newTimeEventService) 3"
    by (simp add: subscribed_def Register_def setMember_def setAdd_def)
  then show ?thesis
    using notifyDayChange_latest [OF serviceInv_Register [OF serviceInv_new] permutes_rev,
      of TimeEventDayChange "Some 3" "\<lambda>_. makeChan 1" "\<lambda>_. (0, 0)" "\<lparr>nsec = 86400000000000, loc = None\<rparr>" 3]
    by (simp add: Let_def nsPerDay_def)
qed

text \<open>An hour event is appended to the channel of every hour subscriber that has room and skipped
  for a subscriber whose channel is full; no other channel changes.\<close>

lemma notifyHourChange_skips_busy:
  assumes "serviceInv s" and "permutes_lists iter"
  shows "notifyHourChange iter t s heap ch =
    (if subscribed TimeEventHourChange s ch \<and> length (cBuf (heap ch)) < cCap (heap ch)
     then heap ch\<lparr>cBuf := cBuf (heap ch) @ [t]\<rparr> else heap ch)"
  using values_hour [OF assms]
  by (simp add: notifyHourChange_def notify_pointwise trySend_def del: setValues_eq)

text \<open>The steps that end the loop, and the answer to a delivery.\<close>

fun endsLoop :: "timeStep \<Rightarrow> bool" where
  "endsLoop StepDone = True"
| "endsLoop StepHourClosed = True"
| "endsLoop StepDayClosed = True"
| "endsLoop _ = False"

definition answerBody :: "(string \<Rightarrow> gerr + gotime option) \<Rightarrow> nat \<Rightarrow> string \<Rightarrow> answer" where
  "answerBody um tag body = (case um body of Inr (Some t) \<Rightarrow> Acked tag | _ \<Rightarrow> Nacked tag)"

fun answersTo :: "(string \<Rightarrow> gerr + gotime option) \<Rightarrow> timeStep \<Rightarrow> answer list" where
  "answersTo um (StepHour tag body) = [answerBody um tag body]"
| "answersTo um (StepDay tag body _) = [answerBody um tag body]"
| "answersTo um _ = []"

lemma startStep_answers:
  "tesRunning s \<Longrightarrow> tesAnswers (startStep um iter st s) = tesAnswers s @ answersTo um st"
  by (cases st) (auto simp: startStep_def otherStep_def answerBody_def unmarshalTimeEvent_def step_defs reflectPtr_def
      split: sum.split option.split)

lemma startStep_running: "tesRunning (startStep um iter st s) \<longleftrightarrow> tesRunning s \<and> \<not> endsLoop st"
  by (cases st) (auto simp: startStep_def otherStep_def split: sum.split)

lemma startStep_stopped: "\<not> tesRunning s \<Longrightarrow> tesAnswers (startStep um iter st s) = tesAnswers s"
  by (cases st) (auto simp: startStep_def otherStep_def)

lemma startLoop_stopped: "\<not> tesRunning s \<Longrightarrow> tesAnswers (startLoop um iter run s) = tesAnswers s"
proof (induction run arbitrary: s)
  case (Cons st run)
  then have "\<not> tesRunning (startStep um iter st s)" by (simp add: startStep_running)
  with Cons show ?case by (simp add: startLoop_def startStep_stopped)
qed (simp add: startLoop_def)

lemma startLoop_answers:
  "tesRunning s \<Longrightarrow> tesAnswers (startLoop um iter run s) =
     tesAnswers s @ concat (map (answersTo um) (takeWhile (\<lambda>st. \<not> endsLoop st) run))"
proof (induction run arbitrary: s)
  case (Cons st run)
  have split: "startLoop um iter (st # run) s = startLoop um iter run (startStep um iter st s)"
    by (simp add: startLoop_def)
  show ?case
  proof (cases "endsLoop st")
    case True
    then have "answersTo um st = []" by (cases st) simp_all
    with True Cons.prems show ?thesis
      by (simp add: split startLoop_stopped startStep_running startStep_answers)
  next
    case False
    with Cons show ?thesis by (simp add: split startStep_running startStep_answers)
  qed
qed (simp add: startLoop_def)

text \<open>C34: the service answers the broker once for every delivery it receives, in the order it
  receives them: it acknowledges a delivery exactly when its payload decodes to an event with a
  time, rejects it otherwise, and answers nothing after its loop has ended or when one of the
  two queues could not be consumed.\<close>

theorem Start_answers_each_delivery:
  "tesAnswers (Start um iter hourConsume dayConsume run (startState heap)) =
     (case (hourConsume, dayConsume) of
        (Inr _, Inr _) \<Rightarrow> concat (map (answersTo um) (takeWhile (\<lambda>st. \<not> endsLoop st) run))
      | _ \<Rightarrow> [])"
  by (auto simp: Start_def startState_def startLoop_answers startLoop_stopped split: sum.split)

text \<open>
  What a subscriber of day changes is due: the times of the decoded midnight events that are
  received while its channel is registered.
\<close>

fun registeredAfter :: "chanId \<Rightarrow> timeStep \<Rightarrow> bool \<Rightarrow> bool" where
  "registeredAfter ch (StepRegister TimeEventDayChange (Some c)) sub \<longleftrightarrow> sub \<or> c = ch"
| "registeredAfter ch (StepUnregister TimeEventDayChange (Some c)) sub \<longleftrightarrow> sub \<and> c \<noteq> ch"
| "registeredAfter ch _ sub \<longleftrightarrow> sub"

fun dueNow :: "(string \<Rightarrow> gerr + gotime option) \<Rightarrow> timeStep \<Rightarrow> gotime list" where
  "dueNow um (StepDay tag body _) = (case um body of
     Inr (Some t) \<Rightarrow> if nsec t mod nsPerDay = 0 then [timeUTC t] else [] | _ \<Rightarrow> [])"
| "dueNow um _ = []"

fun dayValues :: "(string \<Rightarrow> gerr + gotime option) \<Rightarrow> chanId \<Rightarrow> bool \<Rightarrow> timeStep list \<Rightarrow> gotime list" where
  "dayValues um ch sub [] = []"
| "dayValues um ch sub (st # run) = (if sub then dueNow um st else []) @ dayValues um ch (registeredAfter ch st sub) run"

text \<open>Channel contents that keep the order of what was sent, may miss older values, and end with the latest.\<close>

definition latestOf :: "gotime list \<Rightarrow> gotime list \<Rightarrow> gotime list \<Rightarrow> bool" where
  "latestOf before vs after \<longleftrightarrow> subseq after (before @ vs) \<and>
     (if vs = [] then after = before else after \<noteq> [] \<and> last after = last vs)"

lemma latestOf_refl: "latestOf h [] h"
  by (simp add: latestOf_def)

lemma latestOf_trans: "latestOf a vs b \<Longrightarrow> latestOf b ws c \<Longrightarrow> latestOf a (vs @ ws) c"
  unfolding latestOf_def
  by (auto split: if_splits) (metis append_assoc subseq_append subseq_order.refl subseq_order.trans)+

lemma history_drop: "subseq (history (tryDrop c)) (history c)"
  by (cases "cBuf c") (auto simp: history_def tryDrop_def subseq_append' intro: list_emb_Cons)

lemma notifyLatestChan_history:
  assumes "chanOk c"
  shows "latestOf (history c) [v] (history (notifyLatestChan ks v c))"
proof -
  have "subseq (history (notifyLatestChan ks v c)) (history c @ [v])"
  proof (cases "trySend v c")
    case (Some c')
    then show ?thesis by (simp add: notifyLatestChan_def history_trySend)
  next
    case None
    let ?c3 = "chanTake (snd ks) (tryDrop (chanTake (fst ks) c))"
    have sub: "subseq (history ?c3) (history c)"
      using history_drop [of "chanTake (fst ks) c"] by simp
    then have "subseq (history ?c3 @ [v]) (history c @ [v])" "subseq (history ?c3) (history c @ [v])"
      by (auto intro: subseq_order.trans [OF _ subseq_rev_drop_many])
    with None show ?thesis
      by (auto simp: notifyLatestChan_def Let_def history_trySend split: option.split)
  qed
  with notifyLatestChan_last [OF assms, of ks v] show ?thesis by (auto simp: latestOf_def)
qed

lemma startStep_serviceInv: "serviceInv (tesService s) \<Longrightarrow> serviceInv (tesService (startStep um iter st s))"
  by (cases st) (auto simp: startStep_def otherStep_def serviceInv_Register serviceInv_Unregister split: sum.split)

lemma startStep_day:
  "serviceInv (tesService s) \<Longrightarrow>
     subscribed TimeEventDayChange (tesService (startStep um iter st s)) ch \<longleftrightarrow>
       registeredAfter ch st (subscribed TimeEventDayChange (tesService s) ch)"
  by (cases "(ch, st, True)" rule: registeredAfter.cases)
    (auto simp: startStep_def otherStep_def Register_def Unregister_def subscribed_def serviceInv_def gs.member_add gs.member_remove
      split: sum.split option.split timeEventType.split)

lemma startStep_hour:
  "serviceInv (tesService s) \<Longrightarrow> st \<noteq> StepRegister TimeEventHourChange (Some ch) \<Longrightarrow>
     \<not> subscribed TimeEventHourChange (tesService s) ch \<Longrightarrow>
     \<not> subscribed TimeEventHourChange (tesService (startStep um iter st s)) ch"
  by (cases st)
    (auto simp: startStep_def otherStep_def Register_def Unregister_def subscribed_def serviceInv_def gs.member_add gs.member_remove
      split: sum.split option.split timeEventType.split)

lemma otherStep_chan:
  "chanOk (tesHeap s ch) \<Longrightarrow> chanOk (tesHeap (otherStep st s) ch) \<and> history (tesHeap (otherStep st s) ch) = history (tesHeap s ch)"
  by (cases st) (auto simp: otherStep_def chanOk_take)

text \<open>One step of the loop, seen from a channel that is not registered for hour changes.\<close>

lemma startStep_chan:
  assumes "permutes_lists iter" and "serviceInv (tesService s)" and "chanOk (tesHeap s ch)" and "tesRunning s"
    and "\<not> subscribed TimeEventHourChange (tesService s) ch"
  shows "chanOk (tesHeap (startStep um iter st s) ch) \<and>
    latestOf (history (tesHeap s ch)) (if subscribed TimeEventDayChange (tesService s) ch then dueNow um st else [])
      (history (tesHeap (startStep um iter st s) ch))"
proof -
  have hour: "notifyHourChange iter t (tesService s) (tesHeap s) ch = tesHeap s ch" for t
    using values_hour [OF assms(2,1)] assms(5) by (simp add: notifyHourChange_def notify_pointwise del: setValues_eq)
  have day: "notifyDayChange iter ks t (tesService s) (tesHeap s) ch =
      (if nsec t mod nsPerDay = 0 \<and> subscribed TimeEventDayChange (tesService s) ch
       then notifyLatestChan (ks ch) t (tesHeap s ch) else tesHeap s ch)" for ks t
    using values_day [OF assms(2,1)]
    by (simp add: notifyDayChange_def isMidnightUTC_iff notifyLatest_pointwise del: setValues_eq)
  have utc: "nsec (timeUTC t) = nsec t" for t by simp
  note latest = notifyLatestChan_last [OF assms(3)] notifyLatestChan_history [OF assms(3)]
  show ?thesis
  proof (cases st)
    case (StepDay tag body recvs)
    consider (bad) e where "unmarshalTimeEvent um body = Inl e" | (good) t where "um body = Inr (Some t)"
      by (cases "unmarshalTimeEvent um body") (auto simp: unmarshalTimeEvent_Inr_iff)
    then show ?thesis
    proof cases
      case bad
      then have "dueNow um st = []" by (auto simp: StepDay unmarshalTimeEvent_def step_defs reflectPtr_def split: sum.split option.split)
      with bad assms(3,4) show ?thesis by (simp add: StepDay startStep_def latestOf_refl)
    next
      case good
      then have "unmarshalTimeEvent um body = Inr (timeUTC t)" by (simp add: unmarshalTimeEvent_Inr_iff)
      with good assms(3,4) latest show ?thesis by (simp add: StepDay startStep_def day latestOf_refl)
    qed
  next
    case (StepHour tag body)
    with assms(3,4) show ?thesis by (simp add: startStep_def hour latestOf_refl split: sum.split)
  qed (use assms(3,4) otherStep_chan [OF assms(3)] in \<open>simp_all add: startStep_def latestOf_refl\<close>)
qed

lemma startLoop_Cons: "startLoop um iter (st # run) s = startLoop um iter run (startStep um iter st s)"
  by (simp add: startLoop_def)

lemma stopped_chan:
  "\<not> tesRunning s \<Longrightarrow> chanOk (tesHeap s ch) \<Longrightarrow>
     chanOk (tesHeap (startLoop um iter run s) ch) \<and> history (tesHeap (startLoop um iter run s) ch) = history (tesHeap s ch)"
proof (induction run arbitrary: s)
  case Nil
  then show ?case by (simp add: startLoop_def)
next
  case (Cons st run)
  then have "startStep um iter st s = otherStep st s" by (simp add: startStep_def)
  moreover have "\<not> tesRunning (startStep um iter st s)" using Cons.prems by (simp add: startStep_running)
  ultimately show ?case using Cons.IH [of "startStep um iter st s"] otherStep_chan [OF Cons.prems(2), of st]
    by (simp add: startLoop_Cons)
qed

lemma startLoop_chan:
  assumes "permutes_lists iter"
  shows "serviceInv (tesService s) \<Longrightarrow> chanOk (tesHeap s ch) \<Longrightarrow> tesRunning s \<Longrightarrow>
    \<not> subscribed TimeEventHourChange (tesService s) ch \<Longrightarrow> StepRegister TimeEventHourChange (Some ch) \<notin> set run \<Longrightarrow>
    chanOk (tesHeap (startLoop um iter run s) ch) \<and>
    latestOf (history (tesHeap s ch))
      (dayValues um ch (subscribed TimeEventDayChange (tesService s) ch) (takeWhile (\<lambda>st. \<not> endsLoop st) run))
      (history (tesHeap (startLoop um iter run s) ch))"
proof (induction run arbitrary: s)
  case Nil
  then show ?case by (simp add: startLoop_def latestOf_refl)
next
  case (Cons st run)
  let ?s = "startStep um iter st s" and ?sub = "subscribed TimeEventDayChange (tesService s) ch"
  from startStep_chan [OF assms Cons.prems(1-4)]
  have one: "chanOk (tesHeap ?s ch)" "latestOf (history (tesHeap s ch)) (if ?sub then dueNow um st else []) (history (tesHeap ?s ch))"
    by auto
  show ?case
  proof (cases "endsLoop st")
    case True
    then have "dueNow um st = []" by (cases st) simp_all
    moreover from True have "\<not> tesRunning ?s" by (simp add: startStep_running)
    ultimately show ?thesis using one stopped_chan [of ?s ch um iter run] True by (simp add: startLoop_Cons split: if_splits)
  next
    case False
    have "chanOk (tesHeap (startLoop um iter run ?s) ch) \<and>
        latestOf (history (tesHeap ?s ch)) (dayValues um ch (subscribed TimeEventDayChange (tesService ?s) ch)
          (takeWhile (\<lambda>st. \<not> endsLoop st) run)) (history (tesHeap (startLoop um iter run ?s) ch))"
      using Cons.prems one(1) False startStep_hour [of s st ch um iter]
      by (intro Cons.IH) (auto simp: startStep_serviceInv startStep_running)
    with latestOf_trans [OF one(2)] False show ?thesis
      by (simp add: startLoop_Cons startStep_day [OF Cons.prems(1)])
  qed
qed

text \<open>C36: over a whole run of the service, whatever the scheduler does, a channel of capacity one that is
  not registered for hour changes is given only the midnight events received while it is
  registered for day changes and before the loop ends, in their order; older ones may be missed, but the last of them
  is the last value its receiver was given or finds waiting, and never more than one waits. A
  channel that is not registered, or no longer, is given nothing, nor is any channel when one of
  the two queues could not be consumed.\<close>

theorem Start_delivers_latest:
  assumes "permutes_lists iter" and "heap ch = makeChan 1"
    and "StepRegister TimeEventHourChange (Some ch) \<notin> set run"
  shows "let c = tesHeap (Start um iter hourConsume dayConsume run (startState heap)) ch;
             due = (case (hourConsume, dayConsume) of
               (Inr _, Inr _) \<Rightarrow> dayValues um ch False (takeWhile (\<lambda>st. \<not> endsLoop st) run) | _ \<Rightarrow> [])
         in chanOk c \<and> subseq (history c) due \<and> (due \<noteq> [] \<longrightarrow> history c \<noteq> [] \<and> last (history c) = last due)"
proof -
  have start: "chanOk (heap ch)" "history (heap ch) = []" using assms(2) by (simp_all add: history_def makeChan_def chanOk_def)
  have "\<not> subscribed ty newTimeEventService c" for ty c
    by (cases ty) (simp_all add: subscribed_def newTimeEventService_def gs.member_empty)
  then have "chanOk (tesHeap (startLoop um iter run (startState heap)) ch) \<and>
      latestOf [] (dayValues um ch False (takeWhile (\<lambda>st. \<not> endsLoop st) run))
        (history (tesHeap (startLoop um iter run (startState heap)) ch))"
    using startLoop_chan [OF assms(1), of "startState heap" ch run um] start assms(3)
    by (simp add: startState_def serviceInv_new)
  moreover have "chanOk (tesHeap (startLoop um iter run (startState heap\<lparr>tesRunning := False\<rparr>)) ch) \<and>
      history (tesHeap (startLoop um iter run (startState heap\<lparr>tesRunning := False\<rparr>)) ch) = []"
    using stopped_chan [of "startState heap\<lparr>tesRunning := False\<rparr>" ch um iter run] start
    by (simp add: startState_def)
  ultimately show ?thesis
    by (auto simp: Start_def Let_def latestOf_def split: sum.split if_splits)
qed

text \<open>Two midnights arrive before the subscriber of channel 3 receives, a third after it has unregistered.\<close>

theorem Start_delivers_latest_witness:
  "let day = (\<lambda>n. StepDay n (if n = 1 then ''a'' else if n = 2 then ''b'' else ''c'') (\<lambda>_. (0, 0)));
       um = (\<lambda>body. Inr (Some \<lparr>nsec = (if body = ''a'' then 1 else if body = ''b'' then 2 else 3) * nsPerDay, loc = None\<rparr>));
       c = tesHeap (Start um id (Inr ()) (Inr ()) [StepRegister TimeEventDayChange (Some 3), day 1, day 2,
             StepUnregister TimeEventDayChange (Some 3), day 3] (startState (\<lambda>_. makeChan 1))) 3
   in subseq (history c) [\<lparr>nsec = nsPerDay, loc = None\<rparr>, \<lparr>nsec = 2 * nsPerDay, loc = None\<rparr>] \<and>
      history c \<noteq> [] \<and> last (history c) = \<lparr>nsec = 2 * nsPerDay, loc = None\<rparr>"
proof -
  define um :: "string \<Rightarrow> gerr + gotime option" where
    "um = (\<lambda>body. Inr (Some \<lparr>nsec = (if body = ''a'' then 1 else if body = ''b'' then 2 else 3) * nsPerDay, loc = None\<rparr>))"
  define day where "day = (\<lambda>n :: nat. StepDay n (if n = 1 then ''a'' else if n = 2 then ''b'' else ''c'') (\<lambda>_ :: chanId. (0 :: nat, 0 :: nat)))"
  have "dayValues um 3 False (takeWhile (\<lambda>st. \<not> endsLoop st) [StepRegister TimeEventDayChange (Some 3), day 1, day 2,
      StepUnregister TimeEventDayChange (Some 3), day 3]) = [\<lparr>nsec = nsPerDay, loc = None\<rparr>, \<lparr>nsec = 2 * nsPerDay, loc = None\<rparr>]"
    by (simp add: day_def um_def)
  then show ?thesis
    using Start_delivers_latest [OF permutes_id, of "\<lambda>_. makeChan 1" 3 "[StepRegister TimeEventDayChange (Some 3), day 1, day 2,
      StepUnregister TimeEventDayChange (Some 3), day 3]" um "Inr ()" "Inr ()"]
    by (simp add: Let_def day_def um_def)
qed

end
