(* ===== verification/Arrange.thy ===== *)
theory Arrange
  imports Reception TimeEvents
begin

text \<open>
  \<open>internal/app/arrange_cottage_service.go\<close> and \<open>internal/app/notification_service.go\<close>: what
  happens at a day change (the arriving bookings are cached, announced, and their departures
  cached by date) and the notifications of an hour and of the check-outs of the next day.

  \<open>mar\<close> and \<open>um\<close> are \<open>json.Marshal\<close> and \<open>json.Unmarshal\<close> of a slice of bookings, \<open>hex\<close> the
  driver's \<open>ObjectID.Hex\<close>, \<open>iter\<close> the order in which Go iterates over a map.
\<close>

section \<open>The arrange service\<close>

record 's arrangeService =
  asBookingRepo :: "'s bookingRepo"
  asCache :: "'s cachePort"
  asPublisher :: "'s mqPublisher"

fun bookingsDocToDomainFrom :: "booking list \<Rightarrow> bookingDoc list \<Rightarrow> booking list" where
  "bookingsDocToDomainFrom bookings [] = bookings"
| "bookingsDocToDomainFrom bookings (b # bs) =
     (case NewPeriod (dCheckIn (dbStayPeriod b)) (dCheckOut (dbStayPeriod b)) of
        Inl err \<Rightarrow> bookingsDocToDomainFrom bookings bs
      | Inr stayPeriod \<Rightarrow>
          (case NewBooking (dbId b) (dbMainGuest b) (dbNumberOfGuests b) stayPeriod (dbCottageName b) (dbStatus b) of
             Inl err \<Rightarrow> bookingsDocToDomainFrom bookings bs
           | Inr booking \<Rightarrow> bookingsDocToDomainFrom (bookings @ [booking]) bs))"

definition bookingsDocToDomain :: "bookingDoc list \<Rightarrow> booking list" where
  "bookingsDocToDomain = bookingsDocToDomainFrom []"

text \<open>\<open>30 * time.Minute\<close>\<close>

definition cacheExpiration :: int where
  "cacheExpiration = 30 * 60 * nsPerSec"

definition cacheCheckIn ::
  "(booking list \<Rightarrow> gerr + string) \<Rightarrow> 's arrangeService \<Rightarrow> booking list \<Rightarrow> gotime \<Rightarrow> ('s, unit) io" where
  "cacheCheckIn mar s bookings checkInDay = (case mar bookings of
     Inl err \<Rightarrow> failE err
   | Inr payload \<Rightarrow> cacheSetBytes (asCache s) (''checkin.'' @ formatDay (timeUTC checkInDay)) payload cacheExpiration)"

text \<open>\<open>int32(n)\<close> keeps the low 32 bits.\<close>

definition int32 :: "int \<Rightarrow> int" where
  "int32 n = sint (word_of_int n :: 32 word)"

definition checkInTodayMsg :: "(objectID \<Rightarrow> string) \<Rightarrow> booking \<Rightarrow> gotime \<Rightarrow> checkInTodayNotification" where
  "checkInTodayMsg hex b notificationDay = \<lparr>nBookingId = hex (bId b), nGuestId = hex (bMainGuest b),
     nCottageName = bCottageName b, nCheckIn = timeUTC (CheckIn (bStayPeriod b)),
     nCheckOut = timeUTC (CheckOut (bStayPeriod b)), nNumberOfGuests = int32 (bNumberOfGuests b),
     nNotificationDay = timeUTC notificationDay\<rparr>"

text \<open>\<open>publishErr\<close> is the joined error so far.\<close>

fun publishCheckinTodayFrom ::
  "(objectID \<Rightarrow> string) \<Rightarrow> 's arrangeService \<Rightarrow> gotime \<Rightarrow> booking list \<Rightarrow> gerr option \<Rightarrow> ('s, unit) io" where
  "publishCheckinTodayFrom hex s notificationDay [] publishErr =
     (case publishErr of None \<Rightarrow> retE () | Some err \<Rightarrow> failE err)"
| "publishCheckinTodayFrom hex s notificationDay (b # bs) publishErr =
     bindE (attemptE (pubPublish (asPublisher s) (MsgCheckInToday (checkInTodayMsg hex b notificationDay))
        (''guest.'' @ hex (bMainGuest b)))) (\<lambda>res.
      publishCheckinTodayFrom hex s notificationDay bs
        (case res of Inl err \<Rightarrow> errorsJoin publishErr err | Inr _ \<Rightarrow> publishErr))"

definition publishCheckinToday ::
  "(objectID \<Rightarrow> string) \<Rightarrow> 's arrangeService \<Rightarrow> booking list \<Rightarrow> gotime \<Rightarrow> ('s, unit) io" where
  "publishCheckinToday hex s bookings notificationDay = publishCheckinTodayFrom hex s notificationDay bookings None"

text \<open>\<open>m[date] = append(m[date], booking)\<close> on a map given as its entries.\<close>

fun appendTo :: "string \<Rightarrow> booking \<Rightarrow> (string \<times> booking list) list \<Rightarrow> (string \<times> booking list) list" where
  "appendTo d b [] = [(d, [b])]"
| "appendTo d b ((k, v) # m) = (if k = d then (k, v @ [b]) # m else (k, v) # appendTo d b m)"

definition bookingsByCheckOutDate :: "booking list \<Rightarrow> (string \<times> booking list) list" where
  "bookingsByCheckOutDate bookings =
     foldl (\<lambda>m b. appendTo (formatDay (timeUTC (CheckOut (bStayPeriod b)))) b m) [] bookings"

text \<open>A payload that cannot be marshalled is nil, and is stored all the same.\<close>

fun cacheCheckOutFrom ::
  "(booking list \<Rightarrow> gerr + string) \<Rightarrow> 's arrangeService \<Rightarrow> (string \<times> booking list) list \<Rightarrow> gerr option \<Rightarrow> ('s, unit) io" where
  "cacheCheckOutFrom mar s [] err = (case err of None \<Rightarrow> retE () | Some e \<Rightarrow> failE e)"
| "cacheCheckOutFrom mar s ((checkOutDate, bs) # rest) err =
     (case (case mar bs of Inl e \<Rightarrow> ([], errorsJoin err e) | Inr p \<Rightarrow> (p, err)) of (payload, err1) \<Rightarrow>
       bindE (attemptE (cacheSetBytes (asCache s) (''checkout.'' @ checkOutDate) payload cacheExpiration)) (\<lambda>res.
         cacheCheckOutFrom mar s rest (case res of Inl e \<Rightarrow> errorsJoin err1 e | Inr _ \<Rightarrow> err1)))"

definition cacheCheckOut ::
  "((string \<times> booking list) list \<Rightarrow> (string \<times> booking list) list) \<Rightarrow> (booking list \<Rightarrow> gerr + string)
    \<Rightarrow> 's arrangeService \<Rightarrow> booking list \<Rightarrow> ('s, unit) io" where
  "cacheCheckOut iter mar s bookings = cacheCheckOutFrom mar s (iter (bookingsByCheckOutDate bookings)) None"

text \<open>The body of the loop of \<open>ArrangeCheckIn\<close> for one event; an error is logged and ends the body.\<close>

definition arrangeDay ::
  "((string \<times> booking list) list \<Rightarrow> (string \<times> booking list) list) \<Rightarrow> (booking list \<Rightarrow> gerr + string)
    \<Rightarrow> (objectID \<Rightarrow> string) \<Rightarrow> 's arrangeService \<Rightarrow> gotime \<Rightarrow> ('s, unit) io" where
  "arrangeDay iter mar hex s today =
     bindE (attemptE (brFindByCheckInDate (asBookingRepo s) today)) (\<lambda>r1. case r1 of
       Inl err \<Rightarrow> retE ()
     | Inr bookingDocs \<Rightarrow>
         let bookings = bookingsDocToDomain bookingDocs in
         bindE (attemptE (cacheCheckIn mar s bookings today)) (\<lambda>r2. case r2 of
           Inl err \<Rightarrow> retE ()
         | Inr _ \<Rightarrow> bindE (attemptE (publishCheckinToday hex s bookings today)) (\<lambda>r3. case r3 of
             Inl err \<Rightarrow> retE ()
           | Inr _ \<Rightarrow> bindE (attemptE (cacheCheckOut iter mar s bookings)) (\<lambda>_. retE ()))))"

text \<open>
  What a subscriber's \<open>select\<close> receives: the end of the context, the closed channel, or an
  event; for a loop that passes the event on, whether its own send went through before the
  context ended.
\<close>

datatype notifyStep = NDone | NClosed | NEvent gotime bool

text \<open>A run of the loop: the result tells whether it returned.\<close>

fun arrangeLoop ::
  "((string \<times> booking list) list \<Rightarrow> (string \<times> booking list) list) \<Rightarrow> (booking list \<Rightarrow> gerr + string)
    \<Rightarrow> (objectID \<Rightarrow> string) \<Rightarrow> 's arrangeService \<Rightarrow> notifyStep list \<Rightarrow> ('s, bool) io" where
  "arrangeLoop iter mar hex s [] = retE False"
| "arrangeLoop iter mar hex s (NDone # run) = retE True"
| "arrangeLoop iter mar hex s (NClosed # run) = retE True"
| "arrangeLoop iter mar hex s (NEvent today _ # run) =
     thenE (arrangeDay iter mar hex s today) (arrangeLoop iter mar hex s run)"

definition ArrangeCheckIn ::
  "((string \<times> booking list) list \<Rightarrow> (string \<times> booking list) list) \<Rightarrow> (booking list \<Rightarrow> gerr + string)
    \<Rightarrow> (objectID \<Rightarrow> string) \<Rightarrow> 's arrangeService \<Rightarrow> chanId \<Rightarrow> timeEventService \<Rightarrow> notifyStep list
    \<Rightarrow> ('s, timeEventService) io" where
  "ArrangeCheckIn iter mar hex s events te run =
     (let te1 = Register TimeEventDayChange (Some events) te in
      bindE (arrangeLoop iter mar hex s run) (\<lambda>returned.
        retE (if returned then Unregister TimeEventDayChange (Some events) te1 else te1)))"

section \<open>The notification service\<close>

text \<open>The values sent on the caller's channel and whether the call returned.\<close>

fun hourLoop :: "int \<Rightarrow> notifyStep list \<Rightarrow> gotime list \<times> bool" where
  "hourLoop hour [] = ([], False)"
| "hourLoop hour (NDone # run) = ([], True)"
| "hourLoop hour (NClosed # run) = ([], True)"
| "hourLoop hour (NEvent eventTime sent # run) =
     (if timeHour eventTime = hour
      then if sent then (case hourLoop hour run of (out, returned) \<Rightarrow> (eventTime # out, returned)) else ([], True)
      else hourLoop hour run)"

definition HourNotification ::
  "int \<Rightarrow> chanId \<Rightarrow> timeEventService \<Rightarrow> notifyStep list \<Rightarrow> gotime list \<times> timeEventService" where
  "HourNotification hour events te run =
     (let te1 = Register TimeEventHourChange (Some events) te in
      case hourLoop hour run of (out, returned) \<Rightarrow>
        (out, if returned then Unregister TimeEventHourChange (Some events) te1 else te1))"

definition checkoutKey :: "gotime \<Rightarrow> string" where
  "checkoutKey eventTime = ''checkout.'' @ formatDay (timeUTC (timeAddDays eventTime 1))"

fun checkOutLoop ::
  "(string \<Rightarrow> gerr + booking list) \<Rightarrow> 's cachePort \<Rightarrow> notifyStep list \<Rightarrow> ('s, booking list list \<times> bool) io" where
  "checkOutLoop um ca [] = retE ([], False)"
| "checkOutLoop um ca (NDone # run) = retE ([], True)"
| "checkOutLoop um ca (NClosed # run) = retE ([], True)"
| "checkOutLoop um ca (NEvent eventTime sent # run) =
     bindE (attemptE (cacheGetBytes ca (checkoutKey eventTime))) (\<lambda>res. case res of
       Inl err \<Rightarrow> checkOutLoop um ca run
     | Inr payload \<Rightarrow> (case um payload of
         Inl err \<Rightarrow> checkOutLoop um ca run
       | Inr checkOutBookings \<Rightarrow>
           if sent then bindE (checkOutLoop um ca run) (\<lambda>p. retE (checkOutBookings # fst p, snd p))
           else retE ([], True)))"

definition CheckOutNotification ::
  "(string \<Rightarrow> gerr + booking list) \<Rightarrow> 's cachePort \<Rightarrow> chanId \<Rightarrow> timeEventService \<Rightarrow> notifyStep list
    \<Rightarrow> ('s, booking list list \<times> timeEventService) io" where
  "CheckOutNotification um ca events te run =
     (let te1 = Register TimeEventDayChange (Some events) te in
      bindE (checkOutLoop um ca run) (\<lambda>(out, returned).
        retE (out, if returned then Unregister TimeEventDayChange (Some events) te1 else te1)))"

section \<open>Lemmas\<close>

lemma bookingsDocToDomainFrom_eq:
  "bookingsDocToDomainFrom acc docs =
     acc @ List.map_filter (\<lambda>d. case mapBookingDoc d of Inl _ \<Rightarrow> None | Inr b \<Rightarrow> Some b) docs"
  by (induction docs arbitrary: acc) (auto simp: mapBookingDoc_def map_filter_simps split: sum.split)

lemma bookingsDocToDomain_eq:
  "bookingsDocToDomain docs = List.map_filter (\<lambda>d. case mapBookingDoc d of Inl _ \<Rightarrow> None | Inr b \<Rightarrow> Some b) docs"
  by (simp add: bookingsDocToDomain_def bookingsDocToDomainFrom_eq)

lemma map_of_appendTo:
  "map_of (appendTo d b m) = (map_of m)(d \<mapsto> (case map_of m d of None \<Rightarrow> [] | Some v \<Rightarrow> v) @ [b])"
  by (induction d b m rule: appendTo.induct) (auto simp: fun_upd_twist)

lemma keys_appendTo: "fst ` set (appendTo d b m) = insert d (fst ` set m)"
  by (induction d b m rule: appendTo.induct) auto

lemma distinct_appendTo: "distinct (map fst m) \<Longrightarrow> distinct (map fst (appendTo d b m))"
  by (induction d b m rule: appendTo.induct) (auto simp: keys_appendTo)

lemma groups_from:
  "distinct (map fst m) \<Longrightarrow> distinct (map fst (foldl (\<lambda>m b. appendTo (key b) b m) m bs)) \<and>
   map_of (foldl (\<lambda>m b. appendTo (key b) b m) m bs) d =
     (case map_of m d of
        None \<Rightarrow> (case filter (\<lambda>b. key b = d) bs of [] \<Rightarrow> None | xs \<Rightarrow> Some xs)
      | Some v \<Rightarrow> Some (v @ filter (\<lambda>b. key b = d) bs))"
proof (induction bs arbitrary: m)
  case Nil
  then show ?case by (simp split: option.split)
next
  case (Cons b bs)
  from Cons.IH [OF distinct_appendTo [OF Cons.prems]] show ?case
    by (auto simp: map_of_appendTo split: option.splits list.splits)
qed

definition loggedArrange :: "'s bookingRepo \<Rightarrow> 's cachePort \<Rightarrow> 's mqPublisher \<Rightarrow> ('s \<times> call list) arrangeService" where
  "loggedArrange br ca pub = \<lparr>asBookingRepo = logBookingRepo br, asCache = logCache ca, asPublisher = logPublisher pub\<rparr>"

lemma loggedArrange_sel [simp]:
  "asBookingRepo (loggedArrange br ca pub) = logBookingRepo br"
  "asCache (loggedArrange br ca pub) = logCache ca"
  "asPublisher (loggedArrange br ca pub) = logPublisher pub"
  by (simp_all add: loggedArrange_def)

text \<open>The announcements of a day: one per booking, in order, whatever their outcomes.\<close>

definition announcements :: "(objectID \<Rightarrow> string) \<Rightarrow> gotime \<Rightarrow> booking list \<Rightarrow> call list \<Rightarrow> bool" where
  "announcements hex day bs pubs \<longleftrightarrow>
     list_all2 (\<lambda>b c. \<exists>x. c = CPublish (MsgCheckInToday (checkInTodayMsg hex b day)) (''guest.'' @ hex (bMainGuest b)) x) bs pubs"

fun failedCall :: "call \<Rightarrow> bool" where
  "failedCall (CPublish _ _ (Inl _)) = True"
| "failedCall _ = False"

text \<open>The departures: one entry per date, in the order of the map, with its payload.\<close>

definition departureCalls ::
  "(booking list \<Rightarrow> gerr + string) \<Rightarrow> (string \<times> booking list) list \<Rightarrow> call list \<Rightarrow> bool" where
  "departureCalls mar gs outs \<longleftrightarrow>
     list_all2 (\<lambda>g c. \<exists>x. c = CCacheSet (''checkout.'' @ fst g) (case mar (snd g) of Inl _ \<Rightarrow> [] | Inr p \<Rightarrow> p) x) gs outs"

lemma publish_log:
  assumes "publishCheckinTodayFrom hex (loggedArrange br ca pub) day bs err (s, l) = Some (r, (s', l'))"
  shows "\<exists>pubs. l' = l @ pubs \<and> announcements hex day bs pubs \<and>
    ((\<exists>u. r = Inr u) \<longleftrightarrow> err = None \<and> list_all (\<lambda>c. \<not> failedCall c) pubs)"
  using assms
proof (induction bs arbitrary: err s l)
  case Nil
  then show ?case by (auto simp: announcements_def split: option.splits)
next
  case (Cons b bs)
  let ?c = "CPublish (MsgCheckInToday (checkInTodayMsg hex b day)) (''guest.'' @ hex (bMainGuest b))"
  from Cons.prems obtain x s1 where x: "publishCheckinTodayFrom hex (loggedArrange br ca pub) day bs
      (case x of Inl e \<Rightarrow> errorsJoin err e | Inr _ \<Rightarrow> err) (s1, l @ [?c x]) = Some (r, (s', l'))"
    by (auto simp: bind_attempt_logged)
  from Cons.IH [OF x] obtain pubs where p: "l' = l @ ?c x # pubs" "announcements hex day bs pubs"
    "(\<exists>u. r = Inr u) \<longleftrightarrow> (case x of Inl e \<Rightarrow> errorsJoin err e | Inr _ \<Rightarrow> err) = None \<and> list_all (\<lambda>c. \<not> failedCall c) pubs"
    by auto
  then have "announcements hex day (b # bs) (?c x # pubs)" by (auto simp: announcements_def)
  with p show ?case by (intro exI [of _ "?c x # pubs"]) (cases x; simp add: errorsJoin_def)
qed

lemma departures_log:
  assumes "cacheCheckOutFrom mar (loggedArrange br ca pub) gs err (s, l) = Some (r, (s', l'))"
  shows "\<exists>outs. l' = l @ outs \<and> departureCalls mar gs outs"
  using assms
proof (induction gs arbitrary: err s l)
  case Nil
  then show ?case by (auto simp: departureCalls_def split: option.splits)
next
  case (Cons g gs)
  obtain d bs where g: "g = (d, bs)" by fastforce
  let ?p = "case mar bs of Inl _ \<Rightarrow> [] | Inr p \<Rightarrow> p"
  from Cons.prems obtain x s1 err2 where
    "cacheCheckOutFrom mar (loggedArrange br ca pub) gs err2 (s1, l @ [CCacheSet (''checkout.'' @ d) ?p x]) = Some (r, (s', l'))"
    by (cases "mar bs") (auto simp: g bind_attempt_logged)
  from Cons.IH [OF this] obtain outs where "l' = l @ CCacheSet (''checkout.'' @ d) ?p x # outs" "departureCalls mar gs outs"
    by auto
  moreover from this(2) have "departureCalls mar (g # gs) (CCacheSet (''checkout.'' @ d) ?p x # outs)"
    by (auto simp: departureCalls_def g)
  ultimately show ?case by blast
qed

text \<open>The part of a day change after the bookings were stored: the announcements, then the departures.\<close>

lemma announce_log:
  assumes "bindE (attemptE (publishCheckinToday hex (loggedArrange br ca pub) bs today)) (\<lambda>r3. case r3 of Inl err \<Rightarrow> retE ()
      | Inr _ \<Rightarrow> bindE (attemptE (cacheCheckOut iter mar (loggedArrange br ca pub) bs)) (\<lambda>_. retE ())) (s, l0) = Some (r, (s', l))"
  shows "\<exists>pubs outs. r = Inr () \<and> l = l0 @ pubs @ outs \<and> announcements hex today bs pubs \<and>
    (if list_all (\<lambda>c. \<not> failedCall c) pubs then departureCalls mar (iter (bookingsByCheckOutDate bs)) outs else outs = [])"
proof -
  let ?S = "loggedArrange br ca pub"
  from assms obtain z s3 l3 where z: "publishCheckinTodayFrom hex ?S today bs None (s, l0) = Some (z, (s3, l3))"
    and fin: "(case z of Inl err \<Rightarrow> retE () | Inr _ \<Rightarrow> bindE (attemptE (cacheCheckOut iter mar ?S bs)) (\<lambda>_. retE ())) (s3, l3)
      = Some (r, (s', l))"
    by (auto simp: bind_attempt publishCheckinToday_def)
  from publish_log [OF z] obtain pubs where pubs: "l3 = l0 @ pubs" "announcements hex today bs pubs"
    "(\<exists>u. z = Inr u) \<longleftrightarrow> list_all (\<lambda>c. \<not> failedCall c) pubs" by auto
  show ?thesis
  proof (cases z)
    case (Inl e)
    with fin pubs show ?thesis by (intro exI [of _ pubs] exI [of _ "[]"]) auto
  next
    case (Inr v)
    with fin obtain w where w: "cacheCheckOutFrom mar ?S (iter (bookingsByCheckOutDate bs)) None (s3, l3) = Some (w, (s', l))"
      and "r = Inr ()" by (auto simp: bind_attempt cacheCheckOut_def)
    with departures_log [OF w] pubs Inr show ?thesis by auto
  qed
qed

lemma cacheCheckIn_logged:
  "mar bs = Inr p \<Longrightarrow> cacheCheckIn mar (loggedArrange br ca pub) bs today =
     logged (CCacheSet (checkinKey today) p) (cacheSetBytes ca (checkinKey today) p cacheExpiration)"
  by (simp add: cacheCheckIn_def checkinKey_def)

section \<open>Properties\<close>

text \<open>C37: at a day change the service looks up the bookings that arrive that day, stores those with
  valid data under the day's check-in key, announces each of them in order even when an
  announcement fails, and stores the departures by date only when all announcements succeeded;
  a failed lookup or a failed store ends the day, and no failure ends the service.\<close>

theorem arrangeDay_calls:
  assumes run: "arrangeDay iter mar hex (loggedArrange br ca pub) today (s, []) = Some (r, (s', l))"
  shows "r = Inr () \<and>
    ((\<exists>e. l = [CFindByCheckInDate today (Inl e)]) \<or>
     (\<exists>docs. let bs = bookingsDocToDomain docs; look = CFindByCheckInDate today (Inr docs) in
       (\<exists>e. mar bs = Inl e) \<and> l = [look] \<or>
       (\<exists>p e. mar bs = Inr p \<and> l = [look, CCacheSet (checkinKey today) p (Inl e)]) \<or>
       (\<exists>p pubs outs. mar bs = Inr p \<and> l = look # CCacheSet (checkinKey today) p (Inr ()) # pubs @ outs \<and>
          announcements hex today bs pubs \<and>
          (if list_all (\<lambda>c. \<not> failedCall c) pubs then departureCalls mar (iter (bookingsByCheckOutDate bs)) outs
           else outs = []))))"
proof -
  let ?S = "loggedArrange br ca pub"
  note run' = run [unfolded arrangeDay_def loggedArrange_sel log_sel bind_attempt_logged]
  from run' obtain x s1 where x: "brFindByCheckInDate br today s = Some (x, s1)" by blast
  show ?thesis
  proof (cases x)
    case (Inl e)
    with run' x show ?thesis by auto
  next
    case (Inr docs)
    define bs where "bs = bookingsDocToDomain docs"
    let ?look = "CFindByCheckInDate today (Inr docs)"
    from run' x Inr have day: "bindE (attemptE (cacheCheckIn mar ?S bs today)) (\<lambda>r2. case r2 of Inl err \<Rightarrow> retE ()
        | Inr _ \<Rightarrow> bindE (attemptE (publishCheckinToday hex ?S bs today)) (\<lambda>r3. case r3 of Inl err \<Rightarrow> retE ()
          | Inr _ \<Rightarrow> bindE (attemptE (cacheCheckOut iter mar ?S bs)) (\<lambda>_. retE ()))) (s1, [?look]) = Some (r, (s', l))"
      unfolding bs_def by (simp add: Let_def)
    show ?thesis
    proof (cases "mar bs")
      case (Inl e)
      with day show ?thesis by (auto simp: bind_attempt cacheCheckIn_def bs_def Let_def)
    next
      case p: (Inr p)
      note day' = day [unfolded cacheCheckIn_logged [of mar, OF p] bind_attempt_logged]
      then obtain y s2 where y: "cacheSetBytes ca (checkinKey today) p cacheExpiration s1 = Some (y, s2)" by blast
      show ?thesis
      proof (cases y)
        case (Inl e)
        with day' p y show ?thesis by (auto simp: bs_def Let_def)
      next
        case (Inr u)
        with day' y have "bindE (attemptE (publishCheckinToday hex ?S bs today)) (\<lambda>r3. case r3 of Inl err \<Rightarrow> retE ()
            | Inr _ \<Rightarrow> bindE (attemptE (cacheCheckOut iter mar ?S bs)) (\<lambda>_. retE ()))
          (s2, [?look, CCacheSet (checkinKey today) p (Inr ())]) = Some (r, (s', l))" by simp
        from announce_log [OF this] p show ?thesis unfolding Let_def bs_def append_Cons append_Nil by blast
      qed
    qed
  qed
qed

definition sampleDayCalls :: "call list" where
  "sampleDayCalls = [CFindByCheckInDate sampleToday (Inr [sampleBookingDoc]), CCacheSet (checkinKey sampleToday) ''json'' (Inr ()),
     CPublish (MsgCheckInToday (checkInTodayMsg (\<lambda>_. ''id'') sampleBooking sampleToday)) ''guest.id'' (Inr ()),
     CCacheSet (''checkout.'' @ formatDay (timeUTC (CheckOut (bStayPeriod sampleBooking)))) ''json'' (Inr ())]"

lemma sample_arrangeDay:
  "arrangeDay id (\<lambda>_. Inr ''json'') (\<lambda>_. ''id'') (loggedArrange sampleBookingRepo sampleCache samplePublisher) sampleToday ((), [])
     = Some (Inr (), ((), sampleDayCalls))"
proof -
  have b: "bookingsDocToDomain [sampleBookingDoc] = [sampleBooking]"
    by (simp add: bookingsDocToDomain_eq map_filter_simps sampleBooking_mapped)
  have c: "cacheSetBytes sampleCache k v e u = Some (Inr (), u)" "pubPublish samplePublisher m k w = Some (Inr (), w)"
    "brFindByCheckInDate sampleBookingRepo d u = Some (Inr [sampleBookingDoc], u)" for k v e u m w d
    by (simp_all add: sampleCache_def samplePublisher_def sampleBookingRepo_def)
  show ?thesis
    by (simp add: arrangeDay_def cacheCheckIn_def b c publishCheckinToday_def cacheCheckOut_def
        bookingsByCheckOutDate_def bind_attempt_logged bind_attempt Let_def sampleDayCalls_def checkinKey_def)
qed

theorem arrangeDay_calls_witness:
  "\<exists>docs p pubs outs. announcements (\<lambda>_. ''id'') sampleToday (bookingsDocToDomain docs) pubs \<and>
     departureCalls (\<lambda>_. Inr ''json'') (bookingsByCheckOutDate (bookingsDocToDomain docs)) outs \<and>
     sampleDayCalls = CFindByCheckInDate sampleToday (Inr docs) # CCacheSet (checkinKey sampleToday) p (Inr ()) # pubs @ outs"
proof -
  have n: "sampleDayCalls \<noteq> [x]" "sampleDayCalls \<noteq> [x, y]" for x y by (simp_all add: sampleDayCalls_def)
  have ok: "list_all (\<lambda>c. \<not> failedCall c) sampleDayCalls" by (simp add: sampleDayCalls_def)
  from arrangeDay_calls [OF sample_arrangeDay] n obtain docs p pubs outs where
    l: "sampleDayCalls = CFindByCheckInDate sampleToday (Inr docs) # CCacheSet (checkinKey sampleToday) p (Inr ()) # pubs @ outs"
    and a: "announcements (\<lambda>_. ''id'') sampleToday (bookingsDocToDomain docs) pubs"
    and d: "if list_all (\<lambda>c. \<not> failedCall c) pubs
      then departureCalls (\<lambda>_. Inr ''json'') (id (bookingsByCheckOutDate (bookingsDocToDomain docs))) outs else outs = []"
    unfolding Let_def by blast
  from ok have "list_all (\<lambda>c. \<not> failedCall c) pubs" unfolding l by simp
  with l a d show ?thesis by auto
qed

text \<open>The departures of the arriving bookings are grouped by departure date: one group per date
  that occurs, holding exactly the bookings that leave on that UTC date, in their order.\<close>

lemma departures_grouped:
  "distinct (map fst (bookingsByCheckOutDate bs)) \<and>
   (\<forall>d g. (d, g) \<in> set (bookingsByCheckOutDate bs) \<longleftrightarrow>
      g \<noteq> [] \<and> g = filter (\<lambda>b. formatDay (timeUTC (CheckOut (bStayPeriod b))) = d) bs)"
proof -
  let ?key = "\<lambda>b. formatDay (timeUTC (CheckOut (bStayPeriod b)))"
  have g: "distinct (map fst (bookingsByCheckOutDate bs))"
    "map_of (bookingsByCheckOutDate bs) d = (case filter (\<lambda>b. ?key b = d) bs of [] \<Rightarrow> None | xs \<Rightarrow> Some xs)" for d
    using groups_from [of "[]" ?key bs d] by (simp_all add: bookingsByCheckOutDate_def)
  have "(d, xs) \<in> set (bookingsByCheckOutDate bs) \<longleftrightarrow> xs \<noteq> [] \<and> xs = filter (\<lambda>b. ?key b = d) bs" for d xs
    using g(2) [of d] map_of_eq_Some_iff [OF g(1), of d xs] by (auto split: list.splits)
  with g(1) show ?thesis by blast
qed

text \<open>The number of guests announced is the booking's exactly when it fits 32 bits; beyond, the
  conversion wraps, so that a booking of 2147483648 guests is announced with a negative number.\<close>

lemma announced_guests_bound:
  "(nNumberOfGuests (checkInTodayMsg hex b day) = bNumberOfGuests b \<longleftrightarrow>
      - (2 ^ 31) \<le> bNumberOfGuests b \<and> bNumberOfGuests b < 2 ^ 31) \<and>
   nNumberOfGuests (checkInTodayMsg hex (b\<lparr>bNumberOfGuests := 2 ^ 31\<rparr>) day) = - (2 ^ 31)"
proof -
  have i: "int32 n = n \<longleftrightarrow> - (2 ^ 31) \<le> n \<and> n < 2 ^ 31" for n
    unfolding int32_def sint_sbintrunc' using signed_take_bit_int_eq_self_iff [of 31 n] by simp
  have "int32 (2 ^ 31) = - (2 ^ 31)" by (simp add: int32_def int_word_sint)
  with i show ?thesis by (simp add: checkInTodayMsg_def)
qed

end
