(* ===== verification/DayCycle.thy ===== *)
theory DayCycle
  imports Arrange
begin

text \<open>
  The notifications of \<open>notification_service.go\<close>, and what the day change stores for the
  reception and for the check-out notification to find.
\<close>

section \<open>Subscriptions of a notification\<close>

text \<open>The events a run of \<open>HourNotification\<close> gets to, before the step that ends it.\<close>

fun goesOn :: "int \<Rightarrow> notifyStep \<Rightarrow> bool" where
  "goesOn hour (NEvent t sent) \<longleftrightarrow> timeHour t \<noteq> hour \<or> sent"
| "goesOn hour _ \<longleftrightarrow> False"

fun eventOf :: "notifyStep \<Rightarrow> gotime option" where
  "eventOf (NEvent t _) = Some t"
| "eventOf _ = None"

lemma hourLoop_eq:
  "hourLoop hour run = (filter (\<lambda>t. timeHour t = hour) (List.map_filter eventOf (takeWhile (goesOn hour) run)),
     \<not> list_all (goesOn hour) run)"
  by (induction hour run rule: hourLoop.induct) (auto simp: map_filter_simps split: prod.split)

text \<open>An hour notification passes on exactly the events of its hour, in order, until its context
  or its event stream ends, and its subscription lasts exactly as long as the call: when it has
  returned, the subscribers are those of before.\<close>

lemma hourNotification_events:
  assumes "serviceInv te" and "\<not> subscribed TimeEventHourChange te events"
  shows "case HourNotification hour events te run of (out, te') \<Rightarrow>
    out = filter (\<lambda>t. timeHour t = hour) (List.map_filter eventOf (takeWhile (goesOn hour) run)) \<and>
    (subscribed ty te' ch \<longleftrightarrow> subscribed ty te ch \<or>
       (list_all (goesOn hour) run \<and> ty = TimeEventHourChange \<and> ch = events))"
proof -
  have i: "setInv (hourChangeChannels te)" using assms(1) by (simp add: serviceInv_def)
  have reg: "subscribed ty (Register TimeEventHourChange (Some events) te) ch \<longleftrightarrow>
      subscribed ty te ch \<or> ty = TimeEventHourChange \<and> ch = events" for ty ch
    by (auto simp: subscribed_def Register_def gs.member_add [OF i] split: timeEventType.split)
  have unreg: "subscribed ty (Unregister TimeEventHourChange (Some events) (Register TimeEventHourChange (Some events) te)) ch
      \<longleftrightarrow> subscribed ty te ch" for ty ch
    using assms(2) by (auto simp: subscribed_def Register_def Unregister_def gs.member_remove_add [OF i] split: timeEventType.splits)
  show ?thesis by (auto simp: HourNotification_def hourLoop_eq Let_def reg unreg)
qed

section \<open>The cache between the day change and its readers\<close>

text \<open>
  The documented behaviour of the cache server: \<open>stored\<close> is what it holds, each key with its
  value and the instant it expires; a read returns the value before that instant and misses
  afterwards; a write that succeeds sets the value and its expiration, which is positive; a
  write that fails changes nothing; time does not go back.
\<close>

locale expiring_cache =
  fixes ca :: "'s cachePort" and stored :: "'s \<Rightarrow> string \<rightharpoonup> string \<times> int" and now :: "'s \<Rightarrow> int"
  assumes cache_get: "cacheGetBytes ca k s = Some (r, s') \<Longrightarrow> stored s' = stored s \<and> now s \<le> now s' \<and>
      r = (case stored s k of Some (v, t) \<Rightarrow> if now s < t then Inr v else Inl (Sentinel SErrCacheMiss)
        | None \<Rightarrow> Inl (Sentinel SErrCacheMiss))"
    and cache_set: "0 < d \<Longrightarrow> cacheSetBytes ca k v d s = Some (u, s') \<Longrightarrow> now s \<le> now s' \<and>
      stored s' = (case u of Inr _ \<Rightarrow> (stored s)(k \<mapsto> (v, now s + d)) | Inl _ \<Rightarrow> stored s)"

lemma cacheExpiration_pos: "0 < cacheExpiration"
  by (simp add: cacheExpiration_def time_consts)

text \<open>One group of departures: what is stored is what the codec made of the group, or nothing at all.\<close>

lemma departures_step:
  assumes "cacheCheckOutFrom mar a (g # gs) err s = Some (r, s')"
  obtains p err2 x s1 where "mar (snd g) = Inr p \<or> p = []"
    and "cacheSetBytes (asCache a) (''checkout.'' @ fst g) p cacheExpiration s = Some (x, s1)"
    and "cacheCheckOutFrom mar a gs err2 s1 = Some (r, s')"
  using assms by (cases g; cases "mar (snd g)") (auto simp: bind_attempt)

section \<open>Departures: what the check-out notification finds\<close>

text \<open>
  What the day change relies on besides the cache: the repository returns bookings whose check-in
  is on the day asked for, decoded in UTC; neither it nor the broker touches the cache; the JSON codec reads
  back what it wrote and refuses an empty text.
\<close>

locale day_cache = expiring_cache ca stored now
  for ca :: "'s cachePort" and stored :: "'s \<Rightarrow> string \<rightharpoonup> string \<times> int" and now :: "'s \<Rightarrow> int" +
  fixes a :: "'s arrangeService" and mar :: "booking list \<Rightarrow> gerr + string" and um :: "string \<Rightarrow> gerr + booking list"
  assumes cache_of: "asCache a = ca"
    and find: "brFindByCheckInDate (asBookingRepo a) day s = Some (r, s') \<Longrightarrow> stored s' = stored s \<and> now s \<le> now s' \<and>
      (\<forall>docs d. r = Inr docs \<longrightarrow> d \<in> set docs \<longrightarrow> loc (dCheckIn (dbStayPeriod d)) = None \<and>
         dayNumber (timeUTC (dCheckIn (dbStayPeriod d))) = dayNumber (timeUTC day))"
    and publish: "pubPublish (asPublisher a) m k s = Some (u, s') \<Longrightarrow> stored s' = stored s \<and> now s \<le> now s'"
    and codec: "mar bs = Inr p \<Longrightarrow> um p = Inr bs"
    and codec_empty: "um [] \<noteq> Inr bs"

text \<open>
  The days so far, the latest first: each midnight event is arranged, and the arrangement has ended 23
  hours after its midnight by the clock of the cache; meanwhile time passes and no one else writes an entry
  for a departure.
\<close>

definition arrangeLimit :: int where
  "arrangeLimit = 23 * 3600 * nsPerSec"

inductive dayCycle ::
  "((string \<times> booking list) list \<Rightarrow> (string \<times> booking list) list) \<Rightarrow> (booking list \<Rightarrow> gerr + string) \<Rightarrow> (objectID \<Rightarrow> string)
    \<Rightarrow> 's arrangeService \<Rightarrow> ('s \<Rightarrow> string \<rightharpoonup> string \<times> int) \<Rightarrow> ('s \<Rightarrow> int) \<Rightarrow> gotime list \<Rightarrow> 's \<Rightarrow> bool"
  for iter mar hex a stored now where
  begins: "(\<And>d. stored s (''checkout.'' @ d) = None) \<Longrightarrow> dayCycle iter mar hex a stored now [] s"
| arranged: "dayCycle iter mar hex a stored now days s \<Longrightarrow> nsec day mod nsPerDay = 0 \<Longrightarrow>
    arrangeDay iter mar hex a day s = Some (r, s') \<Longrightarrow> now s' \<le> nsec day + arrangeLimit \<Longrightarrow>
    dayCycle iter mar hex a stored now (day # days) s'"
| elapsed: "dayCycle iter mar hex a stored now days s \<Longrightarrow> now s \<le> now s' \<Longrightarrow>
    (\<And>d. stored s' (''checkout.'' @ d) = stored s (''checkout.'' @ d)) \<Longrightarrow> dayCycle iter mar hex a stored now days s'"

text \<open>What every entry for a departure holds, and how long it lasts.\<close>

definition departuresOf :: "(string \<Rightarrow> gerr + booking list) \<Rightarrow> gotime list \<Rightarrow> (string \<rightharpoonup> string \<times> int) \<Rightarrow> bool" where
  "departuresOf um days m \<longleftrightarrow> (\<forall>d v x bs b. m (''checkout.'' @ d) = Some (v, x) \<and> um v = Inr bs \<and> b \<in> set bs \<longrightarrow>
     formatDay (timeUTC (CheckOut (bStayPeriod b))) = d \<and>
     (\<exists>t \<in> set days. dayNumber (timeUTC (CheckIn (bStayPeriod b))) = dayNumber (timeUTC t) \<and>
        x \<le> nsec t + arrangeLimit + cacheExpiration))"

text \<open>A group of departures of the bookings that arrive on a day.\<close>

definition groupOf :: "gotime \<Rightarrow> string \<times> booking list \<Rightarrow> bool" where
  "groupOf day g \<longleftrightarrow> (\<forall>b \<in> set (snd g). formatDay (timeUTC (CheckOut (bStayPeriod b))) = fst g \<and>
     dayNumber (timeUTC (CheckIn (bStayPeriod b))) = dayNumber (timeUTC day))"

lemma mapped_arrival:
  assumes "mapBookingDoc d = Inr b" and "loc (dCheckIn (dbStayPeriod d)) = None"
  shows "dayNumber (timeUTC (CheckIn (bStayPeriod b))) = dayNumber (timeUTC (dCheckIn (dbStayPeriod d)))"
proof -
  from assms(1) have "CheckIn (bStayPeriod b) = startOfDay (dCheckIn (dbStayPeriod d))"
    by (auto simp: mapBookingDoc_def NewPeriod_eq NewBooking_Inr_iff split: if_splits)
  moreover have "dayNumber (dCheckIn (dbStayPeriod d)) = dayNumber (timeUTC (dCheckIn (dbStayPeriod d)))"
    using assms(2) by (simp add: dayNumber_def localNs_def zoneOffset_def)
  ultimately show ?thesis by (simp add: dayNumber_timeUTC nsec_startOfDay nsPerDay_def)
qed

context day_cache
begin

lemma announced_same:
  "publishCheckinTodayFrom hex a day bs err s = Some (r, s') \<Longrightarrow> stored s' = stored s \<and> now s \<le> now s'"
proof (induction bs arbitrary: err s)
  case Nil
  then show ?case by (auto split: option.splits)
next
  case (Cons b bs)
  from Cons.prems obtain m k x s1 err2 where p: "pubPublish (asPublisher a) m k s = Some (x, s1)"
    and rest: "publishCheckinTodayFrom hex a day bs err2 s1 = Some (r, s')"
    by (auto simp: bind_attempt)
  from publish [OF p] Cons.IH [OF rest] show ?case by simp
qed

lemma arrivals_other:
  assumes "cacheCheckIn mar a bs day s = Some (r, s')"
  shows "now s \<le> now s' \<and> stored s' (''checkout.'' @ d) = stored s (''checkout.'' @ d)"
proof (cases "mar bs")
  case (Inl e)
  with assms show ?thesis by (simp add: cacheCheckIn_def)
next
  case (Inr p)
  with assms have "cacheSetBytes ca (''checkin.'' @ formatDay (timeUTC day)) p cacheExpiration s = Some (r, s')"
    by (simp add: cacheCheckIn_def cache_of)
  from cache_set [OF cacheExpiration_pos this] show ?thesis by (auto split: sum.splits)
qed

lemma departures_now: "cacheCheckOutFrom mar a gs err s = Some (r, s') \<Longrightarrow> now s \<le> now s'"
proof (induction gs arbitrary: err s)
  case Nil
  then show ?case by (auto split: option.splits)
next
  case (Cons g gs)
  from Cons.prems show ?case
  proof (rule departures_step)
    fix p err2 x s1
    assume "cacheSetBytes (asCache a) (''checkout.'' @ fst g) p cacheExpiration s = Some (x, s1)"
      and rest: "cacheCheckOutFrom mar a gs err2 s1 = Some (r, s')"
    with cache_set [OF cacheExpiration_pos] cache_of have "now s \<le> now s1" by blast
    with Cons.IH [OF rest] show ?thesis by simp
  qed
qed

lemma departures_stored:
  assumes day: "day \<in> set days" and limit: "now s' \<le> nsec day + arrangeLimit"
  shows "cacheCheckOutFrom mar a gs err s = Some (r, s') \<Longrightarrow> \<forall>g \<in> set gs. groupOf day g \<Longrightarrow>
    departuresOf um days (stored s) \<Longrightarrow> departuresOf um days (stored s')"
proof (induction gs arbitrary: err s)
  case Nil
  then show ?case by (auto split: option.splits)
next
  case (Cons g gs)
  from Cons.prems(1) show ?case
  proof (rule departures_step)
    fix p err2 x s1
    assume p: "mar (snd g) = Inr p \<or> p = []"
      and set: "cacheSetBytes (asCache a) (''checkout.'' @ fst g) p cacheExpiration s = Some (x, s1)"
      and rest: "cacheCheckOutFrom mar a gs err2 s1 = Some (r, s')"
    note w = cache_set [OF cacheExpiration_pos set [unfolded cache_of]]
    have soon: "now s + cacheExpiration \<le> nsec day + arrangeLimit + cacheExpiration"
      using w departures_now [OF rest] limit by simp
    have held: "groupOf day (fst g, bs)" if "um p = Inr bs" for bs
      using p codec codec_empty that Cons.prems(2) by (auto simp: groupOf_def)
    have "departuresOf um days (stored s1)"
    proof (cases x)
      case (Inl e)
      with w Cons.prems(3) show ?thesis by simp
    next
      case (Inr u)
      with w have "stored s1 = (stored s)(''checkout.'' @ fst g \<mapsto> (p, now s + cacheExpiration))" by simp
      with Cons.prems(3) held soon day show ?thesis by (fastforce simp: departuresOf_def groupOf_def)
    qed
    from Cons.IH [OF rest _ this] Cons.prems(2) show ?thesis by simp
  qed
qed

lemma arranged_departures:
  assumes iter: "permutes_lists iter" and run: "arrangeDay iter mar hex a day s = Some (r, s')"
    and inv: "departuresOf um days (stored s)" and limit: "now s' \<le> nsec day + arrangeLimit"
  shows "departuresOf um (day # days) (stored s')"
proof -
  have inv': "departuresOf um (day # days) m" if "\<And>d. m (''checkout.'' @ d) = stored s (''checkout.'' @ d)" for m
    using inv that unfolding departuresOf_def by (metis list.set_intros(2))
  from run obtain f s1 where f: "brFindByCheckInDate (asBookingRepo a) day s = Some (f, s1)"
    by (auto simp: arrangeDay_def bind_attempt)
  note same = find [OF f]
  show ?thesis
  proof (cases f)
    case (Inl e)
    with run f have "s' = s1" by (simp add: arrangeDay_def bind_attempt)
    with same inv' show ?thesis by simp
  next
    case docs: (Inr docs)
    let ?bs = "bookingsDocToDomain docs"
    from run f docs obtain c s2 where c: "cacheCheckIn mar a ?bs day s1 = Some (c, s2)"
      by (auto simp: arrangeDay_def bind_attempt Let_def)
    note other = arrivals_other [OF c]
    show ?thesis
    proof (cases c)
      case (Inl e)
      with run f docs c have "s' = s2" by (simp add: arrangeDay_def bind_attempt Let_def)
      with same other inv' show ?thesis by simp
    next
      case (Inr u)
      with run f docs c obtain q s3 where q: "publishCheckinToday hex a ?bs day s2 = Some (q, s3)"
        by (auto simp: arrangeDay_def bind_attempt Let_def)
      note told = announced_same [OF q [unfolded publishCheckinToday_def]]
      show ?thesis
      proof (cases q)
        case (Inl e)
        with run f docs c Inr q have "s' = s3" by (simp add: arrangeDay_def bind_attempt Let_def)
        with same other told inv' show ?thesis by simp
      next
        case q_ok: (Inr v)
        with run f docs c Inr q obtain z where z: "cacheCheckOutFrom mar a (iter (bookingsByCheckOutDate ?bs)) None s3 = Some (z, s')"
          by (auto simp: arrangeDay_def bind_attempt Let_def cacheCheckOut_def)
        have "dayNumber (timeUTC (CheckIn (bStayPeriod b))) = dayNumber (timeUTC day)" if "b \<in> set ?bs" for b
        proof -
          from that obtain d where "d \<in> set docs" "mapBookingDoc d = Inr b"
            by (auto simp: bookingsDocToDomain_eq map_filter_def split: sum.splits)
          with same docs mapped_arrival [of d b] show ?thesis by auto
        qed
        then have "\<forall>g \<in> set (iter (bookingsByCheckOutDate ?bs)). groupOf day g"
          using iter departures_grouped [of ?bs] by (fastforce simp: permutes_lists_def groupOf_def)
        from departures_stored [OF _ limit z this, of "day # days"] inv' same other told show ?thesis by simp
      qed
    qed
  qed
qed

lemma cycle_departures:
  assumes "permutes_lists iter"
  shows "dayCycle iter mar hex a stored now days s \<Longrightarrow> departuresOf um days (stored s)"
proof (induction rule: dayCycle.induct)
  case (begins s)
  then show ?case by (simp add: departuresOf_def)
next
  case (arranged days s day r s')
  then show ?case by (intro arranged_departures [OF assms])
next
  case (elapsed days s s')
  then show ?case by (simp add: departuresOf_def)
qed

lemma notified_entry:
  assumes "checkOutLoop um ca [NEvent e True] s = Some (Inr (out, ret), s')" and "bs \<in> set out"
  obtains v x where "stored s (checkoutKey e) = Some (v, x)" and "now s < x" and "um v = Inr bs"
proof -
  from assms(1) obtain y s1 where y: "cacheGetBytes ca (checkoutKey e) s = Some (y, s1)"
    by (simp add: bind_attempt) blast
  with assms obtain v where v: "y = Inr v" "um v = Inr bs"
    by (cases y; cases "um (projr y)") (auto simp: bind_attempt bindE_Some)
  with cache_get [OF y] that show thesis by (auto split: option.splits if_splits)
qed

end

lemma cycle_midnights: "dayCycle iter mar hex a stored now days s \<Longrightarrow> \<forall>t \<in> set days. nsec t mod nsPerDay = 0"
  by (induction rule: dayCycle.induct) auto

text \<open>C40: whatever the days bring, the check-out notification of a midnight event names only stays of a single
  night. The departures of a booking are stored when it arrives, for half an hour; so an entry that is
  still there at a later midnight was stored on that very day: the bookings passed on arrive on the
  day of the event and leave on the next. A stay of two nights or more is never announced. This
  presumes that the clock of the cache goes with the clock of the events, which a simulated clock
  that runs faster would change.\<close>

theorem departures_only_one_night:
  assumes cache: "day_cache ca stored now a mar um" and iter: "permutes_lists iter"
    and days: "dayCycle iter mar hex a stored now days s"
    and event: "nsec e mod nsPerDay = 0" "\<forall>t \<in> set days. nsec t \<le> nsec e" "nsec e \<le> now s"
    and read: "checkOutLoop um ca [NEvent e True] s = Some (Inr (out, ret), s')"
    and out: "bs \<in> set out" "b \<in> set bs"
  shows "dayNumber (timeUTC (CheckIn (bStayPeriod b))) = dayNumber (timeUTC e) \<and>
    dayNumber (timeUTC (CheckOut (bStayPeriod b))) = dayNumber (timeUTC e) + 1"
proof -
  from day_cache.notified_entry [OF cache read out(1)] obtain v x where
    entry: "stored s (''checkout.'' @ formatDay (timeUTC (timeAddDays e 1))) = Some (v, x)" "now s < x" "um v = Inr bs"
    unfolding checkoutKey_def by blast
  from day_cache.cycle_departures [OF cache iter days] entry(1,3) out(2) obtain t where
    leave: "formatDay (timeUTC (CheckOut (bStayPeriod b))) = formatDay (timeUTC (timeAddDays e 1))" and t: "t \<in> set days"
    and come: "dayNumber (timeUTC (CheckIn (bStayPeriod b))) = dayNumber (timeUTC t)" and x: "x \<le> nsec t + arrangeLimit + cacheExpiration"
    unfolding departuresOf_def by blast
  have "nsec e < nsec t + nsPerDay"
    using event(3) entry(2) x by (simp add: arrangeLimit_def cacheExpiration_def time_consts)
  moreover have "nsec t mod nsPerDay = 0" "nsec t \<le> nsec e" using event(2) t cycle_midnights [OF days] by auto
  ultimately have "nsec t div nsPerDay = nsec e div nsPerDay"
    using event(1) by (auto simp: nsPerDay_def elim!: dvdE simp flip: dvd_eq_mod_eq_0)
  moreover have "dayNumber (timeUTC (timeAddDays e 1)) = dayNumber (timeUTC e) + 1"
    by (simp add: dayNumber_timeUTC timeAddDays_def timeAdd_def nsPerDay_def)
  ultimately show ?thesis using leave come by (simp add: formatDay_eq_iff dayNumber_timeUTC)
qed

text \<open>A cache in memory: the time and the entries.\<close>

definition timedCache :: "(int \<times> (string \<rightharpoonup> string \<times> int)) cachePort" where
  "timedCache = \<lparr>cacheGetBytes = (\<lambda>k (n, m). Some (case m k of
       Some (v, t) \<Rightarrow> if n < t then Inr v else Inl (Sentinel SErrCacheMiss)
     | None \<Rightarrow> Inl (Sentinel SErrCacheMiss), (n, m))),
     cacheSetBytes = (\<lambda>k v d (n, m). Some (Inr (), (n, m(k \<mapsto> (v, n + d)))))\<rparr>"

interpretation timed: expiring_cache timedCache snd fst
  by unfold_locales (auto simp: timedCache_def split: option.split)

text \<open>Two bookings that leave on 3 June 2024: one arrives on the 1st and the other on the 2nd.\<close>

definition juneDoc :: "objectID \<Rightarrow> int \<Rightarrow> bookingDoc" where
  "juneDoc i n = \<lparr>dbId = i, dbMainGuest = 1, dbNumberOfGuests = 2,
     dbStayPeriod = \<lparr>dCheckIn = \<lparr>nsec = n, loc = None\<rparr>, dCheckOut = \<lparr>nsec = 1717372800000000000, loc = None\<rparr>\<rparr>,
     dbCottageName = ''Oak'', dbStatus = BookingStatusConfirmed\<rparr>"

definition juneBooking :: "objectID \<Rightarrow> int \<Rightarrow> booking" where
  "juneBooking i n = \<lparr>bId = i, bMainGuest = 1, bNumberOfGuests = 2,
     bStayPeriod = \<lparr>CheckIn = \<lparr>nsec = n, loc = None\<rparr>, CheckOut = \<lparr>nsec = 1717372800000000000, loc = None\<rparr>\<rparr>,
     bCottageName = ''Oak'', bStatus = BookingStatusConfirmed\<rparr>"

abbreviation june1 :: gotime where "june1 \<equiv> \<lparr>nsec = 1717200000000000000, loc = None\<rparr>"
abbreviation june2 :: gotime where "june2 \<equiv> \<lparr>nsec = 1717286400000000000, loc = None\<rparr>"

abbreviation twoNights :: booking where "twoNights \<equiv> juneBooking 7 1717200000000000000"
abbreviation oneNight :: booking where "oneNight \<equiv> juneBooking 8 1717286400000000000"

definition timedArrange :: "(int \<times> (string \<rightharpoonup> string \<times> int)) arrangeService" where
  "timedArrange = \<lparr>asBookingRepo = sampleBookingRepo\<lparr>brFindByCheckInDate := (\<lambda>day. retE (
       filter (\<lambda>d. dayNumber (timeUTC (dCheckIn (dbStayPeriod d))) = dayNumber (timeUTC day))
         [juneDoc 7 1717200000000000000, juneDoc 8 1717286400000000000]))\<rparr>,
     asCache = timedCache, asPublisher = \<lparr>pubPublish = (\<lambda>_ _. retE ())\<rparr>\<rparr>"

definition juneMar :: "booking list \<Rightarrow> gerr + string" where
  "juneMar bs = (if bs = [twoNights] then Inr ''two'' else if bs = [oneNight] then Inr ''one'' else Inl (LibErr ''unsupported''))"

definition juneUm :: "string \<Rightarrow> gerr + booking list" where
  "juneUm p = (if p = ''two'' then Inr [twoNights] else if p = ''one'' then Inr [oneNight] else Inl (LibErr ''syntax''))"

interpretation june: day_cache timedCache snd fst timedArrange juneMar juneUm
  by unfold_locales (auto simp: timedArrange_def juneDoc_def juneMar_def juneUm_def split: if_splits)

lemma june_mapped:
  "mapBookingDoc (juneDoc 7 1717200000000000000) = Inr twoNights" "mapBookingDoc (juneDoc 8 1717286400000000000) = Inr oneNight"
  by code_simp+

lemma june_days:
  "dayNumber june1 = 19875" "dayNumber june2 = 19876"
  "formatDay (timeUTC (CheckOut (bStayPeriod (juneBooking i n)))) = ''2024-06-03''" "formatDay (timeUTC (timeAddDays june2 1)) = ''2024-06-03''"
  by (code_simp, code_simp, simp add: juneBooking_def, code_simp, code_simp)

text \<open>The entries after the first day and after the second.\<close>

definition juneOne :: "string \<rightharpoonup> string \<times> int" where
  "juneOne = [checkinKey june1 \<mapsto> (''two'', nsec june1 + cacheExpiration), ''checkout.2024-06-03'' \<mapsto> (''two'', nsec june1 + cacheExpiration)]"

definition juneTwo :: "string \<rightharpoonup> string \<times> int" where
  "juneTwo = juneOne(checkinKey june2 \<mapsto> (''one'', nsec june2 + cacheExpiration), ''checkout.2024-06-03'' \<mapsto> (''one'', nsec june2 + cacheExpiration))"

lemma june_found:
  "brFindByCheckInDate (asBookingRepo timedArrange) june1 s = Some (Inr [juneDoc 7 1717200000000000000], s)"
  "brFindByCheckInDate (asBookingRepo timedArrange) june2 s = Some (Inr [juneDoc 8 1717286400000000000], s)"
proof -
  have "dayNumber (timeUTC (dCheckIn (dbStayPeriod (juneDoc 7 1717200000000000000)))) = 19875"
    "dayNumber (timeUTC (dCheckIn (dbStayPeriod (juneDoc 8 1717286400000000000)))) = 19876" by code_simp+
  then show "brFindByCheckInDate (asBookingRepo timedArrange) june1 s = Some (Inr [juneDoc 7 1717200000000000000], s)"
    "brFindByCheckInDate (asBookingRepo timedArrange) june2 s = Some (Inr [juneDoc 8 1717286400000000000], s)"
    by (simp_all add: timedArrange_def june_days)
qed

lemma june_publish: "pubPublish (asPublisher timedArrange) m k s = Some (Inr (), s)"
  and june_set: "cacheSetBytes (asCache timedArrange) k v d (n, c) = Some (Inr (), (n, c(k \<mapsto> (v, n + d))))"
  by (simp_all add: timedArrange_def timedCache_def)

lemma june_arranged:
  "arrangeDay id juneMar (\<lambda>_. ''0'') timedArrange june1 (nsec june1, \<lambda>_. None) = Some (Inr (), (nsec june1, juneOne))"
  "arrangeDay id juneMar (\<lambda>_. ''0'') timedArrange june2 (nsec june2, juneOne) = Some (Inr (), (nsec june2, juneTwo))"
proof -
  have "twoNights \<noteq> oneNight" by (simp add: juneBooking_def)
  then have "juneMar [twoNights] = Inr ''two''" "juneMar [oneNight] = Inr ''one''" by (simp_all add: juneMar_def)
  then show "arrangeDay id juneMar (\<lambda>_. ''0'') timedArrange june1 (nsec june1, \<lambda>_. None) = Some (Inr (), (nsec june1, juneOne))"
    "arrangeDay id juneMar (\<lambda>_. ''0'') timedArrange june2 (nsec june2, juneOne) = Some (Inr (), (nsec june2, juneTwo))"
    by (simp_all add: arrangeDay_def bind_attempt Let_def june_found june_publish june_set june_mapped bookingsDocToDomain_eq map_filter_simps
        cacheCheckIn_def publishCheckinToday_def cacheCheckOut_def bookingsByCheckOutDate_def june_days juneOne_def juneTwo_def checkinKey_def
        del: select_convs)
qed

lemma june_cycle:
  "dayCycle id juneMar (\<lambda>_. ''0'') timedArrange snd fst [june1] (nsec june2, juneOne)"
  "dayCycle id juneMar (\<lambda>_. ''0'') timedArrange snd fst [june2, june1] (nsec june2, juneTwo)"
proof -
  have "dayCycle id juneMar (\<lambda>_. ''0'') timedArrange snd fst [] (nsec june1, \<lambda>_. None)" by (rule begins) simp
  from arranged [OF this _ june_arranged(1)]
  have "dayCycle id juneMar (\<lambda>_. ''0'') timedArrange snd fst [june1] (nsec june1, juneOne)"
    by (simp add: arrangeLimit_def time_consts)
  then show one: "dayCycle id juneMar (\<lambda>_. ''0'') timedArrange snd fst [june1] (nsec june2, juneOne)"
    by (rule elapsed) simp_all
  from arranged [OF one _ june_arranged(2)]
  show "dayCycle id juneMar (\<lambda>_. ''0'') timedArrange snd fst [june2, june1] (nsec june2, juneTwo)"
    by (simp add: arrangeLimit_def time_consts)
qed

lemma june_notified:
  "checkOutLoop juneUm timedCache [NEvent june2 True] (nsec june2, juneOne) = Some (Inr ([], False), (nsec june2, juneOne))"
  "checkOutLoop juneUm timedCache [NEvent june2 True] (nsec june2, juneTwo) = Some (Inr ([[oneNight]], False), (nsec june2, juneTwo))"
  by (simp_all add: bind_attempt bindE_def timedCache_def checkoutKey_def june_days juneOne_def juneTwo_def checkinKey_def
      juneUm_def cacheExpiration_def time_consts)

text \<open>Both bookings leave on 3 June. On the eve the stay of two nights is not found; the one of a single night is, once the
  arrivals of the eve are arranged.\<close>

theorem departures_only_one_night_witness:
  "checkOutLoop juneUm timedCache [NEvent june2 True] (nsec june2, juneOne) = Some (Inr ([], False), (nsec june2, juneOne)) \<and>
   checkOutLoop juneUm timedCache [NEvent june2 True] (nsec june2, juneTwo) = Some (Inr ([[oneNight]], False), (nsec june2, juneTwo)) \<and>
   dayNumber (timeUTC (CheckIn (bStayPeriod oneNight))) = dayNumber (timeUTC june2) \<and>
   dayNumber (timeUTC (CheckOut (bStayPeriod oneNight))) = dayNumber (timeUTC june2) + 1"
proof -
  have "dayNumber (timeUTC (CheckIn (bStayPeriod oneNight))) = dayNumber (timeUTC june2) \<and>
      dayNumber (timeUTC (CheckOut (bStayPeriod oneNight))) = dayNumber (timeUTC june2) + 1"
    by (rule departures_only_one_night [OF june.day_cache_axioms permutes_id june_cycle(2) _ _ _ june_notified(2), of "[oneNight]"])
      (simp_all add: nsPerDay_def)
  with june_notified show ?thesis by blast
qed

section \<open>Arrivals: what the reception finds\<close>

text \<open>After a day change has stored the arrivals of a day, a check-in later on the same UTC day,
  within half an hour and with nothing stored since, finds in the cache the first valid booking of
  its guest among the documents of the day, without asking the booking repository.\<close>

lemma cached_arrival_found:
  assumes cache: "expiring_cache ca stored now" and "asCache a = ca" and "rsCache rs = ca"
    and store: "cacheCheckIn mar a (bookingsDocToDomain docs) day s = Some (Inr (), s1)"
    and codec: "\<And>bs p. mar bs = Inr p \<Longrightarrow> um p = Inr bs"
    and later: "stored s2 = stored s1" "now s2 < now s + cacheExpiration"
    and today: "sameUTCDay day today"
    and read: "getFromCache um rs today g s2 = Some (r, s3)"
  shows "r = Inr (case List.find (\<lambda>b. bMainGuest b = gId g) (bookingsDocToDomain docs) of None \<Rightarrow> zeroBooking | Some b \<Rightarrow> b)"
proof -
  let ?bs = "bookingsDocToDomain docs"
  from store obtain p where p: "mar ?bs = Inr p" and
    set: "cacheSetBytes ca (checkinKey day) p cacheExpiration s = Some (Inr (), s1)"
    using assms(2) by (auto simp: cacheCheckIn_def checkinKey_def split: sum.splits)
  have key: "checkinKey today = checkinKey day" using today by (simp add: checkinKey_def formatDay_eq_iff sameUTCDay_iff)
  from read obtain y s' where y: "cacheGetBytes ca (checkinKey day) s2 = Some (y, s')"
    and k: "(case y of Inl err \<Rightarrow> retE zeroBooking | Inr js \<Rightarrow> (case um js of Inl err \<Rightarrow> retE zeroBooking
       | Inr bs \<Rightarrow> retE (firstOfGuest (gId g) bs))) s' = Some (r, s3)"
    using assms(3) by (auto simp: getFromCache_def bind_attempt key)
  have "stored s1 (checkinKey day) = Some (p, now s + cacheExpiration)" using expiring_cache.cache_set [OF cache cacheExpiration_pos set] by simp
  with expiring_cache.cache_get [OF cache y] later have "y = Inr p" by simp
  with k codec [OF p] show ?thesis by (simp add: firstOfGuest_find)
qed

definition sampleMar :: "booking list \<Rightarrow> gerr + string" where
  "sampleMar bs = (if bs = [sampleBooking] then Inr ''json'' else Inl (LibErr ''unsupported''))"

end
