(* ===== verification/Infra.thy ===== *)
theory Infra
  imports BrokerRun DayCycle
begin

text \<open>
  The clients of the external services (\<open>internal/infra/redis\<close>, \<open>internal/infra/mdb/mongo_db.go\<close>,
  \<open>internal/infra/clock/client.go\<close>) and how the program connects to them and lets go of them
  (\<open>internal/infra/init.go\<close>). The drivers are parameters, one operation per library call.
\<close>

section \<open>Cache\<close>

record 's redisLib =
  rlPing :: "('s, unit) io"
  rlClose :: "('s, unit) io"
  rlGet :: "string \<Rightarrow> ('s, string) io"
  rlSet :: "string \<Rightarrow> string \<Rightarrow> int \<Rightarrow> ('s, unit) io"

definition redisPing :: "'s redisLib \<Rightarrow> ('s, unit) io" where
  "redisPing r = rlPing r"

definition redisClose :: "'s redisLib \<Rightarrow> ('s, unit) io" where
  "redisClose r = rlClose r"

definition redisGetBytes :: "'s redisLib \<Rightarrow> string \<Rightarrow> ('s, string) io" where
  "redisGetBytes r key = bindE (attemptE (rlGet r key)) (\<lambda>res. case res of
     Inl err \<Rightarrow> if errorsIs err SErrRedisNil then failE (Sentinel SErrCacheMiss) else failE err
   | Inr value \<Rightarrow> retE value)"

definition redisSetBytes :: "'s redisLib \<Rightarrow> string \<Rightarrow> string \<Rightarrow> int \<Rightarrow> ('s, unit) io" where
  "redisSetBytes r key value expiration = rlSet r key value expiration"

definition redisCache :: "'s redisLib \<Rightarrow> 's cachePort" where
  "redisCache r = \<lparr>cacheGetBytes = redisGetBytes r, cacheSetBytes = redisSetBytes r\<rparr>"

text \<open>
  The documented behaviour of \<open>GET\<close> and \<open>SET\<close> with an expiration, as the driver reports it: a
  missing or expired key is the error \<open>redis.Nil\<close>. The client over such a server keeps the
  contract its users rely on.
\<close>

locale redis_server =
  fixes lib :: "'s redisLib" and stored :: "'s \<Rightarrow> string \<rightharpoonup> string \<times> int" and now :: "'s \<Rightarrow> int"
  assumes server_get: "rlGet lib k s = Some (r, s') \<Longrightarrow> stored s' = stored s \<and> now s \<le> now s' \<and>
      r = (case stored s k of Some (v, t) \<Rightarrow> if now s < t then Inr v else Inl (Sentinel SErrRedisNil)
        | None \<Rightarrow> Inl (Sentinel SErrRedisNil))"
    and server_set: "0 < d \<Longrightarrow> rlSet lib k v d s = Some (u, s') \<Longrightarrow> now s \<le> now s' \<and>
      stored s' = (case u of Inr _ \<Rightarrow> (stored s)(k \<mapsto> (v, now s + d)) | Inl _ \<Rightarrow> stored s)"

lemma redisGet_Some:
  "cacheGetBytes (redisCache lib) k s = Some (r, s') \<longleftrightarrow> (\<exists>x. rlGet lib k s = Some (x, s') \<and>
     r = (case x of Inl err \<Rightarrow> Inl (if errorsIs err SErrRedisNil then Sentinel SErrCacheMiss else err) | Inr v \<Rightarrow> Inr v))"
  by (auto simp: redisCache_def redisGetBytes_def bind_attempt split: sum.splits)

sublocale redis_server \<subseteq> cache: expiring_cache "redisCache lib" stored now
proof
  show "stored s' = stored s \<and> now s \<le> now s' \<and> r = (case stored s k of
      Some (v, t) \<Rightarrow> if now s < t then Inr v else Inl (Sentinel SErrCacheMiss)
    | None \<Rightarrow> Inl (Sentinel SErrCacheMiss))"
    if get: "cacheGetBytes (redisCache lib) k s = Some (r, s')" for k s r s'
  proof -
    from get obtain x where "rlGet lib k s = Some (x, s')"
      and r: "r = (case x of Inl err \<Rightarrow> Inl (if errorsIs err SErrRedisNil then Sentinel SErrCacheMiss else err) | Inr v \<Rightarrow> Inr v)"
      by (auto simp: redisGet_Some)
    from server_get [OF this(1)] r show ?thesis by (auto split: option.splits)
  qed
  show "now s \<le> now s' \<and> stored s' = (case u of Inr _ \<Rightarrow> (stored s)(k \<mapsto> (v, now s + d)) | Inl _ \<Rightarrow> stored s)"
    if "0 < d" and "cacheSetBytes (redisCache lib) k v d s = Some (u, s')" for d k v s u s'
    using server_set [OF that(1)] that(2) by (simp add: redisCache_def redisSetBytes_def)
qed

context redis_server
begin

lemma is_cache: "expiring_cache (redisCache lib) stored now"
  by unfold_locales

end

text \<open>A server in memory.\<close>

definition memRedis :: "(int \<times> (string \<rightharpoonup> string \<times> int)) redisLib" where
  "memRedis = \<lparr>rlPing = retE (), rlClose = retE (), rlGet = (\<lambda>k (n, m). Some (case m k of
       Some (v, t) \<Rightarrow> if n < t then Inr v else Inl (Sentinel SErrRedisNil)
     | None \<Rightarrow> Inl (Sentinel SErrRedisNil), (n, m))),
     rlSet = (\<lambda>k v d (n, m). Some (Inr (), (n, m(k \<mapsto> (v, n + d)))))\<rparr>"

interpretation mr: redis_server memRedis snd fst
  by unfold_locales (auto simp: memRedis_def split: option.splits)

section \<open>Clean-up\<close>

text \<open>The functions registered so far, run from the last to the first; their errors are joined.\<close>

fun cleanupLoop :: "('s, unit) io list \<Rightarrow> gerr option \<Rightarrow> ('s, unit) io" where
  "cleanupLoop [] shutdownErr = (case shutdownErr of None \<Rightarrow> retE () | Some e \<Rightarrow> failE e)"
| "cleanupLoop (f # fs) shutdownErr = bindE (attemptE f) (\<lambda>r. cleanupLoop fs (case r of
     Inl err \<Rightarrow> errorsJoin shutdownErr err
   | Inr _ \<Rightarrow> shutdownErr))"

definition runCleanup :: "('s, unit) io list \<Rightarrow> ('s, unit) io" where
  "runCleanup cleanup = cleanupLoop (rev cleanup) None"

text \<open>\<open>if err != nil { _ = runCleanup(ctx, cleanup); return ..., h(err) }\<close>\<close>

definition orCleanup :: "('s, unit) io list \<Rightarrow> (gerr \<Rightarrow> gerr) \<Rightarrow> ('s, 'a) io \<Rightarrow> ('s, 'a) io" where
  "orCleanup cleanup h m = bindE (attemptE m) (\<lambda>r. case r of
     Inl err \<Rightarrow> bindE (attemptE (runCleanup cleanup)) (\<lambda>_. failE (h err))
   | Inr x \<Rightarrow> retE x)"

section \<open>Broker\<close>

record 't rabbitmq =
  riCleaningPublisher :: rabbitmqProducer
  riGuestCommunicationPub :: rabbitmqProducer
  riDayChangeConsumer :: rabbitmqConsumer
  riHourChangeConsumer :: rabbitmqConsumer
  riConnectionClose :: "('t, unit) io"

definition declareAndBindConsumer :: "'s amqpLib \<Rightarrow> rabbitmqConsumer \<Rightarrow> queueConfig \<Rightarrow> bindingConfig \<Rightarrow> ('s broker, unit) io" where
  "declareAndBindConsumer a consumer queueCfg bindingCfg =
     thenE (DeclareQueue a consumer queueCfg) (BindQueue a consumer bindingCfg)"

text \<open>What follows the connection: the channels, exchanges and queues.\<close>

definition openRabbitmq :: "'s amqpLib \<Rightarrow> rabbitMqConfig \<Rightarrow> ('s broker, 's broker rabbitmq) io" where
  "openRabbitmq a configs = (let cleanup1 = [rabbitClose a] in
     bindE (orCleanup cleanup1 id (NewRabbitmqProducer a (rpPublish (rmCleaning configs)))) (\<lambda>cleaningPublisher.
     thenE (orCleanup cleanup1 (Wrapf ''declare cleaning exchange: %w'' [])
       (DeclareExchange a cleaningPublisher (rpExchange (rmCleaning configs))))
     (let cleanup2 = cleanup1 @ [CloseChannel a (prChannel cleaningPublisher)] in
     bindE (orCleanup cleanup2 id (NewRabbitmqProducer a (rpPublish (rmGuestCommunication configs)))) (\<lambda>guestCommunicationPublisher.
     thenE (orCleanup cleanup2 (Wrapf ''declare guest communication exchange: %w'' [])
       (DeclareExchange a guestCommunicationPublisher (rpExchange (rmGuestCommunication configs))))
     (let cleanup3 = cleanup2 @ [CloseChannel a (prChannel guestCommunicationPublisher)] in
     bindE (orCleanup cleanup3 id (NewRabbitmqConsumer a (rcConsume (rmDayChange configs)))) (\<lambda>dayChangeConsumer.
     let cleanup4 = cleanup3 @ [CloseChannel a (coChannel dayChangeConsumer)] in
     bindE (orCleanup cleanup4 id (NewRabbitmqConsumer a (rcConsume (rmHourChange configs)))) (\<lambda>hourChangeConsumer.
     let cleanup5 = cleanup4 @ [CloseChannel a (coChannel hourChangeConsumer)] in
     thenE (orCleanup cleanup5 id
       (declareAndBindConsumer a dayChangeConsumer (rcQueue (rmDayChange configs)) (rcBinding (rmDayChange configs))))
     (thenE (orCleanup cleanup5 id
       (declareAndBindConsumer a hourChangeConsumer (rcQueue (rmHourChange configs)) (rcBinding (rmHourChange configs))))
     (retE \<lparr>riCleaningPublisher = cleaningPublisher, riGuestCommunicationPub = guestCommunicationPublisher,
        riDayChangeConsumer = dayChangeConsumer, riHourChangeConsumer = hourChangeConsumer,
        riConnectionClose = runCleanup cleanup5\<rparr>)))))))))"

definition NewRabbitmq :: "'s amqpLib \<Rightarrow> rabbitMqConfig \<Rightarrow> ('s broker, 's broker rabbitmq) io" where
  "NewRabbitmq a configs = thenE (NewRabbitMqConnection a configs) (openRabbitmq a configs)"

section \<open>Database\<close>

text \<open>
  \<open>moPing\<close> takes the time limits of the contexts that enclose the call; the options of the
  client are those the code sets.
\<close>

record mongoOptions =
  moUri :: string
  moConnectTimeout :: int
  moServerSelectionTimeout :: int
  moMaxConnIdleTime :: int
  moMaxPoolSize :: "64 word"
  moMinPoolSize :: "64 word"
  moRetryWrites :: bool
  moReplicaSet :: "string option"

record 's mongoLib =
  moConnect :: "mongoOptions \<Rightarrow> ('s, handle) io"
  moPing :: "handle \<Rightarrow> int list \<Rightarrow> ('s, unit) io"
  moDisconnect :: "handle \<Rightarrow> ('s, unit) io"

record mongoConfig =
  mcUsername :: string
  mcPassword :: string
  mcHost :: string
  mcDatabase :: string
  mcReplicaSet :: string
  mcConnectionTimeoutInSeconds :: int
  mcServerSelectionTimeoutInSeconds :: int
  mcPingTimeoutInSeconds :: int
  mcStartupTimeoutInSeconds :: int
  mcMaxConnIdleTimeInSeconds :: int
  mcMaxPoolSize :: "64 word"
  mcMinPoolSize :: "64 word"
  mcRetryWrites :: bool
  mcGuestCollection :: string
  mcCottageCollection :: string
  mcBookingCollection :: string

text \<open>\<open>time.Duration(n) * time.Second\<close> in 64 bits.\<close>

definition durationInSeconds :: "int \<Rightarrow> int" where
  "durationInSeconds n = sint (word_of_int (n * 1000000000) :: 64 word)"

definition buildMongoURI :: "string \<Rightarrow> string \<Rightarrow> string \<Rightarrow> string" where
  "buildMongoURI username password host = ''mongodb://'' @ username @ '':'' @ password @ ''@'' @ host"

definition clientOptions :: "mongoConfig \<Rightarrow> mongoOptions" where
  "clientOptions c = \<lparr>moUri = buildMongoURI (mcUsername c) (mcPassword c) (mcHost c),
     moConnectTimeout = durationInSeconds (mcConnectionTimeoutInSeconds c),
     moServerSelectionTimeout = durationInSeconds (mcServerSelectionTimeoutInSeconds c),
     moMaxConnIdleTime = durationInSeconds (mcMaxConnIdleTimeInSeconds c),
     moMaxPoolSize = mcMaxPoolSize c, moMinPoolSize = mcMinPoolSize c, moRetryWrites = mcRetryWrites c,
     moReplicaSet = (if mcReplicaSet c \<noteq> '''' then Some (mcReplicaSet c) else None)\<rparr>"

definition NewMdb :: "'s mongoLib \<Rightarrow> mongoConfig \<Rightarrow> ('s, handle) io" where
  "NewMdb m config = bindE (moConnect m (clientOptions config)) (\<lambda>client.
     bindE (attemptE (moPing m client [durationInSeconds (mcStartupTimeoutInSeconds config),
         durationInSeconds (mcPingTimeoutInSeconds config)])) (\<lambda>r. case r of
       Inl err \<Rightarrow> bindE (attemptE (moDisconnect m client)) (\<lambda>_. failE (Wrapf ''mongo ping failed for URI: %s, error: %w''
           [FStr (buildMongoURI (mcUsername config) (mcPassword config) (mcHost config))] err))
     | Inr _ \<Rightarrow> retE client))"

definition mdbPing :: "'s mongoLib \<Rightarrow> handle \<Rightarrow> ('s, unit) io" where
  "mdbPing m client = moPing m client []"

definition mdbClose :: "'s mongoLib \<Rightarrow> handle \<Rightarrow> ('s, unit) io" where
  "mdbClose m client = moDisconnect m client"

text \<open>
  The collections of the database are the driver's; \<open>hex\<close>, \<open>fromHex\<close> and \<open>unm\<close> are its codecs, as in the
  repositories.
\<close>

record ('s, 'raw) mongoDriver =
  mdGuests :: "handle \<Rightarrow> string \<Rightarrow> string \<Rightarrow> ('s, guestDoc) collection"
  mdCottages :: "handle \<Rightarrow> string \<Rightarrow> string \<Rightarrow> ('s, cottageDoc) collection"
  mdBookings :: "handle \<Rightarrow> string \<Rightarrow> string \<Rightarrow> ('s, 'raw) collection"
  mdHex :: "objectID \<Rightarrow> string"
  mdFromHex :: "string \<Rightarrow> gerr + objectID"
  mdUnmarshal :: "'raw \<Rightarrow> gerr + bookingDocumentCurrent"

record 's mongo =
  mgConnection :: handle
  mgBookingRepo :: "'s bookingRepo"
  mgGuestRepo :: "'s guestRepo"
  mgCottageRepo :: "'s cottageRepo"
  mgConnectionClose :: "('s, unit) io"

definition NewMongoDb :: "'s mongoLib \<Rightarrow> ('s, 'raw) mongoDriver \<Rightarrow> mongoConfig \<Rightarrow> ('s, 's mongo) io" where
  "NewMongoDb m d configs = bindE (NewMdb m configs) (\<lambda>client. retE
     \<lparr>mgConnection = client,
      mgBookingRepo = newBookingRepo (mdFromHex d) (mdUnmarshal d) (mdBookings d client (mcDatabase configs) (mcBookingCollection configs)),
      mgGuestRepo = newGuestRepo (mdGuests d client (mcDatabase configs) (mcGuestCollection configs)),
      mgCottageRepo = newCottageRepo (mdHex d) (mdCottages d client (mcDatabase configs) (mcCottageCollection configs)),
      mgConnectionClose = mdbClose m client\<rparr>)"

section \<open>The start-up of the cache client and the clock\<close>

record redisConfig =
  rdUsername :: string
  rdPassword :: string
  rdHost :: string
  rdPort :: int
  rdDB :: int

text \<open>\<open>open\<close> is the driver's constructor over the address, the credentials and the data base; the three
  time limits are five seconds.\<close>

definition NewRedisClient ::
  "(string \<times> int \<Rightarrow> string \<Rightarrow> string \<Rightarrow> int \<Rightarrow> int \<Rightarrow> 's redisLib) \<Rightarrow> redisConfig \<Rightarrow> ('s, 's redisLib) io" where
  "NewRedisClient openClient cfg = (let r = openClient (rdHost cfg, rdPort cfg) (rdUsername cfg) (rdPassword cfg) (rdDB cfg) (5 * 1000000000) in
     bindE (attemptE (redisPing r)) (\<lambda>res. case res of
       Inl err \<Rightarrow> bindE (attemptE (rlClose r)) (\<lambda>_. failE (Wrapf ''redis ping failed for address %s:%d: %w''
         [FStr (rdHost cfg), FInt (rdPort cfg)] err))
     | Inr _ \<Rightarrow> retE r))"

text \<open>The generated client of the clock service: its reply has a time field, a pointer.\<close>

record 's clockStub =
  stNow :: "('s, gotime option) io"
  stClose :: "('s, unit) io"

definition NewClockEmu :: "(string \<times> int \<Rightarrow> gerr + 's clockStub) \<Rightarrow> string \<times> int \<Rightarrow> gerr + 's clockStub" where
  "NewClockEmu newClient addr = newClient addr"

definition clockEmuNow :: "'s clockStub \<Rightarrow> ('s, gotime option) io" where
  "clockEmuNow e = bindE (stNow e) (\<lambda>t. retE (Some (case t of Some x \<Rightarrow> timeUTC x | None \<Rightarrow> \<lparr>nsec = 0, loc = None\<rparr>)))"

definition clockEmuClose :: "'s clockStub \<Rightarrow> ('s, unit) io" where
  "clockEmuClose e = stClose e"

definition clockEmu :: "'s clockStub \<Rightarrow> 's clockClient" where
  "clockEmu e = \<lparr>clockNow = clockEmuNow e\<rparr>"

section \<open>What a clean-up does\<close>

text \<open>Every function is run, whatever the others returned.\<close>

fun runAll :: "('s, unit) io list \<Rightarrow> 's \<Rightarrow> (gerr list \<times> 's) option" where
  "runAll [] s = Some ([], s)"
| "runAll (f # fs) s = (case f s of None \<Rightarrow> None | Some (r, s1) \<Rightarrow> (case runAll fs s1 of
     None \<Rightarrow> None
   | Some (es, s2) \<Rightarrow> Some (case r of Inl e \<Rightarrow> e # es | Inr _ \<Rightarrow> es, s2)))"

definition joinAll :: "gerr option \<Rightarrow> gerr list \<Rightarrow> gerr + unit" where
  "joinAll acc es = (case fold (\<lambda>e a. errorsJoin a e) es acc of None \<Rightarrow> Inr () | Some e \<Rightarrow> Inl e)"

lemma cleanupLoop_all:
  "cleanupLoop fs acc s = (case runAll fs s of None \<Rightarrow> None | Some (es, s') \<Rightarrow> Some (joinAll acc es, s'))"
proof (induction fs arbitrary: acc s)
  case Nil
  then show ?case by (simp add: joinAll_def split: option.split)
next
  case (Cons f fs)
  show ?case
  proof (cases "f s")
    case None
    then show ?thesis by (simp add: bindE_def attemptE_def)
  next
    case (Some y)
    obtain r s1 where "y = (r, s1)" by fastforce
    with Some Cons.IH show ?thesis
      by (cases r) (auto simp: bindE_def attemptE_def joinAll_def split: option.splits)
  qed
qed

lemma runAll_append:
  "runAll (fs @ gs) s = (case runAll fs s of None \<Rightarrow> None | Some (es, s1) \<Rightarrow> (case runAll gs s1 of
     None \<Rightarrow> None | Some (ds, s2) \<Rightarrow> Some (es @ ds, s2)))"
  by (induction fs arbitrary: s) (auto split: option.splits sum.splits)

lemma errorsJoin_tree:
  "(case fold (\<lambda>e a. errorsJoin a e) es acc of None \<Rightarrow> {} | Some e \<Rightarrow> set (errTree e)) \<supseteq>
     (case acc of None \<Rightarrow> {} | Some e \<Rightarrow> set (errTree e)) \<union> set es"
proof (induction es arbitrary: acc)
  case (Cons e es)
  have "(case acc of None \<Rightarrow> {} | Some e \<Rightarrow> set (errTree e)) \<union> {e} \<subseteq> set (errTree (the (errorsJoin acc e)))"
    by (auto simp: errorsJoin_def errTree_self split: option.splits)
  with Cons.IH [of "errorsJoin acc e"] show ?case by (auto simp: errorsJoin_def split: option.splits)
qed (auto split: option.splits)

lemma runAll_kept:
  assumes "\<And>f. f \<in> set fs \<Longrightarrow> keeps conn_kept f" and "runAll fs b = Some (es, b')"
  shows "conn_kept b b'"
  using assms
proof (induction fs arbitrary: b es)
  case Nil
  then show ?case by (simp add: bc.frame_refl)
next
  case (Cons f fs)
  from Cons.prems(2) obtain r b1 ds where f: "f b = Some (r, b1)" and fs: "runAll fs b1 = Some (ds, b')"
    by (auto split: option.splits)
  have "keeps conn_kept f" using Cons.prems(1) by simp
  from keepsD [OF this f] Cons.IH [OF _ fs] Cons.prems(1) show ?case by (auto intro: bc.frame_trans)
qed

text \<open>A clean-up whose first function closes the connection leaves none open.\<close>

lemma cleanup_closes:
  assumes "\<And>f. f \<in> set fs \<Longrightarrow> keeps conn_kept f" and "oneConn b"
    and "runCleanup (rabbitClose (logAmqp a) # fs) b = Some (r, b')"
  shows "oneConn b' \<and> bkClosed b'"
proof -
  from assms(3) obtain es b1 u where fs: "runAll (rev fs) b = Some (es, b1)"
    and close: "rabbitClose (logAmqp a) b1 = Some (u, b')"
    by (auto simp: runCleanup_def cleanupLoop_all runAll_append split: option.splits)
  have "conn_kept b b1" using assms(1) by (intro runAll_kept [OF _ fs]) auto
  with close_kept [OF close] assms(2) show ?thesis by (simp add: conn_kept_def)
qed

text \<open>Steps of the start-up that fail only with the connection closed.\<close>

definition failsClosed :: "(('s \<times> brokerCall list) broker, 'a) io \<Rightarrow> bool" where
  "failsClosed m \<longleftrightarrow> (\<forall>b r b'. oneConn b \<and> m b = Some (r, b') \<longrightarrow> oneConn b' \<and> (isl r \<longrightarrow> bkClosed b'))"

lemma failsClosed_ret: "failsClosed (retE x)"
  by (simp add: failsClosed_def)

lemma failsClosed_bind:
  assumes m: "failsClosed m" and f: "\<And>x. failsClosed (f x)"
  shows "failsClosed (bindE m f)"
  unfolding failsClosed_def
proof (intro allI impI)
  fix b r b'
  assume "oneConn b \<and> bindE m f b = Some (r, b')"
  then consider (stop) e where "oneConn b" "r = Inl e" "m b = Some (Inl e, b')"
    | (go) x b1 where "oneConn b" "m b = Some (Inr x, b1)" "f x b1 = Some (r, b')"
    by (auto simp: bindE_Some)
  then show "oneConn b' \<and> (isl r \<longrightarrow> bkClosed b')"
  proof cases
    case stop
    with m show ?thesis by (auto simp: failsClosed_def)
  next
    case go
    with m have "oneConn b1" by (auto simp: failsClosed_def)
    with f [of x] go show ?thesis by (auto simp: failsClosed_def)
  qed
qed

lemma failsClosed_orCleanup:
  assumes m: "keeps conn_kept m" and fs: "\<And>f. f \<in> set fs \<Longrightarrow> keeps conn_kept f"
  shows "failsClosed (orCleanup (rabbitClose (logAmqp a) # fs) h m)"
  unfolding failsClosed_def
proof (intro allI impI)
  fix b r b'
  assume a: "oneConn b \<and> orCleanup (rabbitClose (logAmqp a) # fs) h m b = Some (r, b')"
  then obtain x b1 where x: "m b = Some (x, b1)" by (auto simp: orCleanup_def bind_attempt)
  with a keepsD [OF m x] have one: "oneConn b1" by (simp add: conn_kept_def)
  show "oneConn b' \<and> (isl r \<longrightarrow> bkClosed b')"
  proof (cases x)
    case (Inl e)
    with a x obtain u where "runCleanup (rabbitClose (logAmqp a) # fs) b1 = Some (u, b')"
      by (auto simp: orCleanup_def bind_attempt)
    from cleanup_closes [OF fs one this] show ?thesis by simp
  next
    case (Inr y)
    with a x one show ?thesis by (auto simp: orCleanup_def bind_attempt)
  qed
qed

lemma kept_bindConsumer: "keeps conn_kept (declareAndBindConsumer (logAmqp a) c q bi)"
  unfolding declareAndBindConsumer_def by (intro bc.keeps_rules kept_client)

lemmas failsClosed_rules = failsClosed_ret failsClosed_bind failsClosed_orCleanup kept_client kept_bindConsumer

lemma openRabbitmq_failsClosed: "failsClosed (openRabbitmq (logAmqp a) cfg)"
  unfolding openRabbitmq_def Let_def append.simps
  by (intro failsClosed_ret failsClosed_bind failsClosed_orCleanup kept_client kept_bindConsumer)
    (auto intro: kept_client)

lemma openRabbitmq_close:
  assumes "openRabbitmq (logAmqp a) cfg b = Some (Inr ri, b')"
  shows "\<exists>fs. riConnectionClose ri = runCleanup (rabbitClose (logAmqp a) # fs) \<and> (\<forall>f \<in> set fs. keeps conn_kept f)"
proof -
  from assms obtain p q c d where "riConnectionClose ri = runCleanup [rabbitClose (logAmqp a), CloseChannel (logAmqp a) p,
      CloseChannel (logAmqp a) q, CloseChannel (logAmqp a) c, CloseChannel (logAmqp a) d]"
    unfolding openRabbitmq_def Let_def by (auto simp: bindE_Some_Inr)
  then show ?thesis
    by (intro exI [of _ "[CloseChannel (logAmqp a) p, CloseChannel (logAmqp a) q, CloseChannel (logAmqp a) c, CloseChannel (logAmqp a) d]"])
      (auto intro: kept_CloseChannel)
qed

lemma oneConn_closed: "oneConn b \<Longrightarrow> bkClosed b \<Longrightarrow> openConns (calls b) = {}"
  by (simp add: oneConn_def)

lemma connect_fails:
  assumes "NewRabbitMqConnection (logAmqp a) cfg b0 = Some (Inl e, b)" and "openConns (calls b0) = {}"
  shows "openConns (calls b) = {}"
proof -
  let ?b = "b0\<lparr>bkConn := None, bkClosed := False, bkCfg := cfg\<rparr>"
  from assms(1) have run: "reconnectLocked (logAmqp a) ?b = Some (Inl e, b)"
    by (auto simp: NewRabbitMqConnection_def bindE_Some)
  from reconnect_dialed [OF run] obtain es where d: "dialed (brokerUri a cfg) ?b (Inl e) b es" by auto
  from openConns_dialed [OF d] assms(2) show ?thesis by simp
qed

section \<open>Properties\<close>

text \<open>C17: the broker connection is always given back: a start-up that fails, at whatever step, leaves no
  connection open, and after a start-up that succeeded the clean-up it returns leaves none open,
  whenever it runs and whichever of its steps fail.\<close>

theorem rabbitmq_released:
  assumes run: "NewRabbitmq (logAmqp a) cfg b0 = Some (r, b)" and start: "calls b0 = []"
  shows "case r of Inl _ \<Rightarrow> openConns (calls b) = {}
    | Inr ri \<Rightarrow> \<forall>b1 u b2. brokerReach (logAmqp a) b0 b1 \<longrightarrow> riConnectionClose ri b1 = Some (u, b2) \<longrightarrow> openConns (calls b2) = {}"
proof -
  from start have none: "openConns (calls b0) = {}" by simp
  consider (stop) e where "r = Inl e" "NewRabbitMqConnection (logAmqp a) cfg b0 = Some (Inl e, b)"
    | (go) b1 where "NewRabbitMqConnection (logAmqp a) cfg b0 = Some (Inr (), b1)" "openRabbitmq (logAmqp a) cfg b1 = Some (r, b)"
    using run by (auto simp: NewRabbitmq_def bindE_Some)
  then show ?thesis
  proof cases
    case stop
    with connect_fails [OF stop(2) none] show ?thesis by simp
  next
    case go
    note one = connected_oneConn [OF go(1) none]
    show ?thesis
    proof (cases r)
      case (Inl e)
      with openRabbitmq_failsClosed go(2) one have "oneConn b" "bkClosed b" by (force simp: failsClosed_def)+
      with Inl show ?thesis by (simp add: oneConn_closed)
    next
      case (Inr ri)
      from openRabbitmq_close go(2) Inr obtain fs where c: "riConnectionClose ri = runCleanup (rabbitClose (logAmqp a) # fs)"
        and fs: "\<And>f. f \<in> set fs \<Longrightarrow> keeps conn_kept f" by blast
      have "openConns (calls b2) = {}" if "brokerReach (logAmqp a) b0 b1" and "riConnectionClose ri b1 = Some (u, b2)" for b1 u b2
        using cleanup_closes [OF fs reach_oneConn [OF that(1) none] that(2) [unfolded c]] by (simp add: oneConn_closed)
      with Inr show ?thesis by auto
    qed
  qed
qed

text \<open>A broker that accepts the connection and refuses to declare exchanges.\<close>

definition refusingBroker :: "nat amqpLib" where
  "refusingBroker = slowBroker\<lparr>amExchangeDeclare := (\<lambda>_ _ _ _ _ _ _. failE (LibErr ''access refused''))\<rparr>"

lemmas broker_run = Let_def NewRabbitmq_def openRabbitmq_def orCleanup_def NewRabbitMqConnection_def reconnect_loop
  bindE_def attemptE_def modE_def freshBroker_def dialLoop_one slowBroker_def
  brokerUri_def sampleRabbit_def rabbitDialAttempts_def upt_conv_Cons NewRabbitmqProducer_def NewRabbitMqChannel_def
  readE_def openChannel_def openConnection_def IsConnectionOpen_def onWorld_def pickE_def
  loggedPick_def derefE_def setChannel_def DeclareExchange_def ensureChannel_def channelDown_def
  channelOf_def mapErrE_def sampleProducer_def sampleExchange_def NewRabbitmqConsumer_def declareAndBindConsumer_def
  DeclareQueue_def BindQueue_def sampleConsumer_def

lemma refused_start:
  "\<exists>b. NewRabbitmq (logAmqp refusingBroker) sampleRabbit (freshBroker 0) =
     Some (Inl (Wrapf ''declare cleaning exchange: %w'' []
       (Wrapf ''declare exchange %q: %w'' [FStr ''ex''] (LibErr ''access refused''))), b)"
  by (simp add: refusingBroker_def runCleanup_def rabbitClose_def broker_run del: upt_Suc)

theorem rabbitmq_released_witness:
  "\<exists>e b. NewRabbitmq (logAmqp refusingBroker) sampleRabbit (freshBroker 0) = Some (Inl e, b) \<and> openConns (calls b) = {}"
proof -
  obtain e b where run: "NewRabbitmq (logAmqp refusingBroker) sampleRabbit (freshBroker 0) = Some (Inl e, b)"
    using refused_start by blast
  from rabbitmq_released [OF run] have "openConns (calls b) = {}" by (simp add: freshBroker_def)
  with run show ?thesis by blast
qed

text \<open>A clean-up runs every function registered, the last one first, whatever the others returned, and
  reports every failure.\<close>

lemma runCleanup_runs_all:
  "runCleanup cleanup s = (case runAll (rev cleanup) s of None \<Rightarrow> None | Some (es, s') \<Rightarrow> Some (joinAll None es, s')) \<and>
   (case joinAll None es of Inr _ \<Rightarrow> es = [] | Inl e \<Rightarrow> es \<noteq> [] \<and> set es \<subseteq> set (errTree e))"
proof -
  have some: "\<exists>y. fold (\<lambda>e a. errorsJoin a e) es (Some x) = Some y" for es x
    by (induction es arbitrary: x) (auto simp: errorsJoin_def)
  have "case joinAll None es of Inr _ \<Rightarrow> es = [] | Inl e \<Rightarrow> es \<noteq> [] \<and> set es \<subseteq> set (errTree e)"
  proof (cases es)
    case Nil
    then show ?thesis by (simp add: joinAll_def)
  next
    case (Cons x xs)
    have "\<exists>y. fold (\<lambda>e a. errorsJoin a e) (x # xs) None = Some y"
      using some [of xs "Joined [x]"] by (simp add: errorsJoin_def)
    with errorsJoin_tree [where es = es and acc = None] Cons show ?thesis
      by (auto simp: joinAll_def)
  qed
  then show ?thesis by (simp add: runCleanup_def cleanupLoop_all)
qed

text \<open>Over a server with the documented \<open>GET\<close> and \<open>SET\<close>, what the cache client stores under a key is what
  it reads back until the expiration, and a miss (not the driver's error) afterwards.\<close>

lemma redis_set_then_get:
  assumes "redis_server lib stored now" and "0 < d"
    and "cacheSetBytes (redisCache lib) k v d s = Some (Inr (), s1)" and "stored s2 = stored s1"
    and "cacheGetBytes (redisCache lib) k s2 = Some (r, s3)"
  shows "r = (if now s2 < now s + d then Inr v else Inl (Sentinel SErrCacheMiss))"
proof -
  from redis_server.is_cache [OF assms(1)] have c: "expiring_cache (redisCache lib) stored now" .
  have "stored s1 k = Some (v, now s + d)"
    using expiring_cache.cache_set [OF c assms(2,3)] by simp
  with expiring_cache.cache_get [OF c assms(5)] assms(4) show ?thesis by simp
qed

end
