(* ===== verification/ChatModel.thy ===== *)
theory ChatModel
  imports Loops Ports
begin

text \<open>
  \<open>internal/transport/websocket/chat/chat.go\<close>: the messages of the lodging protocol
  (\<open>api/proto/lodging\<close>, generated into \<open>internal/domain/dto\<close>) and the chat over one websocket
  connection. The connection, the JSON codec of the messages, the tracing propagator, the
  wall clock and the generator of identifiers are parameters.
\<close>

section \<open>Messages\<close>

datatype sender = SENDER_UNSPECIFIED | SENDER_GUEST | SENDER_SYSTEM | SENDER_OTHER int

datatype ackStatus = ACK_STATUS_UNSPECIFIED | ACK_STATUS_ACCEPTED | ACK_STATUS_REJECTED | ACK_STATUS_OTHER int

datatype errorCode = ERROR_CODE_UNSPECIFIED | ERROR_CODE_NONE | ERROR_CODE_OTHER int

datatype guestAction =
    GUEST_ACTION_UNSPECIFIED | SHOW_FOR_CHECKIN | SHOW_DOCUMENT | SHOW_BOOKING_NUMBER
  | ENTER_COTTAGE | LEAVE_COTTAGE | GO_FOR_A_BATH | RETURN_FROM_BATH | GO_FOR_DINNER
  | GO_FOR_BREAKFAST | GO_TO_SLEEP | WAKEUP | LEAVE_CLEANUP_NOTIFICATION | ENJOY_RESORT
  | PROCEED_TO_CHECKOUT | RETURN_COTTAGE_KEY | TAKE_COTTAGE_KEY | GUEST_ACTION_OTHER int

datatype systemRequest =
    SYSTEM_REQUEST_UNSPECIFIED | REQUEST_DOCUMENT | REQUEST_BOOKING_NUMBER | GIVE_COTTAGE_KEY
  | REQUEST_COTTAGE_KEY | SYSTEM_REQUEST_OTHER int

datatype systemNotification =
    SYSTEM_NOTIFICATION_UNSPECIFIED | BOOKING_CHECKING | CHECK_IN_COMPLETE | DINNER_READY
  | PREPARE_COTTAGE_TO_SLEEP | BREAKFAST_READY | CHECK_OUT_TOMORROW | CHECK_OUT_COMPLETE
  | SYSTEM_NOTIFICATION_OTHER int

record ack =
  ackMessageId :: string
  ackStatus :: ackStatus
  ackCode :: errorCode

text \<open>A variant holds a pointer to a message with one string field; a nil pointer is \<open>None\<close>.\<close>

datatype guestResponse =
    RespUnset
  | ShowDocument "string option" | ShowBookingNumber "string option"
  | ReceiveCottageKey "string option" | ReturnCottageKey "string option"

datatype chatPayload =
    PUnset | PGuestAction guestAction | PGuestResponse guestResponse
  | PSystemNotification systemNotification | PSystemRequest systemRequest | PAck ack

record chatMessage =
  messageId :: string
  correlationId :: string
  msgSender :: sender
  protocolVersion :: string
  traceContext :: "(string \<times> string) list"
  msgPayload :: chatPayload

definition getAck :: "chatMessage \<Rightarrow> ack option" where
  "getAck m = (case msgPayload m of PAck a \<Rightarrow> Some a | _ \<Rightarrow> None)"

definition getGuestAction :: "chatMessage \<Rightarrow> guestAction" where
  "getGuestAction m = (case msgPayload m of PGuestAction a \<Rightarrow> a | _ \<Rightarrow> GUEST_ACTION_UNSPECIFIED)"

definition getSystemRequest :: "chatMessage \<Rightarrow> systemRequest" where
  "getSystemRequest m = (case msgPayload m of PSystemRequest r \<Rightarrow> r | _ \<Rightarrow> SYSTEM_REQUEST_UNSPECIFIED)"

definition getSystemNotification :: "chatMessage \<Rightarrow> systemNotification" where
  "getSystemNotification m = (case msgPayload m of PSystemNotification n \<Rightarrow> n | _ \<Rightarrow> SYSTEM_NOTIFICATION_UNSPECIFIED)"

definition getGuestResponse :: "chatMessage \<Rightarrow> guestResponse option" where
  "getGuestResponse m = (case msgPayload m of PGuestResponse r \<Rightarrow> Some r | _ \<Rightarrow> None)"

lemmas getters = getAck_def getGuestAction_def getSystemRequest_def getSystemNotification_def getGuestResponse_def

section \<open>The connection and the context\<close>

text \<open>\<open>SetReadDeadline\<close> with the zero time, which removes the deadline, is \<open>None\<close>.\<close>

record 's conn =
  connSetWriteDeadline :: "gotime \<Rightarrow> ('s, unit) io"
  connWriteMessage :: "string \<Rightarrow> ('s, unit) io"
  connSetReadDeadline :: "gotime option \<Rightarrow> ('s, unit) io"
  connReadMessage :: "('s, string) io"

text \<open>What the code uses of a \<open>context.Context\<close>: its deadline, and \<open>ctx.Err()\<close>.\<close>

record 's goContext =
  ctxDeadline :: "gotime option"
  ctxErr :: "'s \<Rightarrow> gerr option"

text \<open>The libraries: \<open>time.Now\<close>, \<open>uuid.NewString\<close>, the propagator, \<open>protojson\<close>.\<close>

record 's chatLibs =
  libNow :: "'s \<Rightarrow> gotime"
  libUUID :: "'s \<Rightarrow> (string \<times> 's)"
  libInject :: "(string \<times> string) list"
  libMarshal :: "chatMessage \<Rightarrow> gerr + string"
  libUnmarshal :: "string \<Rightarrow> gerr + chatMessage"

text \<open>The operations of the interface \<open>Chat\<close> at one context.\<close>

record 's chat =
  chReadOneMessage :: "('s, chatMessage) io"
  chReadAck :: "('s, chatMessage) io"
  chReadReply :: "('s, chatMessage) io"
  chSendAck :: "chatMessage \<Rightarrow> 's \<Rightarrow> 's option"
  chWriteOneMessage :: "chatMessage \<Rightarrow> ('s, unit) io"

section \<open>The chat\<close>

definition chatWriteOneMessage ::
  "'s chatLibs \<Rightarrow> 's conn \<Rightarrow> chatMessage \<Rightarrow> ('s, unit) io" where
  "chatWriteOneMessage lib conn msg =
     (if messageId msg = [] then failE (Sentinel SErrEmptyMessageID)
      else let carrier = libInject lib;
               msg1 = (if length carrier > 0 then msg\<lparr>traceContext := carrier\<rparr> else msg\<lparr>traceContext := []\<rparr>)
        in bindE (liftE (libMarshal lib msg1)) (\<lambda>b.
           thenE (\<lambda>s. connSetWriteDeadline conn (timeAdd (libNow lib s) (10 * nsPerSec)) s)
             (connWriteMessage conn b)))"

definition chatReadOneMessage :: "'s chatLibs \<Rightarrow> 's conn \<Rightarrow> gotime option \<Rightarrow> ('s, chatMessage) io" where
  "chatReadOneMessage lib conn deadline =
     thenE (case deadline of Some d \<Rightarrow> connSetReadDeadline conn (Some d) | None \<Rightarrow> connSetReadDeadline conn None)
       (bindE (connReadMessage conn) (\<lambda>b. liftE (libUnmarshal lib b)))"

definition isNetTimeout :: "gerr \<Rightarrow> bool" where
  "isNetTimeout err = (case errorsAs isNetError err of None \<Rightarrow> False | Some netErr \<Rightarrow> netTimeout netErr)"

definition isReadTimeout :: "gerr \<Rightarrow> bool" where
  "isReadTimeout err \<longleftrightarrow> errorsIs err SErrDeadlineExceeded \<or> isNetTimeout err"

text \<open>\<open>context.WithTimeout(ctx, timeout)\<close> has the earlier of the two deadlines.\<close>

definition withTimeout :: "gotime option \<Rightarrow> gotime \<Rightarrow> int \<Rightarrow> gotime option" where
  "withTimeout deadline now timeout = (case deadline of
     None \<Rightarrow> Some (timeAdd now timeout)
   | Some d \<Rightarrow> Some (if timeBefore d (timeAdd now timeout) then d else timeAdd now timeout))"

definition readWithTimeout ::
  "'s chatLibs \<Rightarrow> 's conn \<Rightarrow> 's goContext \<Rightarrow> int \<Rightarrow> (gerr \<Rightarrow> gerr) \<Rightarrow> ('s, chatMessage) io" where
  "readWithTimeout lib conn ctx timeout wrapTimeout = (\<lambda>s0.
     let deadline = (if timeout > 0 then withTimeout (ctxDeadline ctx) (libNow lib s0) timeout else ctxDeadline ctx) in
     case chatReadOneMessage lib conn deadline s0 of
       None \<Rightarrow> None
     | Some (Inr msg, s) \<Rightarrow> Some (Inr msg, s)
     | Some (Inl err, s) \<Rightarrow>
         if isReadTimeout err \<and> ctxErr ctx s = None then Some (Inl (wrapTimeout err), s) else Some (Inl err, s))"

definition chatReadAck :: "'s chatLibs \<Rightarrow> 's conn \<Rightarrow> int \<Rightarrow> 's goContext \<Rightarrow> ('s, chatMessage) io" where
  "chatReadAck lib conn ackTimeout ctx = readWithTimeout lib conn ctx ackTimeout AckNotReceivedErr"

definition chatReadReply :: "'s chatLibs \<Rightarrow> 's conn \<Rightarrow> int \<Rightarrow> 's goContext \<Rightarrow> ('s, chatMessage) io" where
  "chatReadReply lib conn replyTimeout ctx = readWithTimeout lib conn ctx replyTimeout ReplyNotReceivedErr"

definition ackFor :: "string \<Rightarrow> chatMessage \<Rightarrow> chatMessage" where
  "ackFor newId msg = \<lparr>messageId = newId, correlationId = messageId msg, msgSender = SENDER_SYSTEM,
     protocolVersion = protocolVersion msg, traceContext = [],
     msgPayload = PAck \<lparr>ackMessageId = messageId msg, ackStatus = ACK_STATUS_ACCEPTED, ackCode = ERROR_CODE_NONE\<rparr>\<rparr>"

text \<open>A failed write is only logged.\<close>

definition chatSendAck :: "'s chatLibs \<Rightarrow> 's conn \<Rightarrow> chatMessage \<Rightarrow> 's \<Rightarrow> 's option" where
  "chatSendAck lib conn msg s =
     (if getAck msg \<noteq> None then Some s
      else case libUUID lib s of (newId, s1) \<Rightarrow> map_option snd (chatWriteOneMessage lib conn (ackFor newId msg) s1))"

definition newChat :: "'s chatLibs \<Rightarrow> 's conn \<Rightarrow> int \<Rightarrow> int \<Rightarrow> 's goContext \<Rightarrow> 's chat" where
  "newChat lib conn replyTimeout ackTimeout ctx =
     \<lparr>chReadOneMessage = chatReadOneMessage lib conn (ctxDeadline ctx),
      chReadAck = chatReadAck lib conn ackTimeout ctx, chReadReply = chatReadReply lib conn replyTimeout ctx,
      chSendAck = chatSendAck lib conn, chWriteOneMessage = chatWriteOneMessage lib conn\<rparr>"

section \<open>Log attributes\<close>

datatype attrVal =
    AVStr string | AVSender sender | AVStatus ackStatus | AVCode errorCode | AVRequest systemRequest
  | AVNotification systemNotification | AVAction guestAction

fun guestResponseType :: "guestResponse \<Rightarrow> string" where
  "guestResponseType (ShowDocument _) = ''show_document''"
| "guestResponseType (ShowBookingNumber _) = ''show_booking_number''"
| "guestResponseType (ReceiveCottageKey _) = ''receive_cottage_key''"
| "guestResponseType (ReturnCottageKey _) = ''return_cottage_key''"
| "guestResponseType RespUnset = ''unknown''"

text \<open>The attributes after the common ones: the two functions of the code end alike.\<close>

definition payloadAttrs :: "chatMessage \<Rightarrow> (string \<times> attrVal) list" where
  "payloadAttrs msg =
     (case getAck msg of
        Some a \<Rightarrow> [(''message_type'', AVStr ''ack''), (''acknowledged_message_id'', AVStr (ackMessageId a)),
          (''ack_status'', AVStatus (ackStatus a)), (''ack_code'', AVCode (ackCode a))]
      | None \<Rightarrow>
          if getSystemRequest msg \<noteq> SYSTEM_REQUEST_UNSPECIFIED
          then [(''message_type'', AVStr ''system_request''), (''system_request'', AVRequest (getSystemRequest msg))]
          else if getSystemNotification msg \<noteq> SYSTEM_NOTIFICATION_UNSPECIFIED
          then [(''message_type'', AVStr ''system_notification''),
            (''system_notification'', AVNotification (getSystemNotification msg))]
          else if getGuestAction msg \<noteq> GUEST_ACTION_UNSPECIFIED
          then [(''message_type'', AVStr ''guest_action''), (''guest_action'', AVAction (getGuestAction msg))]
          else case getGuestResponse msg of
            Some r \<Rightarrow> [(''message_type'', AVStr ''guest_response''), (''guest_response_type'', AVStr (guestResponseType r))]
          | None \<Rightarrow> [(''message_type'', AVStr ''unknown'')])"

definition outgoingMessageAttrs :: "chatMessage \<Rightarrow> (string \<times> attrVal) list" where
  "outgoingMessageAttrs msg =
     [(''component'', AVStr ''lodging_chat''), (''layer'', AVStr ''transport''), (''event'', AVStr ''message_sent''),
      (''direction'', AVStr ''outbound''), (''message_id'', AVStr (messageId msg)),
      (''correlation_id'', AVStr (correlationId msg)), (''sender'', AVSender (msgSender msg)),
      (''protocol_version'', AVStr (protocolVersion msg))] @ payloadAttrs msg"

definition incomingMessageAttrs :: "chatMessage \<Rightarrow> (string \<times> attrVal) list" where
  "incomingMessageAttrs msg =
     [(''component'', AVStr ''lodging_chat''), (''layer'', AVStr ''transport''), (''event'', AVStr ''message_received''),
      (''direction'', AVStr ''inbound''), (''message_id'', AVStr (messageId msg)),
      (''correlation_id'', AVStr (correlationId msg)), (''sender'', AVSender (msgSender msg)),
      (''protocol_version'', AVStr (protocolVersion msg))] @ payloadAttrs msg"

section \<open>Properties\<close>

text \<open>A read that waits for an acknowledgment reports a missing acknowledgment exactly when the
  connection's read timed out while the caller's context is still alive; every other failure is
  passed on as it is, and a message read is returned as it is.\<close>

lemma readAck_timeout:
  "chatReadAck lib conn t ctx s = Some (Inl (AckNotReceivedErr err), s') \<longleftrightarrow>
     (\<exists>d. d = (if t > 0 then withTimeout (ctxDeadline ctx) (libNow lib s) t else ctxDeadline ctx) \<and>
       ((chatReadOneMessage lib conn d s = Some (Inl err, s') \<and> isReadTimeout err \<and> ctxErr ctx s' = None) \<or>
        (chatReadOneMessage lib conn d s = Some (Inl (AckNotReceivedErr err), s') \<and>
          \<not> (isReadTimeout (AckNotReceivedErr err) \<and> ctxErr ctx s' = None))))"
  by (auto simp: chatReadAck_def readWithTimeout_def Let_def split: option.split prod.split sum.split)

text \<open>The acknowledgment of a message answers that message: it carries a new identifier, names the
  message both as acknowledged and as correlated, and keeps its protocol version; a message that
  is itself an acknowledgment is not answered, so two chats never acknowledge each other for ever.\<close>

lemma sendAck_answers:
  "chatSendAck lib conn msg s =
     (case msgPayload msg of
        PAck _ \<Rightarrow> Some s
      | _ \<Rightarrow> map_option snd (chatWriteOneMessage lib conn
          \<lparr>messageId = fst (libUUID lib s), correlationId = messageId msg, msgSender = SENDER_SYSTEM,
           protocolVersion = protocolVersion msg, traceContext = [],
           msgPayload = PAck \<lparr>ackMessageId = messageId msg, ackStatus = ACK_STATUS_ACCEPTED, ackCode = ERROR_CODE_NONE\<rparr>\<rparr>
          (snd (libUUID lib s)))) \<and>
   chatSendAck lib conn (ackFor i msg) s = Some s"
  by (simp add: chatSendAck_def ackFor_def getAck_def split: chatPayload.split prod.split)

end
