(* ===== verification/ChatReader.thy ===== *)
theory ChatReader
  imports ChatModel
begin

text \<open>
  \<open>internal/transport/websocket/chat/chat_reader.go\<close>: waiting for a guest's action over a chat,
  with a queue of the actions that arrived while another one was awaited. The contract of the
  queue is a locale, interpreted on the reader's \<open>dequeueGuestAction\<close> and \<open>enqueuePending\<close>.
\<close>

section \<open>The contract of the pending queue\<close>

text \<open>
  \<open>contents\<close> lists what waits, oldest first. Adding puts a message at the end; taking by a key
  removes the oldest message with that key and keeps the order of the others.
\<close>

locale keyed_queue =
  fixes contents :: "'q \<Rightarrow> 'm list"
    and keyOf :: "'m \<Rightarrow> 'k"
    and enqueue :: "'m \<Rightarrow> 'q \<Rightarrow> 'q"
    and dequeue :: "'k \<Rightarrow> 'q \<Rightarrow> ('m \<times> 'q) option"
  assumes contents_enqueue: "contents (enqueue m q) = contents q @ [m]"
    and dequeue_None: "dequeue k q = None \<longleftrightarrow> (\<forall>m \<in> set (contents q). keyOf m \<noteq> k)"
    and dequeue_Some: "dequeue k q = Some (m, q') \<Longrightarrow>
      \<exists>us vs. contents q = us @ m # vs \<and> contents q' = us @ vs \<and> keyOf m = k \<and> (\<forall>u \<in> set us. keyOf u \<noteq> k)"
begin

lemma dequeue_key: "dequeue k q = Some (m, q') \<Longrightarrow> keyOf m = k"
  by (drule dequeue_Some) blast

text \<open>What waits for another key is untouched by taking a message.\<close>

lemma dequeue_other:
  "dequeue k q = Some (m, q') \<Longrightarrow> j \<noteq> k \<Longrightarrow> filter (\<lambda>x. keyOf x = j) (contents q') = filter (\<lambda>x. keyOf x = j) (contents q)"
  by (drule dequeue_Some) auto

text \<open>Messages of one key leave in the order they came.\<close>

lemma dequeue_fifo:
  "dequeue k q = Some (m, q') \<Longrightarrow> filter (\<lambda>x. keyOf x = k) (contents q) = m # filter (\<lambda>x. keyOf x = k) (contents q')"
  by (drule dequeue_Some) (auto simp: filter_empty_conv)

lemma dequeue_enqueue_same:
  assumes "\<forall>x \<in> set (contents q). keyOf x \<noteq> keyOf m"
  shows "\<exists>q'. dequeue (keyOf m) (enqueue m q) = Some (m, q') \<and> contents q' = contents q"
proof -
  have "dequeue (keyOf m) (enqueue m q) \<noteq> None" by (auto simp: dequeue_None contents_enqueue)
  then obtain x q' where d: "dequeue (keyOf m) (enqueue m q) = Some (x, q')" by fastforce
  from dequeue_Some [OF d] obtain us vs where h: "contents q @ [m] = us @ x # vs" "contents q' = us @ vs" "keyOf x = keyOf m"
    by (auto simp: contents_enqueue)
  have "vs = []"
  proof (rule ccontr)
    assume "vs \<noteq> []"
    with h(1) have "x \<in> set (contents q)" by (metis append_butlast_last_id append_eq_append_conv2 butlast_append butlast.simps(2) in_set_conv_decomp last_snoc butlast_snoc)
    with h(3) assms show False by auto
  qed
  with h d show ?thesis by simp
qed

end

section \<open>The reader\<close>

type_synonym pending = "chatMessage list"

fun dequeueGuestAction :: "guestAction \<Rightarrow> pending \<Rightarrow> (chatMessage \<times> pending) option" where
  "dequeueGuestAction action [] = None"
| "dequeueGuestAction action (msg # rest) =
     (if getGuestAction msg \<noteq> action
      then map_option (\<lambda>(m, p). (m, msg # p)) (dequeueGuestAction action rest)
      else Some (msg, rest))"

definition enqueuePending :: "chatMessage \<Rightarrow> pending \<Rightarrow> pending" where
  "enqueuePending msg pending = pending @ [msg]"

text \<open>One round of the loop of \<open>WaitForGuestAction\<close>; \<open>ctxErr'\<close> is \<open>ctx.Err()\<close>.\<close>

definition waitRound ::
  "('s \<Rightarrow> gerr option) \<Rightarrow> 's chat \<Rightarrow> guestAction \<Rightarrow> (pending \<times> 's, chatMessage option) io" where
  "waitRound ctxErr' ch action = (\<lambda>(pending, s).
     case ctxErr' s of
       Some err \<Rightarrow> Some (Inl err, (pending, s))
     | None \<Rightarrow> bindE (onSnd (chReadOneMessage ch)) (\<lambda>msg.
         thenE (onSnd (doE (chSendAck ch msg)))
           (if getGuestAction msg = action then retE (Some msg)
            else if getGuestAction msg \<noteq> GUEST_ACTION_UNSPECIFIED
            then (\<lambda>(pending, s). Some (Inr None, (enqueuePending msg pending, s)))
            else retE None)) (pending, s))"

definition readerWaitForGuestAction ::
  "('s \<Rightarrow> gerr option) \<Rightarrow> 's chat \<Rightarrow> guestAction \<Rightarrow> (pending \<times> 's, chatMessage) io" where
  "readerWaitForGuestAction ctxErr' ch action = (\<lambda>(pending, s).
     case dequeueGuestAction action pending of
       Some (msg, pending') \<Rightarrow> Some (Inr msg, (pending', s))
     | None \<Rightarrow> loopE (waitRound ctxErr' ch action) (pending, s))"

definition readerAckGuestAction :: "'s chat \<Rightarrow> (pending \<times> 's, unit) io" where
  "readerAckGuestAction ch = bindE (onSnd (chReadOneMessage ch)) (\<lambda>msg. onSnd (doE (chSendAck ch msg)))"

section \<open>The queue keeps its contract\<close>

lemma dequeue_spec:
  "dequeueGuestAction a p = None \<longleftrightarrow> (\<forall>m \<in> set p. getGuestAction m \<noteq> a)"
  "dequeueGuestAction a p = Some (m, p') \<Longrightarrow>
     \<exists>us vs. p = us @ m # vs \<and> p' = us @ vs \<and> getGuestAction m = a \<and> (\<forall>u \<in> set us. getGuestAction u \<noteq> a)"
proof (induction p arbitrary: p')
  case (Cons x p)
  case 1
  show ?case using Cons(1) by auto
next
  case (Cons x p)
  case 2
  show ?case
  proof (cases "getGuestAction x = a")
    case True
    with 2 have "x # p = [] @ m # p \<and> p' = [] @ p \<and> getGuestAction m = a" by simp
    then show ?thesis by fastforce
  next
    case False
    with 2 obtain q where q: "dequeueGuestAction a p = Some (m, q)" "p' = x # q" by auto
    from Cons(2) [OF q(1)] obtain us vs where "p = us @ m # vs" "q = us @ vs" "getGuestAction m = a"
      "\<forall>u \<in> set us. getGuestAction u \<noteq> a" by blast
    with False q(2) have "x # p = (x # us) @ m # vs \<and> p' = (x # us) @ vs \<and> getGuestAction m = a \<and>
      (\<forall>u \<in> set (x # us). getGuestAction u \<noteq> a)" by simp
    then show ?thesis by blast
  qed
qed simp_all

interpretation pq: keyed_queue id getGuestAction enqueuePending dequeueGuestAction
  by unfold_locales (simp_all add: enqueuePending_def dequeue_spec)

section \<open>Recorded chats\<close>

datatype chatCall =
    ChRead "gerr + chatMessage" | ChReadAck "gerr + chatMessage" | ChReadReply "gerr + chatMessage"
  | ChSendAck chatMessage | ChWrite chatMessage "gerr + unit"

definition logChat :: "'s chat \<Rightarrow> ('s \<times> chatCall list) chat" where
  "logChat ch = \<lparr>chReadOneMessage = logged ChRead (chReadOneMessage ch), chReadAck = logged ChReadAck (chReadAck ch),
     chReadReply = logged ChReadReply (chReadReply ch),
     chSendAck = (\<lambda>m (s, l). map_option (\<lambda>s'. (s', l @ [ChSendAck m])) (chSendAck ch m s)),
     chWriteOneMessage = (\<lambda>m. logged (ChWrite m) (chWriteOneMessage ch m))\<rparr>"

lemma logChat_sel [simp]:
  "chReadOneMessage (logChat ch) = logged ChRead (chReadOneMessage ch)"
  "chReadAck (logChat ch) = logged ChReadAck (chReadAck ch)"
  "chReadReply (logChat ch) = logged ChReadReply (chReadReply ch)"
  "chSendAck (logChat ch) m (s, l) = map_option (\<lambda>s'. (s', l @ [ChSendAck m])) (chSendAck ch m s)"
  "chWriteOneMessage (logChat ch) m = logged (ChWrite m) (chWriteOneMessage ch m)"
  by (simp_all add: logChat_def)

text \<open>The calls for one message read and acknowledged.\<close>

abbreviation received :: "chatMessage list \<Rightarrow> chatCall list" where
  "received ms \<equiv> concat (map (\<lambda>m. [ChRead (Inr m), ChSendAck m]) ms)"

text \<open>The actions to keep for later.\<close>

definition otherActions :: "chatMessage list \<Rightarrow> chatMessage list" where
  "otherActions ms = filter (\<lambda>m. getGuestAction m \<noteq> GUEST_ACTION_UNSPECIFIED) ms"

lemma waitRound_again:
  assumes "again (waitRound (\<lambda>(s, l). ce s) (logChat ch) a) (p, (s, l)) (p', (s', l'))"
  shows "\<exists>m. getGuestAction m \<noteq> a \<and> l' = l @ [ChRead (Inr m), ChSendAck m] \<and> p' = p @ otherActions [m]"
proof -
  from assms have c: "ce s = None" by (auto simp: again_def waitRound_def split: option.splits)
  from assms c obtain m s1 where r: "chReadOneMessage ch s = Some (Inr m, s1)"
    by (auto simp: again_def waitRound_def bindE_def split: option.splits sum.splits)
  from assms c r obtain s2 where k: "chSendAck ch m s1 = Some s2"
    by (auto simp: again_def waitRound_def bindE_def doE_def split: option.splits)
  from assms c r k show ?thesis
    by (auto simp: again_def waitRound_def bindE_def doE_def enqueuePending_def otherActions_def split: if_splits)
qed

lemma waitRound_stops:
  assumes "stops (waitRound (\<lambda>(s, l). ce s) (logChat ch) a) (p, (s, l)) (Inr m) (p', (s', l'))"
  shows "getGuestAction m = a \<and> l' = l @ [ChRead (Inr m), ChSendAck m] \<and> p' = p"
proof -
  from assms have c: "ce s = None" by (auto simp: stops_def waitRound_def split: option.splits)
  from assms c obtain m1 s1 where r: "chReadOneMessage ch s = Some (Inr m1, s1)"
    by (auto simp: stops_def waitRound_def bindE_def split: option.splits sum.splits)
  from assms c r obtain s2 where k: "chSendAck ch m1 s1 = Some s2"
    by (auto simp: stops_def waitRound_def bindE_def doE_def split: option.splits)
  from assms c r k show ?thesis
    by (auto simp: stops_def waitRound_def bindE_def doE_def split: if_splits)
qed

text \<open>A connection played from a script: each read takes the next entry, writes succeed.\<close>

definition scriptRead :: "((gerr + chatMessage) list, chatMessage) io" where
  "scriptRead s = (case s of [] \<Rightarrow> Some (Inl (LibErr ''closed''), []) | r # rest \<Rightarrow> Some (r, rest))"

definition scriptChat :: "(gerr + chatMessage) list chat" where
  "scriptChat = \<lparr>chReadOneMessage = scriptRead, chReadAck = scriptRead, chReadReply = scriptRead,
     chSendAck = (\<lambda>_ s. Some s), chWriteOneMessage = (\<lambda>_. retE ())\<rparr>"

lemma scriptChat_sel [simp]:
  "chReadOneMessage scriptChat (r # rs) = Some (r, rs)" "chReadAck scriptChat (r # rs) = Some (r, rs)"
  "chReadReply scriptChat (r # rs) = Some (r, rs)" "chSendAck scriptChat m s = Some s"
  "chWriteOneMessage scriptChat m s = Some (Inr (), s)"
  by (simp_all add: scriptChat_def scriptRead_def)

definition guestMsg :: "string \<Rightarrow> chatPayload \<Rightarrow> chatMessage" where
  "guestMsg c p = \<lparr>messageId = ''g'', correlationId = c, msgSender = SENDER_GUEST, protocolVersion = ''lodging.v1'',
     traceContext = [], msgPayload = p\<rparr>"

section \<open>Properties\<close>

text \<open>C30: a wait for a guest's action that returns a message returns one with that action. It is the
  oldest such message that was waiting, when there is one, and then nothing is read; otherwise it
  is the first such message read, every message read up to it has been acknowledged, and the other
  actions read meanwhile are kept, in order, behind what was waiting.\<close>

theorem waitForGuestAction_returns:
  fixes ch :: "'s chat"
  assumes "readerWaitForGuestAction (\<lambda>(s, l). ce s) (logChat ch) a (p, (s, [])) = Some (Inr m, (p', (s', l)))"
  shows "getGuestAction m = a \<and>
    ((l = [] \<and> (\<exists>us vs. p = us @ m # vs \<and> p' = us @ vs \<and> (\<forall>u \<in> set us. getGuestAction u \<noteq> a))) \<or>
     (\<exists>ms. l = received (ms @ [m]) \<and> (\<forall>u \<in> set (p @ ms). getGuestAction u \<noteq> a) \<and> p' = p @ otherActions ms))"
proof (cases "dequeueGuestAction a p")
  case (Some mp)
  with assms have "dequeueGuestAction a p = Some (m, p')" "l = []"
    by (auto simp: readerWaitForGuestAction_def split: prod.splits)
  with pq.dequeue_Some show ?thesis by fastforce
next
  case None
  let ?b = "waitRound (\<lambda>(s, l). ce s) (logChat ch) a"
  let ?I = "\<lambda>(q, (t, k)). \<exists>ms. k = received ms \<and> (\<forall>u \<in> set ms. getGuestAction u \<noteq> a) \<and> q = p @ otherActions ms"
  from None assms have "loopE ?b (p, (s, [])) = Some (Inr m, (p', (s', l)))"
    by (simp add: readerWaitForGuestAction_def)
  then obtain st where "?I st" and stop: "stops ?b st (Inr m) (p', (s', l))"
  proof (rule loopE_invariant [where I = ?I])
    show "?I (p, (s, []))" by (auto simp: otherActions_def intro: exI [of _ "[]"])
  next
    fix x y :: "pending \<times> 's \<times> chatCall list"
    assume i: "?I x" and ag: "again ?b x y"
    obtain q t k where x: "x = (q, (t, k))" by (metis prod_cases3)
    obtain q' t' k' where y: "y = (q', (t', k'))" by (metis prod_cases3)
    from i x obtain ms where ms: "k = received ms" "\<forall>u \<in> set ms. getGuestAction u \<noteq> a" "q = p @ otherActions ms" by auto
    from waitRound_again [OF ag [unfolded x y]] obtain n where
      "getGuestAction n \<noteq> a" "k' = k @ [ChRead (Inr n), ChSendAck n]" "q' = q @ otherActions [n]" by blast
    with ms have "k' = received (ms @ [n]) \<and> (\<forall>u \<in> set (ms @ [n]). getGuestAction u \<noteq> a) \<and> q' = p @ otherActions (ms @ [n])"
      by (auto simp: otherActions_def)
    then show "?I y" unfolding y by blast
  qed
  then obtain q t k ms where st: "st = (q, (t, k))" "k = received ms" "\<forall>u \<in> set ms. getGuestAction u \<noteq> a"
    "q = p @ otherActions ms" by (cases st) auto
  from waitRound_stops [OF stop [unfolded st(1)]] have "getGuestAction m = a" "l = k @ [ChRead (Inr m), ChSendAck m]" "p' = q"
    by auto
  moreover have "\<forall>u \<in> set p. getGuestAction u \<noteq> a" using None by (simp add: dequeue_spec(1))
  ultimately show ?thesis using st by auto
qed

lemma script_wait:
  "readerWaitForGuestAction (\<lambda>(s, l). None) (logChat scriptChat) ENTER_COTTAGE
     ([], ([Inr (guestMsg ''a'' (PGuestAction ENJOY_RESORT)), Inr (guestMsg ''b'' (PGuestAction ENTER_COTTAGE))], [])) =
   Some (Inr (guestMsg ''b'' (PGuestAction ENTER_COTTAGE)), ([guestMsg ''a'' (PGuestAction ENJOY_RESORT)],
     ([], received [guestMsg ''a'' (PGuestAction ENJOY_RESORT), guestMsg ''b'' (PGuestAction ENTER_COTTAGE)])))"
proof -
  let ?a = "guestMsg ''a'' (PGuestAction ENJOY_RESORT)" and ?b = "guestMsg ''b'' (PGuestAction ENTER_COTTAGE)"
  have act: "getGuestAction ?a = ENJOY_RESORT" "getGuestAction ?b = ENTER_COTTAGE"
    by (simp_all add: guestMsg_def getGuestAction_def)
  have "again (waitRound (\<lambda>(s, l). None) (logChat scriptChat) ENTER_COTTAGE) ([], ([Inr ?a, Inr ?b], []))
      ([?a], ([Inr ?b], received [?a]))"
    by (simp add: again_def waitRound_def bindE_def doE_def act enqueuePending_def)
  moreover have "loopE (waitRound (\<lambda>(s, l). None) (logChat scriptChat) ENTER_COTTAGE) ([?a], ([Inr ?b], received [?a])) =
      Some (Inr ?b, ([?a], ([], received [?a, ?b])))"
    by (rule loopE_stops) (simp add: stops_def waitRound_def bindE_def doE_def act)
  ultimately show ?thesis by (simp add: readerWaitForGuestAction_def loopE_again)
qed

theorem waitForGuestAction_returns_witness:
  "\<exists>ms. received [guestMsg ''a'' (PGuestAction ENJOY_RESORT), guestMsg ''b'' (PGuestAction ENTER_COTTAGE)] =
       received (ms @ [guestMsg ''b'' (PGuestAction ENTER_COTTAGE)]) \<and>
     [guestMsg ''a'' (PGuestAction ENJOY_RESORT)] = otherActions ms"
  using waitForGuestAction_returns [OF script_wait] by auto

end
