(* ===== verification/ChatWriter.thy ===== *)
theory ChatWriter
  imports ChatReader
begin

text \<open>
  \<open>internal/transport/websocket/chat/chat_writer.go\<close>: requests to the guest, repeated until the
  guest's acknowledgment and a fitting reply have arrived, and notifications.
\<close>

section \<open>The writer\<close>

definition guestResponseMatchesExpected :: "guestResponse option \<Rightarrow> guestResponse option \<Rightarrow> bool" where
  "guestResponseMatchesExpected actual expected =
     (case (actual, expected) of
        (Some a, Some e) \<Rightarrow>
          (case e of
             ShowDocument _ \<Rightarrow> (case a of ShowDocument (Some _) \<Rightarrow> True | _ \<Rightarrow> False)
           | ShowBookingNumber _ \<Rightarrow> (case a of ShowBookingNumber (Some _) \<Rightarrow> True | _ \<Rightarrow> False)
           | ReceiveCottageKey _ \<Rightarrow> (case a of ReceiveCottageKey (Some _) \<Rightarrow> True | _ \<Rightarrow> False)
           | ReturnCottageKey _ \<Rightarrow> (case a of ReturnCottageKey (Some _) \<Rightarrow> True | _ \<Rightarrow> False)
           | RespUnset \<Rightarrow> False)
      | _ \<Rightarrow> False)"

definition ackRound :: "'s chat \<Rightarrow> string \<Rightarrow> ('s, unit option) io" where
  "ackRound ch msgId = bindE (chReadAck ch) (\<lambda>msg. case getAck msg of
     Some a \<Rightarrow> if ackMessageId a = msgId then retE (Some ()) else retE None
   | None \<Rightarrow> retE None)"

definition waitForAck :: "'s chat \<Rightarrow> string \<Rightarrow> ('s, unit) io" where
  "waitForAck ch msgId = loopE (ackRound ch msgId)"

definition replyRound :: "'s chat \<Rightarrow> string \<Rightarrow> guestResponse option \<Rightarrow> ('s, chatMessage option) io" where
  "replyRound ch correlationID responseType = bindE (chReadReply ch) (\<lambda>msg.
     if getAck msg \<noteq> None then retE None
     else thenE (doE (chSendAck ch msg))
       (if correlationId msg \<noteq> correlationID then retE None
        else if guestResponseMatchesExpected (getGuestResponse msg) responseType then retE (Some msg)
        else failE (Sentinel SErrUnexpectedGuestResponse)))"

definition waitForReply :: "'s chat \<Rightarrow> string \<Rightarrow> guestResponse option \<Rightarrow> ('s, chatMessage) io" where
  "waitForReply ch correlationID responseType = loopE (replyRound ch correlationID responseType)"

definition systemRequestMsg :: "string \<Rightarrow> systemRequest \<Rightarrow> chatMessage" where
  "systemRequestMsg requestID request = \<lparr>messageId = requestID, correlationId = requestID, msgSender = SENDER_SYSTEM,
     protocolVersion = ''lodging.v1'', traceContext = [], msgPayload = PSystemRequest request\<rparr>"

definition requestRound :: "'s chat \<Rightarrow> chatMessage \<Rightarrow> guestResponse option \<Rightarrow> ('s, chatMessage option) io" where
  "requestRound ch message responseType =
     thenE (chWriteOneMessage ch message)
     (bindE (attemptE (waitForAck ch (messageId message))) (\<lambda>r. case r of
        Inl err \<Rightarrow> if hasErr isAckNotReceived err then retE None else failE err
      | Inr _ \<Rightarrow> bindE (attemptE (waitForReply ch (messageId message) responseType)) (\<lambda>r. case r of
          Inr resp \<Rightarrow> retE (Some resp)
        | Inl err \<Rightarrow> if errorsIs err SErrUnexpectedGuestResponse then retE None else failE err)))"

text \<open>\<open>uuid\<close> is \<open>uuid.NewString\<close>.\<close>

definition writerSendSystemRequest ::
  "('s \<Rightarrow> string \<times> 's) \<Rightarrow> 's chat \<Rightarrow> systemRequest \<Rightarrow> guestResponse option \<Rightarrow> ('s, chatMessage) io" where
  "writerSendSystemRequest uuid ch request responseType = (\<lambda>s. case uuid s of (requestID, s1) \<Rightarrow>
     loopE (requestRound ch (systemRequestMsg requestID request) responseType) s1)"

definition writerSendSystemNotification ::
  "('s \<Rightarrow> string \<times> 's) \<Rightarrow> 's chat \<Rightarrow> systemNotification \<Rightarrow> ('s, unit) io" where
  "writerSendSystemNotification uuid ch notification = (\<lambda>s.
     case uuid s of (messageID, s1) \<Rightarrow> case uuid s1 of (correlationID, s2) \<Rightarrow>
       chWriteOneMessage ch \<lparr>messageId = messageID, correlationId = correlationID, msgSender = SENDER_SYSTEM,
         protocolVersion = ''lodging.v1'', traceContext = [], msgPayload = PSystemNotification notification\<rparr> s2)"

section \<open>The interfaces of the handlers\<close>

record 's chatReader =
  rdWaitForGuestAction :: "guestAction \<Rightarrow> ('s, chatMessage) io"
  rdAckGuestAction :: "('s, unit) io"

record 's chatWriter =
  wrSendSystemRequest :: "systemRequest \<Rightarrow> guestResponse option \<Rightarrow> ('s, chatMessage) io"
  wrSendSystemNotification :: "systemNotification \<Rightarrow> ('s, unit) io"

text \<open>Reader and writer of one connection share its chat; the reader owns the pending queue.\<close>

definition newReader :: "('s \<Rightarrow> gerr option) \<Rightarrow> 's chat \<Rightarrow> (pending \<times> 's) chatReader" where
  "newReader ctxErr' ch = \<lparr>rdWaitForGuestAction = readerWaitForGuestAction ctxErr' ch,
     rdAckGuestAction = readerAckGuestAction ch\<rparr>"

definition newWriter :: "('s \<Rightarrow> string \<times> 's) \<Rightarrow> 's chat \<Rightarrow> (pending \<times> 's) chatWriter" where
  "newWriter uuid ch = \<lparr>wrSendSystemRequest = (\<lambda>r t. onSnd (writerSendSystemRequest uuid ch r t)),
     wrSendSystemNotification = (\<lambda>n. onSnd (writerSendSystemNotification uuid ch n))\<rparr>"

section \<open>Variants\<close>

text \<open>The variant of a response, and whether its message is there.\<close>

fun variantOf :: "guestResponse \<Rightarrow> nat option" where
  "variantOf (ShowDocument _) = Some 0"
| "variantOf (ShowBookingNumber _) = Some 1"
| "variantOf (ReceiveCottageKey _) = Some 2"
| "variantOf (ReturnCottageKey _) = Some 3"
| "variantOf RespUnset = None"

fun hasContent :: "guestResponse \<Rightarrow> bool" where
  "hasContent (ShowDocument d) = (d \<noteq> None)"
| "hasContent (ShowBookingNumber d) = (d \<noteq> None)"
| "hasContent (ReceiveCottageKey d) = (d \<noteq> None)"
| "hasContent (ReturnCottageKey d) = (d \<noteq> None)"
| "hasContent RespUnset = False"

lemma matches_iff:
  "guestResponseMatchesExpected actual expected \<longleftrightarrow>
     (\<exists>a e. actual = Some a \<and> expected = Some e \<and> hasContent a \<and> variantOf a = variantOf e)"
  by (cases actual; cases expected; cases "the actual"; cases "the expected")
    (auto simp: guestResponseMatchesExpected_def split: option.splits)

section \<open>Recorded rounds\<close>

definition otherAck :: "string \<Rightarrow> chatMessage \<Rightarrow> bool" where
  "otherAck i m \<longleftrightarrow> (\<forall>a. getAck m = Some a \<longrightarrow> ackMessageId a \<noteq> i)"

text \<open>What a reply round that goes on leaves in the record.\<close>

definition skippedReply :: "string \<Rightarrow> chatMessage \<Rightarrow> chatCall list" where
  "skippedReply i m = (if getAck m \<noteq> None then [ChReadReply (Inr m)] else [ChReadReply (Inr m), ChSendAck m])"

definition notReplyTo :: "string \<Rightarrow> chatMessage \<Rightarrow> bool" where
  "notReplyTo i m \<longleftrightarrow> getAck m \<noteq> None \<or> correlationId m \<noteq> i"

lemma ackRound_step:
  assumes "ackRound (logChat ch) i (s, l) = Some (r, (s', l'))"
  shows "(\<exists>e. r = Inl e \<and> l' = l @ [ChReadAck (Inl e)]) \<or>
    (\<exists>m. l' = l @ [ChReadAck (Inr m)] \<and> (if otherAck i m then r = Inr None
       else r = Inr (Some ()) \<and> (\<exists>a. getAck m = Some a \<and> ackMessageId a = i)))"
proof -
  from assms obtain x s1 where x: "chReadAck ch s = Some (x, s1)"
    by (auto simp: ackRound_def bindE_def split: option.splits)
  show ?thesis
  proof (cases x)
    case (Inl e)
    with assms x show ?thesis by (auto simp: ackRound_def bindE_def)
  next
    case (Inr m)
    with assms x show ?thesis
      by (cases "getAck m") (auto simp: ackRound_def bindE_def otherAck_def split: if_splits)
  qed
qed

lemma waitForAck_log:
  fixes ch :: "'s chat"
  assumes "waitForAck (logChat ch) i (s, l) = Some (r, (s', l'))"
  shows "\<exists>ms x. l' = l @ map (\<lambda>m. ChReadAck (Inr m)) ms @ [ChReadAck x] \<and> (\<forall>m \<in> set ms. otherAck i m) \<and>
    (case r of Inl e \<Rightarrow> x = Inl e | Inr _ \<Rightarrow> \<exists>m a. x = Inr m \<and> getAck m = Some a \<and> ackMessageId a = i)"
proof -
  let ?b = "ackRound (logChat ch) i"
  let ?I = "\<lambda>(t :: 's, k). \<exists>ms. k = l @ map (\<lambda>m. ChReadAck (Inr m)) ms \<and> (\<forall>m \<in> set ms. otherAck i m)"
  from assms obtain st where "?I st" and stop: "stops ?b st r (s', l')"
    unfolding waitForAck_def
  proof (rule loopE_invariant [where I = ?I])
    show "?I (s, l)" by (auto intro: exI [of _ "[]"])
  next
    fix x y :: "'s \<times> chatCall list"
    assume ix: "?I x" and ag: "again ?b x y"
    obtain t k where x: "x = (t, k)" by fastforce
    from ix x obtain ms where ms: "k = l @ map (\<lambda>m. ChReadAck (Inr m)) ms" "\<forall>m \<in> set ms. otherAck i m" by auto
    obtain t' k' where y: "y = (t', k')" by fastforce
    from ackRound_step [OF ag [unfolded again_def x y]] obtain n where "k' = k @ [ChReadAck (Inr n)]" "otherAck i n"
      by (auto split: if_splits)
    with ms have "k' = l @ map (\<lambda>m. ChReadAck (Inr m)) (ms @ [n]) \<and> (\<forall>m \<in> set (ms @ [n]). otherAck i m)" by auto
    then show "?I y" unfolding y by blast
  qed
  then obtain t k ms where st: "st = (t, k)" "k = l @ map (\<lambda>m. ChReadAck (Inr m)) ms" "\<forall>m \<in> set ms. otherAck i m"
    by (cases st) auto
  have "ackRound (logChat ch) i (t, k) = Some (case r of Inl e \<Rightarrow> Inl e | Inr y \<Rightarrow> Inr (Some y), (s', l'))"
    using stop st(1) by (auto simp: stops_def split: sum.splits)
  from ackRound_step [OF this] have "\<exists>x. l' = k @ [ChReadAck x] \<and>
    (case r of Inl e \<Rightarrow> x = Inl e | Inr _ \<Rightarrow> \<exists>m a. x = Inr m \<and> getAck m = Some a \<and> ackMessageId a = i)"
    by (cases r) (auto split: if_splits)
  with st show ?thesis by auto
qed

lemma replyRound_step:
  assumes "replyRound (logChat ch) i t (s, l) = Some (r, (s', l'))"
  shows "(\<exists>e. r = Inl e \<and> l' = l @ [ChReadReply (Inl e)]) \<or>
    (\<exists>m. notReplyTo i m \<and> r = Inr None \<and> l' = l @ skippedReply i m) \<or>
    (\<exists>m. \<not> notReplyTo i m \<and> l' = l @ [ChReadReply (Inr m), ChSendAck m] \<and>
       (if guestResponseMatchesExpected (getGuestResponse m) t then r = Inr (Some m)
        else r = Inl (Sentinel SErrUnexpectedGuestResponse)))"
proof -
  from assms obtain x s1 where x: "chReadReply ch s = Some (x, s1)"
    by (auto simp: replyRound_def bindE_def split: option.splits)
  show ?thesis
  proof (cases x)
    case (Inl e)
    with assms x show ?thesis by (auto simp: replyRound_def bindE_def)
  next
    case (Inr m)
    show ?thesis
    proof (cases "getAck m = None")
      case False
      with assms x Inr show ?thesis by (auto simp: replyRound_def bindE_def skippedReply_def notReplyTo_def)
    next
      case True
      with assms x Inr obtain s2 where k: "chSendAck ch m s1 = Some s2"
        by (auto simp: replyRound_def bindE_def doE_def split: option.splits)
      with assms x Inr True show ?thesis
        by (cases "correlationId m = i")
          (auto simp: replyRound_def bindE_def doE_def skippedReply_def notReplyTo_def split: if_splits)
    qed
  qed
qed

text \<open>What a finished wait for a reply has recorded.\<close>

definition replyOutcome ::
  "string \<Rightarrow> guestResponse option \<Rightarrow> gerr + chatMessage \<Rightarrow> chatCall list \<Rightarrow> bool" where
  "replyOutcome i t r cs \<longleftrightarrow>
     (\<exists>e. r = Inl e \<and> cs = [ChReadReply (Inl e)]) \<or>
     (\<exists>m. \<not> notReplyTo i m \<and> cs = [ChReadReply (Inr m), ChSendAck m] \<and>
       (if guestResponseMatchesExpected (getGuestResponse m) t then r = Inr m
        else r = Inl (Sentinel SErrUnexpectedGuestResponse)))"

lemma waitForReply_log:
  fixes ch :: "'s chat"
  assumes "waitForReply (logChat ch) i t (s, l) = Some (r, (s', l'))"
  shows "\<exists>ms cs. l' = l @ concat (map (skippedReply i) ms) @ cs \<and> (\<forall>m \<in> set ms. notReplyTo i m) \<and> replyOutcome i t r cs"
proof -
  let ?b = "replyRound (logChat ch) i t"
  let ?I = "\<lambda>(u :: 's, k). \<exists>ms. k = l @ concat (map (skippedReply i) ms) \<and> (\<forall>m \<in> set ms. notReplyTo i m)"
  from assms obtain st where "?I st" and stop: "stops ?b st r (s', l')"
    unfolding waitForReply_def
  proof (rule loopE_invariant [where I = ?I])
    show "?I (s, l)" by (auto intro: exI [of _ "[]"])
  next
    fix x y :: "'s \<times> chatCall list"
    assume ix: "?I x" and ag: "again ?b x y"
    obtain u k where x: "x = (u, k)" by fastforce
    obtain u' k' where y: "y = (u', k')" by fastforce
    from ix x obtain ms where ms: "k = l @ concat (map (skippedReply i) ms)" "\<forall>m \<in> set ms. notReplyTo i m" by auto
    from replyRound_step [OF ag [unfolded again_def x y]] obtain n where "notReplyTo i n" "k' = k @ skippedReply i n"
      by (auto split: if_splits)
    with ms have "k' = l @ concat (map (skippedReply i) (ms @ [n])) \<and> (\<forall>m \<in> set (ms @ [n]). notReplyTo i m)" by simp
    then show "?I y" unfolding y by blast
  qed
  then obtain u k ms where st: "st = (u, k)" "k = l @ concat (map (skippedReply i) ms)" "\<forall>m \<in> set ms. notReplyTo i m"
    by (cases st) auto
  have "\<exists>cs. l' = k @ cs \<and> replyOutcome i t r cs"
  proof (cases r)
    case (Inl e)
    with stop st(1) have "replyRound (logChat ch) i t (u, k) = Some (Inl e, (s', l'))" by (simp add: stops_def)
    from replyRound_step [OF this] Inl show ?thesis by (auto simp: replyOutcome_def split: if_splits)
  next
    case (Inr m)
    with stop st(1) have "replyRound (logChat ch) i t (u, k) = Some (Inr (Some m), (s', l'))" by (simp add: stops_def)
    from replyRound_step [OF this] Inr show ?thesis by (auto simp: replyOutcome_def split: if_splits)
  qed
  with st show ?thesis by auto
qed

definition onlyWrites :: "chatMessage \<Rightarrow> chatCall list \<Rightarrow> bool" where
  "onlyWrites msg cs \<longleftrightarrow> (\<forall>m x. ChWrite m x \<in> set cs \<longrightarrow> m = msg \<and> x = Inr ())"

lemma onlyWrites_simps [simp]:
  "onlyWrites msg []"
  "onlyWrites msg (cs @ ds) \<longleftrightarrow> onlyWrites msg cs \<and> onlyWrites msg ds"
  "onlyWrites msg (ChReadAck a # cs) \<longleftrightarrow> onlyWrites msg cs"
  "onlyWrites msg (ChReadReply a # cs) \<longleftrightarrow> onlyWrites msg cs"
  "onlyWrites msg (ChSendAck m # cs) \<longleftrightarrow> onlyWrites msg cs"
  "onlyWrites msg (ChWrite m x # cs) \<longleftrightarrow> m = msg \<and> x = Inr () \<and> onlyWrites msg cs"
  by (auto simp: onlyWrites_def)

lemma onlyWrites_acks [simp]: "onlyWrites msg (map (\<lambda>m. ChReadAck (Inr m)) ms)"
  by (auto simp: onlyWrites_def)

lemma onlyWrites_replies [simp]: "onlyWrites msg (concat (map (skippedReply i) ms))"
  by (induction ms) (auto simp: skippedReply_def)

lemma onlyWrites_outcome: "replyOutcome i t r cs \<Longrightarrow> onlyWrites msg cs"
  by (auto simp: replyOutcome_def)

text \<open>The calls of the round that succeeds.\<close>

definition answeredRound ::
  "chatMessage \<Rightarrow> guestResponse option \<Rightarrow> chatMessage \<Rightarrow> chatCall list \<Rightarrow> bool" where
  "answeredRound msg t resp cs \<longleftrightarrow> (\<exists>acks am a replies.
     cs = ChWrite msg (Inr ()) # map (\<lambda>m. ChReadAck (Inr m)) acks @ [ChReadAck (Inr am)] @
       concat (map (skippedReply (messageId msg)) replies) @ [ChReadReply (Inr resp), ChSendAck resp] \<and>
     getAck am = Some a \<and> ackMessageId a = messageId msg \<and>
     (\<forall>m \<in> set replies. notReplyTo (messageId msg) m) \<and> \<not> notReplyTo (messageId msg) resp \<and>
     guestResponseMatchesExpected (getGuestResponse resp) t)"

lemma requestRound_step:
  fixes ch :: "'s chat"
  assumes "requestRound (logChat ch) msg t (s, l) = Some (Inr x, (s', l'))"
  shows "\<exists>cs. l' = l @ cs \<and> onlyWrites msg cs \<and> (\<forall>resp. x = Some resp \<longrightarrow> answeredRound msg t resp cs)"
proof -
  let ?i = "messageId msg"
  from assms obtain s1 where w: "chWriteOneMessage ch msg s = Some (Inr (), s1)"
    by (auto simp: requestRound_def bindE_def split: option.splits sum.splits)
  let ?l1 = "l @ [ChWrite msg (Inr ())]"
  from assms w obtain r2 s2 l2 where a: "waitForAck (logChat ch) ?i (s1, ?l1) = Some (r2, (s2, l2))"
    and k2: "(case r2 of Inl err \<Rightarrow> if hasErr isAckNotReceived err then retE None else failE err
      | Inr _ \<Rightarrow> bindE (attemptE (waitForReply (logChat ch) ?i t)) (\<lambda>r. case r of Inr resp \<Rightarrow> retE (Some resp)
        | Inl err \<Rightarrow> if errorsIs err SErrUnexpectedGuestResponse then retE None else failE err)) (s2, l2) = Some (Inr x, (s', l'))"
    by (auto simp: requestRound_def bindE_def [of "logged _ _"] bind_attempt)
  from waitForAck_log [OF a] obtain ms y where l2: "l2 = ?l1 @ map (\<lambda>m. ChReadAck (Inr m)) ms @ [ChReadAck y]"
    and y: "case r2 of Inl e \<Rightarrow> y = Inl e | Inr _ \<Rightarrow> \<exists>m a. y = Inr m \<and> getAck m = Some a \<and> ackMessageId a = ?i" by blast
  show ?thesis
  proof (cases r2)
    case (Inl e)
    with k2 have "l' = l2" "x = None" by (auto split: if_splits)
    with l2 show ?thesis by (auto intro: exI [of _ "ChWrite msg (Inr ()) # map (\<lambda>m. ChReadAck (Inr m)) ms @ [ChReadAck y]"])
  next
    case (Inr u)
    with y obtain am ak where am: "y = Inr am" "getAck am = Some ak" "ackMessageId ak = ?i" by auto
    from k2 Inr obtain r3 s3 l3 where rep: "waitForReply (logChat ch) ?i t (s2, l2) = Some (r3, (s3, l3))"
      and k3: "(case r3 of Inr resp \<Rightarrow> retE (Some resp)
        | Inl err \<Rightarrow> if errorsIs err SErrUnexpectedGuestResponse then retE None else failE err) (s3, l3) = Some (Inr x, (s', l'))"
      by (auto simp: bind_attempt)
    from waitForReply_log [OF rep] obtain rs cs where l3: "l3 = l2 @ concat (map (skippedReply ?i) rs) @ cs"
      and rs: "\<forall>m \<in> set rs. notReplyTo ?i m" and out: "replyOutcome ?i t r3 cs" by blast
    from k3 have l': "l' = l3" by (auto split: sum.splits if_splits)
    let ?cs = "ChWrite msg (Inr ()) # map (\<lambda>m. ChReadAck (Inr m)) ms @ [ChReadAck y] @ concat (map (skippedReply ?i) rs) @ cs"
    have "answeredRound msg t resp ?cs" if "x = Some resp" for resp
    proof -
      from k3 that have "r3 = Inr resp" by (auto split: sum.splits if_splits)
      with out have "\<not> notReplyTo ?i resp" "cs = [ChReadReply (Inr resp), ChSendAck resp]"
        "guestResponseMatchesExpected (getGuestResponse resp) t" by (auto simp: replyOutcome_def split: if_splits)
      with am rs show ?thesis unfolding answeredRound_def by blast
    qed
    moreover have "onlyWrites msg ?cs" using onlyWrites_outcome [OF out] by simp
    ultimately show ?thesis using l' l2 l3 by auto
  qed
qed

section \<open>Properties\<close>

text \<open>A generator of identifiers on the recorded state.\<close>

definition logUUID :: "('s \<Rightarrow> string \<times> 's) \<Rightarrow> 's \<times> 'c list \<Rightarrow> string \<times> 's \<times> 'c list" where
  "logUUID uuid = (\<lambda>(s, l). (fst (uuid s), (snd (uuid s), l)))"

text \<open>C31: a system request that returns a reply has written its request, had it acknowledged by its
  identifier, and then read the reply: a message that is not an acknowledgment, carries the
  request's identifier as correlation, and holds the expected variant with its content. The reply
  is acknowledged before it is returned, and whatever was written before was the same request
  again.\<close>

theorem sendSystemRequest_correlated:
  fixes ch :: "'s chat"
  assumes "writerSendSystemRequest (logUUID uuid) (logChat ch) request t (s, []) = Some (Inr resp, (s', l))"
  shows "\<exists>pre cs. l = pre @ cs \<and> onlyWrites (systemRequestMsg (fst (uuid s)) request) pre \<and>
     answeredRound (systemRequestMsg (fst (uuid s)) request) t resp cs"
proof -
  let ?msg = "systemRequestMsg (fst (uuid s)) request"
  let ?b = "requestRound (logChat ch) ?msg t"
  let ?I = "\<lambda>(t :: 's, k). onlyWrites ?msg k"
  from assms have "loopE ?b (snd (uuid s), []) = Some (Inr resp, (s', l))"
    by (simp add: writerSendSystemRequest_def logUUID_def)
  then obtain st where "?I st" and stop: "stops ?b st (Inr resp) (s', l)"
  proof (rule loopE_invariant [where I = ?I])
    show "?I (snd (uuid s), [])" by simp
  next
    fix x y :: "'s \<times> chatCall list"
    assume "?I x" and "again ?b x y"
    with requestRound_step [of ch ?msg t "fst x" "snd x" None "fst y" "snd y"] show "?I y"
      by (auto simp: again_def case_prod_beta)
  qed
  with requestRound_step [of ch ?msg t "fst st" "snd st" "Some resp" s' l] show ?thesis
    by (auto simp: stops_def case_prod_beta)
qed

definition ackOf :: "string \<Rightarrow> chatMessage" where
  "ackOf i = guestMsg i (PAck \<lparr>ackMessageId = i, ackStatus = ACK_STATUS_ACCEPTED, ackCode = ERROR_CODE_NONE\<rparr>)"

abbreviation documentReply :: chatMessage where
  "documentReply \<equiv> guestMsg ''r'' (PGuestResponse (ShowDocument (Some ''D1'')))"

lemma ackOf_sel [simp]: "getAck (ackOf i) = Some \<lparr>ackMessageId = i, ackStatus = ACK_STATUS_ACCEPTED, ackCode = ERROR_CODE_NONE\<rparr>"
  by (simp add: ackOf_def guestMsg_def getAck_def)

lemma documentReply_sel [simp]:
  "getAck documentReply = None" "correlationId documentReply = ''r''" "getGuestResponse documentReply = Some (ShowDocument (Some ''D1''))"
  by (simp_all add: guestMsg_def getAck_def getGuestResponse_def)

text \<open>One played round that ends with the reply, and one whose acknowledgment is late.\<close>

lemma script_ack:
  "waitForAck (logChat scriptChat) i (Inr (ackOf i) # rest, l) = Some (Inr (), (rest, l @ [ChReadAck (Inr (ackOf i))]))"
  unfolding waitForAck_def by (rule loopE_stops) (simp add: stops_def ackRound_def bindE_def)

lemma script_noAck:
  "waitForAck (logChat scriptChat) i (Inl e # rest, l) = Some (Inl e, (rest, l @ [ChReadAck (Inl e)]))"
  unfolding waitForAck_def by (rule loopE_stops) (simp add: stops_def ackRound_def bindE_def)

lemma script_reply:
  "waitForReply (logChat scriptChat) ''r'' (Some (ShowDocument None)) (Inr documentReply # rest, l) =
     Some (Inr documentReply, (rest, l @ [ChReadReply (Inr documentReply), ChSendAck documentReply]))"
  unfolding waitForReply_def
  by (rule loopE_stops) (simp add: stops_def replyRound_def bindE_def doE_def matches_iff)

lemma script_answered:
  "requestRound (logChat scriptChat) (systemRequestMsg ''r'' REQUEST_DOCUMENT) (Some (ShowDocument None))
     (Inr (ackOf ''r'') # Inr documentReply # rest, l) =
   Some (Inr (Some documentReply), (rest, l @ [ChWrite (systemRequestMsg ''r'' REQUEST_DOCUMENT) (Inr ()),
     ChReadAck (Inr (ackOf ''r'')), ChReadReply (Inr documentReply), ChSendAck documentReply]))"
  by (simp add: requestRound_def bindE_def attemptE_def systemRequestMsg_def script_ack script_reply)

lemma script_late:
  "again (requestRound (logChat scriptChat) (systemRequestMsg ''r'' REQUEST_DOCUMENT) t)
     (Inl (AckNotReceivedErr e) # rest, l)
     (rest, l @ [ChWrite (systemRequestMsg ''r'' REQUEST_DOCUMENT) (Inr ()), ChReadAck (Inl (AckNotReceivedErr e))])"
  by (simp add: again_def requestRound_def bindE_def attemptE_def systemRequestMsg_def script_noAck)

lemma script_request:
  "writerSendSystemRequest (logUUID (\<lambda>s. (''r'', s))) (logChat scriptChat) REQUEST_DOCUMENT (Some (ShowDocument None))
     ([Inr (ackOf ''r''), Inr documentReply], []) =
   Some (Inr documentReply, ([], [ChWrite (systemRequestMsg ''r'' REQUEST_DOCUMENT) (Inr ()),
     ChReadAck (Inr (ackOf ''r'')), ChReadReply (Inr documentReply), ChSendAck documentReply]))"
  unfolding writerSendSystemRequest_def logUUID_def
  by (simp, rule loopE_stops) (simp add: stops_def script_answered)

theorem sendSystemRequest_correlated_witness:
  "\<exists>pre cs. [ChWrite (systemRequestMsg ''r'' REQUEST_DOCUMENT) (Inr ()), ChReadAck (Inr (ackOf ''r'')),
       ChReadReply (Inr documentReply), ChSendAck documentReply] = pre @ cs \<and>
     answeredRound (systemRequestMsg ''r'' REQUEST_DOCUMENT) (Some (ShowDocument None)) documentReply cs"
  using sendSystemRequest_correlated [OF script_request] by auto

text \<open>C32: nothing bounds how often a request is written: for every number of acknowledgments that come
  too late there is a run that writes the request once for each of them and once more, and only
  then returns. The runs are those of a chat played from a script, as the test doubles of the
  repository are; on a connection of the websocket library a read that timed out makes the later reads
  fail too, and there a guest who answers with another variant causes the repetition.\<close>

theorem sendSystemRequest_resends_unbounded:
  "\<exists>script l. writerSendSystemRequest (logUUID (\<lambda>s. (''r'', s))) (logChat scriptChat) REQUEST_DOCUMENT (Some (ShowDocument None))
      (script, []) = Some (Inr documentReply, ([], l)) \<and>
     length (filter (\<lambda>c. c = ChWrite (systemRequestMsg ''r'' REQUEST_DOCUMENT) (Inr ())) l) = Suc n"
proof -
  let ?b = "requestRound (logChat scriptChat) (systemRequestMsg ''r'' REQUEST_DOCUMENT) (Some (ShowDocument None))"
  let ?late = "Inl (AckNotReceivedErr (NetErr True)) :: gerr + chatMessage"
  let ?w = "\<lambda>c. c = ChWrite (systemRequestMsg ''r'' REQUEST_DOCUMENT) (Inr ())"
  have "\<exists>l'. loopE ?b (replicate n ?late @ [Inr (ackOf ''r''), Inr documentReply], l) = Some (Inr documentReply, ([], l')) \<and>
      length (filter ?w l') = Suc n + length (filter ?w l)" for l
  proof (induction n arbitrary: l)
    case 0
    have "loopE ?b ([Inr (ackOf ''r''), Inr documentReply], l) = Some (Inr documentReply, ([], l @
        [ChWrite (systemRequestMsg ''r'' REQUEST_DOCUMENT) (Inr ()), ChReadAck (Inr (ackOf ''r'')),
         ChReadReply (Inr documentReply), ChSendAck documentReply]))"
      by (rule loopE_stops) (simp add: stops_def script_answered)
    then show ?case by simp
  next
    case (Suc n)
    let ?l1 = "l @ [ChWrite (systemRequestMsg ''r'' REQUEST_DOCUMENT) (Inr ()), ChReadAck ?late]"
    from Suc [of ?l1] obtain l' where
      "loopE ?b (replicate n ?late @ [Inr (ackOf ''r''), Inr documentReply], ?l1) = Some (Inr documentReply, ([], l'))"
      "length (filter ?w l') = Suc (Suc n) + length (filter ?w l)" by auto
    moreover from loopE_again [OF script_late]
    have "loopE ?b (replicate (Suc n) ?late @ [Inr (ackOf ''r''), Inr documentReply], l) =
        loopE ?b (replicate n ?late @ [Inr (ackOf ''r''), Inr documentReply], ?l1)" by simp
    ultimately show ?case by auto
  qed
  from this [of "[]"] show ?thesis by (auto simp: writerSendSystemRequest_def logUUID_def)
qed

section \<open>What a request does with the messages it reads\<close>

text \<open>The messages acknowledged, and those read while a reply was awaited, acknowledgments left out.\<close>

fun ackedMsg :: "chatCall \<Rightarrow> chatMessage option" where
  "ackedMsg (ChSendAck m) = Some m"
| "ackedMsg _ = None"

fun replyMsg :: "chatCall \<Rightarrow> chatMessage option" where
  "replyMsg (ChReadReply (Inr m)) = (if getAck m = None then Some m else None)"
| "replyMsg _ = None"

definition acksReplies :: "'s \<times> chatCall list \<Rightarrow> 's \<times> chatCall list \<Rightarrow> bool" where
  "acksReplies a b \<longleftrightarrow> (\<exists>new. snd b = snd a @ new \<and> List.map_filter ackedMsg new = List.map_filter replyMsg new \<and>
     (\<forall>m. ChRead m \<notin> set new))"

lemma map_filter_append: "List.map_filter f (xs @ ys) = List.map_filter f xs @ List.map_filter f ys"
  by (simp add: map_filter_def)

interpretation ar: frame acksReplies
proof unfold_locales
  show "acksReplies a a" for a :: "'s \<times> chatCall list" by (auto simp: acksReplies_def)
next
  fix a b c :: "'s \<times> chatCall list"
  assume "acksReplies a b" "acksReplies b c"
  then obtain n m where "snd b = snd a @ n" "snd c = snd b @ m" "List.map_filter ackedMsg n = List.map_filter replyMsg n"
    "List.map_filter ackedMsg m = List.map_filter replyMsg m"
    "\<forall>x. ChRead x \<notin> set n" "\<forall>x. ChRead x \<notin> set m" unfolding acksReplies_def by blast
  then show "acksReplies a c" unfolding acksReplies_def by (intro exI [of _ "n @ m"]) (simp add: map_filter_append)
qed

lemma acksReplies_logged:
  assumes "\<And>r. ackedMsg (ev r) = None \<and> replyMsg (ev r) = None \<and> (\<forall>m. ev r \<noteq> ChRead m)"
  shows "keeps acksReplies (logged ev m)"
proof (rule keepsI)
  fix a r b
  assume "logged ev m a = Some (r, b)"
  then have "snd b = snd a @ [ev r]" by (auto simp: logged_Some)
  moreover have "List.map_filter ackedMsg [ev r] = List.map_filter replyMsg [ev r]" "\<forall>m. ChRead m \<notin> set [ev r]"
    using assms [of r] by (simp_all add: map_filter_simps) metis
  ultimately show "acksReplies a b" unfolding acksReplies_def by blast
qed

lemma acksReplies_ackRound: "keeps acksReplies (ackRound (logChat ch) i)"
proof -
  have "keeps acksReplies (case getAck m of Some a \<Rightarrow> if ackMessageId a = i then retE (Some ()) else retE None | None \<Rightarrow> retE None)" for m
    by (auto intro!: ar.keeps_retE split: option.split)
  then show ?thesis unfolding ackRound_def by (auto intro!: ar.keeps_bindE acksReplies_logged)
qed

lemma acksReplies_replyRound: "keeps acksReplies (replyRound (logChat ch) i t)"
proof (rule keepsI)
  fix a r b
  assume "replyRound (logChat ch) i t a = Some (r, b)"
  then have "replyRound (logChat ch) i t (fst a, snd a) = Some (r, (fst b, snd b))" by simp
  from replyRound_step [OF this] show "acksReplies a b"
    by (auto simp: acksReplies_def skippedReply_def notReplyTo_def map_filter_simps split: if_splits)
qed

lemma acksReplies_request: "keeps acksReplies (writerSendSystemRequest (logUUID uuid) (logChat ch) request t)"
proof (rule keepsI)
  fix a r b
  assume run: "writerSendSystemRequest (logUUID uuid) (logChat ch) request t a = Some (r, b)"
  obtain s l where a: "a = (s, l)" by fastforce
  let ?msg = "systemRequestMsg (fst (uuid s)) request"
  have "keeps acksReplies (requestRound (logChat ch) ?msg t)"
    unfolding requestRound_def waitForAck_def waitForReply_def
    by (auto intro!: ar.keeps_rules ar.keeps_attemptE ar.keeps_loopE acksReplies_ackRound acksReplies_replyRound
        acksReplies_logged split: sum.splits)
  then have "keeps acksReplies (loopE (requestRound (logChat ch) ?msg t))" by (rule ar.keeps_loopE)
  moreover from run have "loopE (requestRound (logChat ch) ?msg t) (snd (uuid s), l) = Some (r, b)"
    by (simp add: a writerSendSystemRequest_def logUUID_def)
  ultimately have "acksReplies (snd (uuid s), l) b" by (rule keepsD)
  then show "acksReplies a b" by (simp add: a acksReplies_def)
qed

text \<open>A message a wait returns was waiting in the queue, or it is read by this wait.\<close>

lemma wait_source:
  fixes ch :: "'s chat"
  assumes "readerWaitForGuestAction (\<lambda>(s, l). ce s) (logChat ch) a (p, (s, l)) = Some (Inr m, (p', (s', l')))"
  shows "m \<in> set p \<or> ChRead (Inr m) \<in> set l'"
proof (cases "dequeueGuestAction a p")
  case (Some mp)
  with assms have "dequeueGuestAction a p = Some (m, p')" by (auto simp: readerWaitForGuestAction_def split: prod.splits)
  from pq.dequeue_Some [OF this] show ?thesis by auto
next
  case None
  with assms have "loopE (waitRound (\<lambda>(s, l). ce s) (logChat ch) a) (p, (s, l)) = Some (Inr m, (p', (s', l')))"
    by (simp add: readerWaitForGuestAction_def)
  then obtain q u k where "stops (waitRound (\<lambda>(s, l). ce s) (logChat ch) a) (q, (u, k)) (Inr m) (p', (s', l'))"
    by (auto simp: loopE_Some_iff)
  from waitRound_stops [OF this] show ?thesis by simp
qed

text \<open>A played run: one action arrives before the acknowledgment and another before the reply.\<close>

abbreviation dinnerMsg :: chatMessage where
  "dinnerMsg \<equiv> guestMsg ''y'' (PGuestAction GO_FOR_DINNER)"

abbreviation enterMsg :: chatMessage where
  "enterMsg \<equiv> guestMsg ''x'' (PGuestAction ENTER_COTTAGE)"

abbreviation lossyCalls :: "chatCall list" where
  "lossyCalls \<equiv> [ChWrite (systemRequestMsg ''r'' REQUEST_DOCUMENT) (Inr ()), ChReadAck (Inr dinnerMsg), ChReadAck (Inr (ackOf ''r'')),
     ChReadReply (Inr enterMsg), ChSendAck enterMsg, ChReadReply (Inr documentReply), ChSendAck documentReply]"

lemma script_lossy:
  "wrSendSystemRequest (newWriter (logUUID (\<lambda>s. (''r'', s))) (logChat scriptChat)) REQUEST_DOCUMENT (Some (ShowDocument None))
     ([], ([Inr dinnerMsg, Inr (ackOf ''r''), Inr enterMsg, Inr documentReply], [])) =
   Some (Inr documentReply, ([], ([], lossyCalls)))"
proof -
  let ?m = "systemRequestMsg ''r'' REQUEST_DOCUMENT"
  have a: "getAck enterMsg = None" "correlationId enterMsg \<noteq> ''r''" "getAck dinnerMsg = None"
    by (simp_all add: guestMsg_def getAck_def)
  have skip: "again (replyRound (logChat scriptChat) ''r'' t) (Inr enterMsg # rest, l)
      (rest, l @ [ChReadReply (Inr enterMsg), ChSendAck enterMsg])"
    for t rest l using a by (simp add: again_def replyRound_def bindE_def doE_def)
  have reply: "waitForReply (logChat scriptChat) ''r'' (Some (ShowDocument None)) ([Inr enterMsg, Inr documentReply], k) =
      Some (Inr documentReply, ([], k @ [ChReadReply (Inr enterMsg), ChSendAck enterMsg, ChReadReply (Inr documentReply), ChSendAck documentReply]))"
    for k using loopE_again [OF skip] script_reply by (simp add: waitForReply_def)
  have drop: "again (ackRound (logChat scriptChat) ''r'') (Inr dinnerMsg # rest, l) (rest, l @ [ChReadAck (Inr dinnerMsg)])" for rest l
    using a by (simp add: again_def ackRound_def bindE_def)
  have ack: "waitForAck (logChat scriptChat) ''r'' (Inr dinnerMsg # Inr (ackOf ''r'') # rest, k) =
      Some (Inr (), (rest, k @ [ChReadAck (Inr dinnerMsg), ChReadAck (Inr (ackOf ''r''))]))" for rest k
    using loopE_again [OF drop] script_ack by (simp add: waitForAck_def)
  have "requestRound (logChat scriptChat) ?m (Some (ShowDocument None))
      ([Inr dinnerMsg, Inr (ackOf ''r''), Inr enterMsg, Inr documentReply], []) = Some (Inr (Some documentReply), ([], lossyCalls))"
    by (simp add: requestRound_def bindE_def attemptE_def systemRequestMsg_def ack reply)
  then have "loopE (requestRound (logChat scriptChat) ?m (Some (ShowDocument None)))
      ([Inr dinnerMsg, Inr (ackOf ''r''), Inr enterMsg, Inr documentReply], []) = Some (Inr documentReply, ([], lossyCalls))"
    by (intro loopE_stops) (simp add: stops_def)
  then show ?thesis by (simp add: newWriter_def writerSendSystemRequest_def logUUID_def)
qed

text \<open>C33: a request, however it ends, keeps no message it reads: it leaves the queue of the reader as it was.
  The messages it acknowledges are exactly those it reads while it awaits the reply, in order, other
  acknowledgments left out; those it reads while it awaits the acknowledgment are dropped without
  one. A later wait for an action, wherever the connection is by then, returns only a message that was queued before the
  request or that it reads itself: an action sent during the request is never seen again, and
  the guest was told that it arrived when the reply was being awaited.\<close>

theorem action_during_request_lost:
  fixes ch :: "'s chat"
  assumes "wrSendSystemRequest (newWriter (logUUID uuid) (logChat ch)) request t (p, (s, [])) = Some (r, (p1, (s1, l1)))"
  shows "p1 = p \<and> List.map_filter ackedMsg l1 = List.map_filter replyMsg l1 \<and> (\<forall>m. ChRead m \<notin> set l1) \<and>
    (\<forall>ce a m s2 p3 s3 l3. rdWaitForGuestAction (newReader (\<lambda>(s, l). ce s) (logChat ch)) a (p1, (s2, [])) = Some (Inr m, (p3, (s3, l3)))
       \<longrightarrow> m \<in> set p \<or> ChRead (Inr m) \<in> set l3)"
proof -
  from assms have req: "writerSendSystemRequest (logUUID uuid) (logChat ch) request t (s, []) = Some (r, (s1, l1))" and p: "p1 = p"
    by (auto simp: newWriter_def split: option.splits)
  from keepsD [OF acksReplies_request req] have "List.map_filter ackedMsg l1 = List.map_filter replyMsg l1" "\<forall>m. ChRead m \<notin> set l1"
    by (auto simp: acksReplies_def)
  moreover have "m \<in> set p \<or> ChRead (Inr m) \<in> set l3"
    if "rdWaitForGuestAction (newReader (\<lambda>(s, l). ce s) (logChat ch)) a (p1, (s2, [])) = Some (Inr m, (p3, (s3, l3)))"
    for ce a m s2 p3 s3 l3
    using wait_source [of ce ch a p s2 "[]" m p3 s3 l3] that p by (simp add: newReader_def)
  ultimately show ?thesis using p by blast
qed

text \<open>In the played run the guest goes for dinner and then enters the cottage: only the second is acknowledged, and the
  wait for it afterwards fails when the connection has nothing more to give; when the guest sends it
  again, the wait returns it because it reads it.\<close>

theorem action_during_request_lost_witness:
  "List.map_filter ackedMsg lossyCalls = [enterMsg, documentReply] \<and>
   List.map_filter ackedMsg lossyCalls = List.map_filter replyMsg lossyCalls \<and>
   rdWaitForGuestAction (newReader (\<lambda>(s, l). None) (logChat scriptChat)) ENTER_COTTAGE ([], ([], [])) =
     Some (Inl (LibErr ''closed''), ([], ([], [ChRead (Inl (LibErr ''closed''))]))) \<and>
   (\<exists>l3. rdWaitForGuestAction (newReader (\<lambda>(s, l). None) (logChat scriptChat)) ENTER_COTTAGE ([], ([Inr enterMsg], [])) =
     Some (Inr enterMsg, ([], ([], l3))) \<and> ChRead (Inr enterMsg) \<in> set l3)"
proof -
  note lost = action_during_request_lost [OF script_lossy]
  have "loopE (waitRound (\<lambda>(s, l). None) (logChat scriptChat) ENTER_COTTAGE) ([], ([], [])) =
      Some (Inl (LibErr ''closed''), ([], ([], [ChRead (Inl (LibErr ''closed''))])))"
    by (rule loopE_stops) (simp add: stops_def waitRound_def bindE_def scriptChat_def scriptRead_def)
  then have wait: "rdWaitForGuestAction (newReader (\<lambda>(s, l). None) (logChat scriptChat)) ENTER_COTTAGE ([], ([], [])) =
      Some (Inl (LibErr ''closed''), ([], ([], [ChRead (Inl (LibErr ''closed''))])))"
    by (simp add: newReader_def readerWaitForGuestAction_def)
  have "getGuestAction enterMsg = ENTER_COTTAGE" by (simp add: guestMsg_def getGuestAction_def)
  then have "loopE (waitRound (\<lambda>(s, l). None) (logChat scriptChat) ENTER_COTTAGE) ([], ([Inr enterMsg], [])) =
      Some (Inr enterMsg, ([], ([], received [enterMsg])))"
    by (intro loopE_stops) (simp add: stops_def waitRound_def bindE_def doE_def)
  then have again: "rdWaitForGuestAction (newReader (\<lambda>(s, l). None) (logChat scriptChat)) ENTER_COTTAGE ([], ([Inr enterMsg], [])) =
      Some (Inr enterMsg, ([], ([], received [enterMsg])))"
    by (simp add: newReader_def readerWaitForGuestAction_def)
  have "ChRead (Inr enterMsg) \<in> set (received [enterMsg])"
    using lost [THEN conjunct2, THEN conjunct2, THEN conjunct2, rule_format, OF again] by simp
  with again have seen: "\<exists>l3. rdWaitForGuestAction (newReader (\<lambda>(s, l). None) (logChat scriptChat)) ENTER_COTTAGE ([], ([Inr enterMsg], [])) =
      Some (Inr enterMsg, ([], ([], l3))) \<and> ChRead (Inr enterMsg) \<in> set l3" by (intro exI conjI)
  have "List.map_filter ackedMsg lossyCalls = [enterMsg, documentReply]" by (simp add: map_filter_simps)
  then show ?thesis using wait seen lost [THEN conjunct2, THEN conjunct1] by (intro conjI)
qed

end
