(* ===== verification/Protocol.thy ===== *)
theory Protocol
  imports DayCycle ChatWriter Paths
begin

text \<open>
  The lodging protocol of one websocket session as a state machine over the calls the handlers
  make (\<open>internal/transport/websocket\<close>), and the recorded collaborators of the handlers.
\<close>

section \<open>Collaborators of the handlers\<close>

text \<open>The interface \<open>app.ReceptionService\<close>.\<close>

record 's receptionPort =
  rpCheckIn :: "string \<Rightarrow> gotime \<Rightarrow> ('s, booking) io"
  rpCheckinFallback :: "string \<Rightarrow> string \<Rightarrow> gotime \<Rightarrow> ('s, booking) io"
  rpCheckOut :: "booking \<Rightarrow> gotime \<Rightarrow> ('s, unit) io"
  rpReceiveCottageKey :: "string \<Rightarrow> string \<Rightarrow> ('s, unit) io"
  rpReturnCottageKey :: "string \<Rightarrow> string \<Rightarrow> ('s, unit) io"

definition newReceptionPort ::
  "(string \<Rightarrow> gerr + booking list) \<Rightarrow> 's receptionService \<Rightarrow> 's receptionPort" where
  "newReceptionPort um r = \<lparr>rpCheckIn = receptionCheckIn um r, rpCheckinFallback = receptionCheckinFallback r,
     rpCheckOut = receptionCheckOut r, rpReceiveCottageKey = receptionReceiveCottageKey r,
     rpReturnCottageKey = receptionReturnCottageKey r\<rparr>"

text \<open>
  What the \<open>select\<close> of a meal receives: the end of the context with its error, the closed
  timer channel, or the time the hour notification sent.
\<close>

datatype mealSelect = MealDone gerr | MealClosed | MealTimer gotime

text \<open>What a wait for the next day receives, without and with a ticker.\<close>

datatype dayEvent = DayDone gerr | DayClosed | DayEvent gotime

datatype tickEvent = Tick | NoTick dayEvent

text \<open>
  The interfaces \<open>app.NotificationService\<close> and \<open>app.TimeEventService\<close> as a session uses
  them. \<open>npHour h\<close> starts the notification of the hour \<open>h\<close> and selects on its channel and
  the context; the selects on the session's own day channel are the scheduler's choice.
\<close>

record 's notificationPort =
  npHour :: "int \<Rightarrow> 's \<Rightarrow> (mealSelect \<times> 's) option"

record 's timeEventPort =
  tpRegister :: "'s \<Rightarrow> 's"
  tpUnregister :: "'s \<Rightarrow> 's"
  tpDayEvent :: "'s \<Rightarrow> (dayEvent \<times> 's) option"
  tpDayOrTick :: "'s \<Rightarrow> (tickEvent \<times> 's) option"

section \<open>Recorded collaborators\<close>

datatype sessionCall =
    SWait guestAction "gerr + chatMessage"
  | SRequest systemRequest "guestResponse option" "gerr + chatMessage"
  | SNotify systemNotification "gerr + unit"
  | SNow "gerr + gotime option"
  | SCheckIn string gotime "gerr + booking"
  | SFallback string string gotime "gerr + booking"
  | SReceiveKey string string "gerr + unit"
  | SReturnKey string string "gerr + unit"
  | SCheckOut booking gotime "gerr + unit"
  | SClean cleaningOrder "gerr + unit"
  | SHour int mealSelect
  | SDay dayEvent
  | SDayOrTick tickEvent
  | SRegister
  | SUnregister
  | SUpgrade "gerr + unit"
  | SClose "gerr + unit"

definition logReader :: "'s chatReader \<Rightarrow> ('s \<times> sessionCall list) chatReader" where
  "logReader rd = \<lparr>rdWaitForGuestAction = (\<lambda>a. logged (SWait a) (rdWaitForGuestAction rd a)),
     rdAckGuestAction = (\<lambda>(s, l). map_option (\<lambda>(r, s'). (r, (s', l))) (rdAckGuestAction rd s))\<rparr>"

definition logWriter :: "'s chatWriter \<Rightarrow> ('s \<times> sessionCall list) chatWriter" where
  "logWriter wr = \<lparr>wrSendSystemRequest = (\<lambda>q t. logged (SRequest q t) (wrSendSystemRequest wr q t)),
     wrSendSystemNotification = (\<lambda>n. logged (SNotify n) (wrSendSystemNotification wr n))\<rparr>"

definition logClock :: "'s clockClient \<Rightarrow> ('s \<times> sessionCall list) clockClient" where
  "logClock c = \<lparr>clockNow = logged SNow (clockNow c)\<rparr>"

definition logReception :: "'s receptionPort \<Rightarrow> ('s \<times> sessionCall list) receptionPort" where
  "logReception p = \<lparr>rpCheckIn = (\<lambda>d t. logged (SCheckIn d t) (rpCheckIn p d t)),
     rpCheckinFallback = (\<lambda>d n t. logged (SFallback d n t) (rpCheckinFallback p d n t)),
     rpCheckOut = (\<lambda>b t. logged (SCheckOut b t) (rpCheckOut p b t)),
     rpReceiveCottageKey = (\<lambda>c k. logged (SReceiveKey c k) (rpReceiveCottageKey p c k)),
     rpReturnCottageKey = (\<lambda>c k. logged (SReturnKey c k) (rpReturnCottageKey p c k))\<rparr>"

definition logCleaning :: "'s cleaningService \<Rightarrow> ('s \<times> sessionCall list) cleaningService" where
  "logCleaning c = \<lparr>csCleanRoom = (\<lambda>ord. logged (SClean ord) (csCleanRoom c ord))\<rparr>"

definition logNotification :: "'s notificationPort \<Rightarrow> ('s \<times> sessionCall list) notificationPort" where
  "logNotification n = \<lparr>npHour = (\<lambda>h. loggedPick (SHour h) (npHour n h))\<rparr>"

definition logTimeEvents :: "'s timeEventPort \<Rightarrow> ('s \<times> sessionCall list) timeEventPort" where
  "logTimeEvents t = \<lparr>tpRegister = loggedDo SRegister (tpRegister t), tpUnregister = loggedDo SUnregister (tpUnregister t),
     tpDayEvent = loggedPick SDay (tpDayEvent t), tpDayOrTick = loggedPick SDayOrTick (tpDayOrTick t)\<rparr>"

lemma session_sel [simp]:
  "rdWaitForGuestAction (logReader rd) a = logged (SWait a) (rdWaitForGuestAction rd a)"
  "wrSendSystemRequest (logWriter wr) q t = logged (SRequest q t) (wrSendSystemRequest wr q t)"
  "wrSendSystemNotification (logWriter wr) n = logged (SNotify n) (wrSendSystemNotification wr n)"
  "clockNow (logClock c) = logged SNow (clockNow c)"
  "rpCheckIn (logReception p) d u = logged (SCheckIn d u) (rpCheckIn p d u)"
  "rpCheckinFallback (logReception p) d i u = logged (SFallback d i u) (rpCheckinFallback p d i u)"
  "rpCheckOut (logReception p) b u = logged (SCheckOut b u) (rpCheckOut p b u)"
  "rpReceiveCottageKey (logReception p) c' k = logged (SReceiveKey c' k) (rpReceiveCottageKey p c' k)"
  "rpReturnCottageKey (logReception p) c' k = logged (SReturnKey c' k) (rpReturnCottageKey p c' k)"
  "csCleanRoom (logCleaning cs) ord = logged (SClean ord) (csCleanRoom cs ord)"
  "npHour (logNotification np) h = loggedPick (SHour h) (npHour np h)"
  "tpRegister (logTimeEvents te) = loggedDo SRegister (tpRegister te)"
  "tpUnregister (logTimeEvents te) = loggedDo SUnregister (tpUnregister te)"
  "tpDayEvent (logTimeEvents te) = loggedPick SDay (tpDayEvent te)"
  "tpDayOrTick (logTimeEvents te) = loggedPick SDayOrTick (tpDayOrTick te)"
  by (simp_all add: logReader_def logWriter_def logClock_def logReception_def logCleaning_def logNotification_def
      logTimeEvents_def)

section \<open>Replies\<close>

definition getShowDocument :: "guestResponse \<Rightarrow> string option" where
  "getShowDocument r = (case r of ShowDocument d \<Rightarrow> d | _ \<Rightarrow> None)"

definition getShowBookingNumber :: "guestResponse \<Rightarrow> string option" where
  "getShowBookingNumber r = (case r of ShowBookingNumber d \<Rightarrow> d | _ \<Rightarrow> None)"

definition getReceiveCottageKey :: "guestResponse \<Rightarrow> string option" where
  "getReceiveCottageKey r = (case r of ReceiveCottageKey d \<Rightarrow> d | _ \<Rightarrow> None)"

definition getReturnCottageKey :: "guestResponse \<Rightarrow> string option" where
  "getReturnCottageKey r = (case r of ReturnCottageKey d \<Rightarrow> d | _ \<Rightarrow> None)"

text \<open>The content of a reply: \<open>None\<close> when it has no response or no such variant.\<close>

definition replyWith :: "(guestResponse \<Rightarrow> string option) \<Rightarrow> chatMessage \<Rightarrow> string option" where
  "replyWith get response = (case getGuestResponse response of None \<Rightarrow> None | Some guestResponse \<Rightarrow> get guestResponse)"

section \<open>The protocol\<close>

text \<open>
  A day of the stay is a list of things the handler does one after the other; \<open>Night\<close> is
  followed by the wait for the next day, \<open>Leaving\<close> by the check-out. The order in the middle of
  a full day is the one of \<open>stay_handler.go\<close>, line 321; two tests expect the full cleaning there
  (\<open>stay_handler_test.go\<close>, line 331, and \<open>lodging_chat_integration_test.go\<close>, line 147).
\<close>

datatype stayItem = Await guestAction | Meal int systemNotification string | Order string

datatype dayPart = Night | Leaving

definition evening :: "stayItem list" where
  "evening = [Meal 18 DINNER_READY ''dinner'', Meal 18 DINNER_READY ''dinner'', Await GO_FOR_DINNER,
     Order PrepareForSleep, Await GO_TO_SLEEP]"

definition arrivalDay :: "stayItem list" where
  "arrivalDay = [Await ENTER_COTTAGE, Await GO_FOR_A_BATH] @ evening"

definition fullDay :: "stayItem list" where
  "fullDay = [Await WAKEUP, Meal 6 BREAKFAST_READY ''breakfast'', Await GO_FOR_BREAKFAST,
     Await LEAVE_CLEANUP_NOTIFICATION, Order DailyCleaning, Await ENJOY_RESORT, Await GO_FOR_A_BATH] @ evening"

definition departureDay :: "stayItem list" where
  "departureDay = [Await WAKEUP, Await LEAVE_COTTAGE]"

text \<open>The UTC day of \<open>t\<close> is the day of the check-out or a later one.\<close>

definition checkoutDue :: "booking \<Rightarrow> gotime \<Rightarrow> bool" where
  "checkoutDue b t \<longleftrightarrow> dayNumber (timeUTC (CheckOut (bStayPeriod b))) \<le> dayNumber (timeUTC t)"

text \<open>What the session knows and waits for.\<close>

datatype phase =
    Opening | NotOpened
  | CiGuest | CiClock | CiDocument "gotime option" | CiDocReply "gotime option" "string option"
  | CiChecked "gotime option" string | CiNumber gotime string | CiNumReply gotime string "string option"
  | CiConfirmed booking | CiKey booking | CiKeyReply booking "string option" | CiTaken booking string
  | CiDone booking
  | StDo booking "stayItem list" dayPart | StMeal booking systemNotification string "stayItem list" dayPart
  | StWait booking | StTick booking | StFail gerr | StayDone booking
  | CoGuest booking "gotime option" | CoAsk booking "gotime option" | CoReply booking "gotime option" "string option"
  | CoGiven booking "gotime option" string | CoRelease booking "gotime option" | CoNotify booking
  | Finished booking | Failed gerr | Closed "gerr option"

definition orFail :: "gerr + 'a \<Rightarrow> ('a \<Rightarrow> phase) \<Rightarrow> phase" where
  "orFail r f = (case r of Inl e \<Rightarrow> Failed e | Inr x \<Rightarrow> f x)"

definition orStop :: "gerr + 'a \<Rightarrow> phase \<Rightarrow> phase" where
  "orStop r q = (case r of Inl e \<Rightarrow> StFail e | Inr x \<Rightarrow> q)"

lemma orFail_simps [simp]: "orFail (Inl e) f = Failed e" "orFail (Inr x) f = f x"
  and orStop_simps [simp]: "orStop (Inl e) q = StFail e" "orStop (Inr x) q = q"
  by (simp_all add: orFail_def orStop_def)

definition afterClock :: "booking \<Rightarrow> gerr + gotime option \<Rightarrow> phase" where
  "afterClock b r = (if \<exists>t. r = Inr (Some t) \<and> checkoutDue b t then StDo b departureDay Leaving else StWait b)"

definition afterDay :: "booking \<Rightarrow> dayEvent \<Rightarrow> phase" where
  "afterDay b ev = (case ev of
     DayDone e \<Rightarrow> StFail e
   | DayClosed \<Rightarrow> StFail (Sentinel SErrDayChangeStreamClosed)
   | DayEvent t \<Rightarrow> if checkoutDue b t then StDo b departureDay Leaving else StDo b fullDay Night)"

text \<open>Where the handlers stop by themselves, without a call that failed, and with which error.\<close>

inductive stayStops :: "phase \<Rightarrow> gerr \<Rightarrow> bool" where
  "stayStops (StFail e) e"
| "NewCleaningOrder (bCottageName b) ty = Inl e \<Longrightarrow> stayStops (StDo b (Order ty # is) k) e"
| "stayStops (StDo b (Order ty # is) k) nilDereference"

inductive flowStops :: "phase \<Rightarrow> gerr \<Rightarrow> bool" where
  "flowStops (Failed e) e"
| "flowStops CiClock nilDereference"
| "flowStops (StayDone b) nilDereference"
| "flowStops (CiDocReply now None) (Sentinel SErrUnexpectedResponse)"
| "flowStops (CiNumReply t d None) (Sentinel SErrUnexpectedResponse)"
| "flowStops (CiKeyReply b None) (Sentinel SErrUnexpectedResponse)"
| "flowStops (CoReply b now None) (Sentinel SErrUnexpectedResponse)"
| "flowStops (CiChecked None d) nilDereference"
| "flowStops (CoRelease b None) nilDereference"

declare stayStops.intros [intro]

declare flowStops.intros [simp]

inductive lodging :: "phase \<Rightarrow> sessionCall \<Rightarrow> phase \<Rightarrow> bool" where
  upgrade: "lodging Opening (SUpgrade r) (case r of Inl _ \<Rightarrow> NotOpened | Inr _ \<Rightarrow> CiGuest)"
| ci_guest: "lodging CiGuest (SWait SHOW_FOR_CHECKIN r) (orFail r (\<lambda>_. CiClock))"
| ci_clock: "lodging CiClock (SNow r) (orFail r CiDocument)"
| ci_document: "lodging (CiDocument now) (SRequest REQUEST_DOCUMENT (Some (ShowDocument None)) r)
    (orFail r (\<lambda>m. CiDocReply now (replyWith getShowDocument m)))"
| ci_checking: "lodging (CiDocReply now (Some d)) (SNotify BOOKING_CHECKING r) (orFail r (\<lambda>_. CiChecked now d))"
| ci_checkin: "lodging (CiChecked (Some t) d) (SCheckIn d t r) (case r of Inl _ \<Rightarrow> CiNumber t d | Inr b \<Rightarrow> CiConfirmed b)"
| ci_number: "lodging (CiNumber t d) (SRequest REQUEST_BOOKING_NUMBER (Some (ShowBookingNumber None)) r)
    (orFail r (\<lambda>m. CiNumReply t d (replyWith getShowBookingNumber m)))"
| ci_fallback: "lodging (CiNumReply t d (Some n)) (SFallback d n t r) (orFail r CiConfirmed)"
| ci_complete: "lodging (CiConfirmed b) (SNotify CHECK_IN_COMPLETE r) (orFail r (\<lambda>_. CiKey b))"
| ci_give: "lodging (CiKey b) (SRequest GIVE_COTTAGE_KEY (Some (ReceiveCottageKey None)) r)
    (orFail r (\<lambda>m. CiKeyReply b (replyWith getReceiveCottageKey m)))"
| ci_take: "lodging (CiKeyReply b (Some k)) (SWait TAKE_COTTAGE_KEY r) (orFail r (\<lambda>_. CiTaken b k))"
| ci_receive: "lodging (CiTaken b k) (SReceiveKey (bCottageName b) k r) (orFail r (\<lambda>_. CiDone b))"
| st_register: "lodging (CiDone b) SRegister (StDo b arrivalDay Night)"
| st_await: "lodging (StDo b (Await a # is) k) (SWait a r) (orStop r (StDo b is k))"
| st_meal: "lodging (StDo b (Meal h n lbl # is) k) (SHour h sel) (case sel of
      MealDone e \<Rightarrow> StFail e | MealClosed \<Rightarrow> StDo b is k | MealTimer t \<Rightarrow> StMeal b n lbl is k)"
| st_notify: "lodging (StMeal b n lbl is k) (SNotify n r) (case r of
      Inl e \<Rightarrow> StFail (Wrapf ''stay handler: send %s notification: %w'' [FStr lbl] e) | Inr _ \<Rightarrow> StDo b is k)"
| st_order: "NewCleaningOrder (bCottageName b) ty = Inr ord \<Longrightarrow>
    lodging (StDo b (Order ty # is) k) (SClean ord r) (orStop r (StDo b is k))"
| st_look: "lodging (StDo b [] Night) (SNow r) (afterClock b r)"
| st_day: "lodging (StDo b [] Night) (SDay ev) (afterDay b ev)"
| st_wait: "lodging (StWait b) (SDayOrTick ev) (case ev of Tick \<Rightarrow> StTick b | NoTick de \<Rightarrow> afterDay b de)"
| st_tick: "lodging (StTick b) (SNow r) (afterClock b r)"
| st_left: "lodging (StDo b [] Leaving) SUnregister (StayDone b)"
| st_failed: "stayStops q e \<Longrightarrow> lodging q SUnregister (Failed e)"
| co_clock: "lodging (StayDone b) (SNow r) (orFail r (CoGuest b))"
| co_guest: "lodging (CoGuest b now) (SWait PROCEED_TO_CHECKOUT r) (orFail r (\<lambda>_. CoAsk b now))"
| co_ask: "lodging (CoAsk b now) (SRequest REQUEST_COTTAGE_KEY (Some (ReturnCottageKey None)) r)
    (orFail r (\<lambda>m. CoReply b now (replyWith getReturnCottageKey m)))"
| co_return: "lodging (CoReply b now (Some k)) (SWait RETURN_COTTAGE_KEY r) (orFail r (\<lambda>_. CoGiven b now k))"
| co_given: "lodging (CoGiven b now k) (SReturnKey (bCottageName b) k r) (orFail r (\<lambda>_. CoRelease b now))"
| co_release: "lodging (CoRelease b (Some t)) (SCheckOut b t r) (orFail r (\<lambda>_. CoNotify b))"
| co_notify: "lodging (CoNotify b) (SNotify CHECK_OUT_COMPLETE r) (orFail r (\<lambda>_. Finished b))"
| close_done: "lodging (Finished b) (SClose r) (Closed None)"
| close_failed: "flowStops q e \<Longrightarrow> lodging q (SClose r) (Closed (Some e))"

text \<open>What the results of the handlers say of the phase.\<close>

definition flowEnds :: "('a \<Rightarrow> phase) \<Rightarrow> gerr + 'a \<Rightarrow> phase \<Rightarrow> bool" where
  "flowEnds f r q \<longleftrightarrow> (case r of Inl e \<Rightarrow> flowStops q e | Inr x \<Rightarrow> q = f x)"

definition stayEnds :: "('a \<Rightarrow> phase) \<Rightarrow> gerr + 'a \<Rightarrow> phase \<Rightarrow> bool" where
  "stayEnds f r q \<longleftrightarrow> (case r of Inl e \<Rightarrow> stayStops q e | Inr x \<Rightarrow> q = f x)"

lemma flowEnds_simps [simp]: "flowEnds f (Inl e) q \<longleftrightarrow> flowStops q e" "flowEnds f (Inr x) q \<longleftrightarrow> q = f x"
  and stayEnds_simps [simp]: "stayEnds f (Inl e) q \<longleftrightarrow> stayStops q e" "stayEnds f (Inr x) q \<longleftrightarrow> q = f x"
  by (simp_all add: flowEnds_def stayEnds_def)

end
