(* ===== verification/FrontDesk.thy ===== *)
theory FrontDesk
  imports Protocol
begin

text \<open>
  \<open>internal/transport/websocket/handler/checkin_hander.go\<close>, \<open>checkout_handler.go\<close> and
  \<open>logging.go\<close>: the handlers that receive and dismiss the guest. A context derived from a
  message differs from its parent only in the trace it belongs to.
\<close>

section \<open>Log attributes\<close>

definition baseHandlerAttrs :: "string \<Rightarrow> (string \<times> string) list" where
  "baseHandlerAttrs event = [(''component'', ''lodging_chat''), (''layer'', ''handler''), (''event'', event)]"

definition guestActionAttrs :: "chatMessage \<Rightarrow> (string \<times> attrVal) list" where
  "guestActionAttrs msg = [(''action'', AVAction (getGuestAction msg)), (''message_id'', AVStr (messageId msg)),
     (''correlation_id'', AVStr (correlationId msg))]"

section \<open>Check-in\<close>

record 's checkinHandler =
  ciReceptionService :: "'s receptionPort"
  ciClock :: "'s clockClient option"
  ciWriter :: "'s chatWriter"
  ciReader :: "'s chatReader"

definition NewCheckinHandler ::
  "'s receptionPort \<Rightarrow> 's clockClient option \<Rightarrow> 's chatWriter \<Rightarrow> 's chatReader \<Rightarrow> 's checkinHandler" where
  "NewCheckinHandler receptionService clock writer reader =
     \<lparr>ciReceptionService = receptionService, ciClock = clock, ciWriter = writer, ciReader = reader\<rparr>"

definition waitForGuest :: "'s checkinHandler \<Rightarrow> ('s, unit) io" where
  "waitForGuest h = thenE (rdWaitForGuestAction (ciReader h) SHOW_FOR_CHECKIN) (retE ())"

definition orUnexpected :: "string option \<Rightarrow> ('s, string) io" where
  "orUnexpected content = (case content of
     None \<Rightarrow> failE (Sentinel SErrUnexpectedResponse)
   | Some x \<Rightarrow> retE x)"

definition requestDocumentID :: "'s checkinHandler \<Rightarrow> ('s, string) io" where
  "requestDocumentID h = bindE (wrSendSystemRequest (ciWriter h) REQUEST_DOCUMENT (Some (ShowDocument None)))
     (\<lambda>response. orUnexpected (replyWith getShowDocument response))"

definition requestBookingID :: "'s checkinHandler \<Rightarrow> ('s, string) io" where
  "requestBookingID h = bindE (wrSendSystemRequest (ciWriter h) REQUEST_BOOKING_NUMBER (Some (ShowBookingNumber None)))
     (\<lambda>response. orUnexpected (replyWith getShowBookingNumber response))"

definition giveCottageKey :: "'s checkinHandler \<Rightarrow> ('s, string) io" where
  "giveCottageKey h = bindE (wrSendSystemRequest (ciWriter h) GIVE_COTTAGE_KEY (Some (ReceiveCottageKey None)))
     (\<lambda>response. orUnexpected (replyWith getReceiveCottageKey response))"

text \<open>\<open>h.clock.Now(ctx)\<close> on an interface value that may be nil.\<close>

definition nowE :: "'s clockClient option \<Rightarrow> ('s, gotime option) io" where
  "nowE clock = (case clock of None \<Rightarrow> failE nilDereference | Some c \<Rightarrow> clockNow c)"

definition checkinHandle :: "'s checkinHandler \<Rightarrow> ('s, booking) io" where
  "checkinHandle h =
     thenE (waitForGuest h)
     (bindE (nowE (ciClock h)) (\<lambda>now.
      bindE (requestDocumentID h) (\<lambda>documentID.
      thenE (wrSendSystemNotification (ciWriter h) BOOKING_CHECKING)
      (bindE (derefE now) (\<lambda>today.
       bindE (attemptE (rpCheckIn (ciReceptionService h) documentID today)) (\<lambda>res.
       bindE (case res of
           Inr booking \<Rightarrow> retE booking
         | Inl err \<Rightarrow> bindE (requestBookingID h) (\<lambda>bookingID.
             rpCheckinFallback (ciReceptionService h) documentID bookingID today)) (\<lambda>booking.
       thenE (wrSendSystemNotification (ciWriter h) CHECK_IN_COMPLETE)
       (bindE (giveCottageKey h) (\<lambda>keyNumber.
        thenE (rdWaitForGuestAction (ciReader h) TAKE_COTTAGE_KEY)
        (thenE (rpReceiveCottageKey (ciReceptionService h) (bCottageName booking) keyNumber)
          (retE booking)))))))))))"

section \<open>Check-out\<close>

record 's checkoutHandler =
  coReceptionService :: "'s receptionPort"
  coClock :: "'s clockClient option"
  coWriter :: "'s chatWriter"
  coReader :: "'s chatReader"

definition NewCheckoutHandler ::
  "'s receptionPort \<Rightarrow> 's clockClient option \<Rightarrow> 's chatWriter \<Rightarrow> 's chatReader \<Rightarrow> 's checkoutHandler" where
  "NewCheckoutHandler receptionService clock writer reader =
     \<lparr>coReceptionService = receptionService, coClock = clock, coWriter = writer, coReader = reader\<rparr>"

definition requestCottageKey :: "'s checkoutHandler \<Rightarrow> ('s, string) io" where
  "requestCottageKey h = bindE (wrSendSystemRequest (coWriter h) REQUEST_COTTAGE_KEY (Some (ReturnCottageKey None)))
     (\<lambda>response. orUnexpected (replyWith getReturnCottageKey response))"

definition checkoutHandle :: "'s checkoutHandler \<Rightarrow> booking \<Rightarrow> ('s, unit) io" where
  "checkoutHandle h booking =
     bindE (nowE (coClock h)) (\<lambda>now.
     thenE (rdWaitForGuestAction (coReader h) PROCEED_TO_CHECKOUT)
     (bindE (requestCottageKey h) (\<lambda>keyNumber.
      thenE (rdWaitForGuestAction (coReader h) RETURN_COTTAGE_KEY)
      (thenE (rpReturnCottageKey (coReceptionService h) (bCottageName booking) keyNumber)
      (bindE (derefE now) (\<lambda>today.
       thenE (rpCheckOut (coReceptionService h) booking today)
       (wrSendSystemNotification (coWriter h) CHECK_OUT_COMPLETE)))))))"

section \<open>The handlers follow the protocol\<close>

definition recordedCheckin ::
  "'s receptionPort \<Rightarrow> 's clockClient option \<Rightarrow> 's chatWriter \<Rightarrow> 's chatReader \<Rightarrow> ('s \<times> sessionCall list) checkinHandler" where
  "recordedCheckin rp c wr rd = NewCheckinHandler (logReception rp) (map_option logClock c) (logWriter wr) (logReader rd)"

definition recordedCheckout ::
  "'s receptionPort \<Rightarrow> 's clockClient option \<Rightarrow> 's chatWriter \<Rightarrow> 's chatReader \<Rightarrow> ('s \<times> sessionCall list) checkoutHandler" where
  "recordedCheckout rp c wr rd = NewCheckoutHandler (logReception rp) (map_option logClock c) (logWriter wr) (logReader rd)"

lemma recorded_sel [simp]:
  "ciReceptionService (recordedCheckin rp c wr rd) = logReception rp" "ciClock (recordedCheckin rp c wr rd) = map_option logClock c"
  "ciWriter (recordedCheckin rp c wr rd) = logWriter wr" "ciReader (recordedCheckin rp c wr rd) = logReader rd"
  "coReceptionService (recordedCheckout rp c wr rd) = logReception rp" "coClock (recordedCheckout rp c wr rd) = map_option logClock c"
  "coWriter (recordedCheckout rp c wr rd) = logWriter wr" "coReader (recordedCheckout rp c wr rd) = logReader rd"
  by (simp_all add: recordedCheckin_def recordedCheckout_def NewCheckinHandler_def NewCheckoutHandler_def)

text \<open>Steps that are not recorded calls: a nil value or an unexpected reply stops the flow.\<close>

lemma runs_orUnexpected:
  assumes "content = None \<Longrightarrow> Q (Inl (Sentinel SErrUnexpectedResponse)) p"
    and "\<And>x. content = Some x \<Longrightarrow> runs step p (f x) Q"
  shows "runs step p (bindE (orUnexpected content) f) Q"
  using assms by (cases content) (simp_all add: orUnexpected_def runs_failE)

lemma runs_derefE:
  assumes "v = None \<Longrightarrow> Q (Inl nilDereference) p" and "\<And>x. v = Some x \<Longrightarrow> runs step p (f x) Q"
  shows "runs step p (bindE (derefE v) f) Q"
  using assms by (cases v) (simp_all add: derefE_def runs_failE)

lemma runs_nowE:
  assumes "clock = None \<Longrightarrow> Q (Inl nilDereference) p" and "\<And>r. step p (SNow r) (q r)"
    and "\<And>e. Q (Inl e) (q (Inl e))" and "\<And>x. runs step (q (Inr x)) (f x) Q"
  shows "runs step p (bindE (nowE (map_option logClock clock)) f) Q"
  using assms by (cases clock) (auto simp: nowE_def runs_failE intro!: runs_call [where q = q])

lemmas handler_defs = waitForGuest_def requestDocumentID_def requestBookingID_def giveCottageKey_def requestCottageKey_def

lemmas front_steps = ci_guest ci_clock ci_document ci_checking ci_number ci_fallback ci_complete ci_give ci_take ci_receive
  co_clock co_guest co_ask co_return co_given co_release co_notify

lemma runs_afterCheckin:
  "runs lodging (CiConfirmed b)
     (thenE (wrSendSystemNotification (ciWriter (recordedCheckin rp c wr rd)) CHECK_IN_COMPLETE)
       (bindE (giveCottageKey (recordedCheckin rp c wr rd)) (\<lambda>keyNumber.
        thenE (rdWaitForGuestAction (ciReader (recordedCheckin rp c wr rd)) TAKE_COTTAGE_KEY)
        (thenE (rpReceiveCottageKey (ciReceptionService (recordedCheckin rp c wr rd)) (bCottageName b) keyNumber) (retE b)))))
     (flowEnds CiDone)"
  by (simp add: handler_defs bindE_assoc,
    ((((rule runs_call, rule front_steps) | rule runs_orUnexpected | rule runs_retE); simp?)+))

lemma runs_checkinHandle:
  "runs lodging CiGuest (checkinHandle (recordedCheckin rp c wr rd)) (flowEnds CiDone)"
proof -
  let ?h = "recordedCheckin rp c wr rd"
  have fallback: "runs lodging (CiNumber t d)
      (bindE (requestBookingID ?h) (\<lambda>n. rpCheckinFallback (ciReceptionService ?h) d n t)) (flowEnds CiConfirmed)" for t d
    by (simp add: handler_defs bindE_assoc,
      (((rule runs_call, rule front_steps) | rule runs_orUnexpected); simp?)+)
      (rule runs_logged, rule ci_fallback, simp add: flowEnds_def orFail_def split: sum.split)
  have booking: "runs lodging (case res of Inl _ \<Rightarrow> CiNumber t d | Inr b \<Rightarrow> CiConfirmed b)
      (case res of Inr booking \<Rightarrow> retE booking
       | Inl err \<Rightarrow> bindE (requestBookingID ?h) (\<lambda>n. rpCheckinFallback (ciReceptionService ?h) d n t)) (flowEnds CiConfirmed)" for res t d
    using fallback by (cases res) (simp_all add: runs_retE)
  have rest: "runs lodging (case res of Inl _ \<Rightarrow> CiNumber t d | Inr b \<Rightarrow> CiConfirmed b)
      (bindE (case res of Inr booking \<Rightarrow> retE booking
         | Inl err \<Rightarrow> bindE (requestBookingID ?h) (\<lambda>n. rpCheckinFallback (ciReceptionService ?h) d n t)) (\<lambda>booking.
       thenE (wrSendSystemNotification (ciWriter ?h) CHECK_IN_COMPLETE)
       (bindE (giveCottageKey ?h) (\<lambda>keyNumber.
        thenE (rdWaitForGuestAction (ciReader ?h) TAKE_COTTAGE_KEY)
        (thenE (rpReceiveCottageKey (ciReceptionService ?h) (bCottageName booking) keyNumber) (retE booking))))))
      (flowEnds CiDone)" for res t d
    by (rule runs_bindE [OF booking]) (auto intro: runs_afterCheckin [simplified])
  show ?thesis
    unfolding checkinHandle_def waitForGuest_def requestDocumentID_def bindE_assoc bindE_retE
    by (simp only: recorded_sel session_sel,
      (((rule runs_nowE, simp, rule ci_clock) | (rule runs_call, rule front_steps) | rule runs_orUnexpected | rule runs_derefE |
        (rule runs_call_attempt, rule ci_checkin)); (simp only: orFail_simps flowEnds_simps flowStops.intros)?)+)
      (auto intro: rest [unfolded recorded_sel session_sel])
qed

lemma runs_checkoutHandle:
  "runs lodging (StayDone b) (checkoutHandle (recordedCheckout rp c wr rd) b) (flowEnds (\<lambda>_. Finished b))"
  unfolding checkoutHandle_def requestCottageKey_def
  by (simp only: recorded_sel session_sel bindE_assoc,
    (((rule runs_nowE, simp, rule co_clock) | (rule runs_call, rule front_steps) | rule runs_orUnexpected | rule runs_derefE |
      (rule runs_logged, rule co_notify)); simp?)+)
    (simp add: flowEnds_def orFail_def split: sum.split)

end
