(* ===== verification/Stay.thy ===== *)
theory Stay
  imports FrontDesk
begin

text \<open>
  \<open>internal/transport/websocket/handler/stay_handler.go\<close>: the days of the stay, from entering
  the cottage to leaving it on the day of the check-out.
\<close>

section \<open>The handler\<close>

record 's stayHandler =
  shNotificationService :: "'s notificationPort"
  shCleaningService :: "'s cleaningService option"
  shTimeEventService :: "'s timeEventPort"
  shClock :: "'s clockClient option"
  shWriter :: "'s chatWriter"
  shReader :: "'s chatReader"

definition NewStayHandler ::
  "'s notificationPort \<Rightarrow> 's cleaningService option \<Rightarrow> 's timeEventPort \<Rightarrow> 's clockClient option
    \<Rightarrow> 's chatWriter \<Rightarrow> 's chatReader \<Rightarrow> 's stayHandler" where
  "NewStayHandler notificationService cleaningService timeEventService clock writer reader =
     \<lparr>shNotificationService = notificationService, shCleaningService = cleaningService,
      shTimeEventService = timeEventService, shClock = clock, shWriter = writer, shReader = reader\<rparr>"

definition isCheckoutToday :: "booking \<Rightarrow> gotime \<Rightarrow> bool" where
  "isCheckoutToday booking timeEvent =
     (let today = timeUTC timeEvent;
          checkout = timeUTC (CheckOut (bStayPeriod booking));
          checkoutDay = midnightUTC (timeYear checkout, timeMonth checkout, timeDay checkout);
          eventDay = midnightUTC (timeYear today, timeMonth today, timeDay today)
      in \<not> timeBefore eventDay checkoutDay)"

definition waitForAction :: "'s stayHandler \<Rightarrow> guestAction \<Rightarrow> ('s, unit) io" where
  "waitForAction h action = thenE (rdWaitForGuestAction (shReader h) action) (retE ())"

definition notifyMeal :: "'s stayHandler \<Rightarrow> int \<Rightarrow> systemNotification \<Rightarrow> string \<Rightarrow> ('s, unit) io" where
  "notifyMeal h hour notification label =
     bindE (pickE (npHour (shNotificationService h) hour)) (\<lambda>sel. case sel of
       MealDone err \<Rightarrow> failE err
     | MealClosed \<Rightarrow> retE ()
     | MealTimer _ \<Rightarrow> mapErrE (Wrapf ''stay handler: send %s notification: %w'' [FStr label])
         (wrSendSystemNotification (shWriter h) notification))"

definition notifyDinner :: "'s stayHandler \<Rightarrow> ('s, unit) io" where
  "notifyDinner h = notifyMeal h 18 DINNER_READY ''dinner''"

definition notifyBreakfast :: "'s stayHandler \<Rightarrow> ('s, unit) io" where
  "notifyBreakfast h = notifyMeal h 6 BREAKFAST_READY ''breakfast''"

text \<open>\<open>h.cleaningService.CleanRoom\<close> on an interface value that may be nil.\<close>

definition cleanRoomE :: "'s stayHandler \<Rightarrow> cleaningOrder \<Rightarrow> ('s, unit) io" where
  "cleanRoomE h cleaningRequest = (case shCleaningService h of
     None \<Rightarrow> failE nilDereference
   | Some cs \<Rightarrow> csCleanRoom cs cleaningRequest)"

definition cleanCottage :: "'s stayHandler \<Rightarrow> string \<Rightarrow> ('s, unit) io" where
  "cleanCottage h cottageName =
     thenE (rdWaitForGuestAction (shReader h) LEAVE_CLEANUP_NOTIFICATION)
     (bindE (liftE (NewCleaningOrder cottageName DailyCleaning)) (\<lambda>cleaningRequest.
       cleanRoomE h cleaningRequest))"

definition prepareCottageForSleep :: "'s stayHandler \<Rightarrow> string \<Rightarrow> ('s, unit) io" where
  "prepareCottageForSleep h cottageName =
     thenE (notifyDinner h)
     (thenE (rdWaitForGuestAction (shReader h) GO_FOR_DINNER)
     (bindE (liftE (NewCleaningOrder cottageName PrepareForSleep)) (\<lambda>cleaningRequest.
       cleanRoomE h cleaningRequest)))"

definition stayRoutine :: "'s stayHandler \<Rightarrow> booking \<Rightarrow> ('s, unit) io" where
  "stayRoutine h booking =
     thenE (waitForAction h WAKEUP)
     (thenE (notifyBreakfast h)
     (thenE (waitForAction h GO_FOR_BREAKFAST)
     (thenE (cleanCottage h (bCottageName booking))
     (thenE (waitForAction h ENJOY_RESORT)
     (thenE (waitForAction h GO_FOR_A_BATH)
     (thenE (notifyDinner h)
     (thenE (prepareCottageForSleep h (bCottageName booking))
     (waitForAction h GO_TO_SLEEP))))))))"

definition checkInDayRoutine :: "'s stayHandler \<Rightarrow> booking \<Rightarrow> ('s, unit) io" where
  "checkInDayRoutine h booking =
     thenE (waitForAction h ENTER_COTTAGE)
     (thenE (waitForAction h GO_FOR_A_BATH)
     (thenE (notifyDinner h)
     (thenE (prepareCottageForSleep h (bCottageName booking))
     (waitForAction h GO_TO_SLEEP))))"

definition checkoutDayRoutine :: "'s stayHandler \<Rightarrow> ('s, unit) io" where
  "checkoutDayRoutine h = thenE (waitForAction h WAKEUP) (waitForAction h LEAVE_COTTAGE)"

definition isCheckoutReachedNow :: "'s stayHandler \<Rightarrow> booking \<Rightarrow> ('s, bool) io" where
  "isCheckoutReachedNow h booking = (case shClock h of
     None \<Rightarrow> retE False
   | Some c \<Rightarrow> bindE (clockNow c) (\<lambda>now. case now of
       None \<Rightarrow> retE False
     | Some t \<Rightarrow> retE (isCheckoutToday booking (timeUTC t))))"

definition waitDayChangeEvent :: "'s stayHandler \<Rightarrow> ('s, gotime) io" where
  "waitDayChangeEvent h = bindE (pickE (tpDayEvent (shTimeEventService h))) (\<lambda>ev. case ev of
     DayDone err \<Rightarrow> failE err
   | DayClosed \<Rightarrow> failE (Sentinel SErrDayChangeStreamClosed)
   | DayEvent timeEvent \<Rightarrow> retE timeEvent)"

text \<open>One round of the loop over the events, the ticker and the context.\<close>

definition transitionRound :: "'s stayHandler \<Rightarrow> booking \<Rightarrow> ('s, bool option) io" where
  "transitionRound h booking = bindE (pickE (tpDayOrTick (shTimeEventService h))) (\<lambda>ev. case ev of
     NoTick day \<Rightarrow> (case day of
         DayDone err \<Rightarrow> failE err
       | DayClosed \<Rightarrow> failE (Sentinel SErrDayChangeStreamClosed)
       | DayEvent timeEvent \<Rightarrow> retE (Some (isCheckoutToday booking timeEvent)))
   | Tick \<Rightarrow> bindE (attemptE (isCheckoutReachedNow h booking)) (\<lambda>res. case res of
         Inl err \<Rightarrow> retE None
       | Inr reached \<Rightarrow> if reached then retE (Some True) else retE None))"

definition waitForStayTransition :: "'s stayHandler \<Rightarrow> booking \<Rightarrow> ('s, bool) io" where
  "waitForStayTransition h booking =
     bindE (attemptE (isCheckoutReachedNow h booking)) (\<lambda>res.
       if res = Inr True then retE True
       else if shClock h = None
       then bindE (waitDayChangeEvent h) (\<lambda>timeEvent. retE (isCheckoutToday booking timeEvent))
       else loopE (transitionRound h booking))"

text \<open>\<open>for !checkoutReached { stayRoutine; checkoutReached, err = waitForStayTransition }\<close>\<close>

definition stayRound :: "'s stayHandler \<Rightarrow> booking \<Rightarrow> ('s, unit option) io" where
  "stayRound h booking =
     thenE (stayRoutine h booking)
     (bindE (waitForStayTransition h booking) (\<lambda>checkoutReached.
       retE (if checkoutReached then Some () else None)))"

definition stayHandle :: "'s stayHandler \<Rightarrow> booking \<Rightarrow> ('s, unit) io" where
  "stayHandle h booking =
     thenE (doE (\<lambda>s. Some (tpRegister (shTimeEventService h) s)))
     (finallyE
       (thenE (checkInDayRoutine h booking)
       (bindE (waitForStayTransition h booking) (\<lambda>checkoutReached.
         thenE (if checkoutReached then retE () else loopE (stayRound h booking))
           (checkoutDayRoutine h))))
       (tpUnregister (shTimeEventService h)))"

section \<open>The handler follows the protocol\<close>

lemma isCheckoutToday_iff: "isCheckoutToday b t \<longleftrightarrow> checkoutDue b t"
proof -
  have m: "midnightUTC (timeYear x, timeMonth x, timeDay x) = \<lparr>nsec = dayNumber x * nsPerDay, loc = None\<rparr>" for x
    using midnightUTC_timeDate [of x] by (simp add: timeYear_def timeMonth_def timeDay_def)
  show ?thesis
    by (simp add: isCheckoutToday_def checkoutDue_def Let_def m timeBefore_def nsPerDay_def not_less)
qed

lemma checkoutDue_UTC [simp]: "checkoutDue b (timeUTC t) \<longleftrightarrow> checkoutDue b t"
  by (simp add: checkoutDue_def)

definition recordedStay ::
  "'s notificationPort \<Rightarrow> 's cleaningService option \<Rightarrow> 's timeEventPort \<Rightarrow> 's clockClient option
    \<Rightarrow> 's chatWriter \<Rightarrow> 's chatReader \<Rightarrow> ('s \<times> sessionCall list) stayHandler" where
  "recordedStay np cs te c wr rd = NewStayHandler (logNotification np) (map_option logCleaning cs) (logTimeEvents te)
     (map_option logClock c) (logWriter wr) (logReader rd)"

lemma recordedStay_sel [simp]:
  "shNotificationService (recordedStay np cs te c wr rd) = logNotification np"
  "shCleaningService (recordedStay np cs te c wr rd) = map_option logCleaning cs"
  "shTimeEventService (recordedStay np cs te c wr rd) = logTimeEvents te"
  "shClock (recordedStay np cs te c wr rd) = map_option logClock c"
  "shWriter (recordedStay np cs te c wr rd) = logWriter wr"
  "shReader (recordedStay np cs te c wr rd) = logReader rd"
  by (simp_all add: recordedStay_def NewStayHandler_def)

text \<open>\<open>does b is p\<close>: from \<open>is @ rest\<close> the effect performs the items \<open>is\<close>.\<close>

definition does :: "booking \<Rightarrow> stayItem list \<Rightarrow> ('s \<times> sessionCall list, unit) io \<Rightarrow> bool" where
  "does b is m \<longleftrightarrow> (\<forall>rest k. runs lodging (StDo b (is @ rest) k) m (stayEnds (\<lambda>_. StDo b rest k)))"

lemma doesD: "does b is m \<Longrightarrow> runs lodging (StDo b (is @ rest) k) m (stayEnds (\<lambda>_. StDo b rest k))"
  by (simp add: does_def)

lemma does_then: "does b is m \<Longrightarrow> does b js n \<Longrightarrow> does b (is @ js) (thenE m n)"
  unfolding does_def by (auto intro!: runs_bindE [where R = "stayEnds _"])

lemma does_await: "does b [Await a] (waitForAction (recordedStay np cs te c wr rd) a)"
  unfolding does_def waitForAction_def
  by (auto intro!: runs_call runs_retE st_await)

lemma does_meal: "does b [Meal h n lbl] (notifyMeal (recordedStay np cs te c wr rd) h n lbl)"
proof -
  have "runs lodging (case sel of MealDone e \<Rightarrow> StFail e | MealClosed \<Rightarrow> StDo b rest k | MealTimer t \<Rightarrow> StMeal b n lbl rest k)
     (case sel of MealDone err \<Rightarrow> failE err | MealClosed \<Rightarrow> retE ()
      | MealTimer _ \<Rightarrow> mapErrE (Wrapf ''stay handler: send %s notification: %w'' [FStr lbl])
         (logged (SNotify n) (wrSendSystemNotification wr n))) (stayEnds (\<lambda>_. StDo b rest k))" for sel rest k
    by (cases sel)
      (auto intro!: runs_failE runs_retE runs_mapErrE runs_logged st_notify simp: stayEnds_def split: sum.split)
  then show ?thesis unfolding does_def notifyMeal_def
    by (auto intro!: runs_call_pick st_meal)
qed

lemma does_order:
  "does b [Order ty] (bindE (liftE (NewCleaningOrder (bCottageName b) ty)) (cleanRoomE (recordedStay np cs te c wr rd)))"
proof (cases "NewCleaningOrder (bCottageName b) ty")
  case (Inl e)
  then show ?thesis by (auto simp: does_def intro!: runs_failE stayStops.intros)
next
  case (Inr ord)
  have "runs lodging (StDo b (Order ty # rest) k) (cleanRoomE (recordedStay np cs te c wr rd) ord)
      (stayEnds (\<lambda>_. StDo b rest k))" for rest k
  proof (cases cs)
    case None
    have "runs lodging (StDo b (Order ty # rest) k) (failE nilDereference) (stayEnds (\<lambda>_. StDo b rest k))"
      by (rule runs_failE) (auto intro: stayStops.intros)
    with None show ?thesis by (simp add: cleanRoomE_def)
  next
    case (Some x)
    have "runs lodging (StDo b (Order ty # rest) k) (logged (SClean ord) (csCleanRoom x ord)) (stayEnds (\<lambda>_. StDo b rest k))"
      by (rule runs_logged, rule st_order [OF Inr]) (auto simp: stayEnds_def split: sum.split)
    with Some show ?thesis by (simp add: cleanRoomE_def)
  qed
  with Inr show ?thesis by (simp add: does_def)
qed

lemmas does_rules = does_await does_meal does_order

lemma does_dinner: "does b [Meal 18 DINNER_READY ''dinner''] (notifyDinner (recordedStay np cs te c wr rd))"
  and does_breakfast: "does b [Meal 6 BREAKFAST_READY ''breakfast''] (notifyBreakfast (recordedStay np cs te c wr rd))"
  by (simp_all add: notifyDinner_def notifyBreakfast_def does_meal)

lemma does_wait_then:
  assumes "does b is m"
  shows "does b (Await a # is) (thenE (rdWaitForGuestAction (shReader (recordedStay np cs te c wr rd)) a) m)"
  unfolding does_def
  by (auto intro!: runs_call st_await doesD [OF assms])

lemma does_clean:
  "does b [Await LEAVE_CLEANUP_NOTIFICATION, Order DailyCleaning] (cleanCottage (recordedStay np cs te c wr rd) (bCottageName b))"
  unfolding cleanCottage_def by (rule does_wait_then, rule does_order)

lemma does_prepare:
  "does b [Meal 18 DINNER_READY ''dinner'', Await GO_FOR_DINNER, Order PrepareForSleep]
     (prepareCottageForSleep (recordedStay np cs te c wr rd) (bCottageName b))"
  unfolding prepareCottageForSleep_def
  using does_then [OF does_dinner does_wait_then [OF does_order]] by simp

lemma does_stayRoutine: "does b fullDay (stayRoutine (recordedStay np cs te c wr rd) b)"
  using does_then [OF does_await does_then [OF does_breakfast does_then [OF does_await does_then [OF does_clean
    does_then [OF does_await does_then [OF does_await does_then [OF does_dinner does_then [OF does_prepare does_await]]]]]]]]
  by (simp add: fullDay_def evening_def stayRoutine_def)

lemma does_checkInDay: "does b arrivalDay (checkInDayRoutine (recordedStay np cs te c wr rd) b)"
  using does_then [OF does_await does_then [OF does_await does_then [OF does_dinner does_then [OF does_prepare does_await]]]]
  by (simp add: arrivalDay_def evening_def checkInDayRoutine_def)

lemma does_checkoutDay: "does b departureDay (checkoutDayRoutine (recordedStay np cs te c wr rd))"
  using does_then [OF does_await does_await] by (simp add: departureDay_def checkoutDayRoutine_def)

lemma runs_Some: "Q (Inr x) p \<Longrightarrow> runs step p (\<lambda>s. Some (Inr x, s)) Q"
  using runs_retE [of Q x p step] by (simp add: retE_def)

text \<open>The phase after a wait for the next day.\<close>

abbreviation nextDay :: "booking \<Rightarrow> bool \<Rightarrow> phase" where
  "nextDay b reached \<equiv> (if reached then StDo b departureDay Leaving else StDo b fullDay Night)"

lemma afterClock_Inl [simp]: "afterClock b (Inl e) = StWait b"
  by (simp add: afterClock_def)

lemma runs_reachedNow:
  assumes "\<And>r. lodging p (SNow r) (afterClock b r)"
  shows "runs lodging p (isCheckoutReachedNow (recordedStay np cs te c wr rd) b)
    (\<lambda>r q. (c = None \<and> r = Inr False \<and> q = p) \<or> (c \<noteq> None \<and> q = (if r = Inr True then StDo b departureDay Leaving else StWait b)))"
proof (cases c)
  case None
  then show ?thesis by (simp add: isCheckoutReachedNow_def runs_retE)
next
  case (Some x)
  have "runs lodging (afterClock b (Inr now)) (case now of None \<Rightarrow> retE False | Some t \<Rightarrow> retE (isCheckoutToday b (timeUTC t)))
      (\<lambda>r q. q = (if r = Inr True then StDo b departureDay Leaving else StWait b))" for now
    by (cases now) (auto intro!: runs_retE simp: afterClock_def isCheckoutToday_iff)
  then show ?thesis using Some
    by (auto simp: isCheckoutReachedNow_def intro!: runs_call assms)
qed

lemma runs_day:
  "runs lodging (afterDay b ev) (case ev of DayDone err \<Rightarrow> failE err | DayClosed \<Rightarrow> failE (Sentinel SErrDayChangeStreamClosed)
      | DayEvent t \<Rightarrow> retE (Some (isCheckoutToday b t)))
     (\<lambda>r q. case r of Inl e \<Rightarrow> stayStops q e | Inr None \<Rightarrow> False | Inr (Some x) \<Rightarrow> q = nextDay b x)"
  by (cases ev) (auto simp: afterDay_def isCheckoutToday_iff intro!: runs_failE runs_retE stayStops.intros)

lemma runs_round:
  assumes "c \<noteq> None"
  shows "runs lodging (StWait b) (transitionRound (recordedStay np cs te c wr rd) b)
    (\<lambda>r q. case r of Inl e \<Rightarrow> stayEnds (nextDay b) (Inl e) q | Inr None \<Rightarrow> q = StWait b | Inr (Some x) \<Rightarrow> stayEnds (nextDay b) (Inr x) q)"
proof -
  let ?h = "recordedStay np cs te c wr rd"
  let ?Q = "\<lambda>r q. case r of Inl e \<Rightarrow> stayEnds (nextDay b) (Inl e) q | Inr None \<Rightarrow> q = StWait b | Inr (Some x) \<Rightarrow> stayEnds (nextDay b) (Inr x) q"
  have tick: "runs lodging (StTick b) (bindE (attemptE (isCheckoutReachedNow ?h b)) (\<lambda>res. case res of
         Inl err \<Rightarrow> retE None | Inr reached \<Rightarrow> if reached then retE (Some True) else retE None)) ?Q"
  proof (rule runs_bindE)
    show "runs lodging (StTick b) (attemptE (isCheckoutReachedNow ?h b))
        (\<lambda>r q. \<exists>x. r = Inr x \<and> q = (if x = Inr True then StDo b departureDay Leaving else StWait b))"
      using assms by (intro runs_attemptE runs_mono [OF runs_reachedNow [OF st_tick]]) auto
  qed (auto intro!: runs_retE split: sum.split)
  have day: "runs lodging (afterDay b ev) (case ev of DayDone err \<Rightarrow> failE err | DayClosed \<Rightarrow> failE (Sentinel SErrDayChangeStreamClosed)
      | DayEvent t \<Rightarrow> retE (Some (isCheckoutToday b t))) ?Q" for ev
    by (rule runs_mono [OF runs_day]) (auto split: sum.splits option.splits)
  have "runs lodging (case ev of Tick \<Rightarrow> StTick b | NoTick de \<Rightarrow> afterDay b de) (case ev of
      NoTick day \<Rightarrow> (case day of DayDone err \<Rightarrow> failE err | DayClosed \<Rightarrow> failE (Sentinel SErrDayChangeStreamClosed)
         | DayEvent t \<Rightarrow> retE (Some (isCheckoutToday b t)))
    | Tick \<Rightarrow> bindE (attemptE (isCheckoutReachedNow ?h b)) (\<lambda>res. case res of
         Inl err \<Rightarrow> retE None | Inr reached \<Rightarrow> if reached then retE (Some True) else retE None)) ?Q" for ev
    using tick day by (cases ev) simp_all
  then show ?thesis unfolding transitionRound_def recordedStay_sel session_sel
    by - (rule runs_call_pick, rule st_wait)
qed

lemma runs_transition:
  "runs lodging (StDo b [] Night) (waitForStayTransition (recordedStay np cs te c wr rd) b) (stayEnds (nextDay b))"
proof -
  let ?h = "recordedStay np cs te c wr rd"
  have none: "runs lodging (StDo b [] Night) (bindE (waitDayChangeEvent ?h) (\<lambda>t. retE (isCheckoutToday b t))) (stayEnds (nextDay b))"
  proof -
    have "runs lodging (afterDay b ev) (bindE (case ev of DayDone err \<Rightarrow> failE err
        | DayClosed \<Rightarrow> failE (Sentinel SErrDayChangeStreamClosed) | DayEvent t \<Rightarrow> retE t) (\<lambda>t. retE (isCheckoutToday b t)))
       (stayEnds (nextDay b))" for ev
      by (cases ev) (auto simp: afterDay_def isCheckoutToday_iff intro!: runs_failE runs_Some stayStops.intros)
    then show ?thesis unfolding waitDayChangeEvent_def bindE_assoc recordedStay_sel session_sel
      by - (rule runs_call_pick, rule st_day)
  qed
  have some: "runs lodging (StWait b) (loopE (transitionRound ?h b)) (stayEnds (nextDay b))" if "c \<noteq> None"
    by (rule runs_loopE [where I = "\<lambda>q. q = StWait b"]) (use runs_round [OF that] in auto)
  show ?thesis unfolding waitForStayTransition_def
  proof (rule runs_bindE)
    show "runs lodging (StDo b [] Night) (attemptE (isCheckoutReachedNow ?h b))
        (\<lambda>r q. \<exists>x. r = Inr x \<and> ((c = None \<and> x = Inr False \<and> q = StDo b [] Night) \<or>
          (c \<noteq> None \<and> q = (if x = Inr True then StDo b departureDay Leaving else StWait b))))"
      by (intro runs_attemptE runs_mono [OF runs_reachedNow [OF st_look]]) auto
  qed (use none some in \<open>auto intro!: runs_retE\<close>)
qed

lemma runs_stayHandle:
  "runs lodging (CiDone b) (stayHandle (recordedStay np cs te c wr rd) b) (flowEnds (\<lambda>_. StayDone b))"
proof -
  let ?h = "recordedStay np cs te c wr rd"
  have loop: "runs lodging (StDo b fullDay Night) (loopE (stayRound ?h b)) (stayEnds (\<lambda>_. StDo b departureDay Leaving))"
  proof (rule runs_loopE [where I = "\<lambda>q. q = StDo b fullDay Night"])
    show "runs lodging p (stayRound ?h b) (\<lambda>r q. case r of Inl e \<Rightarrow> stayEnds (\<lambda>_. StDo b departureDay Leaving) (Inl e) q
        | Inr None \<Rightarrow> q = StDo b fullDay Night | Inr (Some x) \<Rightarrow> stayEnds (\<lambda>_. StDo b departureDay Leaving) (Inr x) q)"
      if "p = StDo b fullDay Night" for p
      unfolding stayRound_def that
      by (rule runs_bindE [OF doesD [OF does_stayRoutine, where rest = "[]", simplified]])
        (auto intro!: runs_bindE [OF runs_transition] runs_retE)
  qed simp
  have body: "runs lodging (StDo b arrivalDay Night) (thenE (checkInDayRoutine ?h b)
      (bindE (waitForStayTransition ?h b) (\<lambda>reached. thenE (if reached then retE () else loopE (stayRound ?h b)) (checkoutDayRoutine ?h))))
      (stayEnds (\<lambda>_. StDo b [] Leaving))"
  proof -
    have leave: "runs lodging (nextDay b reached) (thenE (if reached then retE () else loopE (stayRound ?h b)) (checkoutDayRoutine ?h))
        (stayEnds (\<lambda>_. StDo b [] Leaving))" for reached
      by (rule runs_bindE [where R = "stayEnds (\<lambda>_. StDo b departureDay Leaving)"])
        (use loop in \<open>auto intro!: runs_retE doesD [OF does_checkoutDay, where rest = "[]", simplified]\<close>)
    show ?thesis
      by (rule runs_bindE [OF doesD [OF does_checkInDay, where rest = "[]", simplified]])
        (use leave in \<open>auto intro!: runs_bindE [OF runs_transition]\<close>)
  qed
  have fin: "runs lodging (StDo b arrivalDay Night) (finallyE (thenE (checkInDayRoutine ?h b)
      (bindE (waitForStayTransition ?h b) (\<lambda>reached. thenE (if reached then retE () else loopE (stayRound ?h b)) (checkoutDayRoutine ?h))))
      (loggedDo SUnregister (tpUnregister te))) (flowEnds (\<lambda>_. StayDone b))"
    by (rule runs_finallyE [OF body]) (auto simp: stayEnds_def flowEnds_def intro: st_left st_failed flowStops.intros split: sum.splits)
  have "runs lodging (CiDone b) (doE (\<lambda>s. Some (loggedDo SRegister (tpRegister te) s))) (\<lambda>r q. \<exists>x. r = Inr x \<and> q = StDo b arrivalDay Night)"
    by (auto simp: runs_def doE_def loggedDo_def path_single intro!: exI [of _ "[SRegister]"] st_register)
  then show ?thesis unfolding stayHandle_def recordedStay_sel session_sel
    by (rule runs_bindE) (use fin in auto)
qed

section \<open>Successful days\<close>

text \<open>What a day that succeeds has recorded for its items.\<close>

inductive performed :: "string \<Rightarrow> stayItem list \<Rightarrow> sessionCall list \<Rightarrow> bool" for room where
  "performed room [] []"
| "performed room is l \<Longrightarrow> performed room (Await a # is) (SWait a (Inr m) # l)"
| "performed room is l \<Longrightarrow> performed room (Meal h n lbl # is) (SHour h MealClosed # l)"
| "performed room is l \<Longrightarrow> performed room (Meal h n lbl # is) (SHour h (MealTimer t) # SNotify n (Inr ()) # l)"
| "performed room is l \<Longrightarrow> performed room (Order ty # is) (SClean \<lparr>RoomName = room, RequestType = ty\<rparr> (Inr ()) # l)"

inductive_simps performed_Nil: "performed room [] l"
inductive_simps performed_Await: "performed room (Await a # is) l"
inductive_simps performed_Meal: "performed room (Meal h n lbl # is) l"
inductive_simps performed_Order: "performed room (Order ty # is) l"

lemma performed_append: "performed room is l \<Longrightarrow> performed room js k \<Longrightarrow> performed room (is @ js) (l @ k)"
  by (induction rule: performed.induct) (auto intro: performed.intros)

definition did :: "string \<Rightarrow> stayItem list \<Rightarrow> ('s \<times> sessionCall list, unit) io \<Rightarrow> bool" where
  "did room is m \<longleftrightarrow> (\<forall>s l s' l'. m (s, l) = Some (Inr (), (s', l')) \<longrightarrow> (\<exists>new. l' = l @ new \<and> performed room is new))"

lemma didD: "did room is m \<Longrightarrow> m (s, l) = Some (Inr (), (s', l')) \<Longrightarrow> \<exists>new. l' = l @ new \<and> performed room is new"
  unfolding did_def by blast

lemma did_then: "did room is m \<Longrightarrow> did room js n \<Longrightarrow> did room (is @ js) (thenE m n)"
  unfolding did_def by (fastforce simp: bindE_Some_Inr intro: performed_append)

lemma did_wait_then:
  "did room is n \<Longrightarrow> did room (Await a # is) (thenE (rdWaitForGuestAction (shReader (recordedStay np cs te c wr rd)) a) n)"
  unfolding did_def
proof (intro allI impI)
  fix s l s' l'
  assume n: "\<forall>s l s' l'. n (s, l) = Some (Inr (), (s', l')) \<longrightarrow> (\<exists>new. l' = l @ new \<and> performed room is new)"
    and "thenE (rdWaitForGuestAction (shReader (recordedStay np cs te c wr rd)) a) n (s, l) = Some (Inr (), (s', l'))"
  then obtain m s1 where "n (s1, l @ [SWait a (Inr m)]) = Some (Inr (), (s', l'))"
    by (auto simp: bindE_Some_Inr split: option.splits)
  with n obtain new where "l' = (l @ [SWait a (Inr m)]) @ new" "performed room is new" by blast
  then show "\<exists>new. l' = l @ new \<and> performed room (Await a # is) new" by (auto intro: performed.intros)
qed

lemma did_retE: "did room [] (retE ())"
  by (simp add: did_def performed.intros)

lemma did_await: "did room [Await a] (waitForAction (recordedStay np cs te c wr rd) a)"
  unfolding waitForAction_def by (rule did_wait_then [OF did_retE])

lemma did_meal: "did room [Meal h n lbl] (notifyMeal (recordedStay np cs te c wr rd) h n lbl)"
proof -
  have "\<exists>new. l' = l @ new \<and> performed room [Meal h n lbl] new"
    if run: "notifyMeal (recordedStay np cs te c wr rd) h n lbl (s, l) = Some (Inr (), (s', l'))" for s l s' l'
  proof -
    from run obtain sel s1 where sel: "npHour np h s = Some (sel, s1)"
      by (auto simp: notifyMeal_def bindE_def pickE_def loggedPick_def split: option.splits)
    with run have "l' = l @ [SHour h sel] \<and> sel = MealClosed \<or> (\<exists>t. sel = MealTimer t \<and> l' = l @ [SHour h sel, SNotify n (Inr ())])"
      by (cases sel) (auto simp: notifyMeal_def bindE_def pickE_def loggedPick_def mapErrE_def split: option.splits sum.splits)
    then show ?thesis by (auto intro!: performed.intros)
  qed
  then show ?thesis unfolding did_def by blast
qed

lemma did_order: "did room [Order ty] (bindE (liftE (NewCleaningOrder room ty)) (cleanRoomE (recordedStay np cs te c wr rd)))"
  unfolding did_def
  by (auto simp: bindE_def NewCleaningOrder_eq cleanRoomE_def split: if_splits option.splits intro!: performed.intros)

lemma did_dinner: "did room [Meal 18 DINNER_READY ''dinner''] (notifyDinner (recordedStay np cs te c wr rd))"
  and did_breakfast: "did room [Meal 6 BREAKFAST_READY ''breakfast''] (notifyBreakfast (recordedStay np cs te c wr rd))"
  by (simp_all add: notifyDinner_def notifyBreakfast_def did_meal)

lemma did_clean: "did room [Await LEAVE_CLEANUP_NOTIFICATION, Order DailyCleaning] (cleanCottage (recordedStay np cs te c wr rd) room)"
  unfolding cleanCottage_def by (rule did_wait_then, rule did_order)

lemma did_prepare:
  "did room [Meal 18 DINNER_READY ''dinner'', Await GO_FOR_DINNER, Order PrepareForSleep]
     (prepareCottageForSleep (recordedStay np cs te c wr rd) room)"
  unfolding prepareCottageForSleep_def
  using did_then [OF did_dinner did_wait_then [OF did_order]] by simp

lemma did_stayRoutine: "did (bCottageName b) fullDay (stayRoutine (recordedStay np cs te c wr rd) b)"
  using did_then [OF did_await did_then [OF did_breakfast did_then [OF did_await did_then [OF did_clean
    did_then [OF did_await did_then [OF did_await did_then [OF did_dinner did_then [OF did_prepare did_await]]]]]]]]
  by (simp add: fullDay_def evening_def stayRoutine_def)

text \<open>The calls for a meal: the wait for its hour and, unless the notification of the hour ended
  without one, the message to the guest.\<close>

fun mealCalls :: "int \<Rightarrow> systemNotification \<Rightarrow> gotime option \<Rightarrow> sessionCall list" where
  "mealCalls h n None = [SHour h MealClosed]"
| "mealCalls h n (Some t) = [SHour h (MealTimer t), SNotify n (Inr ())]"

lemma performed_Meal_calls:
  "performed room (Meal h n lbl # is) l \<longleftrightarrow> (\<exists>meal l'. l = mealCalls h n meal @ l' \<and> performed room is l')"
proof
  assume "performed room (Meal h n lbl # is) l"
  then consider l' where "l = mealCalls h n None @ l'" "performed room is l'"
    | t l' where "l = mealCalls h n (Some t) @ l'" "performed room is l'" by (auto simp: performed_Meal)
  then show "\<exists>meal l'. l = mealCalls h n meal @ l' \<and> performed room is l'" by cases blast+
next
  assume "\<exists>meal l'. l = mealCalls h n meal @ l' \<and> performed room is l'"
  then obtain meal l' where "l = mealCalls h n meal @ l'" "performed room is l'" by blast
  then show "performed room (Meal h n lbl # is) l" by (cases meal) (auto intro: performed.intros)
qed

section \<open>The wait for the next day\<close>

text \<open>
  A reading of the clock that shows the day of the check-out; the readings of a wait, with a
  tick between two of them; and what an event of the day channel makes of the wait.
\<close>

definition dueReading :: "booking \<Rightarrow> gerr + gotime option \<Rightarrow> bool" where
  "dueReading b r \<longleftrightarrow> (case r of Inr (Some t) \<Rightarrow> checkoutDue b t | _ \<Rightarrow> False)"

fun looks :: "(gerr + gotime option) list \<Rightarrow> sessionCall list" where
  "looks [] = []"
| "looks [r] = [SNow r]"
| "looks (r # rs) = SNow r # SDayOrTick Tick # looks rs"

lemma looks_snoc: "rs \<noteq> [] \<Longrightarrow> looks (rs @ [r]) = looks rs @ [SDayOrTick Tick, SNow r]"
  by (induction rs rule: looks.induct) simp_all

definition dayOutcome :: "booking \<Rightarrow> dayEvent \<Rightarrow> gerr + bool" where
  "dayOutcome b ev = (case ev of
     DayDone e \<Rightarrow> Inl e
   | DayClosed \<Rightarrow> Inl (Sentinel SErrDayChangeStreamClosed)
   | DayEvent t \<Rightarrow> Inr (checkoutDue b t))"

text \<open>
  The calls and the result of a wait: without a clock one event of the day channel; otherwise
  readings of the clock at the start and at every tick, none of which shows the day of the
  check-out, and then one that does or an event of the day channel.
\<close>

definition waitEnds :: "booking \<Rightarrow> bool \<Rightarrow> sessionCall list \<Rightarrow> gerr + bool \<Rightarrow> bool" where
  "waitEnds b clock new r \<longleftrightarrow> (if \<not> clock then \<exists>ev. new = [SDay ev] \<and> r = dayOutcome b ev
     else \<exists>rs. rs \<noteq> [] \<and> (\<forall>x \<in> set (butlast rs). \<not> dueReading b x) \<and>
       (if dueReading b (last rs) then new = looks rs \<and> r = Inr True
        else \<exists>ev. new = looks rs @ [SDayOrTick (NoTick ev)] \<and> r = dayOutcome b ev))"

lemma reachedNow_run:
  "isCheckoutReachedNow (recordedStay np cs te (Some k) wr rd) b (s, l) = (case clockNow k s of
     None \<Rightarrow> None
   | Some (x, s') \<Rightarrow> Some (case x of Inl e \<Rightarrow> Inl e | Inr _ \<Rightarrow> Inr (dueReading b x), (s', l @ [SNow x])))"
  by (auto simp: isCheckoutReachedNow_def bindE_def dueReading_def isCheckoutToday_iff split: option.split sum.split)

lemma transitionRound_run:
  "transitionRound (recordedStay np cs te (Some k) wr rd) b (s, l) = (case tpDayOrTick te s of
     None \<Rightarrow> None
   | Some (NoTick ev, s1) \<Rightarrow> Some (case dayOutcome b ev of Inl e \<Rightarrow> Inl e | Inr x \<Rightarrow> Inr (Some x),
       (s1, l @ [SDayOrTick (NoTick ev)]))
   | Some (Tick, s1) \<Rightarrow> (case clockNow k s1 of
       None \<Rightarrow> None
     | Some (x, s2) \<Rightarrow> Some (Inr (if dueReading b x then Some True else None),
         (s2, l @ [SDayOrTick Tick, SNow x]))))"
  by (auto simp: transitionRound_def bindE_def pickE_def loggedPick_def attemptE_def reachedNow_run dayOutcome_def
      isCheckoutToday_iff dueReading_def split: option.split sum.split tickEvent.split dayEvent.split)

lemma transition_start:
  "waitForStayTransition (recordedStay np cs te (Some k) wr rd) b (s, l) = (case clockNow k s of
     None \<Rightarrow> None
   | Some (x, s') \<Rightarrow> if dueReading b x then Some (Inr True, (s', l @ [SNow x]))
       else loopE (transitionRound (recordedStay np cs te (Some k) wr rd) b) (s', l @ [SNow x]))"
  by (auto simp: waitForStayTransition_def bindE_def attemptE_def reachedNow_run dueReading_def
      split: option.split sum.split)

lemma transition_noClock:
  "waitForStayTransition (recordedStay np cs te None wr rd) b (s, l) = (case tpDayEvent te s of
     None \<Rightarrow> None
   | Some (ev, s') \<Rightarrow> Some (dayOutcome b ev, (s', l @ [SDay ev])))"
  by (auto simp: waitForStayTransition_def isCheckoutReachedNow_def waitDayChangeEvent_def bindE_def attemptE_def
      pickE_def loggedPick_def dayOutcome_def isCheckoutToday_iff split: option.split dayEvent.split)

text \<open>The rounds of the wait keep what has been read of the clock.\<close>

lemma transitionLoop_ends:
  assumes "loopE (transitionRound (recordedStay np cs te (Some k) wr rd) b) (s, l @ [SNow x]) = Some (r, (s', l'))"
    and "\<not> dueReading b x"
  shows "\<exists>new. l' = l @ new \<and> waitEnds b True new r"
proof -
  define I where "I = (\<lambda>t :: 'a \<times> sessionCall list. \<exists>rs. rs \<noteq> [] \<and> (\<forall>y \<in> set rs. \<not> dueReading b y) \<and> snd t = l @ looks rs)"
  from assms(1) obtain t where t: "I t" "stops (transitionRound (recordedStay np cs te (Some k) wr rd) b) t r (s', l')"
  proof (rule loopE_invariant [where I = I])
    show "I (s, l @ [SNow x])" unfolding I_def using assms(2) by (intro exI [of _ "[x]"]) simp
  next
    fix u v
    assume "I u" and ag: "again (transitionRound (recordedStay np cs te (Some k) wr rd) b) u v"
    then obtain rs where rs: "rs \<noteq> []" "\<forall>y \<in> set rs. \<not> dueReading b y" "snd u = l @ looks rs" unfolding I_def by blast
    from ag obtain y where "\<not> dueReading b y" "snd v = snd u @ [SDayOrTick Tick, SNow y]"
      by (cases u) (auto simp: again_def transitionRound_run split: option.splits tickEvent.splits sum.splits if_splits)
    with rs show "I v" unfolding I_def by (intro exI [of _ "rs @ [y]"]) (auto simp: looks_snoc)
  qed
  then obtain rs where rs: "rs \<noteq> []" "\<forall>y \<in> set rs. \<not> dueReading b y" "snd t = l @ looks rs" unfolding I_def by blast
  have nb: "\<not> dueReading b y" if "y \<in> set (butlast rs)" for y using rs(2) that by (meson in_set_butlastD)
  from t(2) consider y where "dueReading b y" "l' = snd t @ [SDayOrTick Tick, SNow y]" "r = Inr True"
    | ev where "l' = snd t @ [SDayOrTick (NoTick ev)]" "r = dayOutcome b ev"
    by (cases t) (auto simp: stops_def transitionRound_run split: option.splits tickEvent.splits sum.splits if_splits)
  then show ?thesis
  proof cases
    case 1
    with rs show ?thesis unfolding waitEnds_def
      by (intro exI [of _ "looks (rs @ [y])"] conjI) (auto simp: looks_snoc intro!: exI [of _ "rs @ [y]"])
  next
    case 2
    with rs nb show ?thesis unfolding waitEnds_def
      by (intro exI [of _ "looks rs @ [SDayOrTick (NoTick ev)]"] conjI) (auto intro!: exI [of _ rs])
  qed
qed

lemma transition_ends_log:
  assumes run: "waitForStayTransition (recordedStay np cs te c wr rd) b (s, l) = Some (r, (s', l'))"
  shows "\<exists>new. l' = l @ new \<and> waitEnds b (c \<noteq> None) new r"
proof (cases c)
  case None
  with run show ?thesis by (auto simp: transition_noClock waitEnds_def split: option.splits)
next
  case (Some k)
  with run obtain x s1 where x: "clockNow k s = Some (x, s1)" by (auto simp: transition_start split: option.splits)
  show ?thesis
  proof (cases "dueReading b x")
    case True
    with run Some x show ?thesis
      by (auto simp: transition_start waitEnds_def intro!: exI [of _ "[x]"])
  next
    case False
    with run Some x transitionLoop_ends [OF _ False] show ?thesis by (simp add: transition_start)
  qed
qed

text \<open>The collaborators answer, and \<open>V\<close> is a variant: it falls with every tick at which the clock
  does not show the day of the check-out.\<close>

definition movesOn :: "('s \<Rightarrow> nat) \<Rightarrow> booking \<Rightarrow> 's timeEventPort \<Rightarrow> 's clockClient \<Rightarrow> bool" where
  "movesOn V b te k \<longleftrightarrow> (\<forall>s. clockNow k s \<noteq> None \<and> (\<exists>ev s1. tpDayOrTick te s = Some (ev, s1) \<and>
     (ev = Tick \<longrightarrow> (\<forall>x s2. clockNow k s1 = Some (x, s2) \<longrightarrow> dueReading b x \<or> V s2 < V s))))"

lemma transition_returns:
  assumes "movesOn V b te k"
  shows "waitForStayTransition (recordedStay np cs te (Some k) wr rd) b (s, l) \<noteq> None"
proof -
  have "loopE (transitionRound (recordedStay np cs te (Some k) wr rd) b) t \<noteq> None" for t
  proof (rule loopE_returns [where V = "V \<circ> fst"])
    fix t :: "'a \<times> sessionCall list"
    obtain s l where st: "t = (s, l)" by (cases t)
    from assms obtain ev s1 where ev: "tpDayOrTick te s = Some (ev, s1)" "clockNow k s1 \<noteq> None"
      "ev = Tick \<longrightarrow> (\<forall>x s2. clockNow k s1 = Some (x, s2) \<longrightarrow> dueReading b x \<or> V s2 < V s)"
      unfolding movesOn_def by blast
    then show "\<exists>r t'. transitionRound (recordedStay np cs te (Some k) wr rd) b t = Some (r, t') \<and>
        (r = Inr None \<longrightarrow> (V \<circ> fst) t' < (V \<circ> fst) t)"
      by (cases ev) (auto simp: st transitionRound_run split: sum.splits)
  qed
  moreover from assms have "clockNow k s \<noteq> None" by (simp add: movesOn_def)
  ultimately show ?thesis by (auto simp: transition_start split: option.splits)
qed

section \<open>Played collaborators\<close>

text \<open>Collaborators that always succeed, and a booking of one night in cottage c1.\<close>

definition playReader :: "unit chatReader" where
  "playReader = \<lparr>rdWaitForGuestAction = (\<lambda>a. retE (guestMsg ''x'' (PGuestAction a))), rdAckGuestAction = retE ()\<rparr>"

definition playWriter :: "unit chatWriter" where
  "playWriter = \<lparr>wrSendSystemRequest = (\<lambda>q t. retE (guestMsg ''x'' (PGuestResponse (case q of
      REQUEST_DOCUMENT \<Rightarrow> ShowDocument (Some ''D1'') | GIVE_COTTAGE_KEY \<Rightarrow> ReceiveCottageKey (Some ''K1'')
    | REQUEST_COTTAGE_KEY \<Rightarrow> ReturnCottageKey (Some ''K1'') | _ \<Rightarrow> RespUnset)))),
    wrSendSystemNotification = (\<lambda>_. retE ())\<rparr>"

definition playBooking :: booking where
  "playBooking = \<lparr>bId = 1, bMainGuest = 2, bNumberOfGuests = 2,
     bStayPeriod = \<lparr>CheckIn = \<lparr>nsec = 0, loc = None\<rparr>, CheckOut = \<lparr>nsec = 86400000000000, loc = None\<rparr>\<rparr>,
     bCottageName = ''c1'', bStatus = BookingStatusConfirmed\<rparr>"

abbreviation playTime :: gotime where
  "playTime \<equiv> \<lparr>nsec = 90000000000000, loc = None\<rparr>"

definition playCleaning :: "unit cleaningService" where
  "playCleaning = \<lparr>csCleanRoom = (\<lambda>_. retE ())\<rparr>"

definition playNotification :: "unit notificationPort" where
  "playNotification = \<lparr>npHour = (\<lambda>h s. Some (MealTimer playTime, s))\<rparr>"

definition playTimeEvents :: "unit timeEventPort" where
  "playTimeEvents = \<lparr>tpRegister = id, tpUnregister = id, tpDayEvent = (\<lambda>s. None), tpDayOrTick = (\<lambda>s. None)\<rparr>"

abbreviation said :: "guestAction \<Rightarrow> sessionCall" where
  "said a \<equiv> SWait a (Inr (guestMsg ''x'' (PGuestAction a)))"

definition playDay :: "sessionCall list" where
  "playDay = [said WAKEUP, SHour 6 (MealTimer playTime), SNotify BREAKFAST_READY (Inr ()), said GO_FOR_BREAKFAST,
     said LEAVE_CLEANUP_NOTIFICATION, SClean \<lparr>RoomName = ''c1'', RequestType = DailyCleaning\<rparr> (Inr ()), said ENJOY_RESORT,
     said GO_FOR_A_BATH, SHour 18 (MealTimer playTime), SNotify DINNER_READY (Inr ()), SHour 18 (MealTimer playTime),
     SNotify DINNER_READY (Inr ()), said GO_FOR_DINNER, SClean \<lparr>RoomName = ''c1'', RequestType = PrepareForSleep\<rparr> (Inr ()),
     said GO_TO_SLEEP]"

lemma play_day:
  "stayRoutine (recordedStay playNotification (Some playCleaning) playTimeEvents None playWriter playReader) playBooking ((), []) =
     Some (Inr (), ((), playDay))"
  by code_simp

section \<open>Properties\<close>

text \<open>The test for the day of the check-out compares UTC days: it holds exactly from midnight UTC
  of the check-out's day on, whatever the zones of the two instants.\<close>

lemma isCheckoutToday_utc_day:
  "isCheckoutToday b t \<longleftrightarrow> nsec (CheckOut (bStayPeriod b)) div nsPerDay \<le> nsec t div nsPerDay"
  by (simp add: isCheckoutToday_iff checkoutDue_def dayNumber_timeUTC)

text \<open>A clock of three readings under ticks, and a day event between the first tick and the second.\<close>

definition playClock :: "nat clockClient" where
  "playClock = \<lparr>clockNow = (\<lambda>n. Some (Inr (Some \<lparr>nsec = int n * 50000000000000, loc = None\<rparr>), n))\<rparr>"

definition playTicks :: "nat timeEventPort" where
  "playTicks = \<lparr>tpRegister = id, tpUnregister = id, tpDayEvent = (\<lambda>_. None),
     tpDayOrTick = (\<lambda>n. Some (Tick, Suc n))\<rparr>"

definition playEarlyDay :: "nat timeEventPort" where
  "playEarlyDay = playTicks\<lparr>tpDayOrTick := (\<lambda>n. Some (if n = 0 then Tick else NoTick (DayEvent \<lparr>nsec = 0, loc = None\<rparr>), Suc n))\<rparr>"

definition quietDesk :: "nat chatWriter \<times> nat chatReader \<times> nat notificationPort" where
  "quietDesk = (\<lparr>wrSendSystemRequest = (\<lambda>_ _ _. None), wrSendSystemNotification = (\<lambda>_ _. None)\<rparr>,
     \<lparr>rdWaitForGuestAction = (\<lambda>_ _. None), rdAckGuestAction = (\<lambda>_. None)\<rparr>, \<lparr>npHour = (\<lambda>_ _. None)\<rparr>)"

lemma playBooking_due: "checkoutDue playBooking \<lparr>nsec = n, loc = None\<rparr> \<longleftrightarrow> 86400000000000 \<le> n"
  using pos_imp_zdiv_pos_iff [of "86400000000000 :: int" n]
  by (simp add: checkoutDue_def dayNumber_def localNs_def zoneOffset_def playBooking_def nsPerDay_def)
    linarith

text \<open>C12: whatever the collaborators do, a wait for the next day that ends has looked at the clock at its
  start and at every tick, no reading but the last showed the day of the check-out, and a reading
  that failed or had no time counts as one that does not. It ends with \<open>True\<close> at the first
  reading that does, or earlier with an event of the day channel: with \<open>True\<close> or \<open>False\<close> as the
  event is of that day or before it, with the error of the context, or with the error of a closed
  channel. Without a clock it ends with its first event. It does end when the collaborators answer
  and the clock moves on.\<close>

theorem transition_ends:
  "(\<forall>s l r s' l'. waitForStayTransition (recordedStay np cs te c wr rd) b (s, l) = Some (r, (s', l')) \<longrightarrow>
      (\<exists>new. l' = l @ new \<and> waitEnds b (c \<noteq> None) new r)) \<and>
   (\<forall>V k s l. c = Some k \<and> movesOn V b te k \<longrightarrow>
      waitForStayTransition (recordedStay np cs te c wr rd) b (s, l) \<noteq> None)"
proof (intro conjI allI impI)
  fix s l r s' l'
  assume "waitForStayTransition (recordedStay np cs te c wr rd) b (s, l) = Some (r, (s', l'))"
  then show "\<exists>new. l' = l @ new \<and> waitEnds b (c \<noteq> None) new r" by (rule transition_ends_log)
next
  fix V k s l
  assume "c = Some k \<and> movesOn V b te k"
  then have "c = Some k" "movesOn V b te k" by auto
  then show "waitForStayTransition (recordedStay np cs te c wr rd) b (s, l) \<noteq> None" using transition_returns [of V b te k] by blast
qed

text \<open>The clock becomes due at the second tick; in the second run a day event before the day of the
  check-out ends the wait earlier, with \<open>False\<close>.\<close>

theorem transition_ends_witness:
  "case quietDesk of (wr, rd, np) \<Rightarrow>
     (\<exists>r s' l'. waitForStayTransition (recordedStay np None playTicks (Some playClock) wr rd) playBooking (0, []) =
        Some (r, (s', l')) \<and> waitEnds playBooking True l' r) \<and>
     waitEnds playBooking True (looks [Inr (Some \<lparr>nsec = 0, loc = None\<rparr>), Inr (Some \<lparr>nsec = 50000000000000, loc = None\<rparr>)] @
        [SDayOrTick (NoTick (DayEvent \<lparr>nsec = 0, loc = None\<rparr>))]) (Inr False)"
proof -
  obtain wr rd np where q: "quietDesk = (wr, rd, np)" by (cases quietDesk)
  have "movesOn (\<lambda>n. 2 - n) playBooking playTicks playClock"
    by (auto simp: movesOn_def playTicks_def playClock_def dueReading_def playBooking_due)
  then obtain r s' l' where run: "waitForStayTransition (recordedStay np None playTicks (Some playClock) wr rd) playBooking (0, []) =
      Some (r, (s', l'))"
    using transition_ends [of np None playTicks "Some playClock" wr rd playBooking] by fastforce
  have "waitForStayTransition (recordedStay np None playEarlyDay (Some playClock) wr rd) playBooking (0, []) =
      Some (Inr False, (2, looks [Inr (Some \<lparr>nsec = 0, loc = None\<rparr>), Inr (Some \<lparr>nsec = 50000000000000, loc = None\<rparr>)] @
        [SDayOrTick (NoTick (DayEvent \<lparr>nsec = 0, loc = None\<rparr>))]))"
    by (simp add: transition_start playClock_def dueReading_def playBooking_due loopE.simps transitionRound_run
        playEarlyDay_def playTicks_def dayOutcome_def)
  with run transition_ends [of np None playTicks "Some playClock" wr rd playBooking]
    transition_ends [of np None playEarlyDay "Some playClock" wr rd playBooking] show ?thesis
    by (simp add: q) (metis append_Nil)
qed

text \<open>C11: the calls of a full day that succeeds, all of them and in order: the wait for the guest to wake
  up, breakfast at six, the wait for the guest to leave the cottage, the daily cleaning of it,
  the resort and the bath, dinner at eighteen twice, the preparation of the cottage for the night and the wait for the
  guest to sleep. At each of the three meals the guest is notified exactly when the notification
  of its hour passes a time on. The tests \<open>stay_handler_test.go\<close>, line 331, and
  \<open>lodging_chat_integration_test.go\<close>, lines 144-150, expect the full cleaning in the place of the
  daily one, which \<open>stay_handler.go\<close>, line 321, orders.\<close>

theorem full_day_calls:
  assumes "stayRoutine (recordedStay np cs te c wr rd) b (s, []) = Some (Inr (), (s', l))"
  shows "\<exists>m1 m2 m3 m4 m5 m6 m7 breakfast dinner1 dinner2.
    l = SWait WAKEUP (Inr m1) # mealCalls 6 BREAKFAST_READY breakfast @
      [SWait GO_FOR_BREAKFAST (Inr m2), SWait LEAVE_CLEANUP_NOTIFICATION (Inr m3),
       SClean \<lparr>RoomName = bCottageName b, RequestType = DailyCleaning\<rparr> (Inr ()),
       SWait ENJOY_RESORT (Inr m4), SWait GO_FOR_A_BATH (Inr m5)] @
      mealCalls 18 DINNER_READY dinner1 @ mealCalls 18 DINNER_READY dinner2 @
      [SWait GO_FOR_DINNER (Inr m6), SClean \<lparr>RoomName = bCottageName b, RequestType = PrepareForSleep\<rparr> (Inr ()),
       SWait GO_TO_SLEEP (Inr m7)]"
proof -
  from didD [OF did_stayRoutine assms] have "performed (bCottageName b) fullDay l" by simp
  then show ?thesis
    by (simp add: fullDay_def evening_def performed_Await performed_Meal_calls performed_Order performed_Nil) blast
qed

theorem full_day_calls_witness:
  "\<exists>m1 m2 m3 m4 m5 m6 m7 breakfast dinner1 dinner2.
    playDay = SWait WAKEUP (Inr m1) # mealCalls 6 BREAKFAST_READY breakfast @
      [SWait GO_FOR_BREAKFAST (Inr m2), SWait LEAVE_CLEANUP_NOTIFICATION (Inr m3),
       SClean \<lparr>RoomName = ''c1'', RequestType = DailyCleaning\<rparr> (Inr ()),
       SWait ENJOY_RESORT (Inr m4), SWait GO_FOR_A_BATH (Inr m5)] @
      mealCalls 18 DINNER_READY dinner1 @ mealCalls 18 DINNER_READY dinner2 @
      [SWait GO_FOR_DINNER (Inr m6), SClean \<lparr>RoomName = ''c1'', RequestType = PrepareForSleep\<rparr> (Inr ()),
       SWait GO_TO_SLEEP (Inr m7)]"
  using full_day_calls [OF play_day] by (simp add: playBooking_def)

text \<open>Whole hours with the same hour of the day differ by whole days.\<close>

lemma same_hour_days:
  assumes "nsec a mod (3600 * nsPerSec) = 0" and "nsec b mod (3600 * nsPerSec) = 0"
    and "loc a = None" and "loc b = None" and "timeHour a = timeHour b" and "nsec a < nsec b"
  shows "nsec a + nsPerDay \<le> nsec b"
proof -
  have hour: "nsec t mod nsPerDay = timeHour t * (3600 * nsPerSec)" if "nsec t mod (3600 * nsPerSec) = 0" "loc t = None" for t
  proof -
    have "nsec t mod nsPerDay mod (3600 * nsPerSec) = nsec t mod (3600 * nsPerSec)"
      by (rule mod_mod_cancel) (simp add: time_consts)
    then have "nsOfDay t mod (3600 * nsPerSec) = 0" "nsOfDay t = nsec t mod nsPerDay"
      using that by (simp_all add: nsOfDay_def localNs_def zoneOffset_def)
    then show ?thesis unfolding timeHour_def by (metis add.right_neutral div_mult_mod_eq)
  qed
  have "nsec a mod nsPerDay = nsec b mod nsPerDay" using hour [of a] hour [of b] assms by simp
  then have "nsPerDay dvd nsec b - nsec a" by (metis mod_eq_dvd_iff)
  then show ?thesis using assms(6) zdvd_imp_le [of nsPerDay "nsec b - nsec a"] by simp
qed

lemma hourLoop_out: "t \<in> set (fst (HourNotification h ch te run)) \<Longrightarrow> timeHour t = h \<and> t \<in> set (List.map_filter eventOf run)"
  by (auto simp: HourNotification_def hourLoop_eq Let_def map_filter_def dest: set_takeWhileD)

text \<open>C13: two waits for the same hour, one after the other, are a day apart: when the hour events are
  whole hours that move on, the time the second notification passes on is at least one day after
  the first one's. The second wait for dinner of an evening therefore ends on the next day.\<close>

theorem second_notification_next_day:
  assumes "sorted_wrt (\<lambda>a b. nsec a < nsec b) (List.map_filter eventOf (run1 @ run2))"
    and "\<forall>t \<in> set (List.map_filter eventOf (run1 @ run2)). nsec t mod (3600 * nsPerSec) = 0 \<and> loc t = None"
    and "t1 \<in> set (fst (HourNotification h ch1 te1 run1))" and "t2 \<in> set (fst (HourNotification h ch2 te2 run2))"
  shows "nsec t1 + nsPerDay \<le> nsec t2"
proof -
  have split: "List.map_filter eventOf (run1 @ run2) = List.map_filter eventOf run1 @ List.map_filter eventOf run2"
    by (simp add: map_filter_def)
  note h = hourLoop_out [OF assms(3)] hourLoop_out [OF assms(4)]
  have "nsec t1 < nsec t2" using assms(1) h unfolding split sorted_wrt_append by blast
  with assms(2) h show ?thesis unfolding split by (intro same_hour_days) auto
qed

theorem second_notification_next_day_witness:
  "nsec \<lparr>nsec = 64800000000000, loc = None\<rparr> + nsPerDay \<le> nsec \<lparr>nsec = 151200000000000, loc = None\<rparr>"
proof -
  let ?a = "NEvent \<lparr>nsec = 64800000000000, loc = None\<rparr> True" and ?b = "NEvent \<lparr>nsec = 151200000000000, loc = None\<rparr> True"
  have "timeHour \<lparr>nsec = 64800000000000, loc = None\<rparr> = 18" "timeHour \<lparr>nsec = 151200000000000, loc = None\<rparr> = 18"
    by code_simp+
  then have "\<lparr>nsec = 64800000000000, loc = None\<rparr> \<in> set (fst (HourNotification 18 1 newTimeEventService [?a]))"
    "\<lparr>nsec = 151200000000000, loc = None\<rparr> \<in> set (fst (HourNotification 18 2 newTimeEventService [?b]))"
    by (simp_all add: HourNotification_def Let_def)
  from second_notification_next_day [OF _ _ this] show ?thesis by (simp add: map_filter_simps time_consts)
qed

end
