(* ===== verification/Session.thy ===== *)
theory Session
  imports Stay
begin

text \<open>
  \<open>internal/transport/websocket/websocket.go\<close>: one lodging session, from the upgrade of the
  request to the closed connection, and what the protocol guarantees of every session.
\<close>

section \<open>The session\<close>

record 's ws =
  wsReceptionService :: "'s receptionPort option"
  wsCleaningService :: "'s cleaningService option"
  wsClockClient :: "'s clockClient option"
  wsNotificationService :: "'s notificationPort option"
  wsTimeEventService :: "'s timeEventPort option"

definition defaultReplyTimeout :: int where
  "defaultReplyTimeout = 30 * nsPerSec"

definition defaultAckTimeout :: int where
  "defaultAckTimeout = 5 * nsPerSec"

text \<open>The reader and the writer of a connection, at the context of the request.\<close>

definition sessionChat ::
  "'s chatLibs \<Rightarrow> 's goContext \<Rightarrow> 's conn \<Rightarrow> (pending \<times> 's) chatReader \<times> (pending \<times> 's) chatWriter" where
  "sessionChat lib ctx conn = (let ch = newChat lib conn defaultReplyTimeout defaultAckTimeout ctx in
     (newReader (ctxErr ctx) ch, newWriter (libUUID lib) ch))"

text \<open>How a session gets its three handlers: variables that the unit tests replace.\<close>

definition newCheckinHandler ::
  "'s receptionPort \<Rightarrow> 's clockClient option \<Rightarrow> 's chatWriter \<Rightarrow> 's chatReader \<Rightarrow> 's checkinHandler" where
  "newCheckinHandler receptionService clock writer reader = NewCheckinHandler receptionService clock writer reader"

definition newStayHandler ::
  "'s notificationPort \<Rightarrow> 's cleaningService option \<Rightarrow> 's timeEventPort \<Rightarrow> 's clockClient option \<Rightarrow> 's chatWriter \<Rightarrow> 's chatReader
    \<Rightarrow> 's stayHandler" where
  "newStayHandler notificationService cleaningService timeEventService clock writer reader =
     NewStayHandler notificationService cleaningService timeEventService clock writer reader"

definition newCheckoutHandler ::
  "'s receptionPort \<Rightarrow> 's clockClient option \<Rightarrow> 's chatWriter \<Rightarrow> 's chatReader \<Rightarrow> 's checkoutHandler" where
  "newCheckoutHandler receptionService clock writer reader = NewCheckoutHandler receptionService clock writer reader"

lemmas handler_factories = newCheckinHandler_def newStayHandler_def newCheckoutHandler_def

text \<open>What the request ends with: a status, a failed upgrade, or a session and its error, if any.\<close>

datatype wsOutcome = ServiceUnavailable | UpgradeFailed gerr | SessionOver "gerr option"

definition sessionFlow ::
  "'s receptionPort \<Rightarrow> 's notificationPort \<Rightarrow> 's timeEventPort \<Rightarrow> 's ws \<Rightarrow> 's chatReader \<Rightarrow> 's chatWriter \<Rightarrow> ('s, unit) io" where
  "sessionFlow rs ns te w reader writer =
     (let checkinHandler = newCheckinHandler rs (wsClockClient w) writer reader;
          stayHandler = newStayHandler ns (wsCleaningService w) te (wsClockClient w) writer reader;
          checkoutHandler = newCheckoutHandler rs (wsClockClient w) writer reader
      in bindE (checkinHandle checkinHandler) (\<lambda>booking.
         thenE (stayHandle stayHandler booking)
         (checkoutHandle checkoutHandler booking)))"

definition wsHandle ::
  "('s, 'conn) io \<Rightarrow> ('conn \<Rightarrow> ('s, unit) io) \<Rightarrow> ('conn \<Rightarrow> 's chatReader \<times> 's chatWriter) \<Rightarrow> 's ws \<Rightarrow> ('s, wsOutcome) io" where
  "wsHandle upgrade close chatOf w = (case wsReceptionService w of None \<Rightarrow> retE ServiceUnavailable
   | Some rs \<Rightarrow> case wsNotificationService w of None \<Rightarrow> retE ServiceUnavailable
   | Some ns \<Rightarrow> case wsTimeEventService w of None \<Rightarrow> retE ServiceUnavailable
   | Some te \<Rightarrow>
       bindE (attemptE upgrade) (\<lambda>r. case r of
         Inl err \<Rightarrow> retE (UpgradeFailed err)
       | Inr conn \<Rightarrow> (case chatOf conn of (reader, writer) \<Rightarrow>
           bindE (attemptE (sessionFlow rs ns te w reader writer)) (\<lambda>res.
           bindE (attemptE (close conn)) (\<lambda>_.
             retE (SessionOver (case res of Inl err \<Rightarrow> Some err | Inr _ \<Rightarrow> None)))))))"

section \<open>Every session follows the protocol\<close>

definition recordedWs :: "'s ws \<Rightarrow> ('s \<times> sessionCall list) ws" where
  "recordedWs w = \<lparr>wsReceptionService = map_option logReception (wsReceptionService w),
     wsCleaningService = map_option logCleaning (wsCleaningService w),
     wsClockClient = map_option logClock (wsClockClient w),
     wsNotificationService = map_option logNotification (wsNotificationService w),
     wsTimeEventService = map_option logTimeEvents (wsTimeEventService w)\<rparr>"

lemma recordedWs_sel [simp]:
  "wsReceptionService (recordedWs w) = map_option logReception (wsReceptionService w)"
  "wsCleaningService (recordedWs w) = map_option logCleaning (wsCleaningService w)"
  "wsClockClient (recordedWs w) = map_option logClock (wsClockClient w)"
  "wsNotificationService (recordedWs w) = map_option logNotification (wsNotificationService w)"
  "wsTimeEventService (recordedWs w) = map_option logTimeEvents (wsTimeEventService w)"
  by (simp_all add: recordedWs_def)

definition logUpgrade :: "('s, 'conn) io \<Rightarrow> ('s \<times> sessionCall list, 'conn) io" where
  "logUpgrade upgrade = logged (\<lambda>r. SUpgrade (map_sum id (\<lambda>_. ()) r)) upgrade"

abbreviation recordedSession ::
  "('s, 'conn) io \<Rightarrow> ('conn \<Rightarrow> ('s, unit) io) \<Rightarrow> ('conn \<Rightarrow> 's chatReader) \<Rightarrow> ('conn \<Rightarrow> 's chatWriter) \<Rightarrow> 's ws
    \<Rightarrow> ('s \<times> sessionCall list, wsOutcome) io" where
  "recordedSession upgrade close rd wr w \<equiv>
     wsHandle (logUpgrade upgrade) (\<lambda>c. logged SClose (close c)) (\<lambda>c. (logReader (rd c), logWriter (wr c))) (recordedWs w)"

lemma runs_sessionFlow:
  "runs lodging CiGuest (sessionFlow (logReception rs) (logNotification ns) (logTimeEvents te) (recordedWs w) (logReader rd) (logWriter wr))
     (\<lambda>r q. \<exists>b. flowEnds (\<lambda>_. Finished b) r q)"
proof -
  have stay: "runs lodging (CiDone b) (thenE (stayHandle (recordedStay ns cs te c wr rd) b)
      (checkoutHandle (recordedCheckout rs c wr rd) b)) (\<lambda>r q. \<exists>b. flowEnds (\<lambda>_. Finished b) r q)" for b cs c
    by (rule runs_bindE [OF runs_stayHandle]) (auto intro: runs_mono [OF runs_checkoutHandle])
  have "runs lodging CiGuest (bindE (checkinHandle (recordedCheckin rs c wr rd)) (\<lambda>b.
      thenE (stayHandle (recordedStay ns cs te c wr rd) b) (checkoutHandle (recordedCheckout rs c wr rd) b)))
      (\<lambda>r q. \<exists>b. flowEnds (\<lambda>_. Finished b) r q)" for c cs
    by (rule runs_bindE [OF runs_checkinHandle]) (use stay in auto)
  from this [of "wsClockClient w" "wsCleaningService w"] show ?thesis
    by (simp add: sessionFlow_def handler_factories recordedCheckin_def recordedCheckout_def recordedStay_def)
qed

text \<open>How the outcome of a session shows in its phase.\<close>

definition outcomePhase :: "wsOutcome \<Rightarrow> phase \<Rightarrow> bool" where
  "outcomePhase out q \<longleftrightarrow> (case out of ServiceUnavailable \<Rightarrow> q = Opening | UpgradeFailed _ \<Rightarrow> q = NotOpened
     | SessionOver err \<Rightarrow> q = Closed err)"

lemma runs_wsHandle:
  "runs lodging Opening (recordedSession upgrade close rd wr w) (\<lambda>r q. \<exists>out. r = Inr out \<and> outcomePhase out q)"
proof -
  let ?Q = "\<lambda>r q. \<exists>out. r = Inr out \<and> outcomePhase out q"
  have close: "runs lodging q (bindE (attemptE (logged SClose (close c))) (\<lambda>_.
      retE (SessionOver (case res of Inl err \<Rightarrow> Some err | Inr _ \<Rightarrow> None)))) ?Q"
    if "flowEnds (\<lambda>_. Finished b) res q" for b and res :: "gerr + unit" and c q
  proof (cases res)
    case (Inl e)
    with that show ?thesis
      by (auto intro!: runs_call_attempt close_failed runs_retE simp: outcomePhase_def)
  next
    case (Inr x)
    with that show ?thesis
      by (auto intro!: runs_call_attempt close_done runs_retE simp: outcomePhase_def)
  qed
  have flow: "runs lodging CiGuest (bindE (attemptE (sessionFlow (logReception rs) (logNotification ns) (logTimeEvents te)
        (recordedWs w) (logReader (rd c)) (logWriter (wr c)))) (\<lambda>res. bindE (attemptE (logged SClose (close c))) (\<lambda>_.
      retE (SessionOver (case res of Inl err \<Rightarrow> Some err | Inr _ \<Rightarrow> None))))) ?Q" for rs ns te c
  proof (rule runs_bindE)
    show "runs lodging CiGuest (attemptE (sessionFlow (logReception rs) (logNotification ns) (logTimeEvents te)
        (recordedWs w) (logReader (rd c)) (logWriter (wr c)))) (\<lambda>r q. \<exists>res b. r = Inr res \<and> flowEnds (\<lambda>_. Finished b) res q)"
      by (rule runs_attemptE, rule runs_mono [OF runs_sessionFlow]) blast
  qed (use close in blast)+
  have opened: "runs lodging Opening (bindE (attemptE (logUpgrade upgrade)) (\<lambda>r. case r of
      Inl err \<Rightarrow> retE (UpgradeFailed err) | Inr c \<Rightarrow> K c)) ?Q" if "\<And>c. runs lodging CiGuest (K c) ?Q" for K
    unfolding logUpgrade_def
  proof (rule runs_call_attempt, rule upgrade)
    fix r :: "gerr + 'b"
    show "runs lodging (case map_sum id (\<lambda>_. ()) r of Inl _ \<Rightarrow> NotOpened | Inr _ \<Rightarrow> CiGuest)
        (case r of Inl err \<Rightarrow> retE (UpgradeFailed err) | Inr c \<Rightarrow> K c) ?Q"
      using that by (cases r) (auto intro: runs_retE simp: outcomePhase_def)
  qed
  have closed: "runs lodging Opening (retE ServiceUnavailable) ?Q" by (rule runs_retE) (simp add: outcomePhase_def)
  show ?thesis
    unfolding wsHandle_def
    by (cases "wsReceptionService w"; cases "wsNotificationService w"; cases "wsTimeEventService w")
      (simp_all only: recordedWs_sel option.map option.case prod.case closed opened flow)
qed

section \<open>What a session knows\<close>

text \<open>What must have happened before a phase is reached, as facts about the calls made.\<close>

definition checkedIn :: "sessionCall list \<Rightarrow> booking \<Rightarrow> bool" where
  "checkedIn l b \<longleftrightarrow> (\<exists>d t. SCheckIn d t (Inr b) \<in> set l \<or> (\<exists>n. SFallback d n t (Inr b) \<in> set l))"

text \<open>The key number the guest reported, when given the key and when asked for it.\<close>

definition givenKey :: "sessionCall list \<Rightarrow> string \<Rightarrow> bool" where
  "givenKey l k \<longleftrightarrow> (\<exists>t m. SRequest GIVE_COTTAGE_KEY t (Inr m) \<in> set l \<and> replyWith getReceiveCottageKey m = Some k)"

definition askedKey :: "sessionCall list \<Rightarrow> string \<Rightarrow> bool" where
  "askedKey l k \<longleftrightarrow> (\<exists>t m. SRequest REQUEST_COTTAGE_KEY t (Inr m) \<in> set l \<and> replyWith getReturnCottageKey m = Some k)"

definition housed :: "sessionCall list \<Rightarrow> booking \<Rightarrow> bool" where
  "housed l b \<longleftrightarrow> checkedIn l b \<and> (\<exists>k. givenKey l k \<and> SReceiveKey (bCottageName b) k (Inr ()) \<in> set l)"

definition dueSeen :: "sessionCall list \<Rightarrow> booking \<Rightarrow> bool" where
  "dueSeen l b \<longleftrightarrow> (\<exists>t. checkoutDue b t \<and>
     (SNow (Inr (Some t)) \<in> set l \<or> SDay (DayEvent t) \<in> set l \<or> SDayOrTick (NoTick (DayEvent t)) \<in> set l))"

definition settled :: "sessionCall list \<Rightarrow> booking \<Rightarrow> bool" where
  "settled l b \<longleftrightarrow> housed l b \<and> dueSeen l b \<and> (\<exists>k. askedKey l k \<and> SReturnKey (bCottageName b) k (Inr ()) \<in> set l)"

fun known :: "sessionCall list \<Rightarrow> phase \<Rightarrow> bool" where
  "known l (CiConfirmed b) = checkedIn l b"
| "known l (CiKey b) = checkedIn l b"
| "known l (CiKeyReply b k) = (checkedIn l b \<and> (\<forall>x. k = Some x \<longrightarrow> givenKey l x))"
| "known l (CiTaken b k) = (checkedIn l b \<and> givenKey l k)"
| "known l (CiDone b) = housed l b"
| "known l (StDo b is k) = (housed l b \<and> (k = Leaving \<longrightarrow> dueSeen l b))"
| "known l (StMeal b n lbl is k) = (housed l b \<and> (k = Leaving \<longrightarrow> dueSeen l b))"
| "known l (StWait b) = housed l b"
| "known l (StTick b) = housed l b"
| "known l (StayDone b) = (housed l b \<and> dueSeen l b)"
| "known l (CoGuest b now) = (housed l b \<and> dueSeen l b)"
| "known l (CoAsk b now) = (housed l b \<and> dueSeen l b)"
| "known l (CoReply b now k) = (housed l b \<and> dueSeen l b \<and> (\<forall>x. k = Some x \<longrightarrow> askedKey l x))"
| "known l (CoGiven b now k) = (housed l b \<and> dueSeen l b \<and> askedKey l k)"
| "known l (CoRelease b now) = settled l b"
| "known l (CoNotify b) = settled l b"
| "known l (Finished b) = settled l b"
| "known l _ = True"

lemma fact_mono:
  "checkedIn l b \<Longrightarrow> checkedIn (l @ [c]) b" "housed l b \<Longrightarrow> housed (l @ [c]) b"
  "dueSeen l b \<Longrightarrow> dueSeen (l @ [c]) b" "settled l b \<Longrightarrow> settled (l @ [c]) b"
  "givenKey l k \<Longrightarrow> givenKey (l @ [c]) k" "askedKey l k \<Longrightarrow> askedKey (l @ [c]) k"
  by (auto simp: checkedIn_def housed_def dueSeen_def settled_def givenKey_def askedKey_def)

lemma fact_new:
  "checkedIn (l @ [SCheckIn d t (Inr b)]) b" "checkedIn (l @ [SFallback d n t (Inr b)]) b"
  "replyWith getReceiveCottageKey m = Some k \<Longrightarrow> givenKey (l @ [SRequest GIVE_COTTAGE_KEY u (Inr m)]) k"
  "replyWith getReturnCottageKey m = Some k \<Longrightarrow> askedKey (l @ [SRequest REQUEST_COTTAGE_KEY u (Inr m)]) k"
  "checkedIn l b \<Longrightarrow> givenKey l k \<Longrightarrow> housed (l @ [SReceiveKey (bCottageName b) k (Inr ())]) b"
  "housed l b \<Longrightarrow> dueSeen l b \<Longrightarrow> askedKey l k \<Longrightarrow> settled (l @ [SReturnKey (bCottageName b) k (Inr ())]) b"
  "checkoutDue b t \<Longrightarrow> dueSeen (l @ [SNow (Inr (Some t))]) b"
  "checkoutDue b t \<Longrightarrow> dueSeen (l @ [SDay (DayEvent t)]) b"
  "checkoutDue b t \<Longrightarrow> dueSeen (l @ [SDayOrTick (NoTick (DayEvent t))]) b"
  by (auto simp: checkedIn_def housed_def dueSeen_def settled_def givenKey_def askedKey_def)

lemma known_afterClock: "housed l b \<Longrightarrow> known (l @ [SNow r]) (afterClock b r)"
  by (auto simp: afterClock_def intro: fact_mono fact_new)

lemma known_step: "lodging p c q \<Longrightarrow> known l p \<Longrightarrow> known (l @ [c]) q"
proof (induction rule: lodging.induct)
  case (st_day b ev)
  then show ?case by (cases ev) (auto simp: afterDay_def intro: fact_mono fact_new)
next
  case (st_wait b ev)
  then show ?case by (auto simp: afterDay_def intro: fact_mono fact_new split: tickEvent.split dayEvent.split)
qed (auto simp: orFail_def orStop_def intro: fact_mono fact_new known_afterClock split: sum.split mealSelect.split)

lemma known_path: "path lodging Opening l q \<Longrightarrow> known l q"
  by (induction rule: path_forward) (auto intro: known_step)

text \<open>The phases between the two ends of the subscription to day changes.\<close>

fun inStay :: "phase \<Rightarrow> bool" where
  "inStay (StDo b is k) = True"
| "inStay (StMeal b n lbl is k) = True"
| "inStay (StWait b) = True"
| "inStay (StTick b) = True"
| "inStay (StFail e) = True"
| "inStay _ = False"

definition subscriptions :: "sessionCall list \<Rightarrow> int" where
  "subscriptions l = int (count_list l SRegister) - int (count_list l SUnregister)"

lemma inStay_stops: "stayStops q e \<Longrightarrow> inStay q"
  by (induction rule: stayStops.induct) simp_all

lemma not_inStay_flowStops: "flowStops q e \<Longrightarrow> \<not> inStay q"
  by (induction rule: flowStops.induct) simp_all

lemma inStay_afterClock: "inStay (afterClock b r)" and inStay_afterDay: "inStay (afterDay b ev)"
  by (simp_all add: afterClock_def afterDay_def split: dayEvent.split)

lemma inStay_step:
  "lodging p c q \<Longrightarrow> (if inStay q then 1 else 0) = (if inStay p then 1 else 0) + subscriptions [c]"
  by (induction rule: lodging.induct)
    (auto simp: subscriptions_def orFail_def orStop_def inStay_afterClock inStay_afterDay dest: inStay_stops not_inStay_flowStops
      split: sum.split mealSelect.split tickEvent.split)

lemma subscriptions_path: "path lodging Opening l q \<Longrightarrow> subscriptions l = (if inStay q then 1 else 0)"
proof (induction rule: path_forward)
  case init
  then show ?case by (simp add: subscriptions_def)
next
  case (step acc a c b)
  then show ?case using inStay_step [of a c b] by (simp add: subscriptions_def)
qed

inductive_cases checkout_step: "lodging p (SCheckOut b t r) q"

section \<open>A played session\<close>

text \<open>
  Collaborators that always succeed, one night in cottage c1: the guest arrives, the clock
  already shows the day of the check-out after the first evening, and the guest leaves.
\<close>

definition playWs :: "unit ws" where
  "playWs = \<lparr>wsReceptionService = Some \<lparr>rpCheckIn = (\<lambda>_ _. retE playBooking), rpCheckinFallback = (\<lambda>_ _ _. retE playBooking),
       rpCheckOut = (\<lambda>_ _. retE ()), rpReceiveCottageKey = (\<lambda>_ _. retE ()), rpReturnCottageKey = (\<lambda>_ _. retE ())\<rparr>,
     wsCleaningService = Some playCleaning, wsClockClient = Some \<lparr>clockNow = retE (Some playTime)\<rparr>,
     wsNotificationService = Some playNotification, wsTimeEventService = Some playTimeEvents\<rparr>"

abbreviation answered :: "systemRequest \<Rightarrow> guestResponse \<Rightarrow> guestResponse \<Rightarrow> sessionCall" where
  "answered q t r \<equiv> SRequest q (Some t) (Inr (guestMsg ''x'' (PGuestResponse r)))"

definition playArrival :: "sessionCall list" where
  "playArrival = [SUpgrade (Inr ()), said SHOW_FOR_CHECKIN, SNow (Inr (Some playTime)),
     answered REQUEST_DOCUMENT (ShowDocument None) (ShowDocument (Some ''D1'')), SNotify BOOKING_CHECKING (Inr ()),
     SCheckIn ''D1'' playTime (Inr playBooking), SNotify CHECK_IN_COMPLETE (Inr ()),
     answered GIVE_COTTAGE_KEY (ReceiveCottageKey None) (ReceiveCottageKey (Some ''K1'')), said TAKE_COTTAGE_KEY,
     SReceiveKey ''c1'' ''K1'' (Inr ())]"

definition playStay :: "sessionCall list" where
  "playStay = [SRegister, said ENTER_COTTAGE, said GO_FOR_A_BATH, SHour 18 (MealTimer playTime), SNotify DINNER_READY (Inr ()),
     SHour 18 (MealTimer playTime), SNotify DINNER_READY (Inr ()), said GO_FOR_DINNER,
     SClean \<lparr>RoomName = ''c1'', RequestType = PrepareForSleep\<rparr> (Inr ()), said GO_TO_SLEEP, SNow (Inr (Some playTime)),
     said WAKEUP, said LEAVE_COTTAGE, SUnregister]"

definition playDeparture :: "sessionCall list" where
  "playDeparture = [SNow (Inr (Some playTime)), said PROCEED_TO_CHECKOUT,
     answered REQUEST_COTTAGE_KEY (ReturnCottageKey None) (ReturnCottageKey (Some ''K1'')), said RETURN_COTTAGE_KEY,
     SReturnKey ''c1'' ''K1'' (Inr ())]"

abbreviation playSession :: "(unit \<times> sessionCall list, wsOutcome) io" where
  "playSession \<equiv> recordedSession (retE ()) (\<lambda>_. retE ()) (\<lambda>_. playReader) (\<lambda>_. playWriter) playWs"

lemma play_run:
  "playSession ((), []) = Some (Inr (SessionOver None), ((), (playArrival @ playStay @ playDeparture) @
     SCheckOut playBooking playTime (Inr ()) # [SNotify CHECK_OUT_COMPLETE (Inr ()), SClose (Inr ())]))"
  by code_simp

section \<open>The cleanings of a session\<close>

fun plannedOrders :: "phase \<Rightarrow> string set" where
  "plannedOrders (StDo b is k) = {ty. Order ty \<in> set is}"
| "plannedOrders (StMeal b n lbl is k) = {ty. Order ty \<in> set is}"
| "plannedOrders _ = {}"

definition houseOrders :: "string set" where
  "houseOrders = {DailyCleaning, PrepareForSleep}"

lemma plannedOrders_days [simp]:
  "plannedOrders (StDo b arrivalDay k) \<subseteq> houseOrders" "plannedOrders (StDo b fullDay k) \<subseteq> houseOrders"
  "plannedOrders (StDo b departureDay k) \<subseteq> houseOrders"
  by (auto simp: arrivalDay_def fullDay_def departureDay_def evening_def houseOrders_def)

lemma plannedOrders_waits [simp]:
  "plannedOrders (afterClock b r) \<subseteq> houseOrders" "plannedOrders (afterDay b ev) \<subseteq> houseOrders"
  by (simp_all add: afterClock_def afterDay_def del: plannedOrders.simps(1) split: dayEvent.split)

lemma plannedOrders_step:
  "lodging p c q \<Longrightarrow> plannedOrders p \<subseteq> houseOrders \<Longrightarrow>
     plannedOrders q \<subseteq> houseOrders \<and> (\<forall>ord r. c = SClean ord r \<longrightarrow> RequestType ord \<in> houseOrders)"
proof (induction rule: lodging.induct)
  case (st_register b)
  then show ?case using plannedOrders_days(1) by blast
qed (auto simp: orFail_def orStop_def NewCleaningOrder_eq
    simp del: plannedOrders_waits
    dest: subsetD [OF plannedOrders_waits(1)] subsetD [OF plannedOrders_waits(2)]
    split: sum.splits mealSelect.splits tickEvent.splits if_splits)

lemma orders_path:
  "path lodging Opening l q \<Longrightarrow> plannedOrders q \<subseteq> houseOrders \<and>
     (\<forall>ord r. SClean ord r \<in> set l \<longrightarrow> RequestType ord \<in> houseOrders)"
proof (induction rule: path_forward)
  case init
  then show ?case by simp
next
  case (step acc a c b)
  from step plannedOrders_step [of a c b] show ?case by auto
qed

section \<open>Properties\<close>

text \<open>C8: every session follows the lodging protocol: whatever the collaborators, the guest and the
  scheduler do, the calls of a session are a path of the protocol, and its outcome is the one of
  the phase the path ends in. A failed call ends the session at once, and the last call of an
  opened session closes the connection. The session itself orders only daily cleanings and preparations
  for the night, never a full cleaning: the protocol is the code's, and the tests disagree with it,
  since \<open>stay_handler_test.go\<close>, line 331, and \<open>lodging_chat_integration_test.go\<close>, lines 144-150,
  expect the full cleaning in the middle of a stay.\<close>

theorem session_follows_protocol:
  assumes "recordedSession upgrade close rd wr w (s, []) = Some (r, (s', l))"
  shows "(\<exists>out q. r = Inr out \<and> path lodging Opening l q \<and> outcomePhase out q) \<and>
    (\<forall>ord res. SClean ord res \<in> set l \<longrightarrow> RequestType ord \<in> {DailyCleaning, PrepareForSleep})"
proof -
  from runsD [OF runs_wsHandle assms] obtain out q where
    "r = Inr out" "path lodging Opening l q" "outcomePhase out q" by (metis append_Nil)
  with orders_path show ?thesis unfolding houseOrders_def by blast
qed

theorem session_follows_protocol_witness:
  "\<exists>out q. (Inr (SessionOver None) :: gerr + wsOutcome) = Inr out \<and>
     path lodging Opening ((playArrival @ playStay @ playDeparture) @
       SCheckOut playBooking playTime (Inr ()) # [SNotify CHECK_OUT_COMPLETE (Inr ()), SClose (Inr ())]) q \<and> outcomePhase out q"
  using session_follows_protocol [OF play_run] by (rule conjunct1)

text \<open>C9: a session checks out only a booking it checked in itself, whose key it handed over under the
  number the guest reported, once it has seen the day of the check-out or a later one, and after
  the key the guest reported was recorded as returned for the same cottage.\<close>

theorem checkout_only_when_settled:
  assumes "recordedSession upgrade close rd wr w (s, []) = Some (r, (s', pre @ SCheckOut b t res # post))"
  shows "settled pre b"
proof -
  from runsD [OF runs_wsHandle assms] obtain q where "path lodging Opening (pre @ SCheckOut b t res # post) q"
    by (metis append_Nil)
  then obtain a a' where a: "path lodging Opening pre a" "lodging a (SCheckOut b t res) a'" by (auto simp: path_at)
  from a(2) have "a = CoRelease b (Some t)" by (cases rule: checkout_step) simp_all
  with known_path [OF a(1)] show ?thesis by simp
qed

theorem checkout_only_when_settled_witness:
  "settled (playArrival @ playStay @ playDeparture) playBooking"
  by (rule checkout_only_when_settled [OF play_run])

text \<open>C10: a session that is over has given back every subscription to day changes it took, however it
  ended, and at no moment held more than one.\<close>

theorem subscription_balanced:
  assumes "recordedSession upgrade close rd wr w (s, []) = Some (r, (s', l))"
  shows "subscriptions l = 0 \<and> (\<forall>k. 0 \<le> subscriptions (take k l) \<and> subscriptions (take k l) \<le> 1)"
proof -
  from runsD [OF runs_wsHandle assms] obtain q out where q: "path lodging Opening l q" "outcomePhase out q"
    by (metis append_Nil)
  have "\<not> inStay q" using q(2) by (cases out) (auto simp: outcomePhase_def)
  moreover have "\<exists>a. path lodging Opening (take k l) a" for k
    using q(1) path_append [of lodging Opening "take k l" "drop k l"] by auto
  ultimately show ?thesis using subscriptions_path [OF q(1)] subscriptions_path by (metis order_refl zero_le_one)
qed

theorem subscription_balanced_witness:
  "subscriptions ((playArrival @ playStay @ playDeparture) @
     SCheckOut playBooking playTime (Inr ()) # [SNotify CHECK_OUT_COMPLETE (Inr ()), SClose (Inr ())]) = 0"
  using subscription_balanced [OF play_run] by blast

end
