(* ===== verification/HttpGuest.thy ===== *)
theory HttpGuest
  imports FrontDesk
begin

text \<open>
  \<open>internal/transport/http\<close>: the routes for guests and the probes. What gin and the driver do
  before a handler can use a request (binding the URI and the JSON body, reading a hexadecimal
  identifier, generating one) are parameters; a handler returns the status and the body it
  writes, and makes no other reply.
\<close>

section \<open>The handlers\<close>

datatype httpBody =
    BodyNone | BodyError gerr | BodyText string | BodyGuest guestDto | BodyId objectID | BodyBookings "bookingDto list"

type_synonym httpReply = "nat \<times> httpBody"

record 's guestHandler =
  ghService :: "'s guestService"
  ghClockClient :: "'s clockClient option"

definition NewGuestHandler :: "'s guestService \<Rightarrow> 's clockClient option \<Rightarrow> 's guestHandler" where
  "NewGuestHandler service clock = \<lparr>ghService = service, ghClockClient = clock\<rparr>"

lemma NewGuestHandler_sel [simp]:
  "ghService (NewGuestHandler service clock) = service" "ghClockClient (NewGuestHandler service clock) = clock"
  by (simp_all add: NewGuestHandler_def)

text \<open>\<open>uri\<close> is the outcome of \<open>ShouldBindUri\<close>, \<open>fromHex\<close> is \<open>bson.ObjectIDFromHex\<close>.\<close>

definition getGuest ::
  "(string \<Rightarrow> gerr + objectID) \<Rightarrow> 's guestHandler \<Rightarrow> gerr + string \<Rightarrow> ('s, httpReply) io" where
  "getGuest fromHex h uri = (case uri of
     Inl err \<Rightarrow> retE (400, BodyError err)
   | Inr guestIdUri \<Rightarrow> (case fromHex guestIdUri of
       Inl err \<Rightarrow> retE (400, BodyError err)
     | Inr guestId \<Rightarrow> bindE (attemptE (gsGetById (ghService h) guestId)) (\<lambda>res. case res of
         Inl err \<Rightarrow> retE (404, BodyError err)
       | Inr guest \<Rightarrow> retE (200, BodyGuest (guestToDto guest)))))"

text \<open>\<open>json\<close> is the outcome of \<open>ShouldBindJSON\<close>, \<open>newId\<close> is \<open>bson.NewObjectID\<close>.\<close>

definition addGuest ::
  "('s \<Rightarrow> objectID \<times> 's) \<Rightarrow> 's guestHandler \<Rightarrow> gerr + guestDto \<Rightarrow> ('s, httpReply) io" where
  "addGuest newId h json = (case json of
     Inl err \<Rightarrow> retE (400, BodyError err)
   | Inr guestRequest \<Rightarrow> (case ghClockClient h of None \<Rightarrow> failE nilDereference
     | Some clock \<Rightarrow> bindE (attemptE (clockNow clock)) (\<lambda>res. case res of
         Inl err \<Rightarrow> retE (500, BodyText ''failed to get clock time'')
       | Inr createdTime \<Rightarrow> (\<lambda>s. case newId s of (fresh, s1) \<Rightarrow>
           (case NewGuest fresh (toDocumentId guestRequest) (toGivenNames guestRequest) (toSurname guestRequest)
                (toEmail guestRequest) (toBillingAddress guestRequest) createdTime None of
              Inl err \<Rightarrow> retE (400, BodyError err)
            | Inr guest \<Rightarrow> bindE (attemptE (gsAdd (ghService h) guest)) (\<lambda>res. case res of
                Inl err \<Rightarrow> retE (500, BodyError err)
              | Inr i \<Rightarrow> retE (201, BodyId i))) s1))))"

definition updateGuest ::
  "(string \<Rightarrow> gerr + objectID) \<Rightarrow> 's guestHandler \<Rightarrow> gerr + string \<Rightarrow> gerr + guestDto \<Rightarrow> ('s, httpReply) io" where
  "updateGuest fromHex h uri json = (case uri of
     Inl err \<Rightarrow> retE (400, BodyError err)
   | Inr guestIdUri \<Rightarrow> (case json of
       Inl err \<Rightarrow> retE (400, BodyError err)
     | Inr updatedRequest \<Rightarrow> (case fromHex guestIdUri of
         Inl err \<Rightarrow> retE (400, BodyError err)
       | Inr targetGuestId \<Rightarrow> (case ghClockClient h of None \<Rightarrow> failE nilDereference
         | Some clock \<Rightarrow> bindE (attemptE (clockNow clock)) (\<lambda>res. case res of
             Inl err \<Rightarrow> retE (500, BodyText ''failed to get clock time'')
           | Inr createdTime \<Rightarrow>
               let initialCreatedAt = (if toCreatedAt updatedRequest = None then createdTime else toCreatedAt updatedRequest) in
               (case NewGuest targetGuestId (toDocumentId updatedRequest) (toGivenNames updatedRequest)
                    (toSurname updatedRequest) (toEmail updatedRequest) (toBillingAddress updatedRequest)
                    initialCreatedAt createdTime of
                  Inl err \<Rightarrow> retE (400, BodyError err)
                | Inr updatedGuest \<Rightarrow> bindE (attemptE (gsUpdate (ghService h) targetGuestId updatedGuest)) (\<lambda>res. case res of
                    Inl err \<Rightarrow> retE (500, BodyError err)
                  | Inr resultedGuest \<Rightarrow> retE (200, BodyGuest (guestToDto resultedGuest)))))))))"

fun bookingDtosFrom :: "bookingDto list \<Rightarrow> booking list \<Rightarrow> bookingDto list" where
  "bookingDtosFrom bookingsDto [] = bookingsDto"
| "bookingDtosFrom bookingsDto (b # bs) = bookingDtosFrom (bookingsDto @ [bookingToDto b]) bs"

definition getBookings ::
  "(string \<Rightarrow> gerr + objectID) \<Rightarrow> 's guestHandler \<Rightarrow> gerr + string \<Rightarrow> ('s, httpReply) io" where
  "getBookings fromHex h uri = (case uri of
     Inl err \<Rightarrow> retE (400, BodyError err)
   | Inr guestIdUri \<Rightarrow> (case fromHex guestIdUri of
       Inl err \<Rightarrow> retE (400, BodyError err)
     | Inr guestId \<Rightarrow> bindE (attemptE (gsGetBookings (ghService h) guestId)) (\<lambda>res. case res of
         Inl err \<Rightarrow> retE (404, BodyError err)
       | Inr bookings \<Rightarrow> retE (200, BodyBookings (bookingDtosFrom [] bookings)))))"

text \<open>The probes over the clients of the database, the broker and the cache.\<close>

definition probeHeath :: "('s, httpReply) io" where
  "probeHeath = retE (200, BodyNone)"

definition probeReady :: "('s, unit) io \<Rightarrow> ('s, bool) io \<Rightarrow> ('s, unit) io \<Rightarrow> ('s, httpReply) io" where
  "probeReady mongoPing isConnectionOpen redisPing =
     bindE (attemptE mongoPing) (\<lambda>r1. case r1 of
       Inl err \<Rightarrow> retE (503, BodyNone)
     | Inr _ \<Rightarrow> bindE isConnectionOpen (\<lambda>isOpen. if \<not> isOpen then retE (503, BodyNone)
         else bindE (attemptE redisPing) (\<lambda>r2. case r2 of
           Inl err \<Rightarrow> retE (503, BodyNone)
         | Inr _ \<Rightarrow> retE (200, BodyNone))))"

section \<open>Lemmas\<close>

lemma bookingDtosFrom_eq: "bookingDtosFrom acc bs = acc @ map bookingToDto bs"
  by (induction bs arbitrary: acc) simp_all

text \<open>
  What BSON keeps of an instant: the milliseconds since 1970, which the driver reads back as a time in UTC;
  and a collection that returns an inserted document so, as documented by the driver.
\<close>

definition bsonTime :: "gotime \<Rightarrow> gotime" where
  "bsonTime t = \<lparr>nsec = nsec t div 1000000 * 1000000, loc = None\<rparr>"

definition storedGuest :: "guestDoc \<Rightarrow> guestDoc" where
  "storedGuest d = d\<lparr>dgCreatedAt := map_option bsonTime (dgCreatedAt d), dgLastUpdate := map_option bsonTime (dgLastUpdate d)\<rparr>"

definition keepsInserted :: "('s, guestDoc) collection \<Rightarrow> bool" where
  "keepsInserted c \<longleftrightarrow> (\<forall>d s i s'. colInsertOne c d s = Some (Inr i, s') \<longrightarrow>
     i = dgId d \<and> colFindOne c [(''_id'', BId i)] s' = Some (Inr (storedGuest d), s'))"

lemma NewGuest_sel:
  assumes "NewGuest i doc given sur email addr created updated = Inr g"
  shows "g = \<lparr>gId = i, gDocumentId = doc, gGivenNames = given, gSurname = sur, gEmail = email,
    gBillingAddress = addr, gCreatedAt = created, gLastUpdate = updated\<rparr>"
  using assms by (auto simp: NewGuest_def validated_def split: stepResult.splits)

lemma created_in_fields:
  assumes "guestUpdateFields e u = (m, e')" and "dgCreatedAt e = Some c" and "dgCreatedAt u = Some t" and "\<not> timeEqual t c"
  shows "(''created_at'', BTime t) \<in> set m"
  using assms by (auto simp: guestUpdateFields_def setTimePointerIfChanged_def split: prod.splits option.splits if_splits)

abbreviation guestRoutes :: "('s, guestDoc) collection \<Rightarrow> 's bookingRepo \<Rightarrow> 's clockClient option \<Rightarrow> 's guestHandler" where
  "guestRoutes c br clock \<equiv> NewGuestHandler (newGuestService (newGuestRepo c) br) clock"

text \<open>A collection of at most one document, a clock and a request to play with.\<close>

definition oneGuest :: "(guestDoc option, guestDoc) collection" where
  "oneGuest = \<lparr>colFindOne = (\<lambda>f s. case s of None \<Rightarrow> Some (Inl (Sentinel SErrNoDocuments), s)
       | Some d \<Rightarrow> if f = [(''_id'', BId (dgId d))] then Some (Inr d, s) else Some (Inl (Sentinel SErrNoDocuments), s)),
     colFind = (\<lambda>_. retE 0), colAll = (\<lambda>_. retE []), colInsertOne = (\<lambda>d _. Some (Inr (dgId d), Some (storedGuest d))),
     colUpdateOne = (\<lambda>_ _. retE 1)\<rparr>"

lemma oneGuest_keeps: "keepsInserted oneGuest"
  by (simp add: keepsInserted_def oneGuest_def storedGuest_def)

definition hourClock :: "'s clockClient" where
  "hourClock = \<lparr>clockNow = retE (Some \<lparr>nsec = 3600000123456, loc = None\<rparr>)\<rparr>"

definition sampleRequest :: guestDto where
  "sampleRequest = \<lparr>toDocumentId = ''D1'', toGivenNames = ''Ada'', toSurname = ''Byron'', toEmail = ''ada@mail.org'',
     toBillingAddress = ''Street 1'', toCreatedAt = Some \<lparr>nsec = 0, loc = None\<rparr>, toLastUpdate = None\<rparr>"

definition noBookings :: "'s bookingRepo" where
  "noBookings = \<lparr>brFindByGuestId = (\<lambda>_. retE []), brFindByCheckInDate = (\<lambda>_. retE []),
     brFindByGuestIdAndCheckIn = (\<lambda>_ _. failE (Sentinel SErrNoDocuments)),
     brFindByGuestIdAndBookingNumber = (\<lambda>_ _. failE (Sentinel SErrNoDocuments)), brUpdateStatus = (\<lambda>_ _. retE ())\<rparr>"

lemma sample_post:
  "addGuest (\<lambda>s. (7, s)) (guestRoutes oneGuest noBookings (Some hourClock)) (Inr sampleRequest) None =
     Some (Inr (201, BodyId 7), Some \<lparr>dgId = 7, dgDocumentId = ''D1'', dgGivenNames = ''Ada'', dgSurname = ''Byron'',
       dgEmail = ''ada@mail.org'', dgBillingAddress = ''Street 1'',
       dgCreatedAt = Some \<lparr>nsec = 3600000000000, loc = None\<rparr>, dgLastUpdate = None\<rparr>)"
  by code_simp

section \<open>Properties\<close>

text \<open>C27: a guest registered with POST is the guest GET returns under the identifier of the reply: the
  fields are those of the request, the creation time is the one the clock showed when the request was
  handled, to the millisecond and in UTC, whatever the request says, and there is no update time.\<close>

theorem post_then_get:
  assumes "keepsInserted c"
    and "addGuest newId (guestRoutes c br clock) (Inr req) s = Some (Inr (201, BodyId i), s')"
    and "fromHex uri = Inr i"
  shows "\<exists>k t s1. clock = Some k \<and> clockNow k s = Some (Inr (Some t), s1) \<and>
    getGuest fromHex (guestRoutes c br clock) (Inr uri) s' =
      Some (Inr (200, BodyGuest (req\<lparr>toCreatedAt := Some (bsonTime t), toLastUpdate := None\<rparr>)), s')"
proof -
  from assms(2) obtain k where k: "clock = Some k" by (cases clock) (auto simp: addGuest_def)
  with assms(2) obtain x s1 where x: "clockNow k s = Some (x, s1)"
    by (cases "clockNow k s") (auto simp: addGuest_def bindE_def attemptE_def)
  with assms(2) k obtain created where created: "x = Inr created"
    by (cases x) (auto simp: addGuest_def bindE_def attemptE_def)
  obtain fresh s2 where f: "newId s1 = (fresh, s2)" by fastforce
  let ?new = "NewGuest fresh (toDocumentId req) (toGivenNames req) (toSurname req) (toEmail req) (toBillingAddress req) created None"
  from assms(2) k x created f obtain g where g: "?new = Inr g"
    by (cases ?new) (auto simp: addGuest_def bindE_def attemptE_def)
  with assms(2) k x created f obtain y s3 where y: "guestServiceAdd (newGuestRepo c) g s2 = Some (y, s3)"
    by (cases "guestServiceAdd (newGuestRepo c) g s2") (auto simp: addGuest_def bindE_def attemptE_def newGuestService_def)
  with assms(2) k x created f g have add: "guestServiceAdd (newGuestRepo c) g s2 = Some (Inr i, s')"
    by (cases y) (auto simp: addGuest_def bindE_def attemptE_def newGuestService_def)
  from add have ins: "colInsertOne c (guestToMongoDoc g) s2 = Some (Inr i, s')"
    by (auto simp: guestServiceAdd_def newGuestRepo_def guestRepoAdd_def bindE_Some_Inr)
  with assms(1) have i: "i = gId g" and find: "colFindOne c [(''_id'', BId i)] s' = Some (Inr (storedGuest (guestToMongoDoc g)), s')"
    unfolding keepsInserted_def by (fastforce simp: guestToMongoDoc_def)+
  from g obtain t where t: "created = Some t" by (auto simp: NewGuest_Inr_iff)
  let ?stored = "\<lparr>gId = i, gDocumentId = toDocumentId req, gGivenNames = toGivenNames req, gSurname = toSurname req,
      gEmail = toEmail req, gBillingAddress = toBillingAddress req, gCreatedAt = Some (bsonTime t), gLastUpdate = None\<rparr>"
  have gsel: "g = ?stored\<lparr>gCreatedAt := Some t\<rparr>" using NewGuest_sel [OF g] i t by simp
  have new: "NewGuest i (toDocumentId req) (toGivenNames req) (toSurname req) (toEmail req) (toBillingAddress req) (Some (bsonTime t)) None =
      Inr ?stored"
    using g gsel by (auto simp: NewGuest_Inr_iff)
  have "colFindOne c [(''_id'', BId i)] s' = Some (Inr (guestToMongoDoc ?stored), s')"
    using find by (simp add: gsel storedGuest_def guestToMongoDoc_def)
  from guest_roundtrip [OF new this] assms(3) k x created t show ?thesis
    by (cases req) (auto simp: getGuest_def newGuestService_def bindE_def attemptE_def guestToDto_def)
qed

text \<open>The request claims to have been created in 1970; the clock shows one o'clock and a fraction of a millisecond.\<close>

theorem post_then_get_witness:
  "\<exists>k t s1. Some hourClock = Some (k :: guestDoc option clockClient) \<and>
    clockNow k None = Some (Inr (Some t), s1) \<and>
    getGuest (\<lambda>_. Inr 7) (guestRoutes oneGuest noBookings (Some hourClock)) (Inr ''07'')
       (Some \<lparr>dgId = 7, dgDocumentId = ''D1'', dgGivenNames = ''Ada'', dgSurname = ''Byron'',
       dgEmail = ''ada@mail.org'', dgBillingAddress = ''Street 1'',
       dgCreatedAt = Some \<lparr>nsec = 3600000000000, loc = None\<rparr>, dgLastUpdate = None\<rparr>) =
    Some (Inr (200, BodyGuest (sampleRequest\<lparr>toCreatedAt := Some (bsonTime t), toLastUpdate := None\<rparr>)),
      Some \<lparr>dgId = 7, dgDocumentId = ''D1'', dgGivenNames = ''Ada'', dgSurname = ''Byron'',
       dgEmail = ''ada@mail.org'', dgBillingAddress = ''Street 1'',
       dgCreatedAt = Some \<lparr>nsec = 3600000000000, loc = None\<rparr>, dgLastUpdate = None\<rparr>)"
  by (rule post_then_get [OF oneGuest_keeps sample_post]) simp

text \<open>A PATCH whose body has no creation time replaces the stored one: the update sent to the
  collection sets it to the clock's time, and so does the reply, when the document had another
  creation time.\<close>

lemma patch_replaces_created_at:
  assumes run: "updateGuest fromHex (guestRoutes c br (Some k)) (Inr uri) (Inr req) s = Some (Inr (200, BodyGuest dto), s')"
    and "toCreatedAt req = None" and "fromHex uri = Inr i" and "clockNow k s = Some (Inr (Some t), s1)"
    and "colFindOne c [(''_id'', BId i)] s1 = Some (Inr e, s2)"
    and "dgCreatedAt e = Some u" and "\<not> timeEqual t u"
  shows "\<exists>m n. colUpdateOne c [(''_id'', BId i)] [(''$set'', BDoc m)] s2 = Some (Inr n, s') \<and>
    (''created_at'', BTime t) \<in> set m \<and> toCreatedAt dto = Some t"
proof -
  let ?new = "NewGuest i (toDocumentId req) (toGivenNames req) (toSurname req) (toEmail req) (toBillingAddress req) (Some t) (Some t)"
  from run assms(2-4) obtain g where g: "?new = Inr g"
    by (cases ?new) (auto simp: updateGuest_def bindE_def attemptE_def)
  with run assms(2-4) obtain y s3 where y: "guestServiceUpdate (newGuestRepo c) i g s1 = Some (y, s3)"
    by (cases "guestServiceUpdate (newGuestRepo c) i g s1")
      (auto simp: updateGuest_def bindE_def attemptE_def newGuestService_def)
  with run assms(2-4) g obtain r where upd: "guestServiceUpdate (newGuestRepo c) i g s1 = Some (Inr r, s')"
    and dto: "dto = guestToDto r"
    by (cases y) (auto simp: updateGuest_def bindE_def attemptE_def newGuestService_def)
  let ?u = "guestToMongoDoc g"
  from upd obtain d where d: "guestRepoUpdate c i ?u s1 = Some (Inr d, s')"
    and m: "mapGuestDoc ''guestService.Update(%s): mapping to domain: %w'' [FId i] d = Inr r"
    by (auto simp: guestServiceUpdate_def newGuestRepo_def bindE_Some_Inr)
  obtain m e' where f: "guestUpdateFields e ?u = (m, e')" by fastforce
  have created: "(''created_at'', BTime t) \<in> set m"
    using created_in_fields [OF f assms(6) _ assms(7)] NewGuest_sel [OF g] by (simp add: guestToMongoDoc_def)
  then have "m \<noteq> []" by auto
  with d f assms(5) obtain n where n: "colUpdateOne c [(''_id'', BId i)] [(''$set'', BDoc m)] s2 = Some (Inr n, s')" "d = ?u"
    by (auto simp: guestRepoUpdate_def bindE_Some_Inr)
  have "toCreatedAt dto = Some t"
    using m n(2) NewGuest_sel [OF g] by (auto simp: dto mapGuestDoc_eq NewGuest_Inr_iff guestToMongoDoc_def guestToDto_def)
  with created n show ?thesis by blast
qed

end
