(* ===== verification/Program.thy ===== *)
theory Program
  imports Infra Session HttpGuest
begin

text \<open>
  How the program is put together, started and stopped: the services over their dependencies
  (\<open>internal/app/init.go\<close> and the constructors it calls), the configuration and the telemetry, and
  \<open>internal/main.go\<close>. A constructor that fails returns an error, a nil dependency panics in
  \<open>reflect\<close>, and \<open>os.Exit\<close> ends the process without running deferred calls: the three are kept
  apart.
\<close>

section \<open>Services\<close>

text \<open>An interface value: nil, an interface that holds a nil pointer, or one that holds an object.\<close>

datatype 'a iface = NilIface | NilPtr | Ref 'a

definition reflectIface :: "'a iface \<Rightarrow> reflected" where
  "reflectIface i = (case i of NilIface \<Rightarrow> RInvalid | NilPtr \<Rightarrow> RZero | Ref _ \<Rightarrow> RNonZero)"

datatype 'a built = Built 'a | BuildErr gerr | BuildPanic

definition bindB :: "'a built \<Rightarrow> ('a \<Rightarrow> 'b built) \<Rightarrow> 'b built" where
  "bindB m f = (case m of Built x \<Rightarrow> f x | BuildErr e \<Rightarrow> BuildErr e | BuildPanic \<Rightarrow> BuildPanic)"

text \<open>The value of an interface that has passed the validation.\<close>

definition valB :: "'a iface \<Rightarrow> 'a built" where
  "valB i = (case i of Ref x \<Rightarrow> Built x | _ \<Rightarrow> BuildPanic)"

definition checked :: "(gerr \<Rightarrow> gerr) \<Rightarrow> validator \<Rightarrow> 'a built \<Rightarrow> 'a built" where
  "checked wrap v x = (case Validate v of StepErr err \<Rightarrow> BuildErr (wrap err) | StepPanic \<Rightarrow> BuildPanic | StepOk \<Rightarrow> x)"

definition NewGuestService :: "'s guestRepo iface \<Rightarrow> 's bookingRepo iface \<Rightarrow> 's guestService built" where
  "NewGuestService guestRepo bookingRepo = checked (Wrapf ''NewGuestService: %w'' [])
     (NotZeroValue ''bookingRepo'' (reflectIface bookingRepo)
     (NotZeroValue ''guestRepo'' (reflectIface guestRepo) newValidator))
     (bindB (valB guestRepo) (\<lambda>g. bindB (valB bookingRepo) (\<lambda>b. Built (newGuestService g b))))"

definition NewCleaningService :: "'s mqPublisher iface \<Rightarrow> 's cleaningService built" where
  "NewCleaningService publisher = checked (Wrapf ''NewCleaningService: %w'' [])
     (NotZeroValue ''publisher'' (reflectIface publisher) newValidator)
     (bindB (valB publisher) (\<lambda>p. Built (newCleaningService p)))"

definition NewReceptionService ::
  "'s guestService iface \<Rightarrow> 's cleaningService iface \<Rightarrow> 's cottageRepo iface \<Rightarrow> 's bookingRepo iface \<Rightarrow>
   'c iface \<Rightarrow> 's cachePort iface \<Rightarrow> 's receptionService built" where
  "NewReceptionService guestService cleaningService cottageRepo bookingRepo clockEventConsumer cache =
     checked (Wrapf ''NewReceptionService: %w'' [])
     (NotZeroValue ''cache'' (reflectIface cache)
     (NotZeroValue ''clockEventConsumer'' (reflectIface clockEventConsumer)
     (NotZeroValue ''bookingRepo'' (reflectIface bookingRepo)
     (NotZeroValue ''cottageRepo'' (reflectIface cottageRepo)
     (NotZeroValue ''cleaningService'' (reflectIface cleaningService)
     (NotZeroValue ''guestService'' (reflectIface guestService) newValidator))))))
     (bindB (valB guestService) (\<lambda>g. bindB (valB cleaningService) (\<lambda>cs. bindB (valB cottageRepo) (\<lambda>ct.
      bindB (valB bookingRepo) (\<lambda>b. bindB (valB cache) (\<lambda>ca. Built (newReceptionService g cs ct b ca)))))))"

record 's notificationService =
  nsTimeEventService :: timeEventService
  nsCache :: "'s cachePort"

definition NewNotificationService :: "timeEventService iface \<Rightarrow> 's cachePort iface \<Rightarrow> 's notificationService built" where
  "NewNotificationService timeEvents cache =
     (case timeEvents of NilIface \<Rightarrow> BuildErr (Errorf ''NewNotificationService: timeEventService is required'' [])
      | _ \<Rightarrow> case cache of NilIface \<Rightarrow> BuildErr (Errorf ''NewNotificationService: cache is required'' [])
      | _ \<Rightarrow> checked (Wrapf ''NewNotificationService: %w'' [])
          (NotZeroValue ''cache'' (reflectIface cache)
          (NotZeroValue ''timeEventService'' (reflectIface timeEvents) newValidator))
          (bindB (valB timeEvents) (\<lambda>t. bindB (valB cache) (\<lambda>ca. Built \<lparr>nsTimeEventService = t, nsCache = ca\<rparr>))))"

definition NewArrangeCottageService ::
  "'s bookingRepo iface \<Rightarrow> timeEventService iface \<Rightarrow> 's cachePort iface \<Rightarrow> 's mqPublisher iface \<Rightarrow> 's arrangeService built" where
  "NewArrangeCottageService bookingRepo timeEvents cache guestCommunicationPublisher =
     checked (Wrapf ''NewArrangeCottageService: %w'' [])
     (NotZeroValue ''guestCommunicationPublisher'' (reflectIface guestCommunicationPublisher)
     (NotZeroValue ''cache'' (reflectIface cache)
     (NotZeroValue ''timeEventService'' (reflectIface timeEvents)
     (NotZeroValue ''bookingRepo'' (reflectIface bookingRepo) newValidator))))
     (bindB (valB bookingRepo) (\<lambda>b. bindB (valB cache) (\<lambda>ca. bindB (valB guestCommunicationPublisher) (\<lambda>p.
        Built \<lparr>asBookingRepo = b, asCache = ca, asPublisher = p\<rparr>))))"

record ('s, 'c) dependencies =
  dpGuestRepo :: "'s guestRepo iface"
  dpBookingRepo :: "'s bookingRepo iface"
  dpCottageRepo :: "'s cottageRepo iface"
  dpCleaningPublisher :: "'s mqPublisher iface"
  dpGuestCommunicationPub :: "'s mqPublisher iface"
  dpHourChangeConsumer :: "'c iface"
  dpDayChangeConsumer :: "'c iface"
  dpCache :: "'s cachePort iface"

record 's services =
  svGuest :: "'s guestService"
  svCleaning :: "'s cleaningService"
  svReception :: "'s receptionService"
  svTimeEvents :: timeEventService
  svNotification :: "'s notificationService"
  svArrange :: "'s arrangeService"

text \<open>The goroutines the program starts: they begin to run, their work is interleaved with the rest.\<close>

datatype goroutine = GoTimeEventsStart | GoArrangeCheckIn | GoShutdownWatcher

text \<open>
  \<open>NewServices\<close> returns the outcome and the goroutines started before it, in order: the first is
  started before the other services are built. The services hold the time event service by
  reference; the record has it as it is when it is built.
\<close>

definition NewServices :: "('s, 'c) dependencies \<Rightarrow> 's services built \<times> goroutine list" where
  "NewServices deps =
     (case NewTimeEventService (reflectIface (dpHourChangeConsumer deps)) (reflectIface (dpDayChangeConsumer deps)) of
       StepErr err \<Rightarrow> (BuildErr err, [])
     | StepPanic \<Rightarrow> (BuildPanic, [])
     | StepOk \<Rightarrow> (let timeEvents = newTimeEventService in
         (case bindB (NewCleaningService (dpCleaningPublisher deps)) (\<lambda>cleaning.
             bindB (NewGuestService (dpGuestRepo deps) (dpBookingRepo deps)) (\<lambda>guest.
             bindB (NewReceptionService (Ref guest) (Ref cleaning) (dpCottageRepo deps) (dpBookingRepo deps)
               (dpDayChangeConsumer deps) (dpCache deps)) (\<lambda>reception.
             bindB (NewNotificationService (Ref timeEvents) (dpCache deps)) (\<lambda>notification.
             bindB (NewArrangeCottageService (dpBookingRepo deps) (Ref timeEvents) (dpCache deps)
               (dpGuestCommunicationPub deps)) (\<lambda>arrange.
             Built \<lparr>svGuest = guest, svCleaning = cleaning, svReception = reception, svTimeEvents = timeEvents,
               svNotification = notification, svArrange = arrange\<rparr>))))) of
           Built services \<Rightarrow> (Built services, [GoTimeEventsStart, GoArrangeCheckIn])
         | r \<Rightarrow> (r, [GoTimeEventsStart]))))"

section \<open>Routes\<close>

datatype routeTarget = RGetGuest | RGetBookings | RAddGuest | RUpdateGuest | RNilHandler | RLodgingChat | RHeath | RReady

definition routes :: "(string \<times> string \<times> routeTarget) list" where
  "routes = [(''GET'', ''/guest/:userId'', RGetGuest), (''GET'', ''/guest/:userId/bookings'', RGetBookings),
     (''POST'', ''/guest'', RAddGuest), (''PATCH'', ''/guest/:userId'', RUpdateGuest),
     (''POST'', ''/consume/:roomNumber/item/:itemName'', RNilHandler), (''GET'', ''/lodging/chat'', RLodgingChat),
     (''GET'', ''/healthz'', RHeath), (''GET'', ''/readyz'', RReady)]"

record 's probeHandler =
  phMongoPing :: "('s, unit) io"
  phIsConnectionOpen :: "('s, bool) io"
  phRedisPing :: "('s, unit) io"

record 's router =
  roRoutes :: "(string \<times> string \<times> routeTarget) list"
  roGuestHandler :: "'s guestHandler"
  roWebsocket :: "'s ws"
  roProbeHandler :: "'s probeHandler"

definition NewWebsocket ::
  "'s receptionPort option \<Rightarrow> 's cleaningService option \<Rightarrow> 's clockClient option \<Rightarrow> 's notificationPort option \<Rightarrow>
   's timeEventPort option \<Rightarrow> 's ws" where
  "NewWebsocket reception cleaning clock notification timeEvents = \<lparr>wsReceptionService = reception,
     wsCleaningService = cleaning, wsClockClient = clock, wsNotificationService = notification,
     wsTimeEventService = timeEvents\<rparr>"

text \<open>
  \<open>um\<close> is \<open>json.Unmarshal\<close>; \<open>np\<close> and \<open>tp\<close> are the notification and time event services as a session sees
  them, with the goroutines and channels behind them.
\<close>

definition NewGin ::
  "(string \<Rightarrow> gerr + booking list) \<Rightarrow> ('s notificationService \<Rightarrow> 's notificationPort) \<Rightarrow> (timeEventService \<Rightarrow> 's timeEventPort) \<Rightarrow>
   's services \<Rightarrow> 's clockClient \<Rightarrow> 's probeHandler \<Rightarrow> 's router" where
  "NewGin um np tp services clockClient probe = \<lparr>roRoutes = routes,
     roGuestHandler = NewGuestHandler (svGuest services) (Some clockClient),
     roWebsocket = NewWebsocket (Some (newReceptionPort um (svReception services))) (Some (svCleaning services))
       (Some clockClient) (Some (np (svNotification services))) (Some (tp (svTimeEvents services))),
     roProbeHandler = probe\<rparr>"

section \<open>Configuration and telemetry\<close>

record telemetryConfig =
  tcOTLPEndpoint :: string
  tcOTLPGrpcPort :: int
  tcOTLPHealthPort :: int
  tcOTLPInsecure :: bool

record appConfig =
  acServiceName :: string
  acVersion :: string
  acHost :: string
  acPort :: int
  acReadHeaderTimeoutInSeconds :: int
  acReadTimeoutInSeconds :: int
  acWriteTimeoutInSeconds :: int
  acIdleTimeoutInSeconds :: int

record configs =
  cfApp :: appConfig
  cfClockSimulator :: "string \<times> int"
  cfMongo :: mongoConfig
  cfRabbitMq :: rabbitMqConfig
  cfRedis :: redisConfig
  cfTelemetry :: telemetryConfig

text \<open>A secret prints as this text where it is printed with a verb of \<open>fmt\<close>.\<close>

definition SecretString :: "string \<Rightarrow> string" where
  "SecretString s = ''REDACTED''"

definition LoadConfigs :: "gerr + configs \<Rightarrow> ('s, configs) io" where
  "LoadConfigs parsed = liftE parsed"

record 's otelLib =
  otResource :: "string \<Rightarrow> string \<Rightarrow> ('s, unit) io"
  otTraceExporter :: "(string \<times> int) \<times> bool \<Rightarrow> ('s, handle) io"
  otMetricExporter :: "(string \<times> int) \<times> bool \<Rightarrow> ('s, handle) io"
  otSetProviders :: "handle \<Rightarrow> handle \<Rightarrow> 's \<Rightarrow> 's"
  otInstrument :: "string \<Rightarrow> ('s, unit) io"
  otShutdownTrace :: "handle \<Rightarrow> ('s, unit) io"
  otShutdownMeter :: "handle \<Rightarrow> ('s, unit) io"

text \<open>The options of an exporter: its endpoint, and whether the connection may be insecure. A provider is
  named by the exporter it is built around.\<close>

definition otelTraceOptions :: "telemetryConfig \<Rightarrow> (string \<times> int) \<times> bool" where
  "otelTraceOptions cfg = ((tcOTLPEndpoint cfg, tcOTLPGrpcPort cfg), tcOTLPInsecure cfg)"

definition otelMetricOptions :: "telemetryConfig \<Rightarrow> (string \<times> int) \<times> bool" where
  "otelMetricOptions cfg = ((tcOTLPEndpoint cfg, tcOTLPGrpcPort cfg), tcOTLPInsecure cfg)"

definition newTraceProvider :: "'s otelLib \<Rightarrow> telemetryConfig \<Rightarrow> ('s, handle) io" where
  "newTraceProvider o' cfg = bindE (otTraceExporter o' (otelTraceOptions cfg)) (\<lambda>exporter. retE exporter)"

definition newMeterProvider :: "'s otelLib \<Rightarrow> telemetryConfig \<Rightarrow> ('s, handle) io" where
  "newMeterProvider o' cfg = bindE (otMetricExporter o' (otelMetricOptions cfg)) (\<lambda>exporter. retE exporter)"

lemmas provider_defs = newTraceProvider_def newMeterProvider_def

definition initMetrics :: "'s otelLib \<Rightarrow> ('s, unit) io" where
  "initMetrics o' = thenE (otInstrument o' ''app.startup.duration'') (thenE (otInstrument o' ''mq.publish'')
     (otInstrument o' ''mq.publish.duration_ms''))"

text \<open>The shutdown function it returns stops the trace provider, then the meter provider, and joins the errors.\<close>

definition telemetryInit :: "'s otelLib \<Rightarrow> telemetryConfig \<Rightarrow> appConfig \<Rightarrow> ('s, ('s, unit) io) io" where
  "telemetryInit o' cfg app =
     thenE (otResource o' (acServiceName app) (acVersion app))
     (bindE (newTraceProvider o' cfg) (\<lambda>traceProvider.
      bindE (newMeterProvider o' cfg) (\<lambda>meterProvider.
      thenE (modE (otSetProviders o' traceProvider meterProvider))
     (thenE (initMetrics o')
     (retE (cleanupLoop [otShutdownTrace o' traceProvider, otShutdownMeter o' meterProvider] None))))))"

section \<open>The program\<close>

text \<open>How a process ends: by \<open>os.Exit\<close>, which runs no deferred call, or by a panic, which does.\<close>

datatype ending = ExitCode int | Crash

definition exitOnError :: "('s, 'a) io \<Rightarrow> ('s, ending, 'a) eff" where
  "exitOnError m = mapErrE (\<lambda>_. ExitCode 1) m"

record ('s, 'raw) platform =
  pfParse :: "gerr + configs"
  pfOtel :: "'s broker otelLib"
  pfMongo :: "'s broker mongoLib"
  pfDriver :: "('s broker, 'raw) mongoDriver"
  pfAmqp :: "'s amqpLib"
  pfRedis :: "string \<times> int \<Rightarrow> string \<Rightarrow> string \<Rightarrow> int \<Rightarrow> int \<Rightarrow> 's broker redisLib"
  pfClock :: "string \<times> int \<Rightarrow> gerr + 's broker clockStub"
  pfUnmarshal :: "string \<Rightarrow> gerr + booking list"
  pfNotification :: "'s broker notificationService \<Rightarrow> 's broker notificationPort"
  pfTimeEvents :: "timeEventService \<Rightarrow> 's broker timeEventPort"
  pfGo :: "goroutine \<Rightarrow> 's broker \<Rightarrow> 's broker"
  pfServe :: "appConfig \<Rightarrow> 's broker router \<Rightarrow> ('s broker, unit) io"

definition startGoroutines :: "(goroutine \<Rightarrow> 's \<Rightarrow> 's) \<Rightarrow> goroutine list \<Rightarrow> ('s, ending, unit) eff" where
  "startGoroutines go gs = (\<lambda>s. Some (Inr (), fold go gs s))"

text \<open>The clean-up of \<open>main.go\<close>, a copy of the one of the clients; and the deferred function of \<open>main\<close>, which a
  panic of the start-up runs.\<close>

definition mainRunCleanup :: "('s, unit) io list \<Rightarrow> ('s, unit) io" where
  "mainRunCleanup cleanup = cleanupLoop (rev cleanup) None"

lemma mainRunCleanup_eq: "mainRunCleanup = runCleanup"
  by (simp add: mainRunCleanup_def runCleanup_def fun_eq_iff)

definition crash :: "('s, unit) io list \<Rightarrow> ('s, ending, 'a) eff" where
  "crash cleanup = bindE (attemptE (mainRunCleanup cleanup)) (\<lambda>_. failE Crash)"

definition mainDeps :: "('s, 'raw) platform \<Rightarrow> 's broker mongo \<Rightarrow> 's broker rabbitmq \<Rightarrow> 's broker redisLib \<Rightarrow>
    ('s broker, rabbitmqConsumer) dependencies" where
  "mainDeps p mongoDb rabbitmqInfra redis = \<lparr>dpGuestRepo = Ref (mgGuestRepo mongoDb), dpBookingRepo = Ref (mgBookingRepo mongoDb),
     dpCottageRepo = Ref (mgCottageRepo mongoDb),
     dpCleaningPublisher = Ref (brokerPublisher (pfAmqp p) (riCleaningPublisher rabbitmqInfra)),
     dpGuestCommunicationPub = Ref (brokerPublisher (pfAmqp p) (riGuestCommunicationPub rabbitmqInfra)),
     dpHourChangeConsumer = Ref (riHourChangeConsumer rabbitmqInfra),
     dpDayChangeConsumer = Ref (riDayChangeConsumer rabbitmqInfra), dpCache = Ref (redisCache redis)\<rparr>"

definition mainServices :: "('s, 'raw) platform \<Rightarrow> configs \<Rightarrow> 's broker mongo \<Rightarrow> 's broker rabbitmq \<Rightarrow> 's broker redisLib \<Rightarrow>
    's broker clockStub \<Rightarrow> ('s broker, unit) io list \<Rightarrow>
    ('s broker, ending, appConfig \<times> 's broker router \<times> ('s broker, unit) io list) eff" where
  "mainServices p configs mongoDb rabbitmqInfra redis clockSimulator cleanup =
     (case NewServices (mainDeps p mongoDb rabbitmqInfra redis) of (result, goroutines) \<Rightarrow>
     thenE (startGoroutines (pfGo p) goroutines)
     (case result of
        BuildErr err \<Rightarrow> failE (ExitCode 1)
      | BuildPanic \<Rightarrow> crash cleanup
      | Built services \<Rightarrow> retE (cfApp configs, NewGin (pfUnmarshal p) (pfNotification p) (pfTimeEvents p) services
          (clockEmu clockSimulator) \<lparr>phMongoPing = mdbPing (pfMongo p) (mgConnection mongoDb),
            phIsConnectionOpen = IsConnectionOpen (pfAmqp p), phRedisPing = redisPing redis\<rparr>, cleanup)))"

definition mainStart :: "('s, 'raw) platform \<Rightarrow>
    ('s broker, ending, appConfig \<times> 's broker router \<times> ('s broker, unit) io list) eff" where
  "mainStart p =
     bindE (exitOnError (LoadConfigs (pfParse p))) (\<lambda>configs.
     bindE (exitOnError (telemetryInit (pfOtel p) (cfTelemetry configs) (cfApp configs))) (\<lambda>shutdownTelemetry.
     let cleanup1 = [shutdownTelemetry] in
     bindE (exitOnError (NewMongoDb (pfMongo p) (pfDriver p) (cfMongo configs))) (\<lambda>mongoDb.
     let cleanup2 = cleanup1 @ [mgConnectionClose mongoDb] in
     bindE (exitOnError (NewRabbitmq (pfAmqp p) (cfRabbitMq configs))) (\<lambda>rabbitmqInfra.
     let cleanup3 = cleanup2 @ [riConnectionClose rabbitmqInfra] in
     bindE (exitOnError (NewRedisClient (pfRedis p) (cfRedis configs))) (\<lambda>redis.
     let cleanup4 = cleanup3 @ [redisClose redis] in
     bindE (exitOnError (liftE (NewClockEmu (pfClock p) (cfClockSimulator configs)))) (\<lambda>clockSimulator.
     let cleanup5 = cleanup4 @ [clockEmuClose clockSimulator] in
     mainServices p configs mongoDb rabbitmqInfra redis clockSimulator cleanup5))))))"

definition mainServe :: "('s, 'raw) platform \<Rightarrow> appConfig \<Rightarrow> 's broker router \<Rightarrow> ('s broker, unit) io list \<Rightarrow>
    ('s broker, ending, unit) eff" where
  "mainServe p app router cleanup =
     thenE (startGoroutines (pfGo p) [GoShutdownWatcher])
     (bindE (attemptE (pfServe p app router)) (\<lambda>r.
       thenE (case r of Inl err \<Rightarrow> if \<not> errorsIs err SErrServerClosed then failE (ExitCode 1) else retE () | Inr _ \<Rightarrow> retE ())
       (bindE (attemptE (mainRunCleanup cleanup)) (\<lambda>_. retE ()))))"

definition mainRun :: "('s, 'raw) platform \<Rightarrow> ('s broker, ending, unit) eff" where
  "mainRun p = bindE (mainStart p) (\<lambda>(app, router, cleanup). mainServe p app router cleanup)"

section \<open>Services: lemmas\<close>

lemma bindB_simps [simp]:
  "bindB (Built x) f = f x" "bindB (BuildErr e) f = BuildErr e" "bindB BuildPanic f = BuildPanic"
  "valB (Ref x) = Built x"
  by (simp_all add: bindB_def valB_def)

lemma reflectIface_simps [simp]:
  "reflectIface (Ref x) = RNonZero" "reflectIface NilPtr = RZero" "reflectIface NilIface = RInvalid"
  by (simp_all add: reflectIface_def)

lemma reflectIface_NonZero: "reflectIface i = RNonZero \<longleftrightarrow> (\<exists>x. i = Ref x)"
  by (cases i) simp_all

lemma checked_Validate:
  "checked wrap (NotZeroValue f r v) x = (case Validate v of
      StepErr e \<Rightarrow> BuildErr (wrap e) | StepPanic \<Rightarrow> BuildPanic
    | StepOk \<Rightarrow> (case r of RInvalid \<Rightarrow> BuildPanic | RZero \<Rightarrow> BuildErr (wrap (ErrValidationConstrain f ''must not be zero value'')) | RNonZero \<Rightarrow> x))"
  by (auto simp: checked_def Validate_def NotZeroValue_def addStep_def runSteps_append violation_def
      split: stepResult.splits reflected.splits)

lemma Validate_NotZero:
  "Validate (NotZeroValue f r v) = (case Validate v of StepOk \<Rightarrow>
     (case r of RInvalid \<Rightarrow> StepPanic | RZero \<Rightarrow> StepErr (ErrValidationConstrain f ''must not be zero value'') | RNonZero \<Rightarrow> StepOk) | s \<Rightarrow> s)"
  by (auto simp: Validate_def NotZeroValue_def addStep_def runSteps_append violation_def
      split: stepResult.splits reflected.splits)

text \<open>The dependencies in the order in which \<open>NewServices\<close> first looks at them.\<close>

definition missing :: "('s, 'c) dependencies \<Rightarrow> reflected option" where
  "missing deps = List.find (\<lambda>r. r \<noteq> RNonZero) [reflectIface (dpHourChangeConsumer deps), reflectIface (dpDayChangeConsumer deps),
     reflectIface (dpCleaningPublisher deps), reflectIface (dpGuestRepo deps), reflectIface (dpBookingRepo deps),
     reflectIface (dpCottageRepo deps), reflectIface (dpCache deps), reflectIface (dpGuestCommunicationPub deps)]"

lemmas newService_defs = NewTimeEventService_def NewCleaningService_def NewGuestService_def NewReceptionService_def
  NewNotificationService_def NewArrangeCottageService_def

lemmas services_simps = missing_def NewServices_def newService_defs checked_Validate Validate_NotZero Let_def

section \<open>Properties\<close>

text \<open>C20: the services are wired to the dependencies given, and the first missing one decides what
  happens: with none missing all services are built, the reception over the very repositories, cache
  and publisher, and both background goroutines are started; a nil pointer in an interface is
  reported as an error; a nil interface panics inside the validation that should report it.\<close>

theorem NewServices_first_missing:
  "case missing deps of
      None \<Rightarrow> \<exists>gr br ct cp gp ca. dpGuestRepo deps = Ref gr \<and> dpBookingRepo deps = Ref br \<and> dpCottageRepo deps = Ref ct \<and>
        dpCleaningPublisher deps = Ref cp \<and> dpGuestCommunicationPub deps = Ref gp \<and> dpCache deps = Ref ca \<and>
        NewServices deps = (Built \<lparr>svGuest = newGuestService gr br, svCleaning = newCleaningService cp,
          svReception = wiredReception gr ct br ca cp, svTimeEvents = newTimeEventService,
          svNotification = \<lparr>nsTimeEventService = newTimeEventService, nsCache = ca\<rparr>,
          svArrange = \<lparr>asBookingRepo = br, asCache = ca, asPublisher = gp\<rparr>\<rparr>, [GoTimeEventsStart, GoArrangeCheckIn])
    | Some RZero \<Rightarrow> \<exists>e. fst (NewServices deps) = BuildErr e
    | Some _ \<Rightarrow> fst (NewServices deps) = BuildPanic"
proof (cases "missing deps")
  case None
  then obtain h d cp gr br ct ca gp where "dpHourChangeConsumer deps = Ref h" "dpDayChangeConsumer deps = Ref d"
    "dpCleaningPublisher deps = Ref cp" "dpGuestRepo deps = Ref gr" "dpBookingRepo deps = Ref br"
    "dpCottageRepo deps = Ref ct" "dpCache deps = Ref ca" "dpGuestCommunicationPub deps = Ref gp"
    by (auto simp: missing_def reflectIface_NonZero split: if_splits)
  with None show ?thesis
    by (simp add: services_simps wiredReception_def)
next
  case (Some m)
  then have "m \<noteq> RNonZero" by (auto simp: missing_def split: if_splits)
  with Some show ?thesis
    by (cases "dpHourChangeConsumer deps", force simp: services_simps, force simp: services_simps,
        cases "dpDayChangeConsumer deps", force simp: services_simps, force simp: services_simps,
        cases "dpCleaningPublisher deps", force simp: services_simps, force simp: services_simps,
        cases "dpGuestRepo deps", force simp: services_simps, force simp: services_simps,
        cases "dpBookingRepo deps", force simp: services_simps, force simp: services_simps,
        cases "dpCottageRepo deps", force simp: services_simps, force simp: services_simps,
        cases "dpCache deps", force simp: services_simps, force simp: services_simps,
        cases "dpGuestCommunicationPub deps", force simp: services_simps, force simp: services_simps,
        simp add: missing_def)
qed

section \<open>A start-up that fails\<close>

lemma exitOnError_Inr: "m s = Some (Inr x, s') \<Longrightarrow> exitOnError m s = Some (Inr x, s')"
  by (simp add: exitOnError_def)

lemma exitOnError_Inl: "m s = Some (Inl e, s') \<Longrightarrow> exitOnError m s = Some (Inl (ExitCode 1), s')"
  by (simp add: exitOnError_def mapErrE_def)

lemma exitOnError_ret [simp]: "exitOnError (retE x) = retE x"
  by (simp add: exitOnError_def)

section \<open>The broker under the program\<close>

text \<open>An operation of another client does not touch the broker client.\<close>

definition untouched :: "('s \<times> brokerCall list) broker \<Rightarrow> ('s \<times> brokerCall list) broker \<Rightarrow> bool" where
  "untouched b b' \<longleftrightarrow> bkConn b' = bkConn b \<and> bkClosed b' = bkClosed b \<and> calls b' = calls b"

interpretation un: frame untouched
  by unfold_locales (auto simp: untouched_def)

lemma untouched_kept: "keeps untouched m \<Longrightarrow> keeps conn_kept m"
  by (auto simp: keeps_def untouched_def conn_kept_def oneConn_def)

text \<open>
  What the program relies on: the other clients and the telemetry leave the broker client alone, and
  the goroutines and the server use it through its operations, each of which keeps \<open>conn_kept\<close>.
\<close>

locale broker_client =
  fixes p :: "('w \<times> brokerCall list, 'raw) platform" and a :: "'w amqpLib"
  assumes amqp: "pfAmqp p = logAmqp a"
    and otel: "keeps untouched (otResource (pfOtel p) n v)" "keeps untouched (otTraceExporter (pfOtel p) opts)"
      "keeps untouched (otMetricExporter (pfOtel p) opts)" "untouched b (otSetProviders (pfOtel p) h k b)"
      "keeps untouched (otInstrument (pfOtel p) n)" "keeps untouched (otShutdownTrace (pfOtel p) h)"
      "keeps untouched (otShutdownMeter (pfOtel p) h)"
    and mongo: "keeps untouched (moConnect (pfMongo p) o')" "keeps untouched (moPing (pfMongo p) h ts)"
      "keeps untouched (moDisconnect (pfMongo p) h)"
    and redis: "keeps untouched (rlPing (pfRedis p addr u w db t))" "keeps untouched (rlClose (pfRedis p addr u w db t))"
    and clock: "pfClock p addr = Inr st \<Longrightarrow> keeps untouched (stClose st)"
    and go: "conn_kept b (pfGo p g b)"
    and serve: "keeps conn_kept (pfServe p app router)"
begin

lemma kept_cleanupLoop: "(\<And>f. f \<in> set fs \<Longrightarrow> keeps untouched f) \<Longrightarrow> keeps untouched (cleanupLoop fs acc)"
proof (induction fs arbitrary: acc)
  case Nil
  then show ?case by (cases acc) (auto simp: keeps_def untouched_def)
next
  case (Cons f fs)
  then have "keeps untouched f" by simp
  then show ?case using Cons by (auto intro!: un.keeps_bindE un.keeps_attemptE)
qed

lemma un_setProviders: "keeps untouched (modE (otSetProviders (pfOtel p) h k))"
  by (rule keepsI) (auto intro: otel(4))

lemma un_telemetry: "keeps untouched (telemetryInit (pfOtel p) tc ac)"
  unfolding telemetryInit_def provider_defs initMetrics_def
  by (intro un.keeps_rules otel un_setProviders)

lemma telemetry_shutdown:
  "telemetryInit (pfOtel p) tc ac b = Some (Inr f, b') \<Longrightarrow> keeps untouched f"
  unfolding telemetryInit_def provider_defs
  by (auto simp: bindE_Some_Inr simp del: cleanupLoop.simps intro!: kept_cleanupLoop otel)

lemma un_NewMdb: "keeps untouched (NewMdb (pfMongo p) cfg)"
  unfolding NewMdb_def by (auto intro!: un.keeps_rules mongo split: sum.splits)

lemma un_NewMongoDb: "keeps untouched (NewMongoDb (pfMongo p) (pfDriver p) cfg)"
  unfolding NewMongoDb_def by (intro un.keeps_rules un_NewMdb)

lemma mongo_close:
  "NewMongoDb (pfMongo p) (pfDriver p) cfg b = Some (Inr m, b') \<Longrightarrow> keeps untouched (mgConnectionClose m)"
  unfolding NewMongoDb_def by (auto simp: bindE_Some_Inr mdbClose_def intro: mongo)

lemma un_NewRedis: "keeps untouched (NewRedisClient (pfRedis p) cfg)"
  unfolding NewRedisClient_def Let_def redisPing_def by (auto intro!: un.keeps_rules redis split: sum.splits)

lemma redis_close:
  assumes "NewRedisClient (pfRedis p) cfg b = Some (Inr r, b')"
  shows "keeps untouched (redisClose r)"
proof -
  let ?r = "pfRedis p (rdHost cfg, rdPort cfg) (rdUsername cfg) (rdPassword cfg) (rdDB cfg) (5 * 1000000000)"
  from assms obtain x :: "gerr + unit" and b1 where "(case x of
       Inl err \<Rightarrow> bindE (attemptE (rlClose ?r)) (\<lambda>_. failE (Wrapf ''redis ping failed for address %s:%d: %w''
         [FStr (rdHost cfg), FInt (rdPort cfg)] err))
     | Inr _ \<Rightarrow> retE ?r) b1 = Some (Inr r, b')"
    unfolding NewRedisClient_def Let_def bind_attempt by blast
  then have "r = ?r" by (cases x) (auto simp: bind_attempt)
  then show ?thesis by (simp add: redisClose_def redis)
qed

lemma kept_go: "keeps conn_kept (startGoroutines (pfGo p) gs)"
proof (rule keepsI)
  fix b r b'
  assume "startGoroutines (pfGo p) gs b = Some (r, b')"
  then have "b' = fold (pfGo p) gs b" by (simp add: startGoroutines_def)
  moreover have "conn_kept b (fold (pfGo p) gs b)"
    by (induction gs arbitrary: b) (auto intro: bc.frame_refl bc.frame_trans go)
  ultimately show "conn_kept b b'" by simp
qed

end

section \<open>A run of the program\<close>

lemma mainDeps_built:
  "\<exists>sv. NewServices (mainDeps p mongoDb rabbit redis) = (Built sv, [GoTimeEventsStart, GoArrangeCheckIn])"
  by (simp add: mainDeps_def services_simps)

lemma exitOnError_Some_Inr [simp]: "exitOnError m s = Some (Inr y, s') \<longleftrightarrow> m s = Some (Inr y, s')"
  by (simp add: exitOnError_def)

lemma exitOnError_Some_Inl: "exitOnError m s = Some (Inl e, s') \<longleftrightarrow> e = ExitCode 1 \<and> (\<exists>x. m s = Some (Inl x, s'))"
  by (auto simp: exitOnError_def mapErrE_Some_Inl)

text \<open>What a start-up that reaches the server has done.\<close>

definition started :: "('s, 'raw) platform \<Rightarrow> 's broker \<Rightarrow> ('s broker, unit) io list \<Rightarrow> 's broker \<Rightarrow> bool" where
  "started p b cleanup b' \<longleftrightarrow> (\<exists>cfg tel b1 mongoDb b2 rabbit b3 redis b4 clk.
     pfParse p = Inr cfg \<and> telemetryInit (pfOtel p) (cfTelemetry cfg) (cfApp cfg) b = Some (Inr tel, b1) \<and>
     NewMongoDb (pfMongo p) (pfDriver p) (cfMongo cfg) b1 = Some (Inr mongoDb, b2) \<and>
     NewRabbitmq (pfAmqp p) (cfRabbitMq cfg) b2 = Some (Inr rabbit, b3) \<and>
     NewRedisClient (pfRedis p) (cfRedis cfg) b3 = Some (Inr redis, b4) \<and>
     pfClock p (cfClockSimulator cfg) = Inr clk \<and>
     cleanup = [tel, mgConnectionClose mongoDb, riConnectionClose rabbit, redisClose redis, clockEmuClose clk] \<and>
     b' = fold (pfGo p) [GoTimeEventsStart, GoArrangeCheckIn] b4)"

lemma mainServices_Some:
  "mainServices p cfg mongoDb rabbit redis clk cleanup b =
     (case NewServices (mainDeps p mongoDb rabbit redis) of (Built sv, _) \<Rightarrow>
        Some (Inr (cfApp cfg, NewGin (pfUnmarshal p) (pfNotification p) (pfTimeEvents p) sv
            (clockEmu clk) \<lparr>phMongoPing = mdbPing (pfMongo p) (mgConnection mongoDb),
              phIsConnectionOpen = IsConnectionOpen (pfAmqp p), phRedisPing = redisPing redis\<rparr>, cleanup),
          fold (pfGo p) [GoTimeEventsStart, GoArrangeCheckIn] b) | _ \<Rightarrow> None)"
  using mainDeps_built [of p mongoDb rabbit redis]
  by (auto simp: mainServices_def bindE_def startGoroutines_def)

lemma mainServices_Inr:
  "mainServices p cfg mongoDb rabbit redis clk cleanup b = Some (r, b') \<Longrightarrow>
     \<exists>router. r = Inr (cfApp cfg, router, cleanup) \<and> b' = fold (pfGo p) [GoTimeEventsStart, GoArrangeCheckIn] b"
  using mainDeps_built [of p mongoDb rabbit redis] by (auto simp: mainServices_Some)

lemma mainStart_Inr:
  assumes "mainStart p b = Some (Inr (app, router, cleanup), b')"
  shows "started p b cleanup b'"
proof -
  from assms obtain cfg tel b1 mongoDb b2 rabbit b3 redis b4 clk where
    "pfParse p = Inr cfg" "telemetryInit (pfOtel p) (cfTelemetry cfg) (cfApp cfg) b = Some (Inr tel, b1)"
    "NewMongoDb (pfMongo p) (pfDriver p) (cfMongo cfg) b1 = Some (Inr mongoDb, b2)"
    "NewRabbitmq (pfAmqp p) (cfRabbitMq cfg) b2 = Some (Inr rabbit, b3)"
    "NewRedisClient (pfRedis p) (cfRedis cfg) b3 = Some (Inr redis, b4)"
    "pfClock p (cfClockSimulator cfg) = Inr clk"
    and services: "mainServices p cfg mongoDb rabbit redis clk
      [tel, mgConnectionClose mongoDb, riConnectionClose rabbit, redisClose redis, clockEmuClose clk] b4 =
       Some (Inr (app, router, cleanup), b')"
    by (auto simp: mainStart_def LoadConfigs_def Let_def bindE_Some_Inr NewClockEmu_def)
  moreover from mainServices_Inr [OF services]
  have "cleanup = [tel, mgConnectionClose mongoDb, riConnectionClose rabbit, redisClose redis, clockEmuClose clk]"
    "b' = fold (pfGo p) [GoTimeEventsStart, GoArrangeCheckIn] b4" by auto
  ultimately show ?thesis unfolding started_def by blast
qed

lemma mainStart_Inl: "mainStart p b = Some (Inl e, b') \<Longrightarrow> e = ExitCode 1"
  by (auto simp: mainStart_def LoadConfigs_def Let_def bindE_Some_Inl exitOnError_Some_Inl
      dest: mainServices_Inr)

lemma mainServe_Some:
  assumes "mainServe p app router cleanup b = Some (r, b')"
  obtains (failed) "r = Inl (ExitCode 1)"
    | (served) x b1 es where "pfServe p app router (pfGo p GoShutdownWatcher b) = Some (x, b1)"
        "runAll (rev cleanup) b1 = Some (es, b')" "r = Inr ()"
proof -
  let ?b = "pfGo p GoShutdownWatcher b"
  from assms obtain x b1 where x: "pfServe p app router ?b = Some (x, b1)"
    and rest: "thenE (case x of Inl err \<Rightarrow> if \<not> errorsIs err SErrServerClosed then failE (ExitCode 1) else retE () | Inr _ \<Rightarrow> retE ())
       (bindE (attemptE (runCleanup cleanup)) (\<lambda>_. retE ())) b1 = Some (r, b')"
    by (auto simp: mainServe_def mainRunCleanup_eq bindE_Some startGoroutines_def attemptE_Some)
  from rest consider (f) "r = Inl (ExitCode 1)" | (s) es where "runAll (rev cleanup) b1 = Some (es, b')" "r = Inr ()"
    by (auto simp: bindE_Some attemptE_Some runCleanup_def cleanupLoop_all split: sum.splits if_splits option.splits)
  then show thesis
  proof cases
    case f
    then show thesis by (rule that(1))
  next
    case s
    show thesis by (rule that(2) [OF x s])
  qed
qed

lemma NewRabbitmq_one:
  assumes "NewRabbitmq (logAmqp a) cfg b = Some (Inr rabbit, b')" and "openConns (calls b) = {}"
  obtains fs where "oneConn b'" and "riConnectionClose rabbit = runCleanup (rabbitClose (logAmqp a) # fs)"
    and "\<forall>f \<in> set fs. keeps conn_kept f"
proof -
  from assms(1) obtain b1 where c: "NewRabbitMqConnection (logAmqp a) cfg b = Some (Inr (), b1)"
    and o: "openRabbitmq (logAmqp a) cfg b1 = Some (Inr rabbit, b')"
    by (auto simp: NewRabbitmq_def bindE_Some)
  have "oneConn b'"
    using openRabbitmq_failsClosed [of a cfg, unfolded failsClosed_def] connected_oneConn [OF c assms(2)] o by blast
  with openRabbitmq_close [OF o] that show thesis by blast
qed

context broker_client
begin

lemma cleanup_closes_broker:
  assumes start: "started p b cleanup b5" and "calls b = []" and kept: "conn_kept b5 b7"
    and run: "runAll (rev cleanup) b7 = Some (es, b')"
  shows "openConns (calls b') = {}"
proof -
  from start obtain cfg :: configs and tel b1 mongoDb b2 rabbit b3 redis' b4 clk where
    tel: "telemetryInit (pfOtel p) (cfTelemetry cfg) (cfApp cfg) b = Some (Inr tel, b1)"
    and mongoDb: "NewMongoDb (pfMongo p) (pfDriver p) (cfMongo cfg) b1 = Some (Inr mongoDb, b2)"
    and rabbit: "NewRabbitmq (logAmqp a) (cfRabbitMq cfg) b2 = Some (Inr rabbit, b3)"
    and red: "NewRedisClient (pfRedis p) (cfRedis cfg) b3 = Some (Inr redis', b4)"
    and clk: "pfClock p (cfClockSimulator cfg) = Inr clk"
    and cl: "cleanup = [tel, mgConnectionClose mongoDb, riConnectionClose rabbit, redisClose redis', clockEmuClose clk]"
    and b5: "b5 = fold (pfGo p) [GoTimeEventsStart, GoArrangeCheckIn] b4"
    unfolding started_def amqp by blast
  have "untouched b b2" using keepsD [OF un_telemetry tel] keepsD [OF un_NewMongoDb mongoDb] by (rule un.frame_trans)
  with assms(2) have "openConns (calls b2) = {}" by (simp add: untouched_def)
  with rabbit obtain fs where one: "oneConn b3" and close: "riConnectionClose rabbit = runCleanup (rabbitClose (logAmqp a) # fs)"
    and "\<forall>f \<in> set fs. keeps conn_kept f" by (rule NewRabbitmq_one)
  then have fs: "\<And>f. f \<in> set fs \<Longrightarrow> keeps conn_kept f" by blast
  have "conn_kept b4 b5"
    using keepsD [OF kept_go, of "[GoTimeEventsStart, GoArrangeCheckIn]" b4 "Inr ()" b5] by (simp add: b5 startGoroutines_def)
  with keepsD [OF untouched_kept [OF un_NewRedis] red] kept one have one7: "oneConn b7" by (simp add: conn_kept_def)
  from run obtain r8 b8 r9 b9 r10 b10 r11 b11 r12 where
    "clockEmuClose clk b7 = Some (r8, b8)" "redisClose redis' b8 = Some (r9, b9)"
    and rc: "riConnectionClose rabbit b9 = Some (r10, b10)"
    and mc: "mgConnectionClose mongoDb b10 = Some (r11, b11)" and tc: "tel b11 = Some (r12, b')"
    by (auto simp: cl split: option.splits)
  then have "oneConn b9"
    using keepsD [OF untouched_kept [OF redis_close [OF red]]] keepsD [OF untouched_kept [OF clock [OF clk]]] one7
    by (simp add: conn_kept_def clockEmuClose_def)
  from cleanup_closes [OF fs this rc [unfolded close]] have "oneConn b10" "bkClosed b10" by auto
  with keepsD [OF untouched_kept [OF mongo_close [OF mongoDb]] mc] keepsD [OF untouched_kept [OF telemetry_shutdown [OF tel]] tc]
  show ?thesis by (auto simp: conn_kept_def oneConn_closed)
qed

lemma run_closes_broker:
  assumes "mainRun p b = Some (r, b')" and "calls b = []"
  shows "case r of Inr _ \<Rightarrow> openConns (calls b') = {} | Inl e \<Rightarrow> e = ExitCode 1"
proof -
  from assms(1) consider (stop) e where "r = Inl e" "mainStart p b = Some (Inl e, b')"
    | (go) app router cleanup b5 where "mainStart p b = Some (Inr (app, router, cleanup), b5)"
      "mainServe p app router cleanup b5 = Some (r, b')"
    by (auto simp: mainRun_def bindE_Some)
  then show ?thesis
  proof cases
    case stop
    then show ?thesis by (auto dest: mainStart_Inl)
  next
    case go_on: go
    from go_on(2) show ?thesis
    proof (cases rule: mainServe_Some)
      case failed
      then show ?thesis by simp
    next
      case (served x b7 es)
      have "conn_kept b5 b7" using go keepsD [OF serve served(1)] by (rule bc.frame_trans)
      from cleanup_closes_broker [OF mainStart_Inr [OF go_on(1)] assms(2) this served(2)] served(3) show ?thesis by simp
    qed
  qed
qed

end

text \<open>C15: when the program ends by itself, its connection to the broker has been closed, whatever the other
  clean-up functions returned; every other way it ends is an exit with status 1, and no start-up
  panics.\<close>

theorem program_closes_broker:
  assumes "broker_client p a" and "calls b = []" and "mainRun p b = Some (r, b')"
  shows "case r of Inr _ \<Rightarrow> openConns (calls b') = {} | Inl e \<Rightarrow> e = ExitCode 1"
  using assms by (intro broker_client.run_closes_broker)

section \<open>A platform on which the program runs\<close>

text \<open>
  Every service answers, except the cache when \<open>cacheUp\<close> is false; the server publishes one message
  and is shut down.
\<close>

definition sampleConfigs :: configs where
  "sampleConfigs = \<lparr>cfApp = \<lparr>acServiceName = ''guests'', acVersion = ''1'', acHost = '''', acPort = 80, acReadHeaderTimeoutInSeconds = 5,
       acReadTimeoutInSeconds = 10, acWriteTimeoutInSeconds = 15, acIdleTimeoutInSeconds = 60\<rparr>,
     cfClockSimulator = (''clock'', 90),
     cfMongo = \<lparr>mcUsername = ''u'', mcPassword = ''p'', mcHost = ''db'', mcDatabase = ''elaris'', mcReplicaSet = '''',
       mcConnectionTimeoutInSeconds = 10, mcServerSelectionTimeoutInSeconds = 10, mcPingTimeoutInSeconds = 5,
       mcStartupTimeoutInSeconds = 10, mcMaxConnIdleTimeInSeconds = 60, mcMaxPoolSize = 100, mcMinPoolSize = 0,
       mcRetryWrites = True, mcGuestCollection = ''Guest'', mcCottageCollection = ''Cottage'', mcBookingCollection = ''Booking''\<rparr>,
     cfRabbitMq = sampleRabbit,
     cfRedis = \<lparr>rdUsername = '''', rdPassword = '''', rdHost = ''cache'', rdPort = 6379, rdDB = 0\<rparr>,
     cfTelemetry = \<lparr>tcOTLPEndpoint = ''otel'', tcOTLPGrpcPort = 4317, tcOTLPHealthPort = 13133, tcOTLPInsecure = True\<rparr>\<rparr>"

definition emptyCollection :: "('s, 'd) collection" where
  "emptyCollection = \<lparr>colFindOne = (\<lambda>_. failE (Sentinel SErrNoDocuments)), colFind = (\<lambda>_. retE 0), colAll = (\<lambda>_. retE []),
     colInsertOne = (\<lambda>_. failE (LibErr ''read only'')), colUpdateOne = (\<lambda>_ _. retE 0)\<rparr>"

definition sampleOtel :: "'s otelLib" where
  "sampleOtel = \<lparr>otResource = (\<lambda>_ _. retE ()), otTraceExporter = (\<lambda>_. retE 1), otMetricExporter = (\<lambda>_. retE 2),
       otSetProviders = (\<lambda>_ _ b. b), otInstrument = (\<lambda>_. retE ()), otShutdownTrace = (\<lambda>_. failE (LibErr ''timeout'')),
       otShutdownMeter = (\<lambda>_. retE ())\<rparr>"

definition sampleMongo :: "'s mongoLib" where
  "sampleMongo = \<lparr>moConnect = (\<lambda>_. retE 3), moPing = (\<lambda>_ _. retE ()), moDisconnect = (\<lambda>_. retE ())\<rparr>"

definition sampleDriver :: "('s, unit) mongoDriver" where
  "sampleDriver = \<lparr>mdGuests = (\<lambda>_ _ _. emptyCollection), mdCottages = (\<lambda>_ _ _. emptyCollection),
       mdBookings = (\<lambda>_ _ _. emptyCollection), mdHex = (\<lambda>_. ''''), mdFromHex = (\<lambda>_. Inl (LibErr ''hex'')),
       mdUnmarshal = (\<lambda>_. Inl (LibErr ''bson''))\<rparr>"

definition sampleRedis :: "bool \<Rightarrow> 's redisLib" where
  "sampleRedis up = \<lparr>rlPing = (if up then retE () else failE (LibErr ''refused'')), rlClose = retE (),
       rlGet = (\<lambda>_. failE (Sentinel SErrRedisNil)), rlSet = (\<lambda>_ _ _. retE ())\<rparr>"

definition sampleServe :: "(nat \<times> brokerCall list) amqpLib \<Rightarrow> ((nat \<times> brokerCall list) broker, unit) io" where
  "sampleServe a = bindE (attemptE (Publish a \<lparr>prChannel = 0, prPublish = rpPublish sampleProducer\<rparr>
       (MsgCleaningRequest \<lparr>crRoomName = ''Oak'', crRequest = RT_PREPARE_FOR_GUEST\<rparr>) ''staff''))
       (\<lambda>_. failE (Sentinel SErrServerClosed))"

definition samplePlatform :: "bool \<Rightarrow> (nat \<times> brokerCall list, unit) platform" where
  "samplePlatform cacheUp = \<lparr>pfParse = Inr sampleConfigs, pfOtel = sampleOtel, pfMongo = sampleMongo,
     pfDriver = sampleDriver, pfAmqp = logAmqp slowBroker, pfRedis = (\<lambda>_ _ _ _ _. sampleRedis cacheUp),
     pfClock = (\<lambda>_. Inr \<lparr>stNow = retE None, stClose = retE ()\<rparr>),
     pfUnmarshal = (\<lambda>_. Inr []), pfNotification = (\<lambda>_. \<lparr>npHour = (\<lambda>_ _. None)\<rparr>),
     pfTimeEvents = (\<lambda>_. \<lparr>tpRegister = id, tpUnregister = id, tpDayEvent = (\<lambda>_. None), tpDayOrTick = (\<lambda>_. None)\<rparr>),
     pfGo = (\<lambda>_ b. b), pfServe = (\<lambda>_ _. sampleServe (logAmqp slowBroker))\<rparr>"

interpretation sp: broker_client "samplePlatform True" slowBroker
proof unfold_locales
  show "keeps conn_kept (pfServe (samplePlatform True) app router)" for app router
    by (simp add: samplePlatform_def sampleServe_def) (intro bc.keeps_rules kept_Publish bc.keeps_failE)
qed (auto simp: samplePlatform_def sampleOtel_def sampleMongo_def sampleRedis_def keeps_def untouched_def conn_kept_def)

lemmas run_defs = samplePlatform_def sampleOtel_def sampleMongo_def sampleRedis_def sampleServe_def sampleConfigs_def mainRun_def mainStart_def mainServe_def mainRunCleanup_eq mainServices_Some LoadConfigs_def
  exitOnError_def telemetryInit_def provider_defs initMetrics_def NewMongoDb_def NewMdb_def NewRedisClient_def NewClockEmu_def redisPing_def
  startGoroutines_def services_simps mainDeps_def Let_def

lemma started_sample:
  "\<exists>ri b. NewRabbitmq (logAmqp slowBroker) sampleRabbit (freshBroker 0) = Some (Inr ri, b) \<and> openConns (calls b) = {9}"
  by (simp add: broker_run openConns_def del: upt_Suc)

theorem program_closes_broker_witness:
  "\<exists>b. mainRun (samplePlatform True) (freshBroker 0) = Some (Inr (), b) \<and> openConns (calls b) = {}"
proof -
  obtain b where run: "mainRun (samplePlatform True) (freshBroker 0) = Some (Inr (), b)"
    by (simp add: run_defs broker_run runCleanup_def rabbitClose_def CloseChannel_def Publish_def newPublishing_def
      redisClose_def clockEmuClose_def mdbClose_def errorsJoin_def logged_def del: upt_Suc)
  with program_closes_broker [OF sp.broker_client_axioms _ run] show ?thesis by (simp add: freshBroker_def)
qed

end
