(* ===== verification/Config.thy ===== *)
theory Config
  imports Program
begin

text \<open>
  \<open>internal/config\<close>: the configuration as the program declares it, with the tags that name its
  environment variables, and what becomes of it. Reading the environment by the tags is the work
  of a library, a parameter with its documented behaviour as a hypothesis; printing the structure
  as JSON, which the program does at start-up, is \<open>encoding/json\<close> of the standard library.
\<close>

section \<open>Declared types\<close>

datatype leafKind = KString | KSecret | KInt | KUint64 | KBool

text \<open>The tags \<open>env\<close> (the name and whether it is required) and \<open>envDefault\<close>.\<close>

record envTag =
  tagName :: string
  tagRequired :: bool
  tagDefault :: "string option"

text \<open>A field has a name, may be embedded, and may prefix the variables of its type (\<open>envPrefix\<close>).\<close>

datatype goType = Leaf leafKind envTag | Struct "goField list"
  and goField = Field string bool string goType

abbreviation leaf :: "string \<Rightarrow> leafKind \<Rightarrow> string \<Rightarrow> bool \<Rightarrow> string option \<Rightarrow> goField" where
  "leaf n k name req def \<equiv> Field n False [] (Leaf k \<lparr>tagName = name, tagRequired = req, tagDefault = def\<rparr>)"

definition exchangeConfigType :: goType where
  "exchangeConfigType = Struct [
     leaf ''Name'' KString ''NAME'' True (Some ''ex.communication''),
     leaf ''Kind'' KString ''KIND'' True (Some ''direct''),
     leaf ''Durable'' KBool ''DURABLE'' False (Some ''true''),
     leaf ''AutoDelete'' KBool ''AUTO_DELETE'' False (Some ''false''),
     leaf ''Internal'' KBool ''INTERNAL'' False (Some ''false''),
     leaf ''NoWait'' KBool ''NO_WAIT'' False (Some ''false'')]"

definition queueConfigType :: goType where
  "queueConfigType = Struct [
     leaf ''Name'' KString ''NAME'' True None,
     leaf ''Durable'' KBool ''DURABLE'' False (Some ''true''),
     leaf ''AutoDelete'' KBool ''AUTO_DELETE'' False (Some ''false''),
     leaf ''Exclusive'' KBool ''EXCLUSIVE'' False (Some ''false''),
     leaf ''NoWait'' KBool ''NO_WAIT'' False (Some ''false'')]"

definition bindingConfigType :: goType where
  "bindingConfigType = Struct [
     leaf ''ExchangeName'' KString ''EXCHANGE_NAME'' True None,
     leaf ''RoutingKey'' KString ''ROUTING_KEY'' True None,
     leaf ''NoWait'' KBool ''NO_WAIT'' False (Some ''false'')]"

definition publishConfigType :: goType where
  "publishConfigType = Struct [
     leaf ''Mandatory'' KBool ''MANDATORY'' False (Some ''false''),
     leaf ''Immediate'' KBool ''IMMEDIATE'' False (Some ''false'')]"

definition consumeConfigType :: goType where
  "consumeConfigType = Struct [
     leaf ''Consumer'' KString ''CONSUMER'' False None,
     leaf ''AutoAck'' KBool ''AUTO_ACK'' False (Some ''false''),
     leaf ''Exclusive'' KBool ''EXCLUSIVE'' False (Some ''false''),
     leaf ''NoLocal'' KBool ''NO_LOCAL'' False (Some ''false''),
     leaf ''NoWait'' KBool ''NO_WAIT'' False (Some ''false'')]"

definition rabbitMqProducerConfigType :: goType where
  "rabbitMqProducerConfigType = Struct [
     Field ''Exchange'' False ''EXCHANGE_'' exchangeConfigType,
     Field ''Publish'' False ''PUBLISH_'' publishConfigType]"

definition rabbitMqConsumerConfigType :: goType where
  "rabbitMqConsumerConfigType = Struct [
     Field ''Queue'' False ''QUEUE_'' queueConfigType,
     Field ''Binding'' False ''BINDING_'' bindingConfigType,
     Field ''Consume'' False ''CONSUME_'' consumeConfigType]"

definition appConfigType :: goType where
  "appConfigType = Struct [
     leaf ''ServiceName'' KString ''SERVICE_NAME'' False (Some ''kenshu-elarisProject-guestManager''),
     leaf ''Version'' KString ''VERSION'' False None,
     Field ''Server'' False [] (Struct [
       leaf ''Host'' KString ''SERVICE_HOST'' True None,
       leaf ''Port'' KInt ''SERVICE_PORT'' True None,
       leaf ''ReadHeaderTimeoutInSeconds'' KInt ''READ_HEADER_TIMEOUT_IN_SECONDS'' True (Some ''5''),
       leaf ''ReadTimeoutInSeconds'' KInt ''READ_TIMEOUT_IN_SECONDS'' True (Some ''10''),
       leaf ''WriteTimeoutInSeconds'' KInt ''WRITE_TIMEOUT_IN_SECONDS'' True (Some ''15''),
       leaf ''IdleTimeoutInSeconds'' KInt ''IDLE_TIMEOUT_IN_SECONDS'' True (Some ''60'')])]"

definition servicesType :: goType where
  "servicesType = Struct [
     Field ''ClockSimulator'' False [] (Struct [
       leaf ''GrpcHost'' KString ''CLOCK_EMU_GRPC_HOST'' True None,
       leaf ''GrpcPort'' KInt ''CLOCK_EMU_GRPC_PORT'' True None])]"

definition mongoConfigType :: goType where
  "mongoConfigType = Struct [
     leaf ''Username'' KSecret ''MONGO_INITDB_ROOT_USERNAME'' True None,
     leaf ''Password'' KSecret ''MONGO_INITDB_ROOT_PASSWORD'' True None,
     leaf ''Host'' KString ''MONGO_HOST'' True None,
     leaf ''Database'' KString ''MONGO_DATABASE'' True None,
     leaf ''ReplicaSet'' KString ''MONGO_REPLICA_SET'' False (Some []),
     leaf ''ConnectionTimeoutInSeconds'' KInt ''MONGO_CONNECTION_TIMEOUT_IN_SECONDS'' False (Some ''10''),
     leaf ''ServerSelectionTimeoutInSeconds'' KInt ''MONGO_SERVER_SELECTION_TIMEOUT_IN_SECONDS'' False (Some ''10''),
     leaf ''PingTimeoutInSeconds'' KInt ''MONGO_PING_TIMEOUT_IN_SECONDS'' False (Some ''5''),
     leaf ''StartupTimeoutInSeconds'' KInt ''MONGO_STARTUP_TIMEOUT_IN_SECONDS'' False (Some ''10''),
     leaf ''MaxConnIdleTimeInSeconds'' KInt ''MONGO_MAX_CONN_IDLE_TIME_IN_SECONDS'' False (Some ''60''),
     leaf ''MaxPoolSize'' KUint64 ''MONGO_MAX_POOL_SIZE'' False (Some ''100''),
     leaf ''MinPoolSize'' KUint64 ''MONGO_MIN_POOL_SIZE'' False (Some ''0''),
     leaf ''RetryWrites'' KBool ''MONGO_RETRY_WRITES'' False (Some ''true''),
     Field ''Collections'' False [] (Struct [
       leaf ''Guest'' KString ''GUEST_COLLECTION'' True (Some ''Guest''),
       leaf ''Cottage'' KString ''COTTAGE_COLLECTION'' True (Some ''Cottage''),
       leaf ''Booking'' KString ''BOOKING_COLLECTION'' True (Some ''Booking'')])]"

definition rabbitMqConfigType :: goType where
  "rabbitMqConfigType = Struct [
     leaf ''Username'' KSecret ''RABBITMQ_USERNAME'' True None,
     leaf ''Password'' KSecret ''RABBITMQ_PASSWORD'' True None,
     leaf ''Host'' KString ''RABBITMQ_HOST'' True None,
     leaf ''Port'' KInt ''RABBITMQ_PORT'' True None,
     Field ''Producers'' False [] (Struct [
       Field ''Cleaning'' False ''CLEANING_'' rabbitMqProducerConfigType,
       Field ''GuestCommunication'' False ''GUEST_COMMUNICATION_'' rabbitMqProducerConfigType]),
     Field ''Consumers'' False [] (Struct [
       Field ''HourChange'' False ''HOUR_CHANGE_'' rabbitMqConsumerConfigType,
       Field ''DayChange'' False ''DAY_CHANGE_'' rabbitMqConsumerConfigType])]"

definition redisConfigType :: goType where
  "redisConfigType = Struct [
     leaf ''Username'' KSecret ''REDIS_USERNAME'' False (Some []),
     leaf ''Password'' KSecret ''REDIS_PASSWORD'' False (Some []),
     leaf ''Host'' KString ''REDIS_HOST'' True (Some ''localhost''),
     leaf ''Port'' KInt ''REDIS_PORT'' True (Some ''6379''),
     leaf ''DB'' KInt ''REDIS_DB'' False (Some ''0'')]"

definition telemetryConfigType :: goType where
  "telemetryConfigType = Struct [
     leaf ''OTLPEndpoint'' KString ''OTEL_EXPORTER_OTLP_ENDPOINT'' True None,
     leaf ''OTLPGrpcPort'' KInt ''OTEL_EXPORTER_OTLP_GRPC_PORT'' True None,
     leaf ''OTLPHealthPort'' KInt ''OTEL_EXPORTER_OTLP_HEALTH_PORT'' True None,
     leaf ''OTLPInsecure'' KBool ''OTEL_EXPORTER_OTLP_INSECURE'' True None]"

definition configsType :: goType where
  "configsType = Struct [
     Field ''AppConfig'' True [] appConfigType,
     Field ''Services'' True [] servicesType,
     Field ''MongoConfig'' True [] mongoConfigType,
     Field ''RabbitMqConfig'' True [] rabbitMqConfigType,
     Field ''RedisConfig'' True [] redisConfigType,
     Field ''TelemetryConfig'' True [] telemetryConfigType]"

lemmas config_types = exchangeConfigType_def queueConfigType_def bindingConfigType_def publishConfigType_def
  consumeConfigType_def rabbitMqProducerConfigType_def rabbitMqConsumerConfigType_def appConfigType_def servicesType_def
  mongoConfigType_def rabbitMqConfigType_def redisConfigType_def telemetryConfigType_def configsType_def

section \<open>Reading the environment\<close>

text \<open>The variables of a type: the path of the field, its kind and its tag with the prefixes in front.\<close>

fun envVars :: "string \<Rightarrow> goType \<Rightarrow> (string list \<times> leafKind \<times> envTag) list"
  and fieldVars :: "string \<Rightarrow> goField \<Rightarrow> (string list \<times> leafKind \<times> envTag) list" where
  "envVars pre (Leaf k t) = [([], k, t\<lparr>tagName := pre @ tagName t\<rparr>)]"
| "envVars pre (Struct fs) = concat (map (fieldVars pre) fs)"
| "fieldVars pre (Field n emb p t) = map (\<lambda>(path, x). (n # path, x)) (envVars (pre @ p) t)"

datatype confValue = VStr string | VInt int | VUint "64 word" | VBool bool

fun str :: "confValue \<Rightarrow> string" where
  "str (VStr s) = s"
| "str _ = []"

fun num :: "confValue \<Rightarrow> int" where
  "num (VInt i) = i"
| "num _ = 0"

fun uint64 :: "confValue \<Rightarrow> 64 word" where
  "uint64 (VUint w) = w"
| "uint64 _ = 0"

fun flag :: "confValue \<Rightarrow> bool" where
  "flag (VBool b) = b"
| "flag _ = False"

text \<open>The values of the fields as the records of the model.\<close>

definition toProducer :: "(string list \<Rightarrow> confValue) \<Rightarrow> rabbitMqProducerConfig" where
  "toProducer v = \<lparr>rpExchange = \<lparr>exName = str (v [''Exchange'', ''Name'']), exKind = str (v [''Exchange'', ''Kind'']),
       exDurable = flag (v [''Exchange'', ''Durable'']), exAutoDelete = flag (v [''Exchange'', ''AutoDelete'']),
       exInternal = flag (v [''Exchange'', ''Internal'']), exNoWait = flag (v [''Exchange'', ''NoWait''])\<rparr>,
     rpPublish = \<lparr>pcMandatory = flag (v [''Publish'', ''Mandatory'']), pcImmediate = flag (v [''Publish'', ''Immediate''])\<rparr>\<rparr>"

definition toConsumer :: "(string list \<Rightarrow> confValue) \<Rightarrow> rabbitMqConsumerConfig" where
  "toConsumer v = \<lparr>rcQueue = \<lparr>quName = str (v [''Queue'', ''Name'']), quDurable = flag (v [''Queue'', ''Durable'']),
       quAutoDelete = flag (v [''Queue'', ''AutoDelete'']), quExclusive = flag (v [''Queue'', ''Exclusive'']),
       quNoWait = flag (v [''Queue'', ''NoWait''])\<rparr>,
     rcBinding = \<lparr>biExchangeName = str (v [''Binding'', ''ExchangeName'']), biRoutingKey = str (v [''Binding'', ''RoutingKey'']),
       biNoWait = flag (v [''Binding'', ''NoWait''])\<rparr>,
     rcConsume = \<lparr>ccConsumer = str (v [''Consume'', ''Consumer'']), ccAutoAck = flag (v [''Consume'', ''AutoAck'']),
       ccExclusive = flag (v [''Consume'', ''Exclusive'']), ccNoLocal = flag (v [''Consume'', ''NoLocal'']),
       ccNoWait = flag (v [''Consume'', ''NoWait''])\<rparr>\<rparr>"

definition toRabbitMq :: "(string list \<Rightarrow> confValue) \<Rightarrow> rabbitMqConfig" where
  "toRabbitMq v = \<lparr>rmUsername = str (v [''Username'']), rmPassword = str (v [''Password'']), rmHost = str (v [''Host'']),
     rmPort = num (v [''Port'']), rmCleaning = toProducer (\<lambda>p. v (''Producers'' # ''Cleaning'' # p)),
     rmGuestCommunication = toProducer (\<lambda>p. v (''Producers'' # ''GuestCommunication'' # p)),
     rmHourChange = toConsumer (\<lambda>p. v (''Consumers'' # ''HourChange'' # p)),
     rmDayChange = toConsumer (\<lambda>p. v (''Consumers'' # ''DayChange'' # p))\<rparr>"

definition toMongo :: "(string list \<Rightarrow> confValue) \<Rightarrow> mongoConfig" where
  "toMongo v = \<lparr>mcUsername = str (v [''Username'']), mcPassword = str (v [''Password'']), mcHost = str (v [''Host'']),
     mcDatabase = str (v [''Database'']), mcReplicaSet = str (v [''ReplicaSet'']),
     mcConnectionTimeoutInSeconds = num (v [''ConnectionTimeoutInSeconds'']),
     mcServerSelectionTimeoutInSeconds = num (v [''ServerSelectionTimeoutInSeconds'']),
     mcPingTimeoutInSeconds = num (v [''PingTimeoutInSeconds'']), mcStartupTimeoutInSeconds = num (v [''StartupTimeoutInSeconds'']),
     mcMaxConnIdleTimeInSeconds = num (v [''MaxConnIdleTimeInSeconds'']), mcMaxPoolSize = uint64 (v [''MaxPoolSize'']),
     mcMinPoolSize = uint64 (v [''MinPoolSize'']), mcRetryWrites = flag (v [''RetryWrites'']),
     mcGuestCollection = str (v [''Collections'', ''Guest'']), mcCottageCollection = str (v [''Collections'', ''Cottage'']),
     mcBookingCollection = str (v [''Collections'', ''Booking''])\<rparr>"

definition toApp :: "(string list \<Rightarrow> confValue) \<Rightarrow> appConfig" where
  "toApp v = \<lparr>acServiceName = str (v [''ServiceName'']), acVersion = str (v [''Version'']), acHost = str (v [''Server'', ''Host'']),
     acPort = num (v [''Server'', ''Port'']), acReadHeaderTimeoutInSeconds = num (v [''Server'', ''ReadHeaderTimeoutInSeconds'']),
     acReadTimeoutInSeconds = num (v [''Server'', ''ReadTimeoutInSeconds'']),
     acWriteTimeoutInSeconds = num (v [''Server'', ''WriteTimeoutInSeconds'']),
     acIdleTimeoutInSeconds = num (v [''Server'', ''IdleTimeoutInSeconds''])\<rparr>"

definition toConfigs :: "(string list \<Rightarrow> confValue) \<Rightarrow> configs" where
  "toConfigs v = \<lparr>cfApp = toApp (\<lambda>p. v (''AppConfig'' # p)),
     cfClockSimulator = (str (v [''Services'', ''ClockSimulator'', ''GrpcHost'']), num (v [''Services'', ''ClockSimulator'', ''GrpcPort''])),
     cfMongo = toMongo (\<lambda>p. v (''MongoConfig'' # p)), cfRabbitMq = toRabbitMq (\<lambda>p. v (''RabbitMqConfig'' # p)),
     cfRedis = \<lparr>rdUsername = str (v [''RedisConfig'', ''Username'']), rdPassword = str (v [''RedisConfig'', ''Password'']),
       rdHost = str (v [''RedisConfig'', ''Host'']), rdPort = num (v [''RedisConfig'', ''Port'']), rdDB = num (v [''RedisConfig'', ''DB''])\<rparr>,
     cfTelemetry = \<lparr>tcOTLPEndpoint = str (v [''TelemetryConfig'', ''OTLPEndpoint'']),
       tcOTLPGrpcPort = num (v [''TelemetryConfig'', ''OTLPGrpcPort'']),
       tcOTLPHealthPort = num (v [''TelemetryConfig'', ''OTLPHealthPort'']),
       tcOTLPInsecure = flag (v [''TelemetryConfig'', ''OTLPInsecure''])\<rparr>\<rparr>"

text \<open>\<open>env.Parse(&cfg)\<close> with the library \<open>parse\<close> in an environment.\<close>

type_synonym envParser = "goType \<Rightarrow> (string \<rightharpoonup> string) \<Rightarrow> gerr + (string list \<Rightarrow> confValue)"

definition envParse :: "envParser \<Rightarrow> (string \<rightharpoonup> string) \<Rightarrow> gerr + configs" where
  "envParse parse env = map_sum id toConfigs (parse configsType env)"

text \<open>
  The documented reading of one variable by a library that converts text with \<open>conv\<close>: a set,
  non-empty variable is converted; one that is not set takes its default; one without a default
  must not be required. (What an empty variable with a default yields is left open.)
\<close>

definition readsVar :: "(leafKind \<Rightarrow> string \<Rightarrow> confValue option) \<Rightarrow> (string \<rightharpoonup> string) \<Rightarrow> (string list \<Rightarrow> confValue)
    \<Rightarrow> string list \<times> leafKind \<times> envTag \<Rightarrow> bool" where
  "readsVar conv env v = (\<lambda>(path, k, t). case env (tagName t) of
     Some x \<Rightarrow> x \<noteq> [] \<longrightarrow> conv k x = Some (v path)
   | None \<Rightarrow> (case tagDefault t of Some d \<Rightarrow> conv k d = Some (v path) | None \<Rightarrow> \<not> tagRequired t))"

definition documentedParser :: "(leafKind \<Rightarrow> string \<Rightarrow> confValue option) \<Rightarrow> envParser \<Rightarrow> bool" where
  "documentedParser conv parse \<longleftrightarrow> (\<forall>x. conv KString x = Some (VStr x)) \<and>
     (\<forall>ty env v. parse ty env = Inr v \<longrightarrow> list_all (readsVar conv env v) (envVars [] ty))"

lemma parsed_var:
  assumes "documentedParser conv parse" and "envParse parse env = Inr cfg"
  obtains v where "cfg = toConfigs v" and "\<And>x. x \<in> set (envVars [] configsType) \<Longrightarrow> readsVar conv env v x"
    and "\<And>x. conv KString x = Some (VStr x)"
proof (cases "parse configsType env")
  case (Inl e)
  with assms(2) show ?thesis by (simp add: envParse_def)
next
  case (Inr v)
  with assms(1) have "list_all (readsVar conv env v) (envVars [] configsType)" and "\<And>x. conv KString x = Some (VStr x)"
    by (auto simp: documentedParser_def)
  with Inr assms(2) show ?thesis by (intro that [of v]) (auto simp: envParse_def list_all_iff)
qed

text \<open>A variable with a default, and a required one without.\<close>

lemma default_read:
  assumes "readsVar conv env v (fp, KString, t)" and "\<And>x. conv KString x = Some (VStr x)"
    and "env (tagName t) = None" and "tagDefault t = Some d"
  shows "str (v fp) = d"
proof -
  from assms have "v fp = VStr d" by (auto simp: readsVar_def)
  then show ?thesis by simp
qed

lemma required_set: "readsVar conv env v (fp, k, t) \<Longrightarrow> tagRequired t \<Longrightarrow> tagDefault t = None \<Longrightarrow> env (tagName t) \<noteq> None"
  by (auto simp: readsVar_def split: option.splits)

abbreviation exchangeNameVar :: "string \<Rightarrow> string \<Rightarrow> string list \<times> leafKind \<times> envTag" where
  "exchangeNameVar producer name \<equiv> ([''RabbitMqConfig'', ''Producers'', producer, ''Exchange'', ''Name''], KString,
     \<lparr>tagName = name, tagRequired = True, tagDefault = Some ''ex.communication''\<rparr>)"

abbreviation queueNameVar :: "string \<Rightarrow> string \<Rightarrow> string list \<times> leafKind \<times> envTag" where
  "queueNameVar consumer name \<equiv> ([''RabbitMqConfig'', ''Consumers'', consumer, ''Queue'', ''Name''], KString,
     \<lparr>tagName = name, tagRequired = True, tagDefault = None\<rparr>)"

lemma declared_vars:
  "exchangeNameVar ''Cleaning'' ''CLEANING_EXCHANGE_NAME'' \<in> set (envVars [] configsType)"
  "exchangeNameVar ''GuestCommunication'' ''GUEST_COMMUNICATION_EXCHANGE_NAME'' \<in> set (envVars [] configsType)"
  "queueNameVar ''HourChange'' ''HOUR_CHANGE_QUEUE_NAME'' \<in> set (envVars [] configsType)"
  "queueNameVar ''DayChange'' ''DAY_CHANGE_QUEUE_NAME'' \<in> set (envVars [] configsType)"
  by (simp_all add: config_types)

text \<open>C38: the configuration is loaded only when every required variable without a default is set, the
  names of both queues among them; a producer whose exchange is not named in the environment gets
  \<open>ex.communication\<close>, the cleaning requests no less than the messages to the guests.\<close>

theorem configuration_defaults:
  assumes parser: "documentedParser conv parse" and load: "LoadConfigs (envParse parse env) s = Some (Inr cfg, s')"
  shows "list_all (\<lambda>(fp, k, t). tagRequired t \<longrightarrow> tagDefault t = None \<longrightarrow> env (tagName t) \<noteq> None) (envVars [] configsType) \<and>
    env ''HOUR_CHANGE_QUEUE_NAME'' \<noteq> None \<and> env ''DAY_CHANGE_QUEUE_NAME'' \<noteq> None \<and>
    (env ''CLEANING_EXCHANGE_NAME'' = None \<longrightarrow> exName (rpExchange (rmCleaning (cfRabbitMq cfg))) = ''ex.communication'') \<and>
    (env ''GUEST_COMMUNICATION_EXCHANGE_NAME'' = None \<longrightarrow>
       exName (rpExchange (rmGuestCommunication (cfRabbitMq cfg))) = ''ex.communication'')"
proof -
  from load have "envParse parse env = Inr cfg" by (simp add: LoadConfigs_def)
  with parser show ?thesis
  proof (rule parsed_var)
    fix v
    assume v: "cfg = toConfigs v" "\<And>x. x \<in> set (envVars [] configsType) \<Longrightarrow> readsVar conv env v x"
      "\<And>x. conv KString x = Some (VStr x)"
    have req: "env (tagName t) \<noteq> None"
      if "(fp, k, t) \<in> set (envVars [] configsType)" "tagRequired t" "tagDefault t = None" for fp k t
      using required_set [OF v(2) [OF that(1)] that(2,3)] .
    show ?thesis
      using req required_set [OF v(2) [OF declared_vars(3)]] required_set [OF v(2) [OF declared_vars(4)]]
        default_read [OF v(2) [OF declared_vars(1)] v(3)] default_read [OF v(2) [OF declared_vars(2)] v(3)]
      by (auto simp: v(1) toConfigs_def toRabbitMq_def toProducer_def list_all_iff simp del: not_None_eq)
  qed
qed

text \<open>A parser of this behaviour, and an environment that sets what is required.\<close>

definition tableParser :: "(leafKind \<Rightarrow> string \<Rightarrow> confValue option) \<Rightarrow> envParser" where
  "tableParser conv ty env = (let v = (\<lambda>p. case map_of (map (\<lambda>(p, k, t). (p, conv k (case env (tagName t) of Some x \<Rightarrow> x
         | None \<Rightarrow> (case tagDefault t of Some d \<Rightarrow> d | None \<Rightarrow> []))))  (envVars [] ty)) p of Some (Some x) \<Rightarrow> x | _ \<Rightarrow> VStr [])
     in if list_all (readsVar conv env v) (envVars [] ty) then Inr v else Inl (LibErr ''env''))"

definition sampleConv :: "leafKind \<Rightarrow> string \<Rightarrow> confValue option" where
  "sampleConv k x = Some (case k of KString \<Rightarrow> VStr x | KSecret \<Rightarrow> VStr x | KInt \<Rightarrow> VInt (int (size x)) | KUint64 \<Rightarrow> VUint 1
     | KBool \<Rightarrow> VBool (x = ''true''))"

definition sampleEnv :: "string \<rightharpoonup> string" where
  "sampleEnv n = (if n \<in> {''CLEANING_EXCHANGE_NAME'', ''GUEST_COMMUNICATION_EXCHANGE_NAME''} then None else Some ''1'')"

lemma tableParser_documented: "documentedParser sampleConv (tableParser sampleConv)"
  by (auto simp: documentedParser_def tableParser_def sampleConv_def Let_def split: if_splits)

lemma configs_paths: "distinct (map fst (envVars [] configsType))"
  by code_simp

lemma sampleEnv_covers: "list_all (\<lambda>(p, k, t). sampleEnv (tagName t) = None \<longrightarrow> tagDefault t \<noteq> None) (envVars [] configsType)"
  by code_simp

lemma sampleEnv_parsed: "\<exists>v. tableParser sampleConv configsType sampleEnv = Inr v"
proof -
  let ?vars = "envVars [] configsType"
  let ?val = "\<lambda>k t. sampleConv k (case sampleEnv (tagName t) of Some x \<Rightarrow> x
    | None \<Rightarrow> (case tagDefault t of Some d \<Rightarrow> d | None \<Rightarrow> []))"
  let ?m = "map (\<lambda>(p, k, t). (p, ?val k t)) ?vars"
  let ?v = "\<lambda>p. case map_of ?m p of Some (Some x) \<Rightarrow> x | _ \<Rightarrow> VStr []"
  have "map fst ?m = map fst ?vars" by (auto simp: case_prod_unfold)
  with configs_paths have d: "distinct (map fst ?m)" by (simp only:)
  have "readsVar sampleConv sampleEnv ?v x" if "x \<in> set ?vars" for x
  proof -
    obtain fp k t where x: "x = (fp, k, t)" by (cases x)
    with that have "(fp, ?val k t) \<in> set ?m" by force
    with d have "map_of ?m fp = Some (?val k t)" by simp
    moreover have "sampleEnv (tagName t) = None \<longrightarrow> tagDefault t \<noteq> None"
      using sampleEnv_covers that by (auto simp: x list_all_iff)
    ultimately show ?thesis by (auto simp: x readsVar_def sampleConv_def split: option.splits)
  qed
  then show ?thesis by (simp add: tableParser_def Let_def list_all_iff)
qed

theorem configuration_defaults_witness:
  "\<exists>cfg. LoadConfigs (envParse (tableParser sampleConv) sampleEnv) () = Some (Inr cfg, ()) \<and>
     exName (rpExchange (rmCleaning (cfRabbitMq cfg))) = ''ex.communication''"
proof -
  obtain v where "tableParser sampleConv configsType sampleEnv = Inr v" using sampleEnv_parsed by blast
  then have "LoadConfigs (envParse (tableParser sampleConv) sampleEnv) () = Some (Inr (toConfigs v), ())"
    by (simp add: LoadConfigs_def envParse_def)
  from configuration_defaults [OF tableParser_documented this] this show ?thesis by (auto simp: sampleEnv_def)
qed

section \<open>Printing the configuration\<close>

text \<open>
  \<open>encoding/json\<close> on a structure: the fields of an embedded structure count as fields of the outer
  one, one level deeper; of several fields of one name the shallowest is printed, and none if
  there are two of the same depth. No field of the configuration has a \<open>json\<close> tag.
\<close>

fun candidates :: "nat \<Rightarrow> goField \<Rightarrow> (string \<times> nat \<times> goType) list" where
  "candidates d (Field n emb p (Struct fs)) = (if emb then concat (map (candidates (Suc d)) fs) else [(n, d, Struct fs)])"
| "candidates d (Field n emb p (Leaf k t)) = [(n, d, Leaf k t)]"

definition printed :: "goField list \<Rightarrow> (string \<times> nat \<times> goType) list" where
  "printed fs = (let cs = concat (map (candidates 0) fs) in
     filter (\<lambda>(n, d, t). length (filter (\<lambda>(n', d', t'). n' = n \<and> d' \<le> d) cs) = 1) cs)"

lemma candidates_size: "(n, d', t) \<in> set (candidates d f) \<Longrightarrow> size t < size f"
proof (induction d f rule: candidates.induct)
  case (1 d m emb p fs)
  show ?case
  proof (cases emb)
    case True
    with "1.prems" obtain f where f: "f \<in> set fs" "(n, d', t) \<in> set (candidates (Suc d) f)" by auto
    have "size t < size f" by (rule "1.IH" [OF True f])
    with size_list_estimation' [OF f(1), of "size f" size] show ?thesis by simp
  qed (use "1.prems" in auto)
qed auto

lemma printed_size: "(n, d, t) \<in> set (printed fs) \<Longrightarrow> size t < Suc (size_list size fs)"
proof -
  assume "(n, d, t) \<in> set (printed fs)"
  then obtain f where f: "f \<in> set fs" "(n, d, t) \<in> set (candidates 0 f)" by (auto simp: printed_def Let_def)
  from candidates_size [OF f(2)] size_list_estimation' [OF f(1), of "size f" size] show ?thesis by simp
qed

function jsonLeaves :: "goType \<Rightarrow> (string list \<times> leafKind) list" where
  "jsonLeaves (Leaf k t) = [([], k)]"
| "jsonLeaves (Struct fs) = concat (map (\<lambda>(n, d, t). map (\<lambda>(p, k). (n # p, k)) (jsonLeaves t)) (printed fs))"
  by pat_completeness auto
termination
  by (relation "measure size") (auto simp: printed_size)

text \<open>What the line \<open>config loaded\<close> of the start-up shows of the configuration.\<close>

definition configLogged :: "(string list \<times> leafKind) list" where
  "configLogged = jsonLeaves configsType"

definition showsKinds :: "(string list \<times> leafKind) list \<Rightarrow> bool \<times> bool \<times> bool" where
  "showsKinds l = (list_ex (\<lambda>x. snd x = KSecret) l, list_ex (\<lambda>x. fst x = [''Host'']) l, list_ex (\<lambda>x. fst x = [''Server'', ''Host'']) l)"

lemma shows_configLogged: "showsKinds configLogged = (False, False, True)"
  by code_simp

lemma shows_alone:
  "([''Password''], KSecret) \<in> set (jsonLeaves mongoConfigType)"
  "([''Password''], KSecret) \<in> set (jsonLeaves rabbitMqConfigType)"
  "([''Password''], KSecret) \<in> set (jsonLeaves redisConfigType)"
  by (simp_all add: config_types printed_def)

text \<open>C39: the start-up prints no secret, although the JSON encoder does not call \<open>Secret.String\<close>: the user
  names and passwords of the three clients have the same names at the same depth, which is why none
  of them is printed. Each configuration alone would print its password. For the same reason the
  host of every client is missing in the line that is to show the configuration.\<close>

theorem start_up_prints_no_secret:
  "\<not> list_ex (\<lambda>x. snd x = KSecret) configLogged \<and> \<not> list_ex (\<lambda>x. fst x = [''Host'']) configLogged \<and>
   list_ex (\<lambda>x. fst x = [''Server'', ''Host'']) configLogged \<and>
   ([''Password''], KSecret) \<in> set (jsonLeaves mongoConfigType) \<inter> set (jsonLeaves rabbitMqConfigType) \<inter> set (jsonLeaves redisConfigType)"
  using shows_configLogged shows_alone by (simp add: showsKinds_def)

end
