(* ===== verification/CottageStore.thy ===== *)
theory CottageStore
  imports MongoRepos
begin

text \<open>
  What the cottage collection holds, as a map from names to documents, and the contract of the
  cottage repository over it. The driver's contract is the locale \<open>cottage_collection\<close>: the
  documented effect of \<open>FindOne\<close> and \<open>UpdateOne\<close> with the filters and update operators the
  repository uses. The repository's contract is the locale \<open>cottage_store\<close>; the sublocale shows
  that \<open>newCottageRepo\<close> over such a collection meets it.
\<close>

section \<open>Filters and updates on a cottage document\<close>

text \<open>The two filters of the repository: the name, and an element of the array of bookings.\<close>

definition selects :: "string \<Rightarrow> bval \<Rightarrow> cottageDoc \<Rightarrow> bool" where
  "selects k v c \<longleftrightarrow> (k = ''name'' \<and> v = BStr (dcName c)) \<or> (k = ''bookings'' \<and> v \<in> BId ` set (dcBookings c))"

fun setCottageField :: "string \<times> bval \<Rightarrow> cottageDoc \<Rightarrow> cottageDoc" where
  "setCottageField (k, BId g) c = (if k = ''current_guest'' then c\<lparr>dcCurrentGuest := g\<rparr> else c)"
| "setCottageField (k, BStr v) c =
     (if k = ''key.number'' then c\<lparr>dcKey := (dcKey c)\<lparr>kNumber := v\<rparr>\<rparr>
      else if k = ''key.holder'' then c\<lparr>dcKey := (dcKey c)\<lparr>kHolder := v\<rparr>\<rparr> else c)"
| "setCottageField _ c = c"

fun pullCottageField :: "string \<times> bval \<Rightarrow> cottageDoc \<Rightarrow> cottageDoc" where
  "pullCottageField (k, BId b) c = (if k = ''bookings'' then c\<lparr>dcBookings := removeAll b (dcBookings c)\<rparr> else c)"
| "pullCottageField _ c = c"

fun applyOperator :: "string \<times> bval \<Rightarrow> cottageDoc \<Rightarrow> cottageDoc" where
  "applyOperator (op, BDoc m) c =
     (if op = ''$set'' then fold setCottageField m c else if op = ''$pull'' then fold pullCottageField m c else c)"
| "applyOperator _ c = c"

definition applyUpdate :: "bsonM \<Rightarrow> cottageDoc \<Rightarrow> cottageDoc" where
  "applyUpdate u c = fold applyOperator u c"

lemma setCottageField_name: "dcName (setCottageField kv c) = dcName c"
  by (induction kv c rule: setCottageField.induct) simp_all

lemma pullCottageField_name: "dcName (pullCottageField kv c) = dcName c"
  by (induction kv c rule: pullCottageField.induct) simp_all

lemma fold_keeps: "(\<And>x c. f (g x c) = f c) \<Longrightarrow> f (fold g xs c) = f c"
  by (induction xs arbitrary: c) simp_all

lemma applyOperator_name: "dcName (applyOperator kv c) = dcName c"
  by (induction kv c rule: applyOperator.induct) (simp_all add: fold_keeps setCottageField_name pullCottageField_name)

lemma applyUpdate_name [simp]: "dcName (applyUpdate u c) = dcName c"
  by (simp add: applyUpdate_def fold_keeps applyOperator_name)

text \<open>One selected document is updated, every other stays as it was.\<close>

definition updatedOne ::
  "string \<Rightarrow> bval \<Rightarrow> bsonM \<Rightarrow> (string \<rightharpoonup> cottageDoc) \<Rightarrow> (string \<rightharpoonup> cottageDoc) \<Rightarrow> bool" where
  "updatedOne k v u m m' \<longleftrightarrow> (\<exists>n c. m n = Some c \<and> selects k v c \<and> m' = m(n \<mapsto> applyUpdate u c))"

section \<open>The driver\<close>

text \<open>
  An update that reports an error may have been applied or not. A matched count of zero means
  that no stored document was selected.
\<close>

locale cottage_collection =
  fixes col :: "('s, cottageDoc) collection"
    and stored :: "'s \<Rightarrow> string \<rightharpoonup> cottageDoc"
  assumes keyed: "stored s n = Some c \<Longrightarrow> dcName c = n"
    and find_one: "colFindOne col [(''name'', BStr n)] s = Some (r, s') \<Longrightarrow>
      stored s' = stored s \<and> (\<forall>c. r = Inr c \<longrightarrow> stored s n = Some c)"
    and update_one: "colUpdateOne col [(k, v)] u s = Some (res, s') \<Longrightarrow>
      (case res of
         Inl _ \<Rightarrow> stored s' = stored s \<or> updatedOne k v u (stored s) (stored s')
       | Inr count \<Rightarrow> if count = 0 then stored s' = stored s \<and> (\<forall>n c. stored s n = Some c \<longrightarrow> \<not> selects k v c)
                  else updatedOne k v u (stored s) (stored s'))"
begin

lemma updatedOne_name:
  "updatedOne ''name'' (BStr n) u (stored s) m' \<Longrightarrow> \<exists>c. stored s n = Some c \<and> m' = (stored s)(n \<mapsto> applyUpdate u c)"
  using keyed by (fastforce simp: updatedOne_def selects_def)

lemma update_ok: "colUpdateOne col [(k, v)] u s = Some (Inr (Suc j), s') \<Longrightarrow> updatedOne k v u (stored s) (stored s')"
  using update_one [of k v u s "Inr (Suc j)" s'] by simp

end

section \<open>The repository\<close>

definition currentGuestSet :: "string \<Rightarrow> objectID \<Rightarrow> (string \<rightharpoonup> cottageDoc) \<Rightarrow> (string \<rightharpoonup> cottageDoc) \<Rightarrow> bool" where
  "currentGuestSet n g m m' \<longleftrightarrow> (\<exists>c. m n = Some c \<and> m' = m(n \<mapsto> c\<lparr>dcCurrentGuest := g\<rparr>))"

definition keySet :: "string \<Rightarrow> string \<Rightarrow> string \<Rightarrow> (string \<rightharpoonup> cottageDoc) \<Rightarrow> (string \<rightharpoonup> cottageDoc) \<Rightarrow> bool" where
  "keySet n k h m m' \<longleftrightarrow> (\<exists>c. m n = Some c \<and> m' = m(n \<mapsto> c\<lparr>dcKey := \<lparr>kNumber = k, kHolder = h\<rparr>\<rparr>))"

definition bookingPulled :: "objectID \<Rightarrow> (string \<rightharpoonup> cottageDoc) \<Rightarrow> (string \<rightharpoonup> cottageDoc) \<Rightarrow> bool" where
  "bookingPulled b m m' \<longleftrightarrow> (\<exists>n c. m n = Some c \<and> b \<in> set (dcBookings c) \<and>
     m' = m(n \<mapsto> c\<lparr>dcBookings := removeAll b (dcBookings c), dcCurrentGuest := NilObjectID\<rparr>))"

locale cottage_store =
  fixes ct :: "'s cottageRepo"
    and stored :: "'s \<Rightarrow> string \<rightharpoonup> cottageDoc"
  assumes get_frame: "ctGetByName ct n s = Some (r, s') \<Longrightarrow> stored s' = stored s"
    and get_stored: "ctGetByName ct n s = Some (Inr c, s') \<Longrightarrow> stored s n = Some c"
    and guest_set: "ctUpdateCurrentGuest ct n g s = Some (Inr u, s') \<Longrightarrow> currentGuestSet n g (stored s) (stored s')"
    and guest_failed: "ctUpdateCurrentGuest ct n g s = Some (Inl e, s') \<Longrightarrow>
      stored s' = stored s \<or> currentGuestSet n g (stored s) (stored s')"
    and key_set: "ctUpdateKeyHolder ct n k h s = Some (Inr u, s') \<Longrightarrow> keySet n k h (stored s) (stored s')"
    and booking_pulled: "ctRemovePastBooking ct b s = Some (Inr u, s') \<Longrightarrow> bookingPulled b (stored s) (stored s')"

locale cottage_repository = cottage_collection col stored
  for col :: "('s, cottageDoc) collection" and stored :: "'s \<Rightarrow> string \<rightharpoonup> cottageDoc" +
  fixes hex :: "objectID \<Rightarrow> string"
begin

lemma guest_update_set:
  "updatedOne ''name'' (BStr n) [(''$set'', BDoc [(''current_guest'', BId g)])] (stored s) m' \<Longrightarrow>
     currentGuestSet n g (stored s) m'"
  by (drule updatedOne_name) (simp add: currentGuestSet_def applyUpdate_def)

lemma key_update_set:
  assumes "updatedOne ''name'' (BStr n) [(''$set'', BDoc [(''key.number'', BStr k), (''key.holder'', BStr h)])] (stored s) m'"
  shows "keySet n k h (stored s) m'"
proof -
  have "key\<lparr>kNumber := k, kHolder := h\<rparr> = \<lparr>kNumber = k, kHolder = h\<rparr>" for key :: keyDoc by (cases key) simp
  with updatedOne_name [OF assms] show ?thesis by (simp add: keySet_def applyUpdate_def)
qed

lemma pull_update:
  "updatedOne ''bookings'' (BId b) [(''$pull'', BDoc [(''bookings'', BId b)]), (''$set'', BDoc [(''current_guest'', BId NilObjectID)])]
     (stored s) m' \<Longrightarrow> bookingPulled b (stored s) m'"
  by (force simp: updatedOne_def bookingPulled_def selects_def applyUpdate_def)

end

text \<open>An update operation of the repository makes one call of the driver, after its validation.\<close>

lemma update_guest_call:
  "cottageRepoUpdateCurrentGuest c n g s = Some (r, s') \<Longrightarrow> (s' = s \<and> (\<exists>e. r = Inl e)) \<or>
     (\<exists>x. colUpdateOne c [(''name'', BStr n)] [(''$set'', BDoc [(''current_guest'', BId g)])] s = Some (x, s') \<and>
       (\<forall>u. r = Inr u \<longrightarrow> (\<exists>j. x = Inr (Suc j))))"
  unfolding cottageRepoUpdateCurrentGuest_def
  by (auto simp: bindE_Some mapErrE_Some_Inl matchedOr_def gr0_conv_Suc split: if_splits)

lemma cottage_get_call:
  "cottageRepoGetByName c n s = Some (r, s') \<Longrightarrow> (s' = s \<and> (\<exists>e. r = Inl e)) \<or>
     (\<exists>x. colFindOne c [(''name'', BStr n)] s = Some (x, s') \<and> (\<forall>d. r = Inr d \<longrightarrow> x = Inr d))"
  unfolding cottageRepoGetByName_def
  by (cases r) (auto simp: bindE_Some mapErrE_Some_Inl)

lemma newCottageRepo_sel [simp]:
  "ctGetByName (newCottageRepo hex c) = cottageRepoGetByName c"
  "ctUpdateCurrentGuest (newCottageRepo hex c) = cottageRepoUpdateCurrentGuest c"
  "ctUpdateKeyHolder (newCottageRepo hex c) = cottageRepoUpdateKeyHolder c"
  "ctRemovePastBooking (newCottageRepo hex c) = cottageRepoRemovePastBooking hex c"
  by (simp_all add: newCottageRepo_def)

sublocale cottage_repository \<subseteq> repo: cottage_store "newCottageRepo hex col" stored
proof unfold_locales
  fix n g k h b s s' u e c r
  show "stored s' = stored s" if "ctGetByName (newCottageRepo hex col) n s = Some (r, s')"
    using that find_one by (fastforce dest: cottage_get_call)
  show "stored s n = Some c" if "ctGetByName (newCottageRepo hex col) n s = Some (Inr c, s')"
    using that find_one by (fastforce dest: cottage_get_call)
  show "currentGuestSet n g (stored s) (stored s')"
    if "ctUpdateCurrentGuest (newCottageRepo hex col) n g s = Some (Inr u, s')"
    using that by (fastforce dest: update_guest_call update_ok intro: guest_update_set)
  show "stored s' = stored s \<or> currentGuestSet n g (stored s) (stored s')"
    if "ctUpdateCurrentGuest (newCottageRepo hex col) n g s = Some (Inl e, s')"
  proof -
    from that consider "s' = s" | x where "colUpdateOne col [(''name'', BStr n)] [(''$set'', BDoc [(''current_guest'', BId g)])] s = Some (x, s')"
      by (auto dest: update_guest_call)
    then show ?thesis
      by cases (auto dest!: update_one intro: guest_update_set split: sum.splits if_splits)
  qed
  show "keySet n k h (stored s) (stored s')" if "ctUpdateKeyHolder (newCottageRepo hex col) n k h s = Some (Inr u, s')"
    using that by (auto simp: cottageRepoUpdateKeyHolder_def matched_update_iff intro: key_update_set update_ok)
  show "bookingPulled b (stored s) (stored s')" if "ctRemovePastBooking (newCottageRepo hex col) b s = Some (Inr u, s')"
    using that by (auto simp: cottageRepoRemovePastBooking_def matched_update_iff intro: pull_update update_ok)
qed

context cottage_repository
begin

lemma repo_store: "cottage_store (newCottageRepo hex col) stored"
  by (rule repo.cottage_store_axioms)

end

section \<open>A collection in memory\<close>

text \<open>
  The state is the list of the documents in the order of the collection; of two documents of
  the same name only the first is visible.
\<close>

definition memStored :: "cottageDoc list \<Rightarrow> string \<rightharpoonup> cottageDoc" where
  "memStored cs n = List.find (\<lambda>c. dcName c = n) cs"

definition memSelect :: "bsonM \<Rightarrow> cottageDoc list \<Rightarrow> cottageDoc option" where
  "memSelect f cs = List.find (\<lambda>c. memStored cs (dcName c) = Some c \<and> (\<forall>(k, v) \<in> set f. selects k v c)) cs"

fun memReplace :: "cottageDoc \<Rightarrow> cottageDoc list \<Rightarrow> cottageDoc list" where
  "memReplace d [] = []"
| "memReplace d (c # cs) = (if dcName c = dcName d then d # cs else c # memReplace d cs)"

definition memCottages :: "(cottageDoc list, cottageDoc) collection" where
  "memCottages = \<lparr>colFindOne = (\<lambda>f cs. Some (case memSelect f cs of None \<Rightarrow> Inl (Sentinel SErrNoDocuments) | Some c \<Rightarrow> Inr c, cs)),
     colFind = (\<lambda>_. retE 0), colAll = (\<lambda>_. retE []), colInsertOne = (\<lambda>c cs. Some (Inr (dcId c), cs @ [c])),
     colUpdateOne = (\<lambda>f u cs. Some (case memSelect f cs of
        None \<Rightarrow> (Inr 0, cs)
      | Some c \<Rightarrow> (Inr 1, memReplace (applyUpdate u c) cs)))\<rparr>"

lemma memStored_name: "memStored cs n = Some c \<Longrightarrow> dcName c = n"
  by (auto simp: memStored_def find_Some_first)

lemma memStored_replace:
  "memStored cs (dcName d) \<noteq> None \<Longrightarrow> memStored (memReplace d cs) = (memStored cs)(dcName d \<mapsto> d)"
  by (induction cs) (auto simp: memStored_def fun_eq_iff)

lemma memSelect_Some:
  "memSelect [(k, v)] cs = Some c \<Longrightarrow> memStored cs (dcName c) = Some c \<and> selects k v c"
  by (auto simp: memSelect_def find_Some_first)

lemma memSelect_None:
  assumes "memSelect [(k, v)] cs = None" and "memStored cs n = Some c"
  shows "\<not> selects k v c"
proof -
  from assms(2) have "c \<in> set cs" "memStored cs (dcName c) = Some c"
    using memStored_name [OF assms(2)] by (auto simp: memStored_def find_Some_first)
  with assms(1) show ?thesis by (auto simp: memSelect_def find_None_iff)
qed

interpretation mem: cottage_repository memCottages memStored hex for hex
proof unfold_locales
  fix cs n c and r :: "gerr + cottageDoc" and cs' k v u and res :: "gerr + nat"
  show "dcName c = n" if "memStored cs n = Some c" using that by (rule memStored_name)
  show "memStored cs' = memStored cs \<and> (\<forall>c. r = Inr c \<longrightarrow> memStored cs n = Some c)"
    if "colFindOne memCottages [(''name'', BStr n)] cs = Some (r, cs')"
    using that by (auto simp: memCottages_def selects_def dest!: memSelect_Some split: option.splits)
  show "case res of
         Inl _ \<Rightarrow> memStored cs' = memStored cs \<or> updatedOne k v u (memStored cs) (memStored cs')
       | Inr count \<Rightarrow> if count = 0 then memStored cs' = memStored cs \<and> (\<forall>n c. memStored cs n = Some c \<longrightarrow> \<not> selects k v c)
                  else updatedOne k v u (memStored cs) (memStored cs')"
    if "colUpdateOne memCottages [(k, v)] u cs = Some (res, cs')"
  proof (cases "memSelect [(k, v)] cs")
    case None
    with that memSelect_None [OF None] show ?thesis by (auto simp: memCottages_def)
  next
    case (Some d)
    with that have r: "res = Inr 1" "cs' = memReplace (applyUpdate u d) cs" by (simp_all add: memCottages_def)
    from memSelect_Some [OF Some] have "updatedOne k v u (memStored cs) (memStored cs')"
      by (auto simp: updatedOne_def r memStored_replace)
    with r show ?thesis by simp
  qed
qed

text \<open>The visible document of a name is the one the filter on the name selects.\<close>

lemma memSelect_name: "memSelect [(''name'', BStr n)] cs = memStored cs n"
proof (cases "memStored cs n")
  case None
  then have "\<forall>c \<in> set cs. dcName c \<noteq> n" by (auto simp: memStored_def find_None_iff)
  then show ?thesis unfolding None by (auto simp: memSelect_def selects_def find_None_iff)
next
  case (Some c)
  show ?thesis
  proof (cases "memSelect [(''name'', BStr n)] cs")
    case None
    with memSelect_None [OF None Some] memStored_name [OF Some] show ?thesis by (simp add: selects_def)
  next
    case (Some d)
    with memSelect_Some [OF Some] \<open>memStored cs n = Some c\<close> show ?thesis by (auto simp: selects_def)
  qed
qed

lemma memCottage_find:
  "memStored cs n = Some c \<Longrightarrow> \<not> isBlank n \<Longrightarrow> cottageRepoGetByName memCottages n cs = Some (Inr c, cs)"
  by (simp add: cottageRepoGetByName_def memCottages_def memSelect_name step_defs validated_def)

lemma memCottage_update:
  "memStored cs n = Some c \<Longrightarrow> \<not> isBlank n \<Longrightarrow>
     cottageRepoUpdateCurrentGuest memCottages n g cs = Some (Inr (), memReplace (c\<lparr>dcCurrentGuest := g\<rparr>) cs)"
  by (simp add: cottageRepoUpdateCurrentGuest_def memCottages_def memSelect_name step_defs validated_def matchedOr_def
      applyUpdate_def)

lemma memCottage_key:
  "memStored cs n = Some c \<Longrightarrow> \<not> isBlank n \<Longrightarrow> \<not> isBlank k \<Longrightarrow> \<not> isBlank h \<Longrightarrow>
     cottageRepoUpdateKeyHolder memCottages n k h cs =
       Some (Inr (), memReplace (c\<lparr>dcKey := \<lparr>kNumber = k, kHolder = h\<rparr>\<rparr>) cs)"
  by (cases "dcKey c") (simp add: cottageRepoUpdateKeyHolder_def memCottages_def memSelect_name step_defs validated_def
      matchedOr_def applyUpdate_def)

lemma memCottage_pull:
  "b \<in> set (dcBookings c) \<Longrightarrow> b \<noteq> NilObjectID \<Longrightarrow> cottageRepoRemovePastBooking hex memCottages b [c] =
     Some (Inr (), [c\<lparr>dcBookings := removeAll b (dcBookings c), dcCurrentGuest := NilObjectID\<rparr>])"
  by (simp add: cottageRepoRemovePastBooking_def memCottages_def memSelect_def memStored_def selects_def step_defs
      validated_def matchedOr_def applyUpdate_def)

lemma memStored_single [simp]: "memStored [c] n = (if dcName c = n then Some c else None)"
  by (simp add: memStored_def)

end
