(* ===== verification/Lodge.thy ===== *)
theory Lodge
  imports Reception CottageStore
begin

text \<open>
  The reception over the cottages it works on: what its operations do to the stored cottages, a
  check-in that fails after the claim, a whole stay, and check-ins of several sessions at the same
  time, which the server runs in goroutines of their own, as interleaved steps of one collaborator
  call each.
\<close>

section \<open>The reception on stored cottages\<close>

text \<open>
  The abstract lodge is the map of the stored cottages: a guest is admitted to an available
  cottage; a check-out takes the booking from the cottage that lists it and frees the named one.
\<close>

definition admit :: "string \<Rightarrow> objectID \<Rightarrow> (string \<rightharpoonup> cottageDoc) \<Rightarrow> (string \<rightharpoonup> cottageDoc) option" where
  "admit n g m = (case m n of None \<Rightarrow> None
     | Some c \<Rightarrow> if available c then Some (m(n \<mapsto> c\<lparr>dcCurrentGuest := g\<rparr>)) else None)"

definition vacated :: "objectID \<Rightarrow> string \<Rightarrow> (string \<rightharpoonup> cottageDoc) \<Rightarrow> (string \<rightharpoonup> cottageDoc) \<Rightarrow> bool" where
  "vacated b n m m' \<longleftrightarrow> (\<exists>m1. bookingPulled b m m1 \<and> currentGuestSet n NilObjectID m1 m')"

lemma admit_Some:
  "admit n g m = Some m' \<longleftrightarrow> (\<exists>c. m n = Some c \<and> available c \<and> m' = m(n \<mapsto> c\<lparr>dcCurrentGuest := g\<rparr>))"
  by (auto simp: admit_def split: option.splits if_splits)

text \<open>
  The reception works on stored cottages: its repository meets the contract, and the other
  collaborators do not touch the cottages.
\<close>

locale lodge = cottage_store "rsCottageRepo r" stored
  for r :: "'s receptionService" and stored :: "'s \<Rightarrow> string \<rightharpoonup> cottageDoc" +
  assumes cleaning_frame: "csCleanRoom (rsCleaningService r) order s = Some (x, s') \<Longrightarrow> stored s' = stored s"
    and status_frame: "brUpdateStatus (rsBookingRepo r) b st s = Some (x, s') \<Longrightarrow> stored s' = stored s"
begin

lemma checkIn_admits:
  assumes "processCheckIn r doc b g today s = Some (Inr u, s')"
  shows "admissible b today \<and> admit (bCottageName b) (gId g) (stored s) = Some (stored s')"
proof -
  from assms obtain c s1 s2 order where ad: "admissible b today" and av: "available c"
    and get: "ctGetByName (rsCottageRepo r) (bCottageName b) s = Some (Inr c, s1)"
    and upd: "ctUpdateCurrentGuest (rsCottageRepo r) (bCottageName b) (gId g) s1 = Some (Inr (), s2)"
    and pub: "csCleanRoom (rsCleaningService r) order s2 = Some (Inr u, s')"
    by (auto simp: processCheckIn_eq split: if_splits option.splits sum.splits)
  have "stored s1 = stored s" "stored s (bCottageName b) = Some c" "stored s' = stored s2"
    using get_frame [OF get] get_stored [OF get] cleaning_frame [OF pub] .
  with guest_set [OF upd] ad av show ?thesis by (auto simp: admit_def currentGuestSet_def)
qed

lemma keys_handed:
  "receptionReceiveCottageKey r n k s = Some (Inr u, s') \<Longrightarrow> keySet n k KeyHolderGuest (stored s) (stored s')"
  "receptionReturnCottageKey r n k s = Some (Inr u, s') \<Longrightarrow> keySet n k KeyHolderCottage (stored s) (stored s')"
  unfolding receptionReceiveCottageKey_def receptionReturnCottageKey_def mapErrE_Some_Inr by (rule key_set, assumption)+

lemma checkOut_vacates:
  assumes "receptionCheckOut r b today s = Some (Inr u, s')"
  shows "vacated (bId b) (bCottageName b) (stored s) (stored s')"
proof -
  from assms obtain s1 s2 s3 order where
    st: "brUpdateStatus (rsBookingRepo r) (bId b) BookingStatusPast s = Some (Inr (), s1)" and
    rm: "ctRemovePastBooking (rsCottageRepo r) (bId b) s1 = Some (Inr (), s2)" and
    gu: "ctUpdateCurrentGuest (rsCottageRepo r) (bCottageName b) NilObjectID s2 = Some (Inr (), s3)" and
    pub: "csCleanRoom (rsCleaningService r) order s3 = Some (Inr u, s')"
    unfolding receptionCheckOut_def Let_def by (auto simp: bindE_Some_Inr)
  from status_frame [OF st] booking_pulled [OF rm] guest_set [OF gu] cleaning_frame [OF pub] show ?thesis
    unfolding vacated_def by auto
qed

lemma occupied_refused:
  assumes "stored s (bCottageName b) = Some c" and "dcCurrentGuest c \<noteq> NilObjectID"
    and "processCheckIn r doc b g today s = Some (x, s')"
  shows "\<exists>e. x = Inl e"
proof (cases x)
  case (Inr u)
  with assms(3) checkIn_admits [of doc b g today s u s'] assms(1,2) show ?thesis
    by (auto simp: admit_def available_def split: if_splits)
qed simp

text \<open>A check-in that changed the stored cottages has claimed the cottage, whatever it returned.\<close>

lemma changed_claimed:
  assumes "processCheckIn r doc b g today s = Some (x, s')" and "stored s' \<noteq> stored s"
  shows "admit (bCottageName b) (gId g) (stored s) = Some (stored s')"
proof -
  note run = assms(1) [unfolded processCheckIn_eq]
  have ad: "admissible b today" using run assms(2) by (auto split: if_splits)
  with run obtain y s1 where y: "ctGetByName (rsCottageRepo r) (bCottageName b) s = Some (y, s1)"
    by (auto split: option.splits)
  note st1 = get_frame [OF y]
  obtain c where c: "y = Inr c" using ad run y st1 assms(2) by (cases y) auto
  have av: "available c" using ad run y c st1 assms(2) by (auto split: if_splits)
  with ad run y c obtain z s2 where z: "ctUpdateCurrentGuest (rsCottageRepo r) (bCottageName b) (gId g) s1 = Some (z, s2)"
    by (auto split: option.splits)
  have "stored s' = stored s2"
    using ad run y c av z
    by (auto simp: mapErrE_def split: sum.splits option.splits dest: cleaning_frame)
  moreover have "stored s2 = stored s1 \<or> currentGuestSet (bCottageName b) (gId g) (stored s1) (stored s2)"
    using z guest_set guest_failed by (cases z) auto
  ultimately show ?thesis
    using assms(2) st1 get_stored [OF y [unfolded c]] av by (auto simp: admit_def currentGuestSet_def)
qed

end

text \<open>The reception as the program wires it, over a cottage collection of the driver.\<close>

lemma lodge_wired:
  assumes "cottage_collection col stored"
    and "\<And>m k s x s'. pubPublish pub m k s = Some (x, s') \<Longrightarrow> stored s' = stored s"
    and "\<And>b st s x s'. brUpdateStatus br b st s = Some (x, s') \<Longrightarrow> stored s' = stored s"
  shows "lodge (wiredReception gr (newCottageRepo hex col) br ca pub) stored"
proof -
  let ?r = "wiredReception gr (newCottageRepo hex col) br ca pub"
  have sel: "rsCottageRepo ?r = newCottageRepo hex col" "rsBookingRepo ?r = br" "rsCleaningService ?r = newCleaningService pub"
    by (simp_all add: wiredReception_def newReceptionService_def)
  have "cottage_store (newCottageRepo hex col) stored"
    by (rule cottage_repository.repo_store [OF cottage_repository.intro [OF assms(1)]])
  then show ?thesis
    using assms(2,3) unfolding lodge_def lodge_axioms_def sel
    by (auto simp: newCleaningService_def cleaningServiceCleanRoom_def)
qed

section \<open>A reception in memory\<close>

text \<open>A broker that accepts every message, and one that is down.\<close>

definition memPublisher :: "bool \<Rightarrow> 's mqPublisher" where
  "memPublisher up = \<lparr>pubPublish = (\<lambda>_ _. if up then retE () else failE (LibErr ''broker''))\<rparr>"

definition memReception :: "bool \<Rightarrow> (cottageDoc list) receptionService" where
  "memReception up = wiredReception sampleGuestRepo (newCottageRepo (\<lambda>_. ''0'') memCottages) sampleBookingRepo sampleCache (memPublisher up)"

interpretation memLodge: lodge "memReception up" memStored for up
  unfolding memReception_def
  by (rule lodge_wired) (auto simp: memPublisher_def sampleBookingRepo_def mem.cottage_collection_axioms split: if_splits)

lemma memReception_sel:
  "rsCottageRepo (memReception up) = newCottageRepo (\<lambda>_. ''0'') memCottages"
  "rsBookingRepo (memReception up) = sampleBookingRepo"
  "csCleanRoom (rsCleaningService (memReception up)) q = (if up then retE () else failE (LibErr ''broker''))"
  by (simp_all add: memReception_def wiredReception_def newReceptionService_def newCleaningService_def
      cleaningServiceCleanRoom_def memPublisher_def)

lemma memReception_checkIn:
  "processCheckIn (memReception up) doc sampleBooking sampleGuest sampleToday [sampleCottageDoc] =
     Some (if up then Inr () else Inl (Wrapf ''failed to request cottage preparation for room %s: %w'' [FStr ''Oak''] (LibErr ''broker'')),
       [sampleCottageDoc\<lparr>dcCurrentGuest := 1\<rparr>])"
proof -
  have "available sampleCottageDoc" "dcName sampleCottageDoc = ''Oak''" "\<not> isBlank ''Oak''"
    by (simp_all add: available_def sampleCottageDoc_def)
  moreover have "bCottageName sampleBooking = ''Oak''" "gId sampleGuest = 1"
    by (simp_all add: sampleBooking_def sampleGuest_def)
  ultimately show ?thesis
    by (simp add: processCheckIn_eq sample_admissible memReception_sel memCottage_find memCottage_update
        NewCleaningOrder_eq mapErrE_def)
qed

section \<open>A preparation request that fails\<close>

text \<open>C4: a check-in that is reported as failed after it changed the stored cottages (the request of
  the preparation failed, or the claim was applied and its answer lost) leaves the cottage claimed
  by the guest: every later check-in of a booking of that cottage fails, the guest's own repeated
  attempt included.\<close>

theorem failed_preparation_blocks_retry:
  assumes lodge: "lodge r stored" and guest: "gId g \<noteq> NilObjectID"
    and run: "processCheckIn r doc b g today s = Some (Inl e, s1)" and claimed: "stored s1 \<noteq> stored s"
    and retry: "bCottageName b' = bCottageName b" "processCheckIn r doc' b' g' today' s1 = Some (x, s2)"
  shows "(\<exists>c. stored s1 (bCottageName b) = Some c \<and> dcCurrentGuest c = gId g) \<and> (\<exists>e'. x = Inl e')"
proof -
  from lodge.changed_claimed [OF lodge run claimed] obtain c where
    "stored s1 (bCottageName b) = Some (c\<lparr>dcCurrentGuest := gId g\<rparr>)"
    by (auto simp: admit_Some)
  with lodge.occupied_refused [OF lodge _ _ retry(2)] guest retry(1) show ?thesis by simp
qed

theorem failed_preparation_blocks_retry_witness:
  "\<exists>e s1. processCheckIn (memReception False) ''D1'' sampleBooking sampleGuest sampleToday [sampleCottageDoc] = Some (Inl e, s1) \<and>
     (\<forall>x s2. processCheckIn (memReception False) ''D1'' sampleBooking sampleGuest sampleToday s1 = Some (x, s2) \<longrightarrow> (\<exists>e'. x = Inl e'))"
proof -
  obtain e where e: "processCheckIn (memReception False) ''D1'' sampleBooking sampleGuest sampleToday [sampleCottageDoc] =
      Some (Inl e, [sampleCottageDoc\<lparr>dcCurrentGuest := 1\<rparr>])"
    by (simp add: memReception_checkIn)
  have "memStored [sampleCottageDoc\<lparr>dcCurrentGuest := 1\<rparr>] \<noteq> memStored [sampleCottageDoc]"
    by (auto simp: memStored_def sampleCottageDoc_def fun_eq_iff)
  moreover have "gId sampleGuest \<noteq> NilObjectID" by (simp add: sampleGuest_def)
  ultimately show ?thesis
    using failed_preparation_blocks_retry [OF memLodge.lodge_axioms _ e _ refl] e by blast
qed

section \<open>A whole stay\<close>

text \<open>C7: the reception refines the abstract lodge over a whole stay: when the check-in, the hand-over
  of the key, its return and the check-out succeed and nobody else writes the cottages in between,
  the cottage was available before and is stored afterwards as before, but without the booking
  and with the key number of the return and the cottage as its holder; every other cottage is
  untouched. So the cottage is available again at once, with the cleaning state it had before the
  stay: the program orders the full cleaning and does not record that it is due.\<close>

theorem stay_restores_cottage:
  assumes lodge: "lodge r stored"
    and checkin: "processCheckIn r doc b g today s0 = Some (Inr (), s1)"
    and receive: "stored t1 = stored s1" "receptionReceiveCottageKey r (bCottageName b) k t1 = Some (Inr (), s2)"
    and return: "stored t2 = stored s2" "receptionReturnCottageKey r (bCottageName b) k' t2 = Some (Inr (), s3)"
    and checkout: "stored t3 = stored s3" "receptionCheckOut r b day t3 = Some (Inr (), s4)"
    and listed: "\<And>n c. stored s0 n = Some c \<Longrightarrow> bId b \<in> set (dcBookings c) \<Longrightarrow> n = bCottageName b"
  shows "\<exists>c. stored s0 (bCottageName b) = Some c \<and> available c \<and>
    stored s4 = (stored s0)(bCottageName b \<mapsto> c\<lparr>dcBookings := removeAll (bId b) (dcBookings c),
      dcKey := \<lparr>kNumber = k', kHolder = KeyHolderCottage\<rparr>\<rparr>)"
proof -
  let ?n = "bCottageName b"
  obtain c where c: "stored s0 ?n = Some c" "available c" and s1: "stored s1 = (stored s0)(?n \<mapsto> c\<lparr>dcCurrentGuest := gId g\<rparr>)"
    using lodge.checkIn_admits [OF lodge checkin] by (auto simp: admit_Some)
  have s3: "stored s3 = (stored s0)(?n \<mapsto> c\<lparr>dcCurrentGuest := gId g, dcKey := \<lparr>kNumber = k', kHolder = KeyHolderCottage\<rparr>\<rparr>)"
    using lodge.keys_handed(1) [OF lodge receive(2)] lodge.keys_handed(2) [OF lodge return(2)] receive(1) return(1) s1
    by (auto simp: keySet_def)
  obtain m where m: "bookingPulled (bId b) (stored s3) m" "currentGuestSet ?n NilObjectID m (stored s4)"
    using lodge.checkOut_vacates [OF lodge checkout(2)] checkout(1) by (auto simp: vacated_def)
  from m(1) obtain n d where d: "stored s3 n = Some d" "bId b \<in> set (dcBookings d)"
    "m = (stored s3)(n \<mapsto> d\<lparr>dcBookings := removeAll (bId b) (dcBookings d), dcCurrentGuest := NilObjectID\<rparr>)"
    by (auto simp: bookingPulled_def)
  have n: "n = ?n"
  proof (rule ccontr)
    assume "n \<noteq> ?n"
    with d s3 listed show False by auto
  qed
  have "dcCurrentGuest c = NilObjectID" using c by (simp add: available_def)
  then have "c\<lparr>dcCurrentGuest := NilObjectID\<rparr> = c" by (cases c) simp
  with c d m(2) s3 n show ?thesis by (cases c) (auto simp: currentGuestSet_def)
qed

theorem stay_restores_cottage_witness:
  "\<exists>s4. receptionCheckOut (memReception True) sampleBooking sampleToday
       [sampleCottageDoc\<lparr>dcCurrentGuest := 1, dcKey := \<lparr>kNumber = ''K9'', kHolder = KeyHolderCottage\<rparr>\<rparr>] = Some (Inr (), s4) \<and>
     memStored s4 ''Oak'' = Some (sampleCottageDoc\<lparr>dcBookings := [], dcKey := \<lparr>kNumber = ''K9'', kHolder = KeyHolderCottage\<rparr>\<rparr>)"
proof -
  let ?r = "memReception True" and ?c = "sampleCottageDoc\<lparr>dcCurrentGuest := 1\<rparr>"
  let ?c2 = "?c\<lparr>dcKey := \<lparr>kNumber = ''K1'', kHolder = KeyHolderGuest\<rparr>\<rparr>"
  let ?c3 = "?c\<lparr>dcKey := \<lparr>kNumber = ''K9'', kHolder = KeyHolderCottage\<rparr>\<rparr>"
  have h: "dcName sampleCottageDoc = ''Oak''" "dcBookings sampleCottageDoc = [7]" "bCottageName sampleBooking = ''Oak''"
    "bId sampleBooking = 7" "gId sampleGuest = 1" "\<not> isBlank KeyHolderGuest" "\<not> isBlank KeyHolderCottage" "\<not> isBlank ''K1''" "\<not> isBlank ''K9''" "\<not> isBlank ''Oak''"
    by (simp_all add: sampleCottageDoc_def sampleBooking_def sampleGuest_def enum_defs not_isBlank_ascii isSpace1_def byteOf_def)
  have 1: "processCheckIn ?r ''D1'' sampleBooking sampleGuest sampleToday [sampleCottageDoc] = Some (Inr (), [?c])"
    by (simp add: memReception_checkIn)
  have 2: "receptionReceiveCottageKey ?r (bCottageName sampleBooking) ''K1'' [?c] = Some (Inr (), [?c2])"
    by (simp add: receptionReceiveCottageKey_def memReception_sel memCottage_key h)
  have 3: "receptionReturnCottageKey ?r (bCottageName sampleBooking) ''K9'' [?c2] = Some (Inr (), [?c3])"
    by (simp add: receptionReturnCottageKey_def memReception_sel memCottage_key h)
  have 4: "receptionCheckOut ?r sampleBooking sampleToday [?c3] = Some (Inr (), [?c3\<lparr>dcBookings := [], dcCurrentGuest := NilObjectID\<rparr>])"
    by (simp add: receptionCheckOut_def memReception_sel memCottage_pull memCottage_update h bindE_def mapErrE_def
        NewCleaningOrder_eq sampleBookingRepo_def Let_def)
  have only: "n = bCottageName sampleBooking" if "memStored [sampleCottageDoc] n = Some c" for n c
    using that by (auto simp: memStored_def h split: if_splits)
  have "\<exists>c. memStored [sampleCottageDoc] (bCottageName sampleBooking) = Some c \<and> available c \<and>
    memStored [?c3\<lparr>dcBookings := [], dcCurrentGuest := NilObjectID\<rparr>] = (memStored [sampleCottageDoc])
      (bCottageName sampleBooking \<mapsto> c\<lparr>dcBookings := removeAll (bId sampleBooking) (dcBookings c),
         dcKey := \<lparr>kNumber = ''K9'', kHolder = KeyHolderCottage\<rparr>\<rparr>)"
    by (rule stay_restores_cottage [OF memLodge.lodge_axioms 1 refl 2 refl 3 refl 4]) (rule only)
  then obtain c where c: "memStored [sampleCottageDoc] ''Oak'' = Some c" and
    m: "memStored [?c3\<lparr>dcBookings := [], dcCurrentGuest := NilObjectID\<rparr>] = (memStored [sampleCottageDoc])
      (''Oak'' \<mapsto> c\<lparr>dcBookings := removeAll 7 (dcBookings c), dcKey := \<lparr>kNumber = ''K9'', kHolder = KeyHolderCottage\<rparr>\<rparr>)"
    unfolding h by blast
  from c have "c = sampleCottageDoc" by (simp add: memStored_def h)
  with 4 m h show ?thesis by (intro exI conjI) (assumption, simp)
qed

section \<open>Check-ins of several sessions\<close>

text \<open>
  One check-in of a booking, cut at its collaborator calls: \<open>processCheckIn\<close> reads the cottage,
  then writes the claim, then orders the preparation. Another session may run between two steps.
\<close>

record ckClient =
  clDocument :: string
  clBooking :: booking
  clGuest :: guest
  clToday :: gotime

datatype ckPhase = CkStart | CkRead cottageDoc | CkClaimed | CkDone "gerr + unit"

definition ckStep :: "'s receptionService \<Rightarrow> ckClient \<Rightarrow> ckPhase \<Rightarrow> 's \<Rightarrow> (ckPhase \<times> 's) option" where
  "ckStep r cl p s = (let booking = clBooking cl; room = bCottageName booking in case p of
     CkStart \<Rightarrow>
       (if \<not> sameUTCDay (CheckIn (bStayPeriod booking)) (clToday cl)
        then Some (CkDone (Inl (Errorf ''checkin day not today'' [])), s)
        else if bStatus booking \<noteq> BookingStatusConfirmed
        then Some (CkDone (Inl (Errorf ''booking for guest %s is not confirmed'' [FStr (clDocument cl)])), s)
        else (case ctGetByName (rsCottageRepo r) room s of
            None \<Rightarrow> None
          | Some (Inl err, s') \<Rightarrow> Some (CkDone (Inl (Wrapf ''failed to get cottage %s: %w'' [FStr room] err)), s')
          | Some (Inr cottage, s') \<Rightarrow>
              if dcCurrentGuest cottage \<noteq> NilObjectID \<or> dcCleaningStatus cottage \<noteq> FullyCleaned
              then Some (CkDone (Inl (Errorf ''cottage %s is not available'' [FStr room])), s')
              else Some (CkRead cottage, s')))
   | CkRead cottage \<Rightarrow> (case ctUpdateCurrentGuest (rsCottageRepo r) room (gId (clGuest cl)) s of
         None \<Rightarrow> None
       | Some (Inl err, s') \<Rightarrow>
           Some (CkDone (Inl (Wrapf ''failed to update current guest for room %s: %w'' [FStr room] err)), s')
       | Some (Inr _, s') \<Rightarrow> Some (CkClaimed, s'))
   | CkClaimed \<Rightarrow> (case NewCleaningOrder room PrepareForGuest of
         Inl err \<Rightarrow> Some (CkDone (Inl (Wrapf ''failed to create cleaning request for room %s: %w'' [FStr room] err)), s)
       | Inr order \<Rightarrow> map_option (map_prod CkDone id)
           (mapErrE (Wrapf ''failed to request cottage preparation for room %s: %w'' [FStr room])
             (csCleanRoom (rsCleaningService r) order) s))
   | CkDone _ \<Rightarrow> None)"

primrec ckFinish :: "'s receptionService \<Rightarrow> ckClient \<Rightarrow> nat \<Rightarrow> ckPhase \<Rightarrow> 's \<Rightarrow> ((gerr + unit) \<times> 's) option" where
  "ckFinish r cl 0 p s = (case p of CkDone x \<Rightarrow> Some (x, s) | _ \<Rightarrow> None)"
| "ckFinish r cl (Suc n) p s = (case p of CkDone x \<Rightarrow> Some (x, s)
     | _ \<Rightarrow> (case ckStep r cl p s of None \<Rightarrow> None | Some (p', s') \<Rightarrow> ckFinish r cl n p' s'))"

lemma ckFinish_Done [simp]: "ckFinish r cl n (CkDone x) s = Some (x, s)"
  by (cases n) simp_all

lemma ckFinish_claimed:
  "ckFinish r cl (Suc 0) CkClaimed t = (case NewCleaningOrder (bCottageName (clBooking cl)) PrepareForGuest of
      Inl e \<Rightarrow> Some (Inl (Wrapf ''failed to create cleaning request for room %s: %w'' [FStr (bCottageName (clBooking cl))] e), t)
    | Inr order \<Rightarrow> mapErrE (Wrapf ''failed to request cottage preparation for room %s: %w'' [FStr (bCottageName (clBooking cl))])
        (csCleanRoom (rsCleaningService r) order) t)"
  by (auto simp: ckStep_def Let_def map_prod_def mapErrE_def split: sum.split option.split prod.split)

lemma ckFinish_read:
  "ckFinish r cl (Suc (Suc 0)) (CkRead c) s =
    (case ctUpdateCurrentGuest (rsCottageRepo r) (bCottageName (clBooking cl)) (gId (clGuest cl)) s of
       None \<Rightarrow> None
     | Some (Inl e, s') \<Rightarrow> Some (Inl (Wrapf ''failed to update current guest for room %s: %w'' [FStr (bCottageName (clBooking cl))] e), s')
     | Some (Inr _, s') \<Rightarrow> ckFinish r cl (Suc 0) CkClaimed s')"
  by (auto simp: ckStep_def [of r cl "CkRead c"] Let_def simp del: ckFinish.simps simp add: ckFinish.simps(2) [of r cl "Suc 0"]
      split: option.split sum.split)

lemma ckFinish_start:
  "ckFinish r cl (Suc (Suc (Suc 0))) CkStart s = (let b = clBooking cl; room = bCottageName b in
     if \<not> admissible b (clToday cl)
     then Some (Inl (if sameUTCDay (CheckIn (bStayPeriod b)) (clToday cl)
       then Errorf ''booking for guest %s is not confirmed'' [FStr (clDocument cl)] else Errorf ''checkin day not today'' []), s)
     else case ctGetByName (rsCottageRepo r) room s of
       None \<Rightarrow> None
     | Some (Inl e, s1) \<Rightarrow> Some (Inl (Wrapf ''failed to get cottage %s: %w'' [FStr room] e), s1)
     | Some (Inr c, s1) \<Rightarrow> if \<not> available c then Some (Inl (Errorf ''cottage %s is not available'' [FStr room]), s1)
         else ckFinish r cl (Suc (Suc 0)) (CkRead c) s1)"
  by (auto simp: ckStep_def [of r cl CkStart] Let_def admissible_def available_def sameUTCDay_iff
      simp del: ckFinish.simps simp add: ckFinish.simps(2) [of r cl "Suc (Suc 0)"] split: option.split sum.split)

text \<open>Run without interruption, the three steps are the check-in of the code.\<close>

lemma processCheckIn_steps:
  "ckFinish r \<lparr>clDocument = doc, clBooking = b, clGuest = g, clToday = today\<rparr> 3 CkStart s =
     processCheckIn r doc b g today s"
  unfolding numeral_3_eq_3 processCheckIn_eq ckFinish_start ckFinish_read ckFinish_claimed Let_def ckClient.simps by simp

text \<open>The sessions run in any order, one step of one of them at a time.\<close>

inductive ckSched :: "'s receptionService \<Rightarrow> ckClient list \<Rightarrow> 's \<Rightarrow> ckPhase list \<Rightarrow> 's \<Rightarrow> bool"
  for r :: "'s receptionService" and cs :: "ckClient list" and s0 :: 's where
  ck_init: "ckSched r cs s0 (map (\<lambda>_. CkStart) cs) s0"
| ck_step: "ckSched r cs s0 ps s \<Longrightarrow> i < length cs \<Longrightarrow> ckStep r (cs ! i) (ps ! i) s = Some (p, s') \<Longrightarrow>
    ckSched r cs s0 (ps[i := p]) s'"

abbreviation clRoom :: "ckClient \<Rightarrow> string" where
  "clRoom cl \<equiv> bCottageName (clBooking cl)"

text \<open>The phases of a session that may have written its claim.\<close>

definition maySettled :: "ckPhase \<Rightarrow> bool" where
  "maySettled p \<longleftrightarrow> p = CkClaimed \<or> (\<exists>x. p = CkDone x)"

text \<open>The cottage \<open>n\<close> was available at first and is now held by one of the sessions.\<close>

definition heldBy :: "ckClient list \<Rightarrow> ckPhase list \<Rightarrow> (string \<rightharpoonup> cottageDoc) \<Rightarrow> (string \<rightharpoonup> cottageDoc) \<Rightarrow> string \<Rightarrow> bool" where
  "heldBy cs ps m0 m n \<longleftrightarrow> (\<exists>c i. m0 n = Some c \<and> available c \<and> i < length cs \<and> clRoom (cs ! i) = n \<and>
     maySettled (ps ! i) \<and> m n = Some (c\<lparr>dcCurrentGuest := gId (clGuest (cs ! i))\<rparr>))"

text \<open>What a session knows in its phase.\<close>

definition phaseOk :: "(string \<rightharpoonup> cottageDoc) \<Rightarrow> ckClient \<Rightarrow> ckPhase \<Rightarrow> bool" where
  "phaseOk m0 cl p \<longleftrightarrow> (case p of
     CkStart \<Rightarrow> True
   | CkRead c \<Rightarrow> admissible (clBooking cl) (clToday cl) \<and> m0 (clRoom cl) = Some c \<and> available c
   | CkClaimed \<Rightarrow> admissible (clBooking cl) (clToday cl) \<and> (\<exists>c. m0 (clRoom cl) = Some c \<and> available c)
   | CkDone x \<Rightarrow> (\<forall>u. x = Inr u \<longrightarrow> admissible (clBooking cl) (clToday cl) \<and> (\<exists>c. m0 (clRoom cl) = Some c \<and> available c)))"

definition ckInv :: "ckClient list \<Rightarrow> (string \<rightharpoonup> cottageDoc) \<Rightarrow> ckPhase list \<Rightarrow> (string \<rightharpoonup> cottageDoc) \<Rightarrow> bool" where
  "ckInv cs m0 ps m \<longleftrightarrow> length ps = length cs \<and> (\<forall>n. m n = m0 n \<or> heldBy cs ps m0 m n) \<and>
     (\<forall>i < length cs. phaseOk m0 (cs ! i) (ps ! i)) \<and>
     (\<forall>i < length cs. \<forall>u. (ps ! i = CkClaimed \<or> ps ! i = CkDone (Inr u)) \<longrightarrow> heldBy cs ps m0 m (clRoom (cs ! i)))"

lemma heldBy_update: "heldBy cs ps m0 m n \<Longrightarrow> maySettled p \<or> \<not> maySettled (ps ! i) \<Longrightarrow> heldBy cs (ps[i := p]) m0 m n"
  unfolding heldBy_def
  by (metis length_list_update nth_list_update_eq nth_list_update_neq nth_list_update list_update_beyond not_le)

context lodge
begin

text \<open>The steps of a session, with what each does to the stored cottages.\<close>

lemma step_cases:
  assumes "ckStep r cl p s = Some (p', s')"
  obtains (read) c where "p = CkStart" "p' = CkRead c" "stored s' = stored s" "stored s (clRoom cl) = Some c"
      "available c" "admissible (clBooking cl) (clToday cl)"
  | (refused) e where "p = CkStart" "p' = CkDone (Inl e)" "stored s' = stored s"
  | (claimed) c where "p = CkRead c" "p' = CkClaimed \<or> (\<exists>e. p' = CkDone (Inl e))"
      "currentGuestSet (clRoom cl) (gId (clGuest cl)) (stored s) (stored s')"
  | (failed) c e where "p = CkRead c" "p' = CkDone (Inl e)" "stored s' = stored s"
  | (ordered) x where "p = CkClaimed" "p' = CkDone x" "stored s' = stored s"
proof (cases p)
  case CkStart
  have get: "stored s' = stored s" if "ctGetByName (rsCottageRepo r) (clRoom cl) s = Some (x, s')" for x
    by (rule get_frame [OF that])
  from CkStart assms read refused show ?thesis
    by (auto simp: ckStep_def Let_def admissible_def available_def sameUTCDay_iff get get_stored
        split: if_splits option.splits sum.splits)
next
  case (CkRead c)
  with assms obtain y where y: "ctUpdateCurrentGuest (rsCottageRepo r) (clRoom cl) (gId (clGuest cl)) s = Some (y, s')"
    "p' = (case y of Inl e \<Rightarrow> CkDone (Inl (Wrapf ''failed to update current guest for room %s: %w'' [FStr (clRoom cl)] e))
       | Inr _ \<Rightarrow> CkClaimed)"
    by (auto simp: ckStep_def Let_def split: option.splits sum.splits)
  show ?thesis
  proof (cases y)
    case (Inl e)
    with y have p: "p' = CkDone (Inl (Wrapf ''failed to update current guest for room %s: %w'' [FStr (clRoom cl)] e))" by simp
    from guest_failed y(1) Inl have "stored s' = stored s \<or> currentGuestSet (clRoom cl) (gId (clGuest cl)) (stored s) (stored s')"
      by simp
    then show ?thesis by (elim disjE; intro failed [OF CkRead p] claimed [OF CkRead]) (simp_all add: p)
  next
    case (Inr u)
    with y have p: "p' = CkClaimed" by simp
    from guest_set y(1) Inr have "currentGuestSet (clRoom cl) (gId (clGuest cl)) (stored s) (stored s')" by simp
    with p show ?thesis by (intro claimed [OF CkRead]) simp_all
  qed
next
  case CkClaimed
  have frame: "stored s' = stored s" if "csCleanRoom (rsCleaningService r) order s = Some (x, s')" for x order
    by (rule cleaning_frame [OF that])
  from CkClaimed assms ordered show ?thesis
    by (auto simp: ckStep_def Let_def map_prod_def mapErrE_def frame split: option.splits sum.splits)
next
  case (CkDone x)
  with assms show ?thesis by (simp add: ckStep_def Let_def)
qed

end

text \<open>A step that leaves the cottages as they are, and one that writes a claim.\<close>

lemma ckInv_keep:
  assumes "ckInv cs m0 ps m" and "i < length cs" and "maySettled p \<or> \<not> maySettled (ps ! i)" and "phaseOk m0 (cs ! i) p"
    and "\<And>u. p = CkClaimed \<or> p = CkDone (Inr u) \<Longrightarrow> heldBy cs ps m0 m (clRoom (cs ! i))"
  shows "ckInv cs m0 (ps[i := p]) m"
  unfolding ckInv_def
proof (intro conjI allI impI)
  show "length (ps[i := p]) = length cs" using assms(1) by (simp add: ckInv_def)
  show "m n = m0 n \<or> heldBy cs (ps[i := p]) m0 m n" for n
    using assms(1,3) heldBy_update by (fastforce simp: ckInv_def)
  show "phaseOk m0 (cs ! j) (ps[i := p] ! j)" if "j < length cs" for j
    using that assms(1,2,4) by (cases "j = i") (auto simp: ckInv_def)
  show "heldBy cs (ps[i := p]) m0 m (clRoom (cs ! j))"
    if "j < length cs" "ps[i := p] ! j = CkClaimed \<or> ps[i := p] ! j = CkDone (Inr u)" for j u
  proof (rule heldBy_update [OF _ assms(3)])
    show "heldBy cs ps m0 m (clRoom (cs ! j))"
      using that assms(1,2,5) by (cases "j = i") (auto simp: ckInv_def)
  qed
qed

lemma ckInv_claim:
  assumes inv: "ckInv cs m0 ps m" and i: "i < length cs" "ps ! i = CkRead c" and p: "maySettled p" "phaseOk m0 (cs ! i) p"
    and set: "currentGuestSet (clRoom (cs ! i)) (gId (clGuest (cs ! i))) m m'"
  shows "ckInv cs m0 (ps[i := p]) m'"
proof -
  let ?n = "clRoom (cs ! i)"
  from inv i have c: "m0 ?n = Some c" "available c" by (auto simp: ckInv_def phaseOk_def dest!: spec [of _ i])
  from set obtain d where d: "m ?n = Some d" "m' = m(?n \<mapsto> d\<lparr>dcCurrentGuest := gId (clGuest (cs ! i))\<rparr>)"
    by (auto simp: currentGuestSet_def)
  from inv have n: "m ?n = m0 ?n \<or> heldBy cs ps m0 m ?n" by (simp add: ckInv_def)
  then have "d\<lparr>dcCurrentGuest := g\<rparr> = c\<lparr>dcCurrentGuest := g\<rparr>" for g using c d by (auto simp: heldBy_def)
  then have held: "heldBy cs (ps[i := p]) m0 m' ?n"
    using inv i c d p(1) by (auto simp: heldBy_def ckInv_def intro!: exI [of _ i])
  have other: "heldBy cs (ps[i := p]) m0 m' n" if "heldBy cs ps m0 m n" "n \<noteq> ?n" for n
    using heldBy_update [OF that(1), of p i] that d p(1) by (auto simp: heldBy_def)
  show ?thesis
    unfolding ckInv_def
  proof (intro conjI allI impI)
    show "length (ps[i := p]) = length cs" using inv by (simp add: ckInv_def)
    show "m' n = m0 n \<or> heldBy cs (ps[i := p]) m0 m' n" for n
      using inv held other d by (cases "n = ?n") (auto simp: ckInv_def)
    show "phaseOk m0 (cs ! j) (ps[i := p] ! j)" if "j < length cs" for j
      using that inv i p by (cases "j = i") (auto simp: ckInv_def)
    show "heldBy cs (ps[i := p]) m0 m' (clRoom (cs ! j))"
      if "j < length cs" "ps[i := p] ! j = CkClaimed \<or> ps[i := p] ! j = CkDone (Inr u)" for j u
      using that inv held other by (cases "clRoom (cs ! j) = ?n"; cases "j = i") (auto simp: ckInv_def)
  qed
qed

context lodge
begin

lemma ckInv_step:
  assumes inv: "ckInv cs m0 ps (stored s)" and guests: "\<forall>cl \<in> set cs. gId (clGuest cl) \<noteq> NilObjectID"
    and i: "i < length cs" and step: "ckStep r (cs ! i) (ps ! i) s = Some (p, s')"
  shows "ckInv cs m0 (ps[i := p]) (stored s')"
  using step
proof (cases rule: step_cases)
  case (read c)
  have "\<not> heldBy cs ps m0 (stored s) (clRoom (cs ! i))"
    using read(4,5) guests by (auto simp: heldBy_def available_def)
  then have "m0 (clRoom (cs ! i)) = Some c" using inv read(4) by (metis ckInv_def)
  with read show ?thesis by (auto simp: phaseOk_def maySettled_def intro!: ckInv_keep [OF inv i])
next
  case (refused e)
  then show ?thesis by (auto simp: phaseOk_def maySettled_def intro!: ckInv_keep [OF inv i])
next
  case (claimed c)
  from inv i claimed(1) have "phaseOk m0 (cs ! i) (CkRead c)" by (auto simp: ckInv_def dest!: spec [of _ i])
  with claimed show ?thesis by (intro ckInv_claim [OF inv i]) (auto simp: phaseOk_def maySettled_def)
next
  case (failed c e)
  then show ?thesis by (auto simp: phaseOk_def maySettled_def intro!: ckInv_keep [OF inv i])
next
  case (ordered x)
  from inv i ordered(1) have "phaseOk m0 (cs ! i) CkClaimed" "heldBy cs ps m0 (stored s) (clRoom (cs ! i))"
    by (auto simp: ckInv_def dest!: spec [of _ i])
  with ordered show ?thesis by (auto simp: phaseOk_def maySettled_def intro!: ckInv_keep [OF inv i])
qed

lemma ckInv_reachable:
  assumes "ckSched r cs s0 ps s" and "\<forall>cl \<in> set cs. gId (clGuest cl) \<noteq> NilObjectID"
  shows "ckInv cs (stored s0) ps (stored s)"
  using assms
proof (induction rule: ckSched.induct)
  case ck_init
  then show ?case by (auto simp: ckInv_def phaseOk_def)
next
  case (ck_step ps s i p s')
  then show ?case by (intro ckInv_step) auto
qed

end

context lodge
begin

text \<open>Two sessions that both read the cottage before either claims it.\<close>

lemma both_succeed:
  assumes room: "clRoom b = clRoom a" "\<not> isBlank (clRoom a)"
    and ad: "admissible (clBooking a) (clToday a)" "admissible (clBooking b) (clToday b)"
    and avail: "stored s (clRoom a) = Some c" "available c"
    and find: "\<And>t d. stored t (clRoom a) = Some d \<Longrightarrow> \<exists>t'. ctGetByName (rsCottageRepo r) (clRoom a) t = Some (Inr d, t')"
    and claim: "\<And>t g. stored t (clRoom a) \<noteq> None \<Longrightarrow> \<exists>t'. ctUpdateCurrentGuest (rsCottageRepo r) (clRoom a) g t = Some (Inr (), t')"
    and broker: "\<And>t order. \<exists>t'. csCleanRoom (rsCleaningService r) order t = Some (Inr (), t')"
  shows "\<exists>s' d. ckSched r [a, b] s [CkDone (Inr ()), CkDone (Inr ())] s' \<and>
    stored s' (clRoom a) = Some d \<and> dcCurrentGuest d = gId (clGuest b)"
proof -
  let ?get = "ctGetByName (rsCottageRepo r) (clRoom a)" and ?set = "\<lambda>x. ctUpdateCurrentGuest (rsCottageRepo r) (clRoom a) (gId (clGuest x))"
  let ?order = "\<lparr>RoomName = clRoom a, RequestType = PrepareForGuest\<rparr>"
  obtain s1 where s1: "?get s = Some (Inr c, s1)" using find avail(1) by blast
  obtain s2 where s2: "?get s1 = Some (Inr c, s2)" using find avail(1) get_frame [OF s1] by metis
  have st2: "stored s2 = stored s" using get_frame [OF s1] get_frame [OF s2] by simp
  then obtain s3 where s3: "?set a s2 = Some (Inr (), s3)" using claim avail(1) by fastforce
  then have "stored s3 (clRoom a) \<noteq> None" using guest_set [OF s3] by (auto simp: currentGuestSet_def)
  then obtain s4 where s4: "?set b s3 = Some (Inr (), s4)" using claim by blast
  obtain s5 where s5: "csCleanRoom (rsCleaningService r) ?order s4 = Some (Inr (), s5)" using broker by blast
  obtain s6 where s6: "csCleanRoom (rsCleaningService r) ?order s5 = Some (Inr (), s6)" using broker by blast
  note defs = ckStep_def Let_def sameUTCDay_iff NewCleaningOrder_eq mapErrE_def
  have "ckSched r [a, b] s [CkStart, CkStart] s" using ck_init [of r "[a, b]" s] by simp
  from ck_step [OF this, of 0 "CkRead c" s1] have "ckSched r [a, b] s [CkRead c, CkStart] s1"
    using ad avail s1 by (simp add: defs admissible_def available_def)
  from ck_step [OF this, of 1 "CkRead c" s2] have "ckSched r [a, b] s [CkRead c, CkRead c] s2"
    using ad avail s2 room by (simp add: defs admissible_def available_def)
  from ck_step [OF this, of 0 CkClaimed s3] have "ckSched r [a, b] s [CkClaimed, CkRead c] s3"
    using s3 by (simp add: defs)
  from ck_step [OF this, of 1 CkClaimed s4] have "ckSched r [a, b] s [CkClaimed, CkClaimed] s4"
    using s4 room by (simp add: defs)
  from ck_step [OF this, of 0 "CkDone (Inr ())" s5] have "ckSched r [a, b] s [CkDone (Inr ()), CkClaimed] s5"
    using s5 room by (simp add: defs)
  from ck_step [OF this, of 1 "CkDone (Inr ())" s6] have "ckSched r [a, b] s [CkDone (Inr ()), CkDone (Inr ())] s6"
    using s6 room by (simp add: defs)
  moreover have "stored s6 = stored s4" using cleaning_frame [OF s5] cleaning_frame [OF s6] by simp
  moreover obtain d where "stored s4 (clRoom a) = Some d" "dcCurrentGuest d = gId (clGuest b)"
    using guest_set [OF s4] by (auto simp: currentGuestSet_def)
  ultimately show ?thesis by (intro exI [of _ s6] exI [of _ d]) simp
qed

end

text \<open>C6: however the check-ins of any number of sessions interleave, a stored cottage differs from what
  it was only in being held by the guest of one of them, and then it was available at first; a
  session whose check-in succeeded had a confirmed booking of today for such a cottage, held by
  one of the sessions afterwards (not always by that session: see the next property).\<close>

theorem concurrent_checkins_claim_available:
  assumes lodge: "lodge r stored" and guests: "\<forall>cl \<in> set cs. gId (clGuest cl) \<noteq> NilObjectID"
    and run: "ckSched r cs s0 ps s"
  shows "(\<forall>n. stored s n = stored s0 n \<or> heldBy cs ps (stored s0) (stored s) n) \<and>
    (\<forall>i < length cs. ps ! i = CkDone (Inr ()) \<longrightarrow>
       admissible (clBooking (cs ! i)) (clToday (cs ! i)) \<and> heldBy cs ps (stored s0) (stored s) (clRoom (cs ! i)))"
  using lodge.ckInv_reachable [OF lodge run guests]
  by (fastforce simp: ckInv_def phaseOk_def)

text \<open>C5: the check of the cottage and its claim are two calls with nothing between them that keeps other
  sessions away: two guests with confirmed bookings of today for the same available cottage can
  both be told that their check-in succeeded, and the cottage is then held by the one whose claim
  was written last.\<close>

theorem concurrent_checkins_both_succeed:
  assumes lodge: "lodge r stored" and room: "clRoom b = clRoom a" "\<not> isBlank (clRoom a)"
    and ad: "admissible (clBooking a) (clToday a)" "admissible (clBooking b) (clToday b)"
    and avail: "stored s (clRoom a) = Some c" "available c"
    and find: "\<And>t d. stored t (clRoom a) = Some d \<Longrightarrow> \<exists>t'. ctGetByName (rsCottageRepo r) (clRoom a) t = Some (Inr d, t')"
    and claim: "\<And>t g. stored t (clRoom a) \<noteq> None \<Longrightarrow> \<exists>t'. ctUpdateCurrentGuest (rsCottageRepo r) (clRoom a) g t = Some (Inr (), t')"
    and broker: "\<And>t order. \<exists>t'. csCleanRoom (rsCleaningService r) order t = Some (Inr (), t')"
  shows "\<exists>s' d. ckSched r [a, b] s [CkDone (Inr ()), CkDone (Inr ())] s' \<and>
    stored s' (clRoom a) = Some d \<and> dcCurrentGuest d = gId (clGuest b)"
  by (rule lodge.both_succeed [OF lodge room ad avail find claim broker])

definition firstClient :: ckClient where
  "firstClient = \<lparr>clDocument = ''D1'', clBooking = sampleBooking, clGuest = sampleGuest, clToday = sampleToday\<rparr>"

definition secondClient :: ckClient where
  "secondClient = \<lparr>clDocument = ''D2'', clBooking = sampleBooking\<lparr>bId := 8\<rparr>, clGuest = sampleGuest\<lparr>gId := 2\<rparr>, clToday = sampleToday\<rparr>"

lemma clients_sel:
  "clRoom firstClient = ''Oak''" "clRoom secondClient = ''Oak''" "gId (clGuest firstClient) = 1" "gId (clGuest secondClient) = 2"
  "admissible (clBooking firstClient) (clToday firstClient)" "admissible (clBooking secondClient) (clToday secondClient)"
  using sample_admissible by (simp_all add: firstClient_def secondClient_def sampleBooking_def sampleGuest_def admissible_def)

lemma memCottages_answer:
  assumes "\<not> isBlank n"
  shows "memStored t n = Some d \<Longrightarrow> \<exists>t'. ctGetByName (rsCottageRepo (memReception up)) n t = Some (Inr d, t')"
    and "memStored t n \<noteq> None \<Longrightarrow> \<exists>t'. ctUpdateCurrentGuest (rsCottageRepo (memReception up)) n g t = Some (Inr (), t')"
  using assms by (auto simp: memReception_sel memCottage_find memCottage_update)

lemma clients_room: "\<not> isBlank (clRoom firstClient)"
  by (simp add: clients_sel not_isBlank_ascii isSpace1_def byteOf_def)

theorem concurrent_checkins_both_succeed_witness:
  "\<exists>s' d. ckSched (memReception True) [firstClient, secondClient] [sampleCottageDoc] [CkDone (Inr ()), CkDone (Inr ())] s' \<and>
     memStored s' (clRoom firstClient) = Some d \<and> dcCurrentGuest d = gId (clGuest secondClient)"
  by (rule concurrent_checkins_both_succeed [OF memLodge.lodge_axioms, where c = sampleCottageDoc])
    (simp_all add: clients_room memCottages_answer,
     simp_all add: clients_sel memReception_sel available_def sampleCottageDoc_def)

theorem concurrent_checkins_claim_available_witness:
  "\<exists>s'. ckSched (memReception True) [firstClient, secondClient] [sampleCottageDoc] [CkDone (Inr ()), CkDone (Inr ())] s' \<and>
     heldBy [firstClient, secondClient] [CkDone (Inr ()), CkDone (Inr ())] (memStored [sampleCottageDoc]) (memStored s') ''Oak''"
proof -
  have "\<exists>s' d. ckSched (memReception True) [firstClient, secondClient] [sampleCottageDoc] [CkDone (Inr ()), CkDone (Inr ())] s' \<and>
     memStored s' (clRoom firstClient) = Some d \<and> dcCurrentGuest d = gId (clGuest secondClient)"
    by (rule memLodge.both_succeed [where c = sampleCottageDoc])
      (simp_all add: clients_room memCottages_answer,
       simp_all add: clients_sel memReception_sel available_def sampleCottageDoc_def)
  then obtain s' where run: "ckSched (memReception True) [firstClient, secondClient] [sampleCottageDoc] [CkDone (Inr ()), CkDone (Inr ())] s'"
    by blast
  have "\<forall>cl \<in> set [firstClient, secondClient]. gId (clGuest cl) \<noteq> NilObjectID" by (simp add: clients_sel)
  from conjunct2 [OF concurrent_checkins_claim_available [OF memLodge.lodge_axioms this run], THEN spec, of 0] run
  show ?thesis by (auto simp: clients_sel)
qed

end
