(* ===== verification/Conform.thy ===== *)
theory Conform
  imports DayCycle Lodge
begin

text \<open>
  Conformance of the values that travel between the components: what it is for a guest, a period,
  a booking and a stored booking to be well-formed, and that the services return only well-formed
  values, the bookings read back from the cache included.
\<close>

section \<open>Well-formed values\<close>

definition wfGuest :: "guest \<Rightarrow> bool" where
  "wfGuest g \<longleftrightarrow> gId g \<noteq> NilObjectID \<and> \<not> isBlank (gDocumentId g) \<and> \<not> isBlank (gGivenNames g) \<and>
     \<not> isBlank (gSurname g) \<and> emailMatches (gEmail g) \<and> \<not> isBlank (gBillingAddress g) \<and> gCreatedAt g \<noteq> None"

text \<open>Two midnights UTC, the second not before the first.\<close>

definition wfPeriod :: "period \<Rightarrow> bool" where
  "wfPeriod p \<longleftrightarrow> (\<forall>t \<in> {CheckIn p, CheckOut p}. loc t = None \<and> nsOfDay t = 0) \<and> nsec (CheckIn p) \<le> nsec (CheckOut p)"

definition wfBooking :: "booking \<Rightarrow> bool" where
  "wfBooking b \<longleftrightarrow> bId b \<noteq> NilObjectID \<and> 0 < bNumberOfGuests b \<and> \<not> isBlank (bCottageName b) \<and> \<not> isBlank (bStatus b) \<and>
     bStayPeriod b \<noteq> zeroPeriod \<and> wfPeriod (bStayPeriod b)"

text \<open>The two dates of a stored booking are read in one zone.\<close>

definition oneZone :: "bookingDoc \<Rightarrow> bool" where
  "oneZone d \<longleftrightarrow> loc (dCheckIn (dbStayPeriod d)) = loc (dCheckOut (dbStayPeriod d))"

lemma NewGuest_wf: "NewGuest i doc given sur email addr created updated = Inr g \<Longrightarrow> wfGuest g"
  by (auto simp: NewGuest_Inr_iff wfGuest_def)

lemma NewPeriod_wf: "NewPeriod start end = Inr p \<Longrightarrow> loc start = loc end \<Longrightarrow> wfPeriod p"
  using dayNumber_mono [of start "end", OF _ less_imp_le]
  by (auto simp: NewPeriod_eq wfPeriod_def startOfDay_midnight nsec_startOfDay nsPerDay_def split: if_splits)

lemma mapBookingDoc_wf: "mapBookingDoc d = Inr b \<Longrightarrow> oneZone d \<Longrightarrow> wfBooking b"
  by (auto simp: mapBookingDoc_def NewBooking_Inr_iff wfBooking_def oneZone_def dest: NewPeriod_wf split: sum.splits)

section \<open>What an operation returns\<close>

definition returns :: "('a \<Rightarrow> bool) \<Rightarrow> ('s, 'e, 'a) eff \<Rightarrow> bool" where
  "returns P m \<longleftrightarrow> (\<forall>s x s'. m s = Some (Inr x, s') \<longrightarrow> P x)"

lemma returnsI: "(\<And>s x s'. m s = Some (Inr x, s') \<Longrightarrow> P x) \<Longrightarrow> returns P m"
  by (simp add: returns_def)

lemma returnsD: "returns P m \<Longrightarrow> m s = Some (Inr x, s') \<Longrightarrow> P x"
  unfolding returns_def by blast

lemma returns_retE: "P x \<Longrightarrow> returns P (retE x)"
  and returns_failE: "returns P (failE e)"
  and returns_liftE: "(\<And>x. r = Inr x \<Longrightarrow> P x) \<Longrightarrow> returns P (liftE r)"
  and returns_if: "(c \<Longrightarrow> returns P m) \<Longrightarrow> (\<not> c \<Longrightarrow> returns P n) \<Longrightarrow> returns P (if c then m else n)"
  and returns_any: "returns (\<lambda>_. True) m"
  by (auto simp: returns_def)

lemma returns_mapErrE: "returns P m \<Longrightarrow> returns P (mapErrE h m)"
  by (auto intro!: returnsI dest: returnsD)

lemma returns_bindE: "returns Q m \<Longrightarrow> (\<And>x. Q x \<Longrightarrow> returns P (f x)) \<Longrightarrow> returns P (bindE m f)"
  unfolding returns_def bindE_Some_Inr by blast

lemma returns_last: "(\<And>x. returns P (f x)) \<Longrightarrow> returns P (bindE m f)"
  by (rule returns_bindE [OF returns_any])

lemmas returns_rules = returns_retE returns_failE returns_liftE returns_mapErrE returns_if returns_last

section \<open>The repository of bookings\<close>

lemma decodeBookings_all:
  "decodeBookings unm raws = Inr bs \<Longrightarrow> (\<And>raw b. decodeBooking unm raw = Inr b \<Longrightarrow> P b) \<Longrightarrow> list_all P bs"
  by (induction unm raws arbitrary: bs rule: decodeBookings.induct) (auto split: sum.splits)

text \<open>\<open>utc unm\<close>: the driver decodes the dates of a document in UTC, as it documents.\<close>

definition utc :: "('raw \<Rightarrow> gerr + bookingDocumentCurrent) \<Rightarrow> bool" where
  "utc unm \<longleftrightarrow> (\<forall>raw cur. unm raw = Inr cur \<longrightarrow>
     loc (curCheckIn (curStayPeriod cur)) = None \<and> loc (curCheckOut (curStayPeriod cur)) = None)"

lemma decodeBooking_oneZone: "utc unm \<Longrightarrow> decodeBooking unm raw = Inr b \<Longrightarrow> oneZone b"
  by (auto simp: decodeBooking_def utc_def oneZone_def split: sum.splits)

lemma findByGuestId_oneZone: "utc unm \<Longrightarrow> returns (list_all oneZone) (bookingRepoFindByGuestId unm c g)"
  unfolding bookingRepoFindByGuestId_def Let_def
  by (intro returns_rules) (blast intro: decodeBookings_all decodeBooking_oneZone)

lemma findByCheckInDate_oneZone: "utc unm \<Longrightarrow> returns (list_all oneZone) (bookingRepoFindByCheckInDate unm c t)"
  unfolding bookingRepoFindByCheckInDate_def case_prod_unfold
  by (intro returns_rules) (blast intro: decodeBookings_all decodeBooking_oneZone)

lemma findByNumber_oneZone: "utc unm \<Longrightarrow> returns oneZone (bookingRepoFindByGuestIdAndBookingNumber fromHex unm c g n)"
  unfolding bookingRepoFindByGuestIdAndBookingNumber_def
  by (intro returns_rules) (blast intro: decodeBooking_oneZone)

section \<open>The services\<close>

lemma mapGuestDoc_wf: "mapGuestDoc f as d = Inr g \<Longrightarrow> wfGuest g"
  by (simp add: mapGuestDoc_eq NewGuest_wf)

lemma mapBookingDocs_wf: "mapBookingDocs docs [] = Inr bs \<Longrightarrow> list_all oneZone docs \<Longrightarrow> list_all wfBooking bs"
  by (fastforce simp: mapBookingDocs_Inr list_all2_conv_all_nth list_all_length intro: mapBookingDoc_wf)

lemma guestService_wf:
  "returns wfGuest (guestServiceGetById gr i)"
  "returns wfGuest (guestServiceGetByDocument gr d)"
  "returns wfGuest (guestServiceUpdate gr i g)"
  unfolding guestServiceGetById_def guestServiceGetByDocument_def guestServiceUpdate_def
  by (intro returns_rules, erule mapGuestDoc_wf)+

lemma getBookings_wf:
  "returns (list_all oneZone) (brFindByGuestId br g) \<Longrightarrow> returns (list_all wfBooking) (guestServiceGetBookings br g)"
  unfolding guestServiceGetBookings_def
  by (erule returns_bindE) (auto intro!: returns_rules dest: mapBookingDocs_wf)

text \<open>The mapping of one document, with each step's error wrapped.\<close>

lemma map_document_wf:
  "oneZone d \<Longrightarrow> returns wfBooking
     (bindE (mapErrE h (liftE (NewPeriod (dCheckIn (dbStayPeriod d)) (dCheckOut (dbStayPeriod d)))))
       (\<lambda>p. mapErrE h' (liftE (NewBooking (dbId d) (dbMainGuest d) (dbNumberOfGuests d) p (dbCottageName d) (dbStatus d)))))"
  by (rule returnsI) (auto simp: bindE_Some_Inr mapBookingDoc_def intro!: mapBookingDoc_wf [of d])

lemma getBookingByDate_wf:
  assumes "\<And>g. returns (list_all oneZone) (brFindByGuestId br g)"
  shows "returns wfBooking (guestServiceGetBookingByDate gr br d t)"
  unfolding guestServiceGetBookingByDate_def Let_def
proof (rule returns_last, rule returns_bindE [OF returns_mapErrE [OF assms]], intro returns_if returns_failE map_document_wf)
  fix docs
  assume docs: "list_all oneZone docs" and i: "bookingIdxFrom 0 (startOfDay t) docs \<noteq> -1"
  from i bookingIdx_find [of "startOfDay t" docs]
  have "List.find (\<lambda>b. timeEqual (startOfDay (dCheckIn (dbStayPeriod b))) (startOfDay t)) docs =
      Some (docs ! nat (bookingIdxFrom 0 (startOfDay t) docs))" by simp
  then have "docs ! nat (bookingIdxFrom 0 (startOfDay t) docs) \<in> set docs"
    unfolding find_Some_first by (metis in_set_conv_decomp)
  with docs show "oneZone (docs ! nat (bookingIdxFrom 0 (startOfDay t) docs))" by (simp add: list_all_iff)
qed

lemma map_document_then:
  assumes "oneZone d" and "\<And>b. wfBooking b \<Longrightarrow> returns P (f b)"
  shows "returns P
     (bindE (mapErrE h (liftE (NewPeriod (dCheckIn (dbStayPeriod d)) (dCheckOut (dbStayPeriod d)))))
       (\<lambda>p. bindE (mapErrE h' (liftE (NewBooking (dbId d) (dbMainGuest d) (dbNumberOfGuests d) p (dbCottageName d) (dbStatus d)))) f))"
  unfolding bindE_assoc [symmetric] by (rule returns_bindE [OF map_document_wf [OF assms(1)] assms(2)])

lemma checkinFallback_wf:
  assumes "\<And>g n. returns oneZone (brFindByGuestIdAndBookingNumber (rsBookingRepo r) g n)"
  shows "returns wfBooking (receptionCheckinFallback r d n t)"
  unfolding receptionCheckinFallback_def
  by (rule returns_last)
    (intro returns_bindE [OF returns_mapErrE [OF assms]] returns_if returns_failE map_document_then returns_last returns_retE)

text \<open>C21: the services return only well-formed values: guests with an identifier, a document, names, a
  valid e-mail address, an address and a creation time; bookings with an identifier, at least one
  guest, a cottage, a status, and a stay between two midnights of which the second is not the
  earlier. For bookings this rests on the driver decoding dates in one zone.\<close>

theorem service_values_well_formed:
  assumes "utc unm" and "rsBookingRepo r = newBookingRepo fromHex unm c"
  shows "returns wfGuest (guestServiceGetById gr i) \<and> returns wfGuest (guestServiceGetByDocument gr d) \<and>
    returns wfGuest (guestServiceUpdate gr i g) \<and>
    returns (list_all wfBooking) (guestServiceGetBookings (newBookingRepo fromHex unm c) i) \<and>
    returns wfBooking (guestServiceGetBookingByDate gr (newBookingRepo fromHex unm c) d t) \<and>
    returns wfBooking (receptionCheckinFallback r d n t)"
  using assms
  by (auto intro!: guestService_wf getBookings_wf getBookingByDate_wf checkinFallback_wf
      simp: newBookingRepo_def findByGuestId_oneZone findByNumber_oneZone)

section \<open>The cache\<close>

text \<open>Whatever the cache holds decodes, if at all, to well-formed bookings.\<close>

definition cacheWf :: "(string \<Rightarrow> gerr + booking list) \<Rightarrow> (string \<rightharpoonup> string \<times> int) \<Rightarrow> bool" where
  "cacheWf um m \<longleftrightarrow> (\<forall>k v x bs. m k = Some (v, x) \<longrightarrow> um v = Inr bs \<longrightarrow> list_all wfBooking bs)"

definition keepsWf :: "(string \<Rightarrow> gerr + booking list) \<Rightarrow> ('s \<Rightarrow> string \<rightharpoonup> string \<times> int) \<Rightarrow> 's \<Rightarrow> 's \<Rightarrow> bool" where
  "keepsWf um stored s s' \<longleftrightarrow> (cacheWf um (stored s) \<longrightarrow> cacheWf um (stored s'))"

text \<open>The cache with the JSON encoding of lists of bookings; the empty text is no JSON value.\<close>

locale booking_cache = expiring_cache ca stored now
  for ca :: "'s cachePort" and stored :: "'s \<Rightarrow> string \<rightharpoonup> string \<times> int" and now :: "'s \<Rightarrow> int" +
  fixes mar :: "booking list \<Rightarrow> gerr + string" and um :: "string \<Rightarrow> gerr + booking list"
  assumes decode: "mar bs = Inr p \<Longrightarrow> um p = Inr bs"
    and empty: "um [] = Inr bs \<Longrightarrow> bs = []"

sublocale booking_cache \<subseteq> wf: frame "keepsWf um stored"
  by unfold_locales (auto simp: keepsWf_def)

lemma bookingsDocToDomain_wf: "list_all oneZone docs \<Longrightarrow> list_all wfBooking (bookingsDocToDomain docs)"
  by (induction docs) (auto simp: bookingsDocToDomain_eq map_filter_simps intro: mapBookingDoc_wf split: sum.split)

definition groupsWf :: "(string \<times> booking list) list \<Rightarrow> bool" where
  "groupsWf m \<longleftrightarrow> (\<forall>g \<in> set m. list_all wfBooking (snd g))"

lemma appendTo_wf: "wfBooking b \<Longrightarrow> groupsWf m \<Longrightarrow> groupsWf (appendTo d b m)"
  by (induction d b m rule: appendTo.induct) (auto simp: groupsWf_def)

lemma foldl_appendTo_wf:
  "list_all wfBooking bs \<Longrightarrow> groupsWf m \<Longrightarrow> groupsWf (foldl (\<lambda>m b. appendTo (f b) b m) m bs)"
  by (induction bs arbitrary: m) (simp_all add: appendTo_wf)

lemma bookingsByCheckOutDate_wf: "list_all wfBooking bs \<Longrightarrow> groupsWf (bookingsByCheckOutDate bs)"
  unfolding bookingsByCheckOutDate_def by (rule foldl_appendTo_wf) (simp_all add: groupsWf_def)

lemma returns_attempt:
  "returns P m \<Longrightarrow> returns (\<lambda>r. \<forall>x. r = Inr x \<longrightarrow> P x) (attemptE m)"
  by (auto simp: returns_def attemptE_Some)

text \<open>What the continuation may rely on, in a sequence that keeps a relation.\<close>

context frame
begin

lemma keeps_bind_returns: "keeps R m \<Longrightarrow> returns Q m \<Longrightarrow> (\<And>x. Q x \<Longrightarrow> keeps R (f x)) \<Longrightarrow> keeps R (bindE m f)"
  unfolding keeps_def returns_def bindE_Some by (blast intro: frame_trans)

end

context booking_cache
begin

lemma keeps_set:
  assumes "\<And>bs. um p = Inr bs \<Longrightarrow> list_all wfBooking bs"
  shows "keeps (keepsWf um stored) (cacheSetBytes ca k p cacheExpiration)"
proof (rule keepsI)
  fix s u s'
  assume "cacheSetBytes ca k p cacheExpiration s = Some (u, s')"
  from cache_set [OF cacheExpiration_pos this] assms show "keepsWf um stored s s'"
    by (auto simp: keepsWf_def cacheWf_def split: sum.splits)
qed

lemma keeps_cacheCheckIn:
  assumes "asCache a = ca" and "list_all wfBooking bs"
  shows "keeps (keepsWf um stored) (cacheCheckIn mar a bs day)"
proof (cases "mar bs")
  case (Inr p)
  from decode [OF Inr] assms(2) have "\<And>bs'. um p = Inr bs' \<Longrightarrow> list_all wfBooking bs'" by simp
  from keeps_set [OF this] Inr assms(1) show ?thesis by (simp add: cacheCheckIn_def)
qed (simp add: cacheCheckIn_def wf.keeps_failE)

lemma keeps_cacheCheckOut:
  assumes ca: "asCache a = ca"
  shows "groupsWf gs \<Longrightarrow> keeps (keepsWf um stored) (cacheCheckOutFrom mar a gs err)"
proof (induction gs arbitrary: err)
  case Nil
  then show ?case by (auto intro: wf.keeps_rules split: option.split)
next
  case (Cons g gs)
  obtain d bs where g: "g = (d, bs)" by fastforce
  from Cons.prems have bs: "list_all wfBooking bs" and gs: "groupsWf gs" by (simp_all add: groupsWf_def g)
  show ?case
  proof (cases "mar bs")
    case (Inl e)
    from empty have "\<And>bs'. um [] = Inr bs' \<Longrightarrow> list_all wfBooking bs'" by fastforce
    from keeps_set [OF this] Inl show ?thesis
      by (simp add: g ca) (intro wf.keeps_bindE wf.keeps_attemptE Cons.IH [OF gs])
  next
    case (Inr p)
    from decode [OF Inr] bs have "\<And>bs'. um p = Inr bs' \<Longrightarrow> list_all wfBooking bs'" by simp
    from keeps_set [OF this] Inr show ?thesis
      by (simp add: g ca) (intro wf.keeps_bindE wf.keeps_attemptE Cons.IH [OF gs])
  qed
qed

text \<open>The other collaborators do not touch the cache.\<close>

lemma keeps_frame: "(\<And>s r s'. m s = Some (r, s') \<Longrightarrow> stored s' = stored s) \<Longrightarrow> keeps (keepsWf um stored) m"
  by (rule keepsI) (auto simp: keepsWf_def)

lemma keeps_publish:
  assumes "\<And>m k. keeps (keepsWf um stored) (pubPublish (asPublisher a) m k)"
  shows "keeps (keepsWf um stored) (publishCheckinTodayFrom hex a day bs err)"
proof (induction bs arbitrary: err)
  case Nil
  then show ?case by (auto intro: wf.keeps_rules split: option.split)
next
  case (Cons b bs)
  then show ?case by (auto intro!: wf.keeps_bindE wf.keeps_attemptE assms)
qed

lemma keeps_arrangeDay:
  assumes ca: "asCache a = ca" and iter: "\<And>m. set (iter m) \<subseteq> set m"
    and find: "keeps (keepsWf um stored) (brFindByCheckInDate (asBookingRepo a) day)"
      "returns (list_all oneZone) (brFindByCheckInDate (asBookingRepo a) day)"
    and pub: "\<And>m k. keeps (keepsWf um stored) (pubPublish (asPublisher a) m k)"
  shows "keeps (keepsWf um stored) (arrangeDay iter mar hex a day)"
  unfolding arrangeDay_def Let_def
proof (rule wf.keeps_bind_returns [OF wf.keeps_attemptE [OF find(1)] returns_attempt [OF find(2)]])
  fix r1
  assume r1: "\<forall>x. r1 = Inr x \<longrightarrow> list_all oneZone x"
  show "keeps (keepsWf um stored) (case r1 of Inl err \<Rightarrow> retE () | Inr bookingDocs \<Rightarrow>
     bindE (attemptE (cacheCheckIn mar a (bookingsDocToDomain bookingDocs) day)) (\<lambda>r2. case r2 of Inl err \<Rightarrow> retE ()
     | Inr _ \<Rightarrow> bindE (attemptE (publishCheckinToday hex a (bookingsDocToDomain bookingDocs) day)) (\<lambda>r3. case r3 of
         Inl err \<Rightarrow> retE () | Inr _ \<Rightarrow> bindE (attemptE (cacheCheckOut iter mar a (bookingsDocToDomain bookingDocs))) (\<lambda>_. retE ()))))"
  proof (cases r1)
    case (Inr docs)
    with r1 have wf: "list_all wfBooking (bookingsDocToDomain docs)" by (simp add: bookingsDocToDomain_wf)
    have "groupsWf (iter (bookingsByCheckOutDate (bookingsDocToDomain docs)))"
      using bookingsByCheckOutDate_wf [OF wf] iter by (auto simp: groupsWf_def)
    then show ?thesis unfolding Inr sum.case publishCheckinToday_def cacheCheckOut_def
      by (intro wf.keeps_rules keeps_cacheCheckIn [OF ca wf] keeps_publish [OF pub] keeps_cacheCheckOut [OF ca])
  qed (simp add: wf.keeps_retE)
qed

lemma getFromCache_wf:
  assumes "rsCache r = ca" and "cacheWf um (stored s)" and "getFromCache um r day g s = Some (Inr b, s')"
  shows "b = zeroBooking \<or> wfBooking b"
proof -
  obtain y s1 where y: "cacheGetBytes ca (checkinKey day) s = Some (y, s1)"
    and b: "(case y of Inl err \<Rightarrow> retE zeroBooking | Inr js \<Rightarrow> (case um js of Inl err \<Rightarrow> retE zeroBooking
       | Inr bs \<Rightarrow> retE (firstOfGuest (gId g) bs))) s1 = Some (Inr b :: gerr + booking, s')"
    using assms(1,3) by (auto simp: getFromCache_def bind_attempt)
  have "list_all wfBooking bs" if v: "y = Inr v" "um v = Inr bs" for v bs
  proof -
    obtain x where "stored s (checkinKey day) = Some (v, x)"
      using v(1) cache_get [OF y] by (auto split: option.splits if_splits)
    with assms(2) v(2) show ?thesis unfolding cacheWf_def by blast
  qed
  with b show ?thesis
    by (auto simp: firstOfGuest_find find_Some_first list_all_iff split: sum.splits option.splits)
qed

end

text \<open>Where the booking of a check-in comes from.\<close>

lemma checkIn_source:
  assumes "receptionCheckIn um r doc today s = Some (Inr b, s')"
  obtains g t1 y t2 where "gsGetByDocument (rsGuestService r) doc s = Some (Inr g, t1)"
    and "getFromCache um r today g t1 = Some (y, t2)" and "b \<noteq> zeroBooking"
    and "y = Inr b \<or> (\<exists>t3 t4. gsGetBookingByDate (rsGuestService r) doc today t3 = Some (Inr b, t4))"
proof -
  from assms obtain g t1 y t2 where g: "gsGetByDocument (rsGuestService r) doc s = Some (Inr g, t1)"
    and y: "getFromCache um r today g t1 = Some (y, t2)"
    and k: "bindE (case y of Inl err \<Rightarrow> mapErrE (Wrapf ''failed to get booking for guest %s: %w'' [FStr doc])
          (gsGetBookingByDate (rsGuestService r) doc today)
        | Inr b \<Rightarrow> if b = zeroBooking then mapErrE (Wrapf ''failed to get booking for guest %s: %w'' [FStr doc])
          (gsGetBookingByDate (rsGuestService r) doc today) else retE b)
      (\<lambda>booking. if booking = zeroBooking then failE (Errorf ''no booking found for guest %s'' [FStr doc])
         else thenE (processCheckIn r doc booking g today) (retE booking)) t2 = Some (Inr b, s')"
    unfolding receptionCheckIn_def Let_def by (auto simp: bindE_Some_Inr attemptE_Some)
  from k have "b \<noteq> zeroBooking \<and>
      (y = Inr b \<or> (\<exists>t3 t4. gsGetBookingByDate (rsGuestService r) doc today t3 = Some (Inr b, t4)))"
    by (auto simp: bindE_Some_Inr split: sum.splits if_splits)
  with g y show ?thesis by (intro that) auto
qed

text \<open>C22: the cache only ever holds well-formed bookings, and so a check-in returns one: a day change
  keeps the cache decoding to well-formed bookings only, and with such a cache the booking a
  check-in returns is well-formed, whether it was read from the cache or from the repository.\<close>

theorem checkIn_returns_well_formed:
  assumes cache: "booking_cache ca stored now mar um" and wired: "asCache a = ca" "rsCache r = ca" and utc: "utc unm"
    and repos: "asBookingRepo a = newBookingRepo fromHex unm c" "rsBookingRepo r = newBookingRepo fromHex unm c"
      "rsGuestService r = newGuestService gr (newBookingRepo fromHex unm c)" "\<And>m. set (iter m) \<subseteq> set m"
    and frames: "\<And>s x s'. brFindByCheckInDate (asBookingRepo a) day s = Some (x, s') \<Longrightarrow> stored s' = stored s"
      "\<And>m k s x s'. pubPublish (asPublisher a) m k s = Some (x, s') \<Longrightarrow> stored s' = stored s"
      "\<And>d s x s'. grGetByDocument gr d s = Some (x, s') \<Longrightarrow> stored s' = stored s"
    and start: "cacheWf um (stored s)" and day: "arrangeDay iter mar hex a day s = Some (x, s1)"
    and checkin: "stored s2 = stored s1" "receptionCheckIn um r doc today s2 = Some (Inr b, s3)"
  shows "cacheWf um (stored s1) \<and> wfBooking b"
proof -
  have "returns (list_all oneZone) (brFindByCheckInDate (asBookingRepo a) day)"
    by (simp add: repos newBookingRepo_def findByCheckInDate_oneZone [OF utc])
  then have "keeps (keepsWf um stored) (arrangeDay iter mar hex a day)"
    using repos(4) frames by (intro booking_cache.keeps_arrangeDay [OF cache wired(1)] booking_cache.keeps_frame [OF cache]) auto
  from keepsD [OF this day] start have s1: "cacheWf um (stored s1)" by (simp add: keepsWf_def)
  from checkin(2) show ?thesis
  proof (rule checkIn_source)
    fix g t1 y t2
    assume g: "gsGetByDocument (rsGuestService r) doc s2 = Some (Inr g, t1)" and y: "getFromCache um r today g t1 = Some (y, t2)"
      and b: "b \<noteq> zeroBooking" "y = Inr b \<or> (\<exists>t3 t4. gsGetBookingByDate (rsGuestService r) doc today t3 = Some (Inr b, t4))"
    have "cacheWf um (stored t1)"
      using g s1 checkin(1) frames(3)
      by (auto simp: repos newGuestService_def guestServiceGetByDocument_def bindE_Some_Inr)
    from booking_cache.getFromCache_wf [OF cache wired(2) this] y b(1) have "y = Inr b \<Longrightarrow> wfBooking b" by blast
    moreover have "returns wfBooking (gsGetBookingByDate (rsGuestService r) doc today)"
      by (simp add: repos newGuestService_def getBookingByDate_wf newBookingRepo_def findByGuestId_oneZone [OF utc])
    ultimately show ?thesis using b(2) s1 by (auto dest: returnsD)
  qed
qed

section \<open>Concrete runs\<close>

definition sampleUnm :: "unit \<Rightarrow> gerr + bookingDocumentCurrent" where
  "sampleUnm _ = Inr \<lparr>curId = 7, curMainGuest = 1, curNumberOfGuests = 2,
     curStayPeriod = \<lparr>curCheckIn = \<lparr>nsec = 1717243200000000000, loc = None\<rparr>, curCheckOut = \<lparr>nsec = 1717408800000000000, loc = None\<rparr>\<rparr>,
     curCottageName = ''Oak'', curStatus = BookingStatusConfirmed\<rparr>"

definition sampleRaws :: "('s, unit) collection" where
  "sampleRaws = \<lparr>colFindOne = (\<lambda>_. retE ()), colFind = (\<lambda>_. retE 0), colAll = (\<lambda>_. retE [()]),
     colInsertOne = (\<lambda>_. retE 1), colUpdateOne = (\<lambda>_ _. retE 1)\<rparr>"

definition rawBookingRepo :: "'s bookingRepo" where
  "rawBookingRepo = newBookingRepo (\<lambda>_. Inr 7) sampleUnm sampleRaws"

lemma sampleUnm_utc: "utc sampleUnm"
  by (simp add: utc_def sampleUnm_def)

lemma sampleUnm_doc: "decodeBooking sampleUnm raw = Inr sampleBookingDoc"
  by (simp add: decodeBooking_def sampleUnm_def sampleBookingDoc_def)

lemma rawBookingRepo_runs:
  "brFindByGuestId rawBookingRepo 1 s = Some (Inr [sampleBookingDoc], s)"
  "t \<noteq> zeroTime \<Longrightarrow> brFindByCheckInDate rawBookingRepo t s = Some (Inr [sampleBookingDoc], s)"
  by (simp_all add: rawBookingRepo_def newBookingRepo_def bookingRepoFindByGuestId_def bookingRepoFindByCheckInDate_def
      sampleRaws_def step_defs validated_def reflectTime_def sampleUnm_doc case_prod_unfold)

theorem service_values_well_formed_witness:
  "\<exists>b. guestServiceGetBookings rawBookingRepo 1 () = Some (Inr [b], ()) \<and> wfBooking b"
proof -
  let ?r = "wiredReception sampleGuestRepo sampleCottageRepo rawBookingRepo sampleCache samplePublisher"
  have "guestServiceGetBookings rawBookingRepo 1 () = Some (Inr [sampleBooking], ())"
    by (simp add: guestServiceGetBookings_def rawBookingRepo_runs sampleBooking_mapped)
  moreover have "returns (list_all wfBooking) (guestServiceGetBookings (newBookingRepo (\<lambda>_. Inr 7) sampleUnm (sampleRaws :: (unit, unit) collection)) 1)"
    using service_values_well_formed [OF sampleUnm_utc, of ?r "\<lambda>_. Inr 7" sampleRaws sampleGuestRepo 1 "[]" sampleGuest sampleToday "[]"]
    by (simp add: wiredReception_def newReceptionService_def rawBookingRepo_def)
  ultimately show ?thesis by (auto simp: rawBookingRepo_def dest: returnsD)
qed

definition sampleUm :: "string \<Rightarrow> gerr + booking list" where
  "sampleUm p = (if p = ''json'' then Inr [sampleBooking] else Inl (LibErr ''json''))"

interpretation timedBookings: booking_cache timedCache snd fst sampleMar sampleUm
  by unfold_locales (auto simp: sampleMar_def sampleUm_def split: if_splits)

definition cachedArrange :: "(int \<times> (string \<rightharpoonup> string \<times> int)) arrangeService" where
  "cachedArrange = \<lparr>asBookingRepo = rawBookingRepo, asCache = timedCache, asPublisher = brokenPublisher\<rparr>"

definition cachedReception :: "(int \<times> (string \<rightharpoonup> string \<times> int)) receptionService" where
  "cachedReception = wiredReception sampleGuestRepo
     \<lparr>ctGetByName = (\<lambda>_. retE sampleCottageDoc), ctUpdateCurrentGuest = (\<lambda>_ _. retE ()),
      ctUpdateKeyHolder = (\<lambda>_ _ _. retE ()), ctRemovePastBooking = (\<lambda>_. retE ())\<rparr>
     rawBookingRepo timedCache (memPublisher True)"

lemma cached_day:
  "arrangeDay id sampleMar (\<lambda>_. ''0'') cachedArrange sampleToday (0, \<lambda>_. None) =
     Some (Inr (), (0, [checkinKey sampleToday \<mapsto> (''json'', cacheExpiration)]))"
proof -
  have "bookingsDocToDomain [sampleBookingDoc] = [sampleBooking]"
    by (simp add: bookingsDocToDomain_eq map_filter_simps sampleBooking_mapped)
  moreover have "sampleToday \<noteq> zeroTime" by (simp add: sampleToday_def zeroTime_def)
  ultimately show ?thesis
    by (simp add: arrangeDay_def Let_def cachedArrange_def rawBookingRepo_runs bindE_def attemptE_def cacheCheckIn_def
        sampleMar_def timedCache_def publishCheckinToday_def brokenPublisher_def checkinKey_def errorsJoin_def)
qed

lemma cached_checkIn:
  "\<exists>s. receptionCheckIn sampleUm cachedReception ''D1'' sampleToday (0, [checkinKey sampleToday \<mapsto> (''json'', cacheExpiration)]) =
     Some (Inr sampleBooking, s)"
proof -
  let ?s = "(0, [checkinKey sampleToday \<mapsto> (''json'', cacheExpiration)]) :: int \<times> (string \<rightharpoonup> string \<times> int)"
  have g: "guestServiceGetByDocument sampleGuestRepo ''D1'' ?s = Some (Inr sampleGuest, ?s)"
    using sampleGuest_new
    by (simp add: guestServiceGetByDocument_def sampleGuestRepo_def bindE_def mapGuestDoc_eq sampleGuestDoc_def)
  have sel: "gsGetByDocument (rsGuestService cachedReception) = guestServiceGetByDocument sampleGuestRepo" "rsCache cachedReception = timedCache"
    by (simp_all add: cachedReception_def wiredReception_def newReceptionService_def newGuestService_def)
  have c: "getFromCache sampleUm cachedReception sampleToday sampleGuest ?s = Some (Inr sampleBooking, ?s)"
    using cacheExpiration_pos
    by (simp add: getFromCache_def sel timedCache_def bindE_def attemptE_def sampleUm_def sampleBooking_def sampleGuest_def)
  have nz: "sampleBooking \<noteq> zeroBooking" by (simp add: sampleBooking_def zeroBooking_def)
  have p: "processCheckIn cachedReception ''D1'' sampleBooking sampleGuest sampleToday ?s = Some (Inr (), ?s)"
    by (simp add: processCheckIn_eq sample_admissible cachedReception_def wiredReception_def newReceptionService_def available_def
        sampleCottageDoc_def NewCleaningOrder_eq newCleaningService_def cleaningServiceCleanRoom_def memPublisher_def)
      (simp add: sampleBooking_def)
  show ?thesis
    by (simp add: receptionCheckIn_def sel g c p nz bindE_def mapErrE_def attemptE_def Let_def)
qed

theorem checkIn_returns_well_formed_witness:
  "\<exists>s1 s3. arrangeDay id sampleMar (\<lambda>_. ''0'') cachedArrange sampleToday (0, \<lambda>_. None) = Some (Inr (), s1) \<and>
     receptionCheckIn sampleUm cachedReception ''D1'' sampleToday s1 = Some (Inr sampleBooking, s3) \<and> wfBooking sampleBooking"
proof -
  obtain s3 where s3: "receptionCheckIn sampleUm cachedReception ''D1'' sampleToday
      (0, [checkinKey sampleToday \<mapsto> (''json'', cacheExpiration)]) = Some (Inr sampleBooking, s3)"
    using cached_checkIn by blast
  have "wfBooking sampleBooking"
    by (rule checkIn_returns_well_formed [OF timedBookings.booking_cache_axioms _ _ sampleUnm_utc _ _ _ _ _ _ _ _ cached_day refl s3,
          THEN conjunct2, of "\<lambda>_. Inr 7" sampleRaws sampleGuestRepo])
      (auto simp: cachedArrange_def cachedReception_def wiredReception_def newReceptionService_def rawBookingRepo_runs
        brokenPublisher_def sampleGuestRepo_def cacheWf_def sampleToday_def zeroTime_def rawBookingRepo_def [symmetric])
  with cached_day s3 show ?thesis by blast
qed

end
