(* ===== verification/Fakes.thy ===== *)
theory Fakes
  imports Session Program Lodge
begin

text \<open>
  The test doubles of the ports: \<open>infra/mdb/fakes\<close>, \<open>port/fakes\<close>, \<open>infra/mq/fakes\<close>,
  \<open>infra/clock/fakes\<close>. A method of a double notes the call (a counter and the last arguments), then
  runs the stub a test has set, or returns zero values. What a double notes is a record
  \<open>...Calls\<close> somewhere in the state, reached through a cell; its stubs are a record of optional
  operations. The noted contexts are left out, as contexts are everywhere.
\<close>

section \<open>Cells\<close>

text \<open>A cell is the way to change one part of the state; \<open>get\<close> reads the part.\<close>

type_synonym ('c, 's) cell = "('c \<Rightarrow> 'c) \<Rightarrow> 's \<Rightarrow> 's"

definition noting :: "('c, 's) cell \<Rightarrow> ('c \<Rightarrow> 'c) \<Rightarrow> ('s, 'e, 'a) eff \<Rightarrow> ('s, 'e, 'a) eff" where
  "noting upd g m = (\<lambda>s. m (upd g s))"

lemma noting_apply [simp]: "noting upd g m s = m (upd g s)"
  by (simp add: noting_def)

section \<open>Zero values\<close>

definition zeroCottageDoc :: cottageDoc where
  "zeroCottageDoc = \<lparr>dcId = NilObjectID, dcName = [], dcView = [],
     dcDetails = \<lparr>cdDescription = [], cdView = [], cdFurnitureDescription = [], cdBathroomDescription = [],
       cdAmenitiesDescription = []\<rparr>, dcPhotos = [], dcPricePerNight = 0, dcBookings = [],
     dcCurrentGuest = NilObjectID, dcCleaningStatus = [], dcKey = \<lparr>kNumber = [], kHolder = []\<rparr>\<rparr>"

definition zeroGuest :: guest where
  "zeroGuest = \<lparr>gId = NilObjectID, gDocumentId = [], gGivenNames = [], gSurname = [], gEmail = [],
     gBillingAddress = [], gCreatedAt = None, gLastUpdate = None\<rparr>"

definition zeroCleaningOrder :: cleaningOrder where
  "zeroCleaningOrder = \<lparr>RoomName = [], RequestType = []\<rparr>"

definition zeroExchangeConfig :: exchangeConfig where
  "zeroExchangeConfig = \<lparr>exName = [], exKind = [], exDurable = False, exAutoDelete = False, exInternal = False,
     exNoWait = False\<rparr>"

definition zeroQueueConfig :: queueConfig where
  "zeroQueueConfig = \<lparr>quName = [], quDurable = False, quAutoDelete = False, quExclusive = False, quNoWait = False\<rparr>"

definition zeroBindingConfig :: bindingConfig where
  "zeroBindingConfig = \<lparr>biExchangeName = [], biRoutingKey = [], biNoWait = False\<rparr>"

section \<open>\<open>FakeAcknowledger\<close>, \<open>infra/mq/fakes/acknowledger_fake.go\<close>\<close>

text \<open>It has no stubs: its methods return the errors it holds. Delivery tags are \<open>uint64\<close>.\<close>

record fakeAcknowledger =
  faAckCalls :: int
  faNackCalls :: int
  faRejectCalls :: int
  faLastAckTag :: "64 word"
  faLastAckMultiple :: bool
  faLastNackTag :: "64 word"
  faLastNackMultiple :: bool
  faLastNackRequeue :: bool
  faLastRejectTag :: "64 word"
  faLastRejectRequeue :: bool
  faAckErr :: "gerr option"
  faNackErr :: "gerr option"
  faRejectErr :: "gerr option"

definition errOrNil :: "gerr option \<Rightarrow> gerr + unit" where
  "errOrNil err = (case err of None \<Rightarrow> Inr () | Some e \<Rightarrow> Inl e)"

definition fakeAcknowledgerAck :: "64 word \<Rightarrow> bool \<Rightarrow> (fakeAcknowledger, unit) io" where
  "fakeAcknowledgerAck tag multiple = (\<lambda>f. let f1 = f\<lparr>faAckCalls := faAckCalls f + 1, faLastAckTag := tag,
     faLastAckMultiple := multiple\<rparr> in Some (errOrNil (faAckErr f1), f1))"

definition fakeAcknowledgerNack :: "64 word \<Rightarrow> bool \<Rightarrow> bool \<Rightarrow> (fakeAcknowledger, unit) io" where
  "fakeAcknowledgerNack tag multiple requeue = (\<lambda>f. let f1 = f\<lparr>faNackCalls := faNackCalls f + 1, faLastNackTag := tag,
     faLastNackMultiple := multiple, faLastNackRequeue := requeue\<rparr> in Some (errOrNil (faNackErr f1), f1))"

definition fakeAcknowledgerReject :: "64 word \<Rightarrow> bool \<Rightarrow> (fakeAcknowledger, unit) io" where
  "fakeAcknowledgerReject tag requeue = (\<lambda>f. let f1 = f\<lparr>faRejectCalls := faRejectCalls f + 1, faLastRejectTag := tag,
     faLastRejectRequeue := requeue\<rparr> in Some (errOrNil (faRejectErr f1), f1))"

section \<open>\<open>FakeGuestRepo\<close>, \<open>infra/mdb/fakes/guest_repo_fake.go\<close>\<close>

record fakeGuestRepoCalls =
  fgGetByIdCallCount :: int
  fgGetByDocumentCallCount :: int
  fgAddCallCount :: int
  fgUpdateCallCount :: int
  fgLastGetById :: objectID
  fgLastDocumentId :: string
  fgLastAddedGuest :: guestDoc
  fgLastUpdateId :: objectID
  fgLastUpdatedGuest :: guestDoc

definition zeroFakeGuestRepo :: fakeGuestRepoCalls where
  "zeroFakeGuestRepo = \<lparr>fgGetByIdCallCount = 0, fgGetByDocumentCallCount = 0, fgAddCallCount = 0,
     fgUpdateCallCount = 0, fgLastGetById = NilObjectID, fgLastDocumentId = [],
     fgLastAddedGuest = zeroGuestDoc, fgLastUpdateId = NilObjectID, fgLastUpdatedGuest = zeroGuestDoc\<rparr>"

record 's fakeGuestRepo =
  fgGetByIdFn :: "(objectID \<Rightarrow> ('s, guestDoc) io) option"
  fgGetByDocumentFn :: "(string \<Rightarrow> ('s, guestDoc) io) option"
  fgAddFn :: "(guestDoc \<Rightarrow> ('s, objectID) io) option"
  fgUpdateFn :: "(objectID \<Rightarrow> guestDoc \<Rightarrow> ('s, guestDoc) io) option"

definition fakeGuestRepoGetById ::
  "(fakeGuestRepoCalls, 's) cell \<Rightarrow> 's fakeGuestRepo \<Rightarrow> objectID \<Rightarrow> ('s, guestDoc) io" where
  "fakeGuestRepoGetById upd f i = noting upd
     (\<lambda>c. c\<lparr>fgGetByIdCallCount := fgGetByIdCallCount c + 1, fgLastGetById := i\<rparr>)
     (case fgGetByIdFn f of Some fn \<Rightarrow> fn i | None \<Rightarrow> retE zeroGuestDoc)"

definition fakeGuestRepoGetByDocument ::
  "(fakeGuestRepoCalls, 's) cell \<Rightarrow> 's fakeGuestRepo \<Rightarrow> string \<Rightarrow> ('s, guestDoc) io" where
  "fakeGuestRepoGetByDocument upd f documentId = noting upd
     (\<lambda>c. c\<lparr>fgGetByDocumentCallCount := fgGetByDocumentCallCount c + 1,
       fgLastDocumentId := documentId\<rparr>)
     (case fgGetByDocumentFn f of Some fn \<Rightarrow> fn documentId | None \<Rightarrow> retE zeroGuestDoc)"

definition fakeGuestRepoAdd ::
  "(fakeGuestRepoCalls, 's) cell \<Rightarrow> 's fakeGuestRepo \<Rightarrow> guestDoc \<Rightarrow> ('s, objectID) io" where
  "fakeGuestRepoAdd upd f newGuest = noting upd
     (\<lambda>c. c\<lparr>fgAddCallCount := fgAddCallCount c + 1, fgLastAddedGuest := newGuest\<rparr>)
     (case fgAddFn f of Some fn \<Rightarrow> fn newGuest | None \<Rightarrow> retE NilObjectID)"

definition fakeGuestRepoUpdate ::
  "(fakeGuestRepoCalls, 's) cell \<Rightarrow> 's fakeGuestRepo \<Rightarrow> objectID \<Rightarrow> guestDoc \<Rightarrow> ('s, guestDoc) io" where
  "fakeGuestRepoUpdate upd f i guest = noting upd
     (\<lambda>c. c\<lparr>fgUpdateCallCount := fgUpdateCallCount c + 1,
       fgLastUpdateId := i,
       fgLastUpdatedGuest := guest\<rparr>)
     (case fgUpdateFn f of Some fn \<Rightarrow> fn i guest | None \<Rightarrow> retE zeroGuestDoc)"

definition fakeGuestRepoPort :: "(fakeGuestRepoCalls, 's) cell \<Rightarrow> 's fakeGuestRepo \<Rightarrow> 's guestRepo" where
  "fakeGuestRepoPort upd f = \<lparr>grGetById = fakeGuestRepoGetById upd f,
     grGetByDocument = fakeGuestRepoGetByDocument upd f,
     grAdd = fakeGuestRepoAdd upd f,
     grUpdate = fakeGuestRepoUpdate upd f\<rparr>"

section \<open>\<open>FakeCottageRepo\<close>, \<open>infra/mdb/fakes/cottage_repo_fake.go\<close>\<close>

record fakeCottageRepoCalls =
  fcGetByNameCallCount :: int
  fcUpdateCurrentGuestCallCount :: int
  fcUpdateKeyHolderCallCount :: int
  fcRemovePastBookingCallCount :: int
  fcLastRoomName :: string
  fcLastUpdateCurrentGuestRoom :: string
  fcLastUpdateCurrentGuestId :: objectID
  fcLastUpdateKeyHolderRoom :: string
  fcLastUpdateKeyNumber :: string
  fcLastUpdateKeyHolder :: string
  fcLastRemovePastBookingId :: objectID

definition zeroFakeCottageRepo :: fakeCottageRepoCalls where
  "zeroFakeCottageRepo = \<lparr>fcGetByNameCallCount = 0, fcUpdateCurrentGuestCallCount = 0, fcUpdateKeyHolderCallCount = 0,
     fcRemovePastBookingCallCount = 0, fcLastRoomName = [], fcLastUpdateCurrentGuestRoom = [],
     fcLastUpdateCurrentGuestId = NilObjectID, fcLastUpdateKeyHolderRoom = [], fcLastUpdateKeyNumber = [],
     fcLastUpdateKeyHolder = [], fcLastRemovePastBookingId = NilObjectID\<rparr>"

record 's fakeCottageRepo =
  fcGetByNameFn :: "(string \<Rightarrow> ('s, cottageDoc) io) option"
  fcUpdateCurrentGuestFn :: "(string \<Rightarrow> objectID \<Rightarrow> ('s, unit) io) option"
  fcUpdateKeyHolderFn :: "(string \<Rightarrow> string \<Rightarrow> string \<Rightarrow> ('s, unit) io) option"
  fcRemovePastBookingFn :: "(objectID \<Rightarrow> ('s, unit) io) option"

definition fakeCottageRepoGetByName ::
  "(fakeCottageRepoCalls, 's) cell \<Rightarrow> 's fakeCottageRepo \<Rightarrow> string \<Rightarrow> ('s, cottageDoc) io" where
  "fakeCottageRepoGetByName upd f roomName = noting upd
     (\<lambda>c. c\<lparr>fcGetByNameCallCount := fcGetByNameCallCount c + 1, fcLastRoomName := roomName\<rparr>)
     (case fcGetByNameFn f of Some fn \<Rightarrow> fn roomName | None \<Rightarrow> retE zeroCottageDoc)"

definition fakeCottageRepoUpdateCurrentGuest ::
  "(fakeCottageRepoCalls, 's) cell \<Rightarrow> 's fakeCottageRepo \<Rightarrow> string \<Rightarrow> objectID \<Rightarrow> ('s, unit) io" where
  "fakeCottageRepoUpdateCurrentGuest upd f roomName guestId = noting upd
     (\<lambda>c. c\<lparr>fcUpdateCurrentGuestCallCount := fcUpdateCurrentGuestCallCount c + 1,
       fcLastUpdateCurrentGuestRoom := roomName,
       fcLastUpdateCurrentGuestId := guestId\<rparr>)
     (case fcUpdateCurrentGuestFn f of Some fn \<Rightarrow> fn roomName guestId | None \<Rightarrow> retE ())"

definition fakeCottageRepoUpdateKeyHolder ::
  "(fakeCottageRepoCalls, 's) cell \<Rightarrow> 's fakeCottageRepo \<Rightarrow> string \<Rightarrow> string \<Rightarrow> string \<Rightarrow> ('s, unit) io" where
  "fakeCottageRepoUpdateKeyHolder upd f roomName keyNumber holder = noting upd
     (\<lambda>c. c\<lparr>fcUpdateKeyHolderCallCount := fcUpdateKeyHolderCallCount c + 1,
       fcLastUpdateKeyHolderRoom := roomName,
       fcLastUpdateKeyNumber := keyNumber,
       fcLastUpdateKeyHolder := holder\<rparr>)
     (case fcUpdateKeyHolderFn f of Some fn \<Rightarrow> fn roomName keyNumber holder | None \<Rightarrow> retE ())"

definition fakeCottageRepoRemovePastBooking ::
  "(fakeCottageRepoCalls, 's) cell \<Rightarrow> 's fakeCottageRepo \<Rightarrow> objectID \<Rightarrow> ('s, unit) io" where
  "fakeCottageRepoRemovePastBooking upd f bookingId = noting upd
     (\<lambda>c. c\<lparr>fcRemovePastBookingCallCount := fcRemovePastBookingCallCount c + 1,
       fcLastRemovePastBookingId := bookingId\<rparr>)
     (case fcRemovePastBookingFn f of Some fn \<Rightarrow> fn bookingId | None \<Rightarrow> retE ())"

definition fakeCottageRepoPort :: "(fakeCottageRepoCalls, 's) cell \<Rightarrow> 's fakeCottageRepo \<Rightarrow> 's cottageRepo" where
  "fakeCottageRepoPort upd f = \<lparr>ctGetByName = fakeCottageRepoGetByName upd f,
     ctUpdateCurrentGuest = fakeCottageRepoUpdateCurrentGuest upd f,
     ctUpdateKeyHolder = fakeCottageRepoUpdateKeyHolder upd f,
     ctRemovePastBooking = fakeCottageRepoRemovePastBooking upd f\<rparr>"

section \<open>\<open>FakeBookingRepo\<close>, \<open>infra/mdb/fakes/booking_repo_fake.go\<close>\<close>

record fakeBookingRepoCalls =
  fbFindByGuestIdCallCount :: int
  fbFindByCheckInDateCallCount :: int
  fbFindByGuestIdAndCheckInCallCount :: int
  fbFindByGuestIdAndBookingNumberCallCount :: int
  fbUpdateStatusCallCount :: int
  fbLastFindByGuestId :: objectID
  fbLastFindByCheckInDate :: gotime
  fbLastFindByGuestIdAndCheckInGuestId :: objectID
  fbLastFindByGuestIdAndCheckInDate :: gotime
  fbLastFindByGuestIdAndBookingNumberGuestId :: objectID
  fbLastFindByGuestIdAndBookingNumberBookingNum :: string
  fbLastUpdateStatusBookingId :: objectID
  fbLastUpdateStatus :: string

definition zeroFakeBookingRepo :: fakeBookingRepoCalls where
  "zeroFakeBookingRepo = \<lparr>fbFindByGuestIdCallCount = 0, fbFindByCheckInDateCallCount = 0, fbFindByGuestIdAndCheckInCallCount = 0,
     fbFindByGuestIdAndBookingNumberCallCount = 0, fbUpdateStatusCallCount = 0, fbLastFindByGuestId = NilObjectID,
     fbLastFindByCheckInDate = zeroTime, fbLastFindByGuestIdAndCheckInGuestId = NilObjectID, fbLastFindByGuestIdAndCheckInDate = zeroTime,
     fbLastFindByGuestIdAndBookingNumberGuestId = NilObjectID, fbLastFindByGuestIdAndBookingNumberBookingNum = [], fbLastUpdateStatusBookingId = NilObjectID,
     fbLastUpdateStatus = []\<rparr>"

record 's fakeBookingRepo =
  fbFindByGuestIdFn :: "(objectID \<Rightarrow> ('s, bookingDoc list) io) option"
  fbFindByCheckInDateFn :: "(gotime \<Rightarrow> ('s, bookingDoc list) io) option"
  fbFindByGuestIdAndCheckInFn :: "(objectID \<Rightarrow> gotime \<Rightarrow> ('s, bookingDoc) io) option"
  fbFindByGuestIdAndBookingNumberFn :: "(objectID \<Rightarrow> string \<Rightarrow> ('s, bookingDoc) io) option"
  fbUpdateStatusFn :: "(objectID \<Rightarrow> string \<Rightarrow> ('s, unit) io) option"

definition fakeBookingRepoFindByGuestId ::
  "(fakeBookingRepoCalls, 's) cell \<Rightarrow> 's fakeBookingRepo \<Rightarrow> objectID \<Rightarrow> ('s, bookingDoc list) io" where
  "fakeBookingRepoFindByGuestId upd f guestId = noting upd
     (\<lambda>c. c\<lparr>fbFindByGuestIdCallCount := fbFindByGuestIdCallCount c + 1,
       fbLastFindByGuestId := guestId\<rparr>)
     (case fbFindByGuestIdFn f of Some fn \<Rightarrow> fn guestId | None \<Rightarrow> retE [])"

definition fakeBookingRepoFindByCheckInDate ::
  "(fakeBookingRepoCalls, 's) cell \<Rightarrow> 's fakeBookingRepo \<Rightarrow> gotime \<Rightarrow> ('s, bookingDoc list) io" where
  "fakeBookingRepoFindByCheckInDate upd f date = noting upd
     (\<lambda>c. c\<lparr>fbFindByCheckInDateCallCount := fbFindByCheckInDateCallCount c + 1,
       fbLastFindByCheckInDate := date\<rparr>)
     (case fbFindByCheckInDateFn f of Some fn \<Rightarrow> fn date | None \<Rightarrow> retE [])"

definition fakeBookingRepoFindByGuestIdAndCheckIn ::
  "(fakeBookingRepoCalls, 's) cell \<Rightarrow> 's fakeBookingRepo \<Rightarrow> objectID \<Rightarrow> gotime \<Rightarrow> ('s, bookingDoc) io" where
  "fakeBookingRepoFindByGuestIdAndCheckIn upd f guestId checkIn = noting upd
     (\<lambda>c. c\<lparr>fbFindByGuestIdAndCheckInCallCount := fbFindByGuestIdAndCheckInCallCount c + 1,
       fbLastFindByGuestIdAndCheckInGuestId := guestId,
       fbLastFindByGuestIdAndCheckInDate := checkIn\<rparr>)
     (case fbFindByGuestIdAndCheckInFn f of Some fn \<Rightarrow> fn guestId checkIn | None \<Rightarrow> retE zeroBookingDoc)"

definition fakeBookingRepoFindByGuestIdAndBookingNumber ::
  "(fakeBookingRepoCalls, 's) cell \<Rightarrow> 's fakeBookingRepo \<Rightarrow> objectID \<Rightarrow> string \<Rightarrow> ('s, bookingDoc) io" where
  "fakeBookingRepoFindByGuestIdAndBookingNumber upd f guestId bookingNumber = noting upd
     (\<lambda>c. c\<lparr>fbFindByGuestIdAndBookingNumberCallCount := fbFindByGuestIdAndBookingNumberCallCount c + 1,
       fbLastFindByGuestIdAndBookingNumberGuestId := guestId,
       fbLastFindByGuestIdAndBookingNumberBookingNum := bookingNumber\<rparr>)
     (case fbFindByGuestIdAndBookingNumberFn f of Some fn \<Rightarrow> fn guestId bookingNumber | None \<Rightarrow> retE zeroBookingDoc)"

definition fakeBookingRepoUpdateStatus ::
  "(fakeBookingRepoCalls, 's) cell \<Rightarrow> 's fakeBookingRepo \<Rightarrow> objectID \<Rightarrow> string \<Rightarrow> ('s, unit) io" where
  "fakeBookingRepoUpdateStatus upd f bookingId status = noting upd
     (\<lambda>c. c\<lparr>fbUpdateStatusCallCount := fbUpdateStatusCallCount c + 1,
       fbLastUpdateStatusBookingId := bookingId,
       fbLastUpdateStatus := status\<rparr>)
     (case fbUpdateStatusFn f of Some fn \<Rightarrow> fn bookingId status | None \<Rightarrow> retE ())"

definition fakeBookingRepoPort :: "(fakeBookingRepoCalls, 's) cell \<Rightarrow> 's fakeBookingRepo \<Rightarrow> 's bookingRepo" where
  "fakeBookingRepoPort upd f = \<lparr>brFindByGuestId = fakeBookingRepoFindByGuestId upd f,
     brFindByCheckInDate = fakeBookingRepoFindByCheckInDate upd f,
     brFindByGuestIdAndCheckIn = fakeBookingRepoFindByGuestIdAndCheckIn upd f,
     brFindByGuestIdAndBookingNumber = fakeBookingRepoFindByGuestIdAndBookingNumber upd f,
     brUpdateStatus = fakeBookingRepoUpdateStatus upd f\<rparr>"

section \<open>\<open>FakeCache\<close>, \<open>port/fakes/cache_fake.go\<close>\<close>

record fakeCacheCalls =
  fkGetBytesCallCount :: int
  fkSetBytesCallCount :: int
  fkLastGetBytesKey :: string
  fkLastSetBytesKey :: string
  fkLastSetBytesValue :: string
  fkLastSetBytesExpiration :: int

definition zeroFakeCache :: fakeCacheCalls where
  "zeroFakeCache = \<lparr>fkGetBytesCallCount = 0, fkSetBytesCallCount = 0, fkLastGetBytesKey = [],
     fkLastSetBytesKey = [], fkLastSetBytesValue = [], fkLastSetBytesExpiration = 0\<rparr>"

record 's fakeCache =
  fkGetBytesFn :: "(string \<Rightarrow> ('s, string) io) option"
  fkSetBytesFn :: "(string \<Rightarrow> string \<Rightarrow> int \<Rightarrow> ('s, unit) io) option"

definition fakeCacheGetBytes ::
  "(fakeCacheCalls, 's) cell \<Rightarrow> 's fakeCache \<Rightarrow> string \<Rightarrow> ('s, string) io" where
  "fakeCacheGetBytes upd f key = noting upd
     (\<lambda>c. c\<lparr>fkGetBytesCallCount := fkGetBytesCallCount c + 1, fkLastGetBytesKey := key\<rparr>)
     (case fkGetBytesFn f of Some fn \<Rightarrow> fn key | None \<Rightarrow> retE [])"

definition fakeCacheSetBytes ::
  "(fakeCacheCalls, 's) cell \<Rightarrow> 's fakeCache \<Rightarrow> string \<Rightarrow> string \<Rightarrow> int \<Rightarrow> ('s, unit) io" where
  "fakeCacheSetBytes upd f key value expiration = noting upd
     (\<lambda>c. c\<lparr>fkSetBytesCallCount := fkSetBytesCallCount c + 1,
       fkLastSetBytesKey := key,
       fkLastSetBytesValue := value,
       fkLastSetBytesExpiration := expiration\<rparr>)
     (case fkSetBytesFn f of Some fn \<Rightarrow> fn key value expiration | None \<Rightarrow> retE ())"

definition fakeCachePort :: "(fakeCacheCalls, 's) cell \<Rightarrow> 's fakeCache \<Rightarrow> 's cachePort" where
  "fakeCachePort upd f = \<lparr>cacheGetBytes = fakeCacheGetBytes upd f,
     cacheSetBytes = fakeCacheSetBytes upd f\<rparr>"

section \<open>\<open>FakeMqProducer\<close>, \<open>infra/mq/fakes/mq_producer_fake.go\<close>\<close>

record fakeMqProducerCalls =
  fpDeclareExchangeCallCount :: int
  fpPublishCallCount :: int
  fpCloseChannelCallCount :: int
  fpLastDeclaredExchange :: exchangeConfig
  fpLastPublishedMessage :: "protoMessage option"
  fpLastPublishedRoutingKey :: string

definition zeroFakeMqProducer :: fakeMqProducerCalls where
  "zeroFakeMqProducer = \<lparr>fpDeclareExchangeCallCount = 0, fpPublishCallCount = 0, fpCloseChannelCallCount = 0,
     fpLastDeclaredExchange = zeroExchangeConfig, fpLastPublishedMessage = None, fpLastPublishedRoutingKey = []\<rparr>"

record 's fakeMqProducer =
  fpDeclareExchangeFn :: "(exchangeConfig \<Rightarrow> ('s, unit) io) option"
  fpPublishFn :: "(protoMessage \<Rightarrow> string \<Rightarrow> ('s, unit) io) option"
  fpCloseChannelFn :: "(('s, unit) io) option"

definition fakeMqProducerDeclareExchange ::
  "(fakeMqProducerCalls, 's) cell \<Rightarrow> 's fakeMqProducer \<Rightarrow> exchangeConfig \<Rightarrow> ('s, unit) io" where
  "fakeMqProducerDeclareExchange upd f cfg = noting upd
     (\<lambda>c. c\<lparr>fpDeclareExchangeCallCount := fpDeclareExchangeCallCount c + 1,
       fpLastDeclaredExchange := cfg\<rparr>)
     (case fpDeclareExchangeFn f of Some fn \<Rightarrow> fn cfg | None \<Rightarrow> retE ())"

definition fakeMqProducerPublish ::
  "(fakeMqProducerCalls, 's) cell \<Rightarrow> 's fakeMqProducer \<Rightarrow> protoMessage \<Rightarrow> string \<Rightarrow> ('s, unit) io" where
  "fakeMqProducerPublish upd f message routingKey = noting upd
     (\<lambda>c. c\<lparr>fpPublishCallCount := fpPublishCallCount c + 1,
       fpLastPublishedMessage := Some message,
       fpLastPublishedRoutingKey := routingKey\<rparr>)
     (case fpPublishFn f of Some fn \<Rightarrow> fn message routingKey | None \<Rightarrow> retE ())"

definition fakeMqProducerCloseChannel ::
  "(fakeMqProducerCalls, 's) cell \<Rightarrow> 's fakeMqProducer \<Rightarrow> ('s, unit) io" where
  "fakeMqProducerCloseChannel upd f = noting upd
     (\<lambda>c. c\<lparr>fpCloseChannelCallCount := fpCloseChannelCallCount c + 1\<rparr>)
     (case fpCloseChannelFn f of Some fn \<Rightarrow> fn | None \<Rightarrow> retE ())"

definition fakeMqProducerPort :: "(fakeMqProducerCalls, 's) cell \<Rightarrow> 's fakeMqProducer \<Rightarrow> 's mqPublisher" where
  "fakeMqProducerPort upd f = \<lparr>pubPublish = fakeMqProducerPublish upd f\<rparr>"

section \<open>\<open>FakeMqConsumer\<close>, \<open>infra/mq/fakes/mq_consumer_fake.go\<close>\<close>

record fakeMqConsumerCalls =
  fqDeclareQueueCallCount :: int
  fqBindQueueCallCount :: int
  fqConsumeCallCount :: int
  fqCloseChannelCallCount :: int
  fqLastDeclaredQueue :: queueConfig
  fqLastBoundQueue :: bindingConfig
  fqLastAck :: "fakeAcknowledger option"

definition zeroFakeMqConsumer :: fakeMqConsumerCalls where
  "zeroFakeMqConsumer = \<lparr>fqDeclareQueueCallCount = 0, fqBindQueueCallCount = 0, fqConsumeCallCount = 0,
     fqCloseChannelCallCount = 0, fqLastDeclaredQueue = zeroQueueConfig, fqLastBoundQueue = zeroBindingConfig,
     fqLastAck = None\<rparr>"

record 's fakeMqConsumer =
  fqDeclareQueueFn :: "(queueConfig \<Rightarrow> ('s, unit) io) option"
  fqBindQueueFn :: "(bindingConfig \<Rightarrow> ('s, unit) io) option"
  fqConsumeFn :: "(('s, handle option) io) option"
  fqCloseChannelFn :: "(('s, unit) io) option"

definition fakeMqConsumerDeclareQueue ::
  "(fakeMqConsumerCalls, 's) cell \<Rightarrow> 's fakeMqConsumer \<Rightarrow> queueConfig \<Rightarrow> ('s, unit) io" where
  "fakeMqConsumerDeclareQueue upd f cfg = noting upd
     (\<lambda>c. c\<lparr>fqDeclareQueueCallCount := fqDeclareQueueCallCount c + 1, fqLastDeclaredQueue := cfg\<rparr>)
     (case fqDeclareQueueFn f of Some fn \<Rightarrow> fn cfg | None \<Rightarrow> retE ())"

definition fakeMqConsumerBindQueue ::
  "(fakeMqConsumerCalls, 's) cell \<Rightarrow> 's fakeMqConsumer \<Rightarrow> bindingConfig \<Rightarrow> ('s, unit) io" where
  "fakeMqConsumerBindQueue upd f cfg = noting upd
     (\<lambda>c. c\<lparr>fqBindQueueCallCount := fqBindQueueCallCount c + 1, fqLastBoundQueue := cfg\<rparr>)
     (case fqBindQueueFn f of Some fn \<Rightarrow> fn cfg | None \<Rightarrow> retE ())"

definition fakeMqConsumerConsume ::
  "(fakeMqConsumerCalls, 's) cell \<Rightarrow> 's fakeMqConsumer \<Rightarrow> ('s, handle option) io" where
  "fakeMqConsumerConsume upd f = noting upd
     (\<lambda>c. c\<lparr>fqConsumeCallCount := fqConsumeCallCount c + 1\<rparr>)
     (case fqConsumeFn f of Some fn \<Rightarrow> fn | None \<Rightarrow> retE None)"

definition fakeMqConsumerCloseChannel ::
  "(fakeMqConsumerCalls, 's) cell \<Rightarrow> 's fakeMqConsumer \<Rightarrow> ('s, unit) io" where
  "fakeMqConsumerCloseChannel upd f = noting upd
     (\<lambda>c. c\<lparr>fqCloseChannelCallCount := fqCloseChannelCallCount c + 1\<rparr>)
     (case fqCloseChannelFn f of Some fn \<Rightarrow> fn | None \<Rightarrow> retE ())"

section \<open>\<open>FakeClockClient\<close>, \<open>infra/clock/fakes/clock_client_fake.go\<close>\<close>

record fakeClockClientCalls =
  flNowCallCount :: int
  flCloseCallCount :: int

definition zeroFakeClockClient :: fakeClockClientCalls where
  "zeroFakeClockClient = \<lparr>flNowCallCount = 0, flCloseCallCount = 0\<rparr>"

record 's fakeClockClient =
  flNowFn :: "(('s, gotime option) io) option"
  flCloseFn :: "(('s, unit) io) option"

definition fakeClockClientNow ::
  "('s \<Rightarrow> gotime) \<Rightarrow> (fakeClockClientCalls, 's) cell \<Rightarrow> 's fakeClockClient \<Rightarrow> ('s, gotime option) io" where
  "fakeClockClientNow now upd f = noting upd
     (\<lambda>c. c\<lparr>flNowCallCount := flNowCallCount c + 1\<rparr>)
     (case flNowFn f of Some fn \<Rightarrow> fn | None \<Rightarrow> (\<lambda>s. Some (Inr (Some (now s)), s)))"

definition fakeClockClientClose ::
  "(fakeClockClientCalls, 's) cell \<Rightarrow> 's fakeClockClient \<Rightarrow> ('s, unit) io" where
  "fakeClockClientClose upd f = noting upd
     (\<lambda>c. c\<lparr>flCloseCallCount := flCloseCallCount c + 1\<rparr>)
     (case flCloseFn f of Some fn \<Rightarrow> fn | None \<Rightarrow> retE ())"

end
