(* ===== verification/FakeServices.thy ===== *)
theory FakeServices
  imports Fakes
begin

text \<open>
  The test doubles of the services, of the chat and of the session's handlers: \<open>app/fakes\<close>,
  \<open>transport/websocket/chat/fakes\<close>, \<open>transport/websocket/handler/fakes\<close>. Channels are named by
  addresses, a nil channel or message is \<open>None\<close>.
\<close>

section \<open>\<open>GuestService\<close>, \<open>app/fakes/guest_service.go\<close>\<close>

record fakeGuestServiceCalls =
  sgGetByIdCallCount :: int
  sgGetByDocumentCallCount :: int
  sgAddCallCount :: int
  sgUpdateCallCount :: int
  sgGetBookingsCallCount :: int
  sgGetBookingByDateCallCount :: int
  sgLastGetById :: objectID
  sgLastGetByDocument :: string
  sgLastAddedGuest :: guest
  sgLastUpdateId :: objectID
  sgLastUpdatedGuest :: guest
  sgLastGetBookingsGuestId :: objectID
  sgLastGetBookingDocument :: string
  sgLastGetBookingDate :: gotime

definition zeroFakeGuestService :: fakeGuestServiceCalls where
  "zeroFakeGuestService = \<lparr>sgGetByIdCallCount = 0, sgGetByDocumentCallCount = 0, sgAddCallCount = 0,
     sgUpdateCallCount = 0, sgGetBookingsCallCount = 0, sgGetBookingByDateCallCount = 0,
     sgLastGetById = NilObjectID, sgLastGetByDocument = [], sgLastAddedGuest = zeroGuest,
     sgLastUpdateId = NilObjectID, sgLastUpdatedGuest = zeroGuest, sgLastGetBookingsGuestId = NilObjectID,
     sgLastGetBookingDocument = [], sgLastGetBookingDate = zeroTime\<rparr>"

record 's fakeGuestService =
  sgGetByIdFn :: "(objectID \<Rightarrow> ('s, guest) io) option"
  sgGetByDocumentFn :: "(string \<Rightarrow> ('s, guest) io) option"
  sgAddFn :: "(guest \<Rightarrow> ('s, objectID) io) option"
  sgUpdateFn :: "(objectID \<Rightarrow> guest \<Rightarrow> ('s, guest) io) option"
  sgGetBookingsFn :: "(objectID \<Rightarrow> ('s, booking list) io) option"
  sgGetBookingByDateFn :: "(string \<Rightarrow> gotime \<Rightarrow> ('s, booking) io) option"

definition fakeGuestServiceGetById ::
  "(fakeGuestServiceCalls, 's) cell \<Rightarrow> 's fakeGuestService \<Rightarrow> objectID \<Rightarrow> ('s, guest) io" where
  "fakeGuestServiceGetById upd f i = noting upd
     (\<lambda>c. c\<lparr>sgGetByIdCallCount := sgGetByIdCallCount c + 1, sgLastGetById := i\<rparr>)
     (case sgGetByIdFn f of Some fn \<Rightarrow> fn i | None \<Rightarrow> retE zeroGuest)"

definition fakeGuestServiceGetByDocument ::
  "(fakeGuestServiceCalls, 's) cell \<Rightarrow> 's fakeGuestService \<Rightarrow> string \<Rightarrow> ('s, guest) io" where
  "fakeGuestServiceGetByDocument upd f documentId = noting upd
     (\<lambda>c. c\<lparr>sgGetByDocumentCallCount := sgGetByDocumentCallCount c + 1,
       sgLastGetByDocument := documentId\<rparr>)
     (case sgGetByDocumentFn f of Some fn \<Rightarrow> fn documentId | None \<Rightarrow> retE zeroGuest)"

definition fakeGuestServiceAdd ::
  "(fakeGuestServiceCalls, 's) cell \<Rightarrow> 's fakeGuestService \<Rightarrow> guest \<Rightarrow> ('s, objectID) io" where
  "fakeGuestServiceAdd upd f guest = noting upd
     (\<lambda>c. c\<lparr>sgAddCallCount := sgAddCallCount c + 1, sgLastAddedGuest := guest\<rparr>)
     (case sgAddFn f of Some fn \<Rightarrow> fn guest | None \<Rightarrow> retE NilObjectID)"

definition fakeGuestServiceUpdate ::
  "(fakeGuestServiceCalls, 's) cell \<Rightarrow> 's fakeGuestService \<Rightarrow> objectID \<Rightarrow> guest \<Rightarrow> ('s, guest) io" where
  "fakeGuestServiceUpdate upd f i guest = noting upd
     (\<lambda>c. c\<lparr>sgUpdateCallCount := sgUpdateCallCount c + 1,
       sgLastUpdateId := i,
       sgLastUpdatedGuest := guest\<rparr>)
     (case sgUpdateFn f of Some fn \<Rightarrow> fn i guest | None \<Rightarrow> retE zeroGuest)"

definition fakeGuestServiceGetBookings ::
  "(fakeGuestServiceCalls, 's) cell \<Rightarrow> 's fakeGuestService \<Rightarrow> objectID \<Rightarrow> ('s, booking list) io" where
  "fakeGuestServiceGetBookings upd f guestId = noting upd
     (\<lambda>c. c\<lparr>sgGetBookingsCallCount := sgGetBookingsCallCount c + 1,
       sgLastGetBookingsGuestId := guestId\<rparr>)
     (case sgGetBookingsFn f of Some fn \<Rightarrow> fn guestId | None \<Rightarrow> retE [])"

definition fakeGuestServiceGetBookingByDate ::
  "(fakeGuestServiceCalls, 's) cell \<Rightarrow> 's fakeGuestService \<Rightarrow> string \<Rightarrow> gotime \<Rightarrow> ('s, booking) io" where
  "fakeGuestServiceGetBookingByDate upd f document date = noting upd
     (\<lambda>c. c\<lparr>sgGetBookingByDateCallCount := sgGetBookingByDateCallCount c + 1,
       sgLastGetBookingDocument := document,
       sgLastGetBookingDate := date\<rparr>)
     (case sgGetBookingByDateFn f of Some fn \<Rightarrow> fn document date | None \<Rightarrow> retE zeroBooking)"

definition fakeGuestServicePort :: "(fakeGuestServiceCalls, 's) cell \<Rightarrow> 's fakeGuestService \<Rightarrow> 's guestService" where
  "fakeGuestServicePort upd f = \<lparr>gsGetById = fakeGuestServiceGetById upd f,
     gsGetByDocument = fakeGuestServiceGetByDocument upd f,
     gsAdd = fakeGuestServiceAdd upd f,
     gsUpdate = fakeGuestServiceUpdate upd f,
     gsGetBookings = fakeGuestServiceGetBookings upd f,
     gsGetBookingByDate = fakeGuestServiceGetBookingByDate upd f\<rparr>"

section \<open>\<open>CleaningService\<close>, \<open>app/fakes/cleaning_service.go\<close>\<close>

record fakeCleaningServiceCalls =
  scCleanRoomCallCount :: int
  scLastCleaningRequest :: cleaningOrder

definition zeroFakeCleaningService :: fakeCleaningServiceCalls where
  "zeroFakeCleaningService = \<lparr>scCleanRoomCallCount = 0, scLastCleaningRequest = zeroCleaningOrder\<rparr>"

record 's fakeCleaningService =
  scCleanRoomFn :: "(cleaningOrder \<Rightarrow> ('s, unit) io) option"

definition fakeCleaningServiceCleanRoom ::
  "(fakeCleaningServiceCalls, 's) cell \<Rightarrow> 's fakeCleaningService \<Rightarrow> cleaningOrder \<Rightarrow> ('s, unit) io" where
  "fakeCleaningServiceCleanRoom upd f request = noting upd
     (\<lambda>c. c\<lparr>scCleanRoomCallCount := scCleanRoomCallCount c + 1, scLastCleaningRequest := request\<rparr>)
     (case scCleanRoomFn f of Some fn \<Rightarrow> fn request | None \<Rightarrow> retE ())"

definition fakeCleaningServicePort :: "(fakeCleaningServiceCalls, 's) cell \<Rightarrow> 's fakeCleaningService \<Rightarrow> 's cleaningService" where
  "fakeCleaningServicePort upd f = \<lparr>csCleanRoom = fakeCleaningServiceCleanRoom upd f\<rparr>"

section \<open>\<open>ReceptionService\<close>, \<open>app/fakes/reception_service.go\<close>\<close>

record fakeReceptionServiceCalls =
  srCheckInCallCount :: int
  srCheckOutCallCount :: int
  srCheckinFallbackCallCount :: int
  srReceiveCottageKeyCallCount :: int
  srReturnCottageKeyCallCount :: int
  srLastCheckInGuestDocument :: string
  srLastCheckOutBooking :: booking
  srLastFallbackDocument :: string
  srLastFallbackBookingNumber :: string
  srLastCheckInToday :: gotime
  srLastCheckOutToday :: gotime
  srLastFallbackToday :: gotime
  srLastReceiveCottageName :: string
  srLastReceiveKeyNumber :: string
  srLastReturnCottageName :: string
  srLastReturnKeyNumber :: string

definition zeroFakeReceptionService :: fakeReceptionServiceCalls where
  "zeroFakeReceptionService = \<lparr>srCheckInCallCount = 0, srCheckOutCallCount = 0, srCheckinFallbackCallCount = 0,
     srReceiveCottageKeyCallCount = 0, srReturnCottageKeyCallCount = 0, srLastCheckInGuestDocument = [],
     srLastCheckOutBooking = zeroBooking, srLastFallbackDocument = [], srLastFallbackBookingNumber = [],
     srLastCheckInToday = zeroTime, srLastCheckOutToday = zeroTime, srLastFallbackToday = zeroTime,
     srLastReceiveCottageName = [], srLastReceiveKeyNumber = [], srLastReturnCottageName = [],
     srLastReturnKeyNumber = []\<rparr>"

record 's fakeReceptionService =
  srCheckInFn :: "(string \<Rightarrow> gotime \<Rightarrow> ('s, booking) io) option"
  srCheckOutFn :: "(booking \<Rightarrow> gotime \<Rightarrow> ('s, unit) io) option"
  srCheckinFallbackFn :: "(string \<Rightarrow> string \<Rightarrow> gotime \<Rightarrow> ('s, booking) io) option"
  srReceiveCottageKeyFn :: "(string \<Rightarrow> string \<Rightarrow> ('s, unit) io) option"
  srReturnCottageKeyFn :: "(string \<Rightarrow> string \<Rightarrow> ('s, unit) io) option"

definition fakeReceptionServiceCheckIn ::
  "(fakeReceptionServiceCalls, 's) cell \<Rightarrow> 's fakeReceptionService \<Rightarrow> string \<Rightarrow> gotime \<Rightarrow> ('s, booking) io" where
  "fakeReceptionServiceCheckIn upd f guestDocument today = noting upd
     (\<lambda>c. c\<lparr>srCheckInCallCount := srCheckInCallCount c + 1,
       srLastCheckInGuestDocument := guestDocument,
       srLastCheckInToday := today\<rparr>)
     (case srCheckInFn f of Some fn \<Rightarrow> fn guestDocument today | None \<Rightarrow> retE zeroBooking)"

definition fakeReceptionServiceCheckOut ::
  "(fakeReceptionServiceCalls, 's) cell \<Rightarrow> 's fakeReceptionService \<Rightarrow> booking \<Rightarrow> gotime \<Rightarrow> ('s, unit) io" where
  "fakeReceptionServiceCheckOut upd f booking today = noting upd
     (\<lambda>c. c\<lparr>srCheckOutCallCount := srCheckOutCallCount c + 1,
       srLastCheckOutBooking := booking,
       srLastCheckOutToday := today\<rparr>)
     (case srCheckOutFn f of Some fn \<Rightarrow> fn booking today | None \<Rightarrow> retE ())"

definition fakeReceptionServiceCheckinFallback ::
  "(fakeReceptionServiceCalls, 's) cell \<Rightarrow> 's fakeReceptionService \<Rightarrow> string \<Rightarrow> string \<Rightarrow> gotime \<Rightarrow> ('s, booking) io" where
  "fakeReceptionServiceCheckinFallback upd f document bookingNumber today = noting upd
     (\<lambda>c. c\<lparr>srCheckinFallbackCallCount := srCheckinFallbackCallCount c + 1,
       srLastFallbackDocument := document,
       srLastFallbackBookingNumber := bookingNumber,
       srLastFallbackToday := today\<rparr>)
     (case srCheckinFallbackFn f of Some fn \<Rightarrow> fn document bookingNumber today | None \<Rightarrow> retE zeroBooking)"

definition fakeReceptionServiceReceiveCottageKey ::
  "(fakeReceptionServiceCalls, 's) cell \<Rightarrow> 's fakeReceptionService \<Rightarrow> string \<Rightarrow> string \<Rightarrow> ('s, unit) io" where
  "fakeReceptionServiceReceiveCottageKey upd f cottageName keyNumber = noting upd
     (\<lambda>c. c\<lparr>srReceiveCottageKeyCallCount := srReceiveCottageKeyCallCount c + 1,
       srLastReceiveCottageName := cottageName,
       srLastReceiveKeyNumber := keyNumber\<rparr>)
     (case srReceiveCottageKeyFn f of Some fn \<Rightarrow> fn cottageName keyNumber | None \<Rightarrow> retE ())"

definition fakeReceptionServiceReturnCottageKey ::
  "(fakeReceptionServiceCalls, 's) cell \<Rightarrow> 's fakeReceptionService \<Rightarrow> string \<Rightarrow> string \<Rightarrow> ('s, unit) io" where
  "fakeReceptionServiceReturnCottageKey upd f cottageName keyNumber = noting upd
     (\<lambda>c. c\<lparr>srReturnCottageKeyCallCount := srReturnCottageKeyCallCount c + 1,
       srLastReturnCottageName := cottageName,
       srLastReturnKeyNumber := keyNumber\<rparr>)
     (case srReturnCottageKeyFn f of Some fn \<Rightarrow> fn cottageName keyNumber | None \<Rightarrow> retE ())"

definition fakeReceptionServicePort :: "(fakeReceptionServiceCalls, 's) cell \<Rightarrow> 's fakeReceptionService \<Rightarrow> 's receptionPort" where
  "fakeReceptionServicePort upd f = \<lparr>rpCheckIn = fakeReceptionServiceCheckIn upd f,
     rpCheckinFallback = fakeReceptionServiceCheckinFallback upd f,
     rpCheckOut = fakeReceptionServiceCheckOut upd f,
     rpReceiveCottageKey = fakeReceptionServiceReceiveCottageKey upd f,
     rpReturnCottageKey = fakeReceptionServiceReturnCottageKey upd f\<rparr>"

section \<open>\<open>NotificationService\<close>, \<open>app/fakes/notification_service.go\<close>\<close>

record fakeNotificationServiceCalls =
  snHourNotificationCallCount :: int
  snCheckOutNotificationCallCount :: int
  snLastHourNotificationTimerCh :: "chanId option"
  snLastHourNotificationHour :: int
  snLastCheckOutNotificationCh :: "chanId option"

definition zeroFakeNotificationService :: fakeNotificationServiceCalls where
  "zeroFakeNotificationService = \<lparr>snHourNotificationCallCount = 0, snCheckOutNotificationCallCount = 0, snLastHourNotificationTimerCh = None,
     snLastHourNotificationHour = 0, snLastCheckOutNotificationCh = None\<rparr>"

record 's fakeNotificationService =
  snHourNotificationFn :: "(chanId option \<Rightarrow> int \<Rightarrow> ('s, unit) io) option"
  snCheckOutNotificationFn :: "(chanId option \<Rightarrow> ('s, unit) io) option"

definition fakeNotificationServiceHourNotification ::
  "(fakeNotificationServiceCalls, 's) cell \<Rightarrow> 's fakeNotificationService \<Rightarrow> chanId option \<Rightarrow> int \<Rightarrow> ('s, unit) io" where
  "fakeNotificationServiceHourNotification upd f timerCh hour = noting upd
     (\<lambda>c. c\<lparr>snHourNotificationCallCount := snHourNotificationCallCount c + 1,
       snLastHourNotificationTimerCh := timerCh,
       snLastHourNotificationHour := hour\<rparr>)
     (case snHourNotificationFn f of Some fn \<Rightarrow> fn timerCh hour | None \<Rightarrow> retE ())"

definition fakeNotificationServiceCheckOutNotification ::
  "(fakeNotificationServiceCalls, 's) cell \<Rightarrow> 's fakeNotificationService \<Rightarrow> chanId option \<Rightarrow> ('s, unit) io" where
  "fakeNotificationServiceCheckOutNotification upd f bookingCh = noting upd
     (\<lambda>c. c\<lparr>snCheckOutNotificationCallCount := snCheckOutNotificationCallCount c + 1,
       snLastCheckOutNotificationCh := bookingCh\<rparr>)
     (case snCheckOutNotificationFn f of Some fn \<Rightarrow> fn bookingCh | None \<Rightarrow> retE ())"

section \<open>\<open>TimeEventService\<close>, \<open>app/fakes/time_event_service.go\<close>\<close>

record fakeTimeEventServiceCalls =
  stStartCallCount :: int
  stRegisterCallCount :: int
  stUnregisterCallCount :: int
  stLastRegisterEventType :: timeEventType
  stLastRegisterChannel :: "chanId option"
  stLastUnregisterEventType :: timeEventType
  stLastUnregisterChannel :: "chanId option"

definition zeroFakeTimeEventService :: fakeTimeEventServiceCalls where
  "zeroFakeTimeEventService = \<lparr>stStartCallCount = 0, stRegisterCallCount = 0, stUnregisterCallCount = 0,
     stLastRegisterEventType = OtherTimeEvent [], stLastRegisterChannel = None, stLastUnregisterEventType = OtherTimeEvent [],
     stLastUnregisterChannel = None\<rparr>"

record 's fakeTimeEventService =
  stStartFn :: "(('s, unit) io) option"
  stRegisterFn :: "(timeEventType \<Rightarrow> chanId option \<Rightarrow> ('s, unit) io) option"
  stUnregisterFn :: "(timeEventType \<Rightarrow> chanId option \<Rightarrow> ('s, unit) io) option"

definition fakeTimeEventServiceStart ::
  "(fakeTimeEventServiceCalls, 's) cell \<Rightarrow> 's fakeTimeEventService \<Rightarrow> ('s, unit) io" where
  "fakeTimeEventServiceStart upd f = noting upd
     (\<lambda>c. c\<lparr>stStartCallCount := stStartCallCount c + 1\<rparr>)
     (case stStartFn f of Some fn \<Rightarrow> fn | None \<Rightarrow> retE ())"

definition fakeTimeEventServiceRegister ::
  "(fakeTimeEventServiceCalls, 's) cell \<Rightarrow> 's fakeTimeEventService \<Rightarrow> timeEventType \<Rightarrow> chanId option \<Rightarrow> ('s, unit) io" where
  "fakeTimeEventServiceRegister upd f eventType ch = noting upd
     (\<lambda>c. c\<lparr>stRegisterCallCount := stRegisterCallCount c + 1,
       stLastRegisterEventType := eventType,
       stLastRegisterChannel := ch\<rparr>)
     (case stRegisterFn f of Some fn \<Rightarrow> fn eventType ch | None \<Rightarrow> retE ())"

definition fakeTimeEventServiceUnregister ::
  "(fakeTimeEventServiceCalls, 's) cell \<Rightarrow> 's fakeTimeEventService \<Rightarrow> timeEventType \<Rightarrow> chanId option \<Rightarrow> ('s, unit) io" where
  "fakeTimeEventServiceUnregister upd f eventType ch = noting upd
     (\<lambda>c. c\<lparr>stUnregisterCallCount := stUnregisterCallCount c + 1,
       stLastUnregisterEventType := eventType,
       stLastUnregisterChannel := ch\<rparr>)
     (case stUnregisterFn f of Some fn \<Rightarrow> fn eventType ch | None \<Rightarrow> retE ())"

section \<open>\<open>Reader\<close>, \<open>transport/websocket/chat/fakes/reader.go\<close>\<close>

record fakeReaderCalls =
  drWaitForGuestActionCallCount :: int
  drAckGuestActionCallCount :: int
  drLastWaitForGuestActionAction :: guestAction

definition zeroFakeReader :: fakeReaderCalls where
  "zeroFakeReader = \<lparr>drWaitForGuestActionCallCount = 0, drAckGuestActionCallCount = 0, drLastWaitForGuestActionAction = GUEST_ACTION_UNSPECIFIED\<rparr>"

record 's fakeReader =
  drWaitForGuestActionFn :: "(guestAction \<Rightarrow> ('s, chatMessage option) io) option"
  drAckGuestActionFn :: "(('s, unit) io) option"

definition fakeReaderWaitForGuestAction ::
  "(fakeReaderCalls, 's) cell \<Rightarrow> 's fakeReader \<Rightarrow> guestAction \<Rightarrow> ('s, chatMessage option) io" where
  "fakeReaderWaitForGuestAction upd f action = noting upd
     (\<lambda>c. c\<lparr>drWaitForGuestActionCallCount := drWaitForGuestActionCallCount c + 1,
       drLastWaitForGuestActionAction := action\<rparr>)
     (case drWaitForGuestActionFn f of Some fn \<Rightarrow> fn action | None \<Rightarrow> retE None)"

definition fakeReaderAckGuestAction ::
  "(fakeReaderCalls, 's) cell \<Rightarrow> 's fakeReader \<Rightarrow> ('s, unit) io" where
  "fakeReaderAckGuestAction upd f = noting upd
     (\<lambda>c. c\<lparr>drAckGuestActionCallCount := drAckGuestActionCallCount c + 1\<rparr>)
     (case drAckGuestActionFn f of Some fn \<Rightarrow> fn | None \<Rightarrow> retE ())"

section \<open>\<open>Writer\<close>, \<open>transport/websocket/chat/fakes/writer.go\<close>\<close>

record fakeWriterCalls =
  dwSendSystemRequestCallCount :: int
  dwSendSystemNotificationCallCount :: int
  dwLastSendSystemRequestRequest :: systemRequest
  dwLastSendSystemRequestResponseType :: "guestResponse option"
  dwLastSendSystemNotificationValue :: systemNotification

definition zeroFakeWriter :: fakeWriterCalls where
  "zeroFakeWriter = \<lparr>dwSendSystemRequestCallCount = 0, dwSendSystemNotificationCallCount = 0, dwLastSendSystemRequestRequest = SYSTEM_REQUEST_UNSPECIFIED,
     dwLastSendSystemRequestResponseType = None, dwLastSendSystemNotificationValue = SYSTEM_NOTIFICATION_UNSPECIFIED\<rparr>"

record 's fakeWriter =
  dwSendSystemRequestFn :: "(systemRequest \<Rightarrow> guestResponse option \<Rightarrow> ('s, chatMessage option) io) option"
  dwSendSystemNotificationFn :: "(systemNotification \<Rightarrow> ('s, unit) io) option"

definition fakeWriterSendSystemRequest ::
  "(fakeWriterCalls, 's) cell \<Rightarrow> 's fakeWriter \<Rightarrow> systemRequest \<Rightarrow> guestResponse option \<Rightarrow> ('s, chatMessage option) io" where
  "fakeWriterSendSystemRequest upd f request responseType = noting upd
     (\<lambda>c. c\<lparr>dwSendSystemRequestCallCount := dwSendSystemRequestCallCount c + 1,
       dwLastSendSystemRequestRequest := request,
       dwLastSendSystemRequestResponseType := responseType\<rparr>)
     (case dwSendSystemRequestFn f of Some fn \<Rightarrow> fn request responseType | None \<Rightarrow> retE None)"

definition fakeWriterSendSystemNotification ::
  "(fakeWriterCalls, 's) cell \<Rightarrow> 's fakeWriter \<Rightarrow> systemNotification \<Rightarrow> ('s, unit) io" where
  "fakeWriterSendSystemNotification upd f notification = noting upd
     (\<lambda>c. c\<lparr>dwSendSystemNotificationCallCount := dwSendSystemNotificationCallCount c + 1,
       dwLastSendSystemNotificationValue := notification\<rparr>)
     (case dwSendSystemNotificationFn f of Some fn \<Rightarrow> fn notification | None \<Rightarrow> retE ())"

section \<open>\<open>Chat\<close>, \<open>transport/websocket/chat/fakes/chat.go\<close>\<close>

text \<open>
  The double of a chat is a script: the messages still to be read, the messages acknowledged and
  written. A test puts no nil message in it, so messages are values. \<open>done\<close> waits for the end of the
  context and gives \<open>ctx.Err()\<close>.
\<close>

record fakeChat =
  dkMessages :: "chatMessage list"
  dkAcked :: "chatMessage list"
  dkWritten :: "chatMessage list"
  dkReadErr :: "gerr option"
  dkWriteErr :: "gerr option"
  dkWaitForContextDone :: bool

record 's fakeChatStubs =
  dkOnReadAck :: "('s, chatMessage) io option"
  dkOnReadReply :: "('s, chatMessage) io option"
  dkOnWrite :: "(chatMessage \<Rightarrow> 's \<Rightarrow> 's) option"

definition ErrNoMoreMessages :: gerr where
  "ErrNoMoreMessages = Errorf ''no more messages'' []"

definition fakeChatReadOneMessage ::
  "('s \<Rightarrow> fakeChat) \<Rightarrow> (fakeChat, 's) cell \<Rightarrow> ('s \<Rightarrow> gerr option) \<Rightarrow> ('s \<Rightarrow> (gerr \<times> 's) option) \<Rightarrow> ('s, chatMessage) io" where
  "fakeChatReadOneMessage get upd ctxErr' ctxDone = (\<lambda>s.
     case ctxErr' s of Some err \<Rightarrow> Some (Inl err, s)
   | None \<Rightarrow> (case dkReadErr (get s) of Some err \<Rightarrow> Some (Inl err, s)
     | None \<Rightarrow> (case dkMessages (get s) of
         [] \<Rightarrow> if dkWaitForContextDone (get s) then map_option (\<lambda>(err, s1). (Inl err, s1)) (ctxDone s)
               else Some (Inl ErrNoMoreMessages, s)
       | msg # msgs \<Rightarrow> Some (Inr msg, upd (\<lambda>f. f\<lparr>dkMessages := msgs\<rparr>) s))))"

definition fakeChatReadAck ::
  "('s \<Rightarrow> fakeChat) \<Rightarrow> (fakeChat, 's) cell \<Rightarrow> 's fakeChatStubs \<Rightarrow> ('s \<Rightarrow> gerr option) \<Rightarrow> ('s \<Rightarrow> (gerr \<times> 's) option) \<Rightarrow>
    ('s, chatMessage) io" where
  "fakeChatReadAck get upd f ctxErr' ctxDone = (case dkOnReadAck f of Some fn \<Rightarrow> fn
     | None \<Rightarrow> fakeChatReadOneMessage get upd ctxErr' ctxDone)"

definition fakeChatReadReply ::
  "('s \<Rightarrow> fakeChat) \<Rightarrow> (fakeChat, 's) cell \<Rightarrow> 's fakeChatStubs \<Rightarrow> ('s \<Rightarrow> gerr option) \<Rightarrow> ('s \<Rightarrow> (gerr \<times> 's) option) \<Rightarrow>
    ('s, chatMessage) io" where
  "fakeChatReadReply get upd f ctxErr' ctxDone = (case dkOnReadReply f of Some fn \<Rightarrow> fn
     | None \<Rightarrow> fakeChatReadOneMessage get upd ctxErr' ctxDone)"

definition fakeChatSendAck :: "(fakeChat, 's) cell \<Rightarrow> chatMessage \<Rightarrow> 's \<Rightarrow> 's option" where
  "fakeChatSendAck upd msg s = Some (if getAck msg \<noteq> None then s else upd (\<lambda>f. f\<lparr>dkAcked := dkAcked f @ [msg]\<rparr>) s)"

definition fakeChatWriteOneMessage ::
  "('s \<Rightarrow> fakeChat) \<Rightarrow> (fakeChat, 's) cell \<Rightarrow> 's fakeChatStubs \<Rightarrow> ('s \<Rightarrow> gerr option) \<Rightarrow> chatMessage \<Rightarrow> ('s, unit) io" where
  "fakeChatWriteOneMessage get upd f ctxErr' msg = (\<lambda>s.
     case ctxErr' s of Some err \<Rightarrow> Some (Inl err, s)
   | None \<Rightarrow> (case dkWriteErr (get s) of Some err \<Rightarrow> Some (Inl err, s)
     | None \<Rightarrow> (let s1 = upd (\<lambda>c. c\<lparr>dkWritten := dkWritten c @ [msg]\<rparr>) s in
         case dkOnWrite f of Some fn \<Rightarrow> Some (Inr (), fn msg s1) | None \<Rightarrow> Some (Inr (), s1))))"

definition fakeChatPort ::
  "('s \<Rightarrow> fakeChat) \<Rightarrow> (fakeChat, 's) cell \<Rightarrow> 's fakeChatStubs \<Rightarrow> ('s \<Rightarrow> gerr option) \<Rightarrow> ('s \<Rightarrow> (gerr \<times> 's) option) \<Rightarrow> 's chat" where
  "fakeChatPort get upd f ctxErr' ctxDone = \<lparr>chReadOneMessage = fakeChatReadOneMessage get upd ctxErr' ctxDone,
     chReadAck = fakeChatReadAck get upd f ctxErr' ctxDone, chReadReply = fakeChatReadReply get upd f ctxErr' ctxDone,
     chSendAck = fakeChatSendAck upd, chWriteOneMessage = fakeChatWriteOneMessage get upd f ctxErr'\<rparr>"

section \<open>\<open>CheckinHandler\<close>, \<open>transport/websocket/handler/fakes/checkin_handler.go\<close>\<close>

record fakeCheckinHandlerCalls =
  hiHandleCallCount :: int

definition zeroFakeCheckinHandler :: fakeCheckinHandlerCalls where
  "zeroFakeCheckinHandler = \<lparr>hiHandleCallCount = 0\<rparr>"

record 's fakeCheckinHandler =
  hiHandleFn :: "(('s, booking) io) option"

definition fakeCheckinHandlerHandle ::
  "(fakeCheckinHandlerCalls, 's) cell \<Rightarrow> 's fakeCheckinHandler \<Rightarrow> ('s, booking) io" where
  "fakeCheckinHandlerHandle upd f = noting upd
     (\<lambda>c. c\<lparr>hiHandleCallCount := hiHandleCallCount c + 1\<rparr>)
     (case hiHandleFn f of Some fn \<Rightarrow> fn | None \<Rightarrow> retE zeroBooking)"

section \<open>\<open>StayHandler\<close>, \<open>transport/websocket/handler/fakes/stay_handler.go\<close>\<close>

record fakeStayHandlerCalls =
  hsHandleCallCount :: int
  hsLastHandleBooking :: booking

definition zeroFakeStayHandler :: fakeStayHandlerCalls where
  "zeroFakeStayHandler = \<lparr>hsHandleCallCount = 0, hsLastHandleBooking = zeroBooking\<rparr>"

record 's fakeStayHandler =
  hsHandleFn :: "(booking \<Rightarrow> ('s, unit) io) option"

definition fakeStayHandlerHandle ::
  "(fakeStayHandlerCalls, 's) cell \<Rightarrow> 's fakeStayHandler \<Rightarrow> booking \<Rightarrow> ('s, unit) io" where
  "fakeStayHandlerHandle upd f booking = noting upd
     (\<lambda>c. c\<lparr>hsHandleCallCount := hsHandleCallCount c + 1, hsLastHandleBooking := booking\<rparr>)
     (case hsHandleFn f of Some fn \<Rightarrow> fn booking | None \<Rightarrow> retE ())"

section \<open>\<open>CheckoutHandler\<close>, \<open>transport/websocket/handler/fakes/checkout_handler.go\<close>\<close>

record fakeCheckoutHandlerCalls =
  hoHandleCallCount :: int
  hoLastHandleBooking :: booking

definition zeroFakeCheckoutHandler :: fakeCheckoutHandlerCalls where
  "zeroFakeCheckoutHandler = \<lparr>hoHandleCallCount = 0, hoLastHandleBooking = zeroBooking\<rparr>"

record 's fakeCheckoutHandler =
  hoHandleFn :: "(booking \<Rightarrow> ('s, unit) io) option"

definition fakeCheckoutHandlerHandle ::
  "(fakeCheckoutHandlerCalls, 's) cell \<Rightarrow> 's fakeCheckoutHandler \<Rightarrow> booking \<Rightarrow> ('s, unit) io" where
  "fakeCheckoutHandlerHandle upd f booking = noting upd
     (\<lambda>c. c\<lparr>hoHandleCallCount := hoHandleCallCount c + 1, hoLastHandleBooking := booking\<rparr>)
     (case hoHandleFn f of Some fn \<Rightarrow> fn booking | None \<Rightarrow> retE ())"

end
