(* ===== verification/FakeDesk.thy ===== *)
theory FakeDesk
  imports FakeServices
begin

text \<open>
  The reception on test doubles, as the unit tests of \<open>app/reception_service_test.go\<close> build it:
  doubles of the guest and cleaning services, of the repositories and of the cache. The doubles
  change neither what an operation returns nor what it does to the world behind the stubs, and what
  they have noted after an operation is stated for every choice of stubs.
\<close>

section \<open>Simulation of effects\<close>

text \<open>\<open>sim Q m n\<close>: from related states \<open>m\<close> and \<open>n\<close> return the same outcome and related states, or
  neither returns.\<close>

definition sim :: "('s \<Rightarrow> 't \<Rightarrow> bool) \<Rightarrow> ('s, 'e, 'a) eff \<Rightarrow> ('t, 'e, 'a) eff \<Rightarrow> bool" where
  "sim Q m n \<longleftrightarrow> (\<forall>s t. Q s t \<longrightarrow> rel_option (rel_prod (=) Q) (m s) (n t))"

lemma simI: "(\<And>s t. Q s t \<Longrightarrow> rel_option (rel_prod (=) Q) (m s) (n t)) \<Longrightarrow> sim Q m n"
  by (simp add: sim_def)

lemma simE:
  assumes "sim Q m n" "Q s t"
  obtains (none) "m s = None" "n t = None"
  | (some) r s' t' where "m s = Some (r, s')" "n t = Some (r, t')" "Q s' t'"
proof (cases "m s")
  case None
  with assms have "n t = None" unfolding sim_def by fastforce
  with None show ?thesis by (rule none)
next
  case (Some y)
  with assms obtain z where "n t = Some z" "rel_prod (=) Q y z" unfolding sim_def by (metis option_rel_Some1)
  with Some show ?thesis by (cases y; cases z) (auto intro: some)
qed

lemma sim_retE: "sim Q (retE x) (retE x)"
  by (simp add: sim_def)

lemma sim_failE: "sim Q (failE e) (failE e)"
  by (simp add: sim_def)

lemma sim_liftE: "sim Q (liftE r) (liftE r)"
  by (simp add: sim_def)

lemma sim_bindE:
  assumes "sim Q m n" "\<And>x. sim Q (f x) (g x)"
  shows "sim Q (bindE m f) (bindE n g)"
proof (rule simI)
  fix s t
  assume q: "Q s t"
  from assms(1) q show "rel_option (rel_prod (=) Q) (bindE m f s) (bindE n g t)"
  proof (cases rule: simE)
    case (some r s' t')
    with assms(2) show ?thesis by (cases r) (auto simp: sim_def)
  qed simp
qed

lemma sim_mapErrE:
  assumes "sim Q m n"
  shows "sim Q (mapErrE h m) (mapErrE h n)"
proof (rule simI)
  fix s t
  assume q: "Q s t"
  from assms q show "rel_option (rel_prod (=) Q) (mapErrE h m s) (mapErrE h n t)"
    by (cases rule: simE) (auto simp: mapErrE_def split: sum.split)
qed

lemma sim_attemptE:
  assumes "sim Q m n"
  shows "sim Q (attemptE m) (attemptE n)"
proof (rule simI)
  fix s t
  assume q: "Q s t"
  from assms q show "rel_option (rel_prod (=) Q) (attemptE m s) (attemptE n t)"
    by (cases rule: simE) auto
qed

lemma sim_if: "sim Q m n \<Longrightarrow> sim Q m' n' \<Longrightarrow> sim Q (if b then m else m') (if b then n else n')"
  by simp

lemma sim_case_sum: "(\<And>e. sim Q (f e) (f' e)) \<Longrightarrow> (\<And>x. sim Q (g x) (g' x)) \<Longrightarrow>
    sim Q (case r of Inl e \<Rightarrow> f e | Inr x \<Rightarrow> g x) (case r of Inl e \<Rightarrow> f' e | Inr x \<Rightarrow> g' x)"
  by (cases r) simp_all

lemmas sim_rules = sim_retE sim_failE sim_liftE sim_bindE sim_mapErrE sim_attemptE sim_if sim_case_sum

section \<open>The desk of the tests\<close>

record deskCalls =
  tdGuests :: fakeGuestServiceCalls
  tdCleaning :: fakeCleaningServiceCalls
  tdCottages :: fakeCottageRepoCalls
  tdBookings :: fakeBookingRepoCalls
  tdCache :: fakeCacheCalls

definition zeroDesk :: deskCalls where
  "zeroDesk = \<lparr>tdGuests = zeroFakeGuestService, tdCleaning = zeroFakeCleaningService, tdCottages = zeroFakeCottageRepo,
     tdBookings = zeroFakeBookingRepo, tdCache = zeroFakeCache\<rparr>"

text \<open>The state is what the stubs act on, the world, with the notes of the five doubles beside it.\<close>

definition inDesk :: "(deskCalls \<Rightarrow> deskCalls) \<Rightarrow> 's \<times> deskCalls \<Rightarrow> 's \<times> deskCalls" where
  "inDesk h = (\<lambda>(s, k). (s, h k))"

abbreviation "guestsCell g \<equiv> inDesk (\<lambda>k. k\<lparr>tdGuests := g (tdGuests k)\<rparr>)"
abbreviation "cleaningCell g \<equiv> inDesk (\<lambda>k. k\<lparr>tdCleaning := g (tdCleaning k)\<rparr>)"
abbreviation "cottagesCell g \<equiv> inDesk (\<lambda>k. k\<lparr>tdCottages := g (tdCottages k)\<rparr>)"
abbreviation "bookingsCell g \<equiv> inDesk (\<lambda>k. k\<lparr>tdBookings := g (tdBookings k)\<rparr>)"
abbreviation "cacheCell g \<equiv> inDesk (\<lambda>k. k\<lparr>tdCache := g (tdCache k)\<rparr>)"

definition beside :: "('s, 'e, 'a) eff \<Rightarrow> ('s \<times> 'k, 'e, 'a) eff" where
  "beside m = (\<lambda>(s, k). map_option (\<lambda>(r, s'). (r, (s', k))) (m s))"

text \<open>The stubs a test sets: operations on the world, each of which it may leave unset.\<close>

record 's deskStubs =
  tsGetByDocument :: "(string \<Rightarrow> ('s, guest) io) option"
  tsGetBookingByDate :: "(string \<Rightarrow> gotime \<Rightarrow> ('s, booking) io) option"
  tsCleanRoom :: "(cleaningOrder \<Rightarrow> ('s, unit) io) option"
  tsGetByName :: "(string \<Rightarrow> ('s, cottageDoc) io) option"
  tsUpdateCurrentGuest :: "(string \<Rightarrow> objectID \<Rightarrow> ('s, unit) io) option"
  tsUpdateKeyHolder :: "(string \<Rightarrow> string \<Rightarrow> string \<Rightarrow> ('s, unit) io) option"
  tsRemovePastBooking :: "(objectID \<Rightarrow> ('s, unit) io) option"
  tsFindByNumber :: "(objectID \<Rightarrow> string \<Rightarrow> ('s, bookingDoc) io) option"
  tsUpdateStatus :: "(objectID \<Rightarrow> string \<Rightarrow> ('s, unit) io) option"
  tsGetBytes :: "(string \<Rightarrow> ('s, string) io) option"

text \<open>The reception over the doubles with these stubs; the stubs the reception never reaches are unset.\<close>

definition doubledReception :: "'s deskStubs \<Rightarrow> ('s \<times> deskCalls) receptionService" where
  "doubledReception t = newReceptionService
     (fakeGuestServicePort guestsCell \<lparr>sgGetByIdFn = None, sgGetByDocumentFn = map_option (\<lambda>fn d. beside (fn d)) (tsGetByDocument t),
        sgAddFn = None, sgUpdateFn = None, sgGetBookingsFn = None,
        sgGetBookingByDateFn = map_option (\<lambda>fn d day. beside (fn d day)) (tsGetBookingByDate t)\<rparr>)
     (fakeCleaningServicePort cleaningCell \<lparr>scCleanRoomFn = map_option (\<lambda>fn o'. beside (fn o')) (tsCleanRoom t)\<rparr>)
     (fakeCottageRepoPort cottagesCell \<lparr>fcGetByNameFn = map_option (\<lambda>fn n. beside (fn n)) (tsGetByName t),
        fcUpdateCurrentGuestFn = map_option (\<lambda>fn n g. beside (fn n g)) (tsUpdateCurrentGuest t),
        fcUpdateKeyHolderFn = map_option (\<lambda>fn n k h. beside (fn n k h)) (tsUpdateKeyHolder t),
        fcRemovePastBookingFn = map_option (\<lambda>fn b. beside (fn b)) (tsRemovePastBooking t)\<rparr>)
     (fakeBookingRepoPort bookingsCell \<lparr>fbFindByGuestIdFn = None, fbFindByCheckInDateFn = None,
        fbFindByGuestIdAndCheckInFn = None,
        fbFindByGuestIdAndBookingNumberFn = map_option (\<lambda>fn g n. beside (fn g n)) (tsFindByNumber t),
        fbUpdateStatusFn = map_option (\<lambda>fn b st. beside (fn b st)) (tsUpdateStatus t)\<rparr>)
     (fakeCachePort cacheCell \<lparr>fkGetBytesFn = map_option (\<lambda>fn k. beside (fn k)) (tsGetBytes t), fkSetBytesFn = None\<rparr>)"

text \<open>What a method does to the world: its stub, or nothing when the stub is unset.\<close>

definition orZero :: "'a \<Rightarrow> ('s, 'e, 'a) eff option \<Rightarrow> ('s, 'e, 'a) eff" where
  "orZero z stub = (case stub of Some m \<Rightarrow> m | None \<Rightarrow> retE z)"

lemma orZero_simps [simp]: "orZero z None = retE z" "orZero z (Some m) = m"
  by (simp_all add: orZero_def)

text \<open>Stubs that are the operations of a reception.\<close>

definition stubsOf :: "'s receptionService \<Rightarrow> 's deskStubs" where
  "stubsOf r = \<lparr>tsGetByDocument = Some (gsGetByDocument (rsGuestService r)),
     tsGetBookingByDate = Some (gsGetBookingByDate (rsGuestService r)), tsCleanRoom = Some (csCleanRoom (rsCleaningService r)),
     tsGetByName = Some (ctGetByName (rsCottageRepo r)), tsUpdateCurrentGuest = Some (ctUpdateCurrentGuest (rsCottageRepo r)),
     tsUpdateKeyHolder = Some (ctUpdateKeyHolder (rsCottageRepo r)), tsRemovePastBooking = Some (ctRemovePastBooking (rsCottageRepo r)),
     tsFindByNumber = Some (brFindByGuestIdAndBookingNumber (rsBookingRepo r)), tsUpdateStatus = Some (brUpdateStatus (rsBookingRepo r)),
     tsGetBytes = Some (cacheGetBytes (rsCache r))\<rparr>"

section \<open>The methods of the doubles\<close>

text \<open>A method notes its call and then runs its stub beside the notes.\<close>

definition noted :: "('k \<Rightarrow> 'k) \<Rightarrow> ('s, 'e, 'a) eff \<Rightarrow> ('s \<times> 'k, 'e, 'a) eff" where
  "noted h m = (\<lambda>(s, k). case m s of None \<Rightarrow> None | Some (r, s') \<Rightarrow> Some (r, (s', h k)))"

lemma noted_apply [simp]:
  "noted h m (s, k) = (case m s of None \<Rightarrow> None | Some (r, s') \<Rightarrow> Some (r, (s', h k)))"
  by (simp add: noted_def)

lemma noting_cell:
  "noting (\<lambda>g. inDesk (upd g)) g (case x of None \<Rightarrow> retE z | Some y \<Rightarrow> beside (f y)) =
     noted (upd g) (orZero z (map_option f x))"
  by (cases x) (auto simp: fun_eq_iff noting_def inDesk_def beside_def noted_def split: option.split)

lemmas port_defs = fakeGuestServicePort_def fakeCleaningServicePort_def fakeCottageRepoPort_def
  fakeBookingRepoPort_def fakeCachePort_def

lemmas method_defs = fakeGuestServiceGetByDocument_def fakeGuestServiceGetBookingByDate_def fakeCleaningServiceCleanRoom_def
  fakeCottageRepoGetByName_def fakeCottageRepoUpdateCurrentGuest_def fakeCottageRepoUpdateKeyHolder_def
  fakeCottageRepoRemovePastBooking_def fakeBookingRepoFindByGuestIdAndBookingNumber_def fakeBookingRepoUpdateStatus_def
  fakeCacheGetBytes_def

lemma double_sel:
  "gsGetByDocument (rsGuestService (doubledReception t)) d = noted
     (\<lambda>k. k\<lparr>tdGuests := (tdGuests k)\<lparr>sgGetByDocumentCallCount := sgGetByDocumentCallCount (tdGuests k) + 1, sgLastGetByDocument := d\<rparr>\<rparr>)
     (orZero zeroGuest (map_option (\<lambda>fn. fn d) (tsGetByDocument t)))"
  "gsGetBookingByDate (rsGuestService (doubledReception t)) d day = noted
     (\<lambda>k. k\<lparr>tdGuests := (tdGuests k)\<lparr>sgGetBookingByDateCallCount := sgGetBookingByDateCallCount (tdGuests k) + 1,
        sgLastGetBookingDocument := d, sgLastGetBookingDate := day\<rparr>\<rparr>)
     (orZero zeroBooking (map_option (\<lambda>fn. fn d day) (tsGetBookingByDate t)))"
  "csCleanRoom (rsCleaningService (doubledReception t)) o' = noted
     (\<lambda>k. k\<lparr>tdCleaning := (tdCleaning k)\<lparr>scCleanRoomCallCount := scCleanRoomCallCount (tdCleaning k) + 1, scLastCleaningRequest := o'\<rparr>\<rparr>)
     (orZero () (map_option (\<lambda>fn. fn o') (tsCleanRoom t)))"
  "ctGetByName (rsCottageRepo (doubledReception t)) n = noted
     (\<lambda>k. k\<lparr>tdCottages := (tdCottages k)\<lparr>fcGetByNameCallCount := fcGetByNameCallCount (tdCottages k) + 1, fcLastRoomName := n\<rparr>\<rparr>)
     (orZero zeroCottageDoc (map_option (\<lambda>fn. fn n) (tsGetByName t)))"
  "ctUpdateCurrentGuest (rsCottageRepo (doubledReception t)) n g = noted
     (\<lambda>k. k\<lparr>tdCottages := (tdCottages k)\<lparr>fcUpdateCurrentGuestCallCount := fcUpdateCurrentGuestCallCount (tdCottages k) + 1,
        fcLastUpdateCurrentGuestRoom := n, fcLastUpdateCurrentGuestId := g\<rparr>\<rparr>)
     (orZero () (map_option (\<lambda>fn. fn n g) (tsUpdateCurrentGuest t)))"
  "ctUpdateKeyHolder (rsCottageRepo (doubledReception t)) n kn h = noted
     (\<lambda>k. k\<lparr>tdCottages := (tdCottages k)\<lparr>fcUpdateKeyHolderCallCount := fcUpdateKeyHolderCallCount (tdCottages k) + 1,
        fcLastUpdateKeyHolderRoom := n, fcLastUpdateKeyNumber := kn, fcLastUpdateKeyHolder := h\<rparr>\<rparr>)
     (orZero () (map_option (\<lambda>fn. fn n kn h) (tsUpdateKeyHolder t)))"
  "ctRemovePastBooking (rsCottageRepo (doubledReception t)) b = noted
     (\<lambda>k. k\<lparr>tdCottages := (tdCottages k)\<lparr>fcRemovePastBookingCallCount := fcRemovePastBookingCallCount (tdCottages k) + 1,
        fcLastRemovePastBookingId := b\<rparr>\<rparr>)
     (orZero () (map_option (\<lambda>fn. fn b) (tsRemovePastBooking t)))"
  "brFindByGuestIdAndBookingNumber (rsBookingRepo (doubledReception t)) g n = noted
     (\<lambda>k. k\<lparr>tdBookings := (tdBookings k)\<lparr>fbFindByGuestIdAndBookingNumberCallCount := fbFindByGuestIdAndBookingNumberCallCount (tdBookings k) + 1,
        fbLastFindByGuestIdAndBookingNumberGuestId := g, fbLastFindByGuestIdAndBookingNumberBookingNum := n\<rparr>\<rparr>)
     (orZero zeroBookingDoc (map_option (\<lambda>fn. fn g n) (tsFindByNumber t)))"
  "brUpdateStatus (rsBookingRepo (doubledReception t)) b st = noted
     (\<lambda>k. k\<lparr>tdBookings := (tdBookings k)\<lparr>fbUpdateStatusCallCount := fbUpdateStatusCallCount (tdBookings k) + 1,
        fbLastUpdateStatusBookingId := b, fbLastUpdateStatus := st\<rparr>\<rparr>)
     (orZero () (map_option (\<lambda>fn. fn b st) (tsUpdateStatus t)))"
  "cacheGetBytes (rsCache (doubledReception t)) key = noted
     (\<lambda>k. k\<lparr>tdCache := (tdCache k)\<lparr>fkGetBytesCallCount := fkGetBytesCallCount (tdCache k) + 1, fkLastGetBytesKey := key\<rparr>\<rparr>)
     (orZero [] (map_option (\<lambda>fn. fn key) (tsGetBytes t)))"
  by (simp_all add: doubledReception_def newReceptionService_def port_defs method_defs noting_cell cong: option.case_cong)

section \<open>Doubles are transparent\<close>

abbreviation world :: "'s \<times> deskCalls \<Rightarrow> 's \<Rightarrow> bool" where
  "world a s \<equiv> fst a = s"

lemma sim_noted: "sim world (noted h m) m"
  by (rule simI) (auto simp: noted_def split: option.split)

lemma sim_double:
  fixes r :: "'s receptionService"
  defines "dr \<equiv> doubledReception (stubsOf r)"
  shows "sim world (gsGetByDocument (rsGuestService dr) d) (gsGetByDocument (rsGuestService r) d)"
    "sim world (gsGetBookingByDate (rsGuestService dr) d day) (gsGetBookingByDate (rsGuestService r) d day)"
    "sim world (csCleanRoom (rsCleaningService dr) o') (csCleanRoom (rsCleaningService r) o')"
    "sim world (ctGetByName (rsCottageRepo dr) n) (ctGetByName (rsCottageRepo r) n)"
    "sim world (ctUpdateCurrentGuest (rsCottageRepo dr) n g) (ctUpdateCurrentGuest (rsCottageRepo r) n g)"
    "sim world (ctUpdateKeyHolder (rsCottageRepo dr) n kn h) (ctUpdateKeyHolder (rsCottageRepo r) n kn h)"
    "sim world (ctRemovePastBooking (rsCottageRepo dr) b) (ctRemovePastBooking (rsCottageRepo r) b)"
    "sim world (brFindByGuestIdAndBookingNumber (rsBookingRepo dr) g n) (brFindByGuestIdAndBookingNumber (rsBookingRepo r) g n)"
    "sim world (brUpdateStatus (rsBookingRepo dr) b st) (brUpdateStatus (rsBookingRepo r) b st)"
    "sim world (cacheGetBytes (rsCache dr) key) (cacheGetBytes (rsCache r) key)"
  by (simp_all add: dr_def double_sel stubsOf_def sim_noted)

lemma sim_operations:
  fixes r :: "'s receptionService"
  defines "dr \<equiv> doubledReception (stubsOf r)"
  shows "sim world (receptionCheckIn um dr doc today) (receptionCheckIn um r doc today)"
    "sim world (receptionCheckinFallback dr doc n today) (receptionCheckinFallback r doc n today)"
    "sim world (receptionCheckOut dr b today) (receptionCheckOut r b today)"
    "sim world (receptionReceiveCottageKey dr c kn) (receptionReceiveCottageKey r c kn)"
    "sim world (receptionReturnCottageKey dr c kn) (receptionReturnCottageKey r c kn)"
  unfolding dr_def receptionCheckIn_def receptionCheckinFallback_def receptionCheckOut_def receptionReceiveCottageKey_def
    receptionReturnCottageKey_def getFromCache_def processCheckIn_def Let_def
  by (intro sim_rules sim_double)+

text \<open>What a run on doubles returns and leaves in the world, the notes forgotten.\<close>

definition forget :: "('s \<times> deskCalls, 'e, 'a) eff \<Rightarrow> deskCalls \<Rightarrow> ('s, 'e, 'a) eff" where
  "forget m k s = map_option (\<lambda>(x, (s', _)). (x, s')) (m (s, k))"

lemma sim_forget:
  assumes "sim world m n"
  shows "forget m k = n"
proof
  fix s
  from assms have "rel_option (rel_prod (=) world) (m (s, k)) (n s)" by (simp add: sim_def)
  then show "forget m k s = n s" by (cases "m (s, k)"; cases "n s") (auto simp: forget_def)
qed

text \<open>Doubles are transparent: with the operations of a reception as their stubs, each operation of
  the reception on doubles returns what it returns on the real collaborators, and does the same to the
  world behind them, whatever the doubles had noted before.\<close>

lemma doubles_transparent:
  "forget (receptionCheckIn um (doubledReception (stubsOf r)) doc today) k = receptionCheckIn um r doc today \<and>
   forget (receptionCheckinFallback (doubledReception (stubsOf r)) doc n today) k = receptionCheckinFallback r doc n today \<and>
   forget (receptionCheckOut (doubledReception (stubsOf r)) b today) k = receptionCheckOut r b today \<and>
   forget (receptionReceiveCottageKey (doubledReception (stubsOf r)) c kn) k = receptionReceiveCottageKey r c kn \<and>
   forget (receptionReturnCottageKey (doubledReception (stubsOf r)) c kn) k = receptionReturnCottageKey r c kn"
  by (intro conjI sim_forget sim_operations)

section \<open>What the tests read off the doubles\<close>

text \<open>The part of a check-in before the cottage: only the lookups are noted.\<close>

definition looksUp :: "'s \<times> deskCalls \<Rightarrow> 's \<times> deskCalls \<Rightarrow> bool" where
  "looksUp a b \<longleftrightarrow> tdCleaning (snd b) = tdCleaning (snd a) \<and> tdCottages (snd b) = tdCottages (snd a) \<and>
     tdBookings (snd b) = tdBookings (snd a) \<and>
     sgGetByDocumentCallCount (tdGuests (snd b)) = sgGetByDocumentCallCount (tdGuests (snd a)) \<and>
     sgLastGetByDocument (tdGuests (snd b)) = sgLastGetByDocument (tdGuests (snd a))"

interpretation lk: frame looksUp
  by unfold_locales (simp_all add: looksUp_def)

lemma keeps_noted: "(\<And>s s' k. R (s, k) (s', h k)) \<Longrightarrow> keeps R (noted h m)"
  by (rule keepsI) (auto simp: noted_def split: option.splits)

lemma keeps_double_lookup:
  "keeps looksUp (gsGetBookingByDate (rsGuestService (doubledReception t)) d day)"
  "keeps looksUp (cacheGetBytes (rsCache (doubledReception t)) key)"
  by (simp_all add: double_sel keeps_noted looksUp_def)

lemma keeps_double_cached: "keeps looksUp (getFromCache um (doubledReception t) day g)"
  unfolding getFromCache_def by (intro lk.keeps_rules keeps_double_lookup)

text \<open>What a check-in notes of the cottage, by how far it got.\<close>

datatype stage = Refused | Looked | Claimed | Prepared

definition noteLook :: "string \<Rightarrow> deskCalls \<Rightarrow> deskCalls" where
  "noteLook room k = k\<lparr>tdCottages := (tdCottages k)
     \<lparr>fcGetByNameCallCount := fcGetByNameCallCount (tdCottages k) + 1, fcLastRoomName := room\<rparr>\<rparr>"

definition noteClaim :: "string \<Rightarrow> objectID \<Rightarrow> deskCalls \<Rightarrow> deskCalls" where
  "noteClaim room g k = k\<lparr>tdCottages := (tdCottages k)
     \<lparr>fcUpdateCurrentGuestCallCount := fcUpdateCurrentGuestCallCount (tdCottages k) + 1,
      fcLastUpdateCurrentGuestRoom := room, fcLastUpdateCurrentGuestId := g\<rparr>\<rparr>"

definition noteOrder :: "string \<Rightarrow> deskCalls \<Rightarrow> deskCalls" where
  "noteOrder room k = k\<lparr>tdCleaning := (tdCleaning k)
     \<lparr>scCleanRoomCallCount := scCleanRoomCallCount (tdCleaning k) + 1,
      scLastCleaningRequest := \<lparr>RoomName = room, RequestType = PrepareForGuest\<rparr>\<rparr>\<rparr>"

fun noteStage :: "stage \<Rightarrow> string \<Rightarrow> objectID \<Rightarrow> deskCalls \<Rightarrow> deskCalls" where
  "noteStage Refused room g k = k"
| "noteStage Looked room g k = noteLook room k"
| "noteStage Claimed room g k = noteClaim room g (noteLook room k)"
| "noteStage Prepared room g k = noteOrder room (noteClaim room g (noteLook room k))"

lemmas note_defs = noteLook_def noteClaim_def noteOrder_def

lemma ex_stage: "(\<exists>st. P st) \<longleftrightarrow> P Refused \<or> P Looked \<or> P Claimed \<or> P Prepared"
  by (metis stage.exhaust)

lemma processCheckIn_stage:
  assumes "processCheckIn (doubledReception t) doc b g today (s, k) = Some (r, (s', k'))"
  shows "\<exists>st. k' = noteStage st (bCottageName b) (gId g) k \<and> ((\<exists>u. r = Inr u) \<longrightarrow> st = Prepared)"
  unfolding ex_stage
  using assms unfolding processCheckIn_eq double_sel NewCleaningOrder_eq
  by (auto simp: mapErrE_def note_defs split: if_splits option.splits sum.splits)

text \<open>The part of a check-in after the cache: it looks up no more, or what follows gets as far as a stage.\<close>

lemma checkIn_tail:
  assumes run: "bindE m (\<lambda>b. if b = zeroBooking then failE e0
      else thenE (processCheckIn (doubledReception t) doc b g today) (retE b)) (s, k) = Some (r, (s', k'))" and "keeps looksUp m"
  obtains (refused) e where "r = Inl e" "looksUp (s, k) (s', k')"
  | (processed) b s3 k3 st where "looksUp (s, k) (s3, k3)" "k' = noteStage st (bCottageName b) (gId g) k3"
      "\<forall>x. r = Inr x \<longrightarrow> x = b \<and> st = Prepared"
  using assms
proof (cases rule: lk.keeps_bind_cases)
  case (stop e)
  then show ?thesis by (intro refused)
next
  case (go b t3)
  obtain s3 k3 where t3: "t3 = (s3, k3)" by (cases t3)
  show ?thesis
  proof (cases "b = zeroBooking")
    case True
    with go t3 show ?thesis by (intro refused) auto
  next
    case False
    with go(3) obtain p where p: "processCheckIn (doubledReception t) doc b g today (s3, k3) = Some (p, (s', k'))"
      and r: "\<forall>x. r = Inr x \<longrightarrow> x = b \<and> (\<exists>u. p = Inr u)" by (auto simp: t3 bindE_Some)
    from processCheckIn_stage [OF p] obtain st where "k' = noteStage st (bCottageName b) (gId g) k3"
      "(\<exists>u. p = Inr u) \<longrightarrow> st = Prepared" by blast
    with r go(2) show ?thesis by (intro processed) (auto simp: t3)
  qed
qed

text \<open>A check-in on fresh doubles: it looks up, then it gets as far as a stage.\<close>

lemma checkIn_stage:
  assumes run: "receptionCheckIn um (doubledReception t) doc today (s, zeroDesk) = Some (r, (s', k))"
  defines "found \<equiv> orZero zeroGuest (map_option (\<lambda>fn. fn doc) (tsGetByDocument t)) s"
  shows "\<exists>k1 st room g. k = noteStage st room g k1 \<and> tdCleaning k1 = zeroFakeCleaningService \<and>
    tdCottages k1 = zeroFakeCottageRepo \<and> tdBookings k1 = zeroFakeBookingRepo \<and>
    sgGetByDocumentCallCount (tdGuests k1) = 1 \<and> sgLastGetByDocument (tdGuests k1) = doc \<and>
    (\<forall>b. r = Inr b \<longrightarrow> st = Prepared \<and> room = bCottageName b \<and> (\<exists>x s1. found = Some (Inr x, s1) \<and> g = gId x))"
    (is "\<exists>k1 st room g. ?P k1 st room g")
proof -
  let ?D = "doubledReception t"
  let ?zero = "\<lambda>k. tdCleaning k = zeroFakeCleaningService \<and> tdCottages k = zeroFakeCottageRepo \<and> tdBookings k = zeroFakeBookingRepo \<and>
    sgGetByDocumentCallCount (tdGuests k) = 1 \<and> sgLastGetByDocument (tdGuests k) = doc"
  define lookup where "lookup = mapErrE (Wrapf ''failed to get booking for guest %s: %w'' [FStr doc])
     (gsGetBookingByDate (rsGuestService ?D) doc today)"
  have k3: "keeps looksUp (case c of Inl err \<Rightarrow> lookup | Inr b \<Rightarrow> if b = zeroBooking then lookup else retE b)" for c
    unfolding lookup_def by (intro lk.keeps_rules keeps_double_lookup)
  have refused_at: "\<exists>k1 st room g. ?P k1 st room g" if "\<exists>e. r = Inl e" "?zero k"
    using that by (intro exI [of _ k] exI [of _ Refused]) auto
  obtain y s1 k0 where get: "gsGetByDocument (rsGuestService ?D) doc (s, zeroDesk) = Some (y, (s1, k0))"
    "found = Some (y, s1)" "?zero k0"
    using run unfolding receptionCheckIn_def double_sel found_def
    by (auto simp: bindE_Some mapErrE_def zeroDesk_def zeroFakeGuestService_def split: option.splits sum.splits)
  note run' = run [unfolded receptionCheckIn_def Let_def, folded lookup_def]
  show ?thesis
  proof (cases y)
    case (Inl e)
    with run' get show ?thesis by (intro refused_at) (auto simp: mapErrE_def bindE_def)
  next
    case y: (Inr g)
    with run' get obtain c t2 where c: "attemptE (getFromCache um ?D today g) (s1, k0) = Some (Inr c, t2)"
      and rest: "bindE (case c of Inl err \<Rightarrow> lookup | Inr b \<Rightarrow> if b = zeroBooking then lookup else retE b)
        (\<lambda>b. if b = zeroBooking then failE (Errorf ''no booking found for guest %s'' [FStr doc])
             else thenE (processCheckIn ?D doc b g today) (retE b)) t2 = Some (r, (s', k))"
      by (auto simp: mapErrE_def bindE_def attemptE_def split: option.splits)
    have z2: "looksUp (s1, k0) t2"
      by (rule keepsD [OF lk.keeps_attemptE [OF keeps_double_cached] c])
    obtain s2 k2 where t2: "t2 = (s2, k2)" by (cases t2)
    from rest [unfolded t2] k3 show ?thesis
    proof (cases rule: checkIn_tail)
      case (refused e)
      from lk.frame_trans [OF z2 [unfolded t2] refused(2)] get(3) show ?thesis
        by (intro refused_at) (auto simp: refused looksUp_def)
    next
      case (processed b s3 k3 st)
      from lk.frame_trans [OF z2 [unfolded t2] processed(1)] get(3) have "?zero k3" by (auto simp: looksUp_def)
      with processed get(2) y show ?thesis
        by (intro exI [of _ k3] exI [of _ st] exI [of _ "bCottageName b"] exI [of _ "gId g"]) auto
    qed
  qed
qed

text \<open>C26: what a test reads off the doubles after a check-in, whatever the stubs it has set: the guest was
  looked up once, by the document; no booking was changed, no key moved and no booking removed; the cottage
  was claimed only after it was read and cleaned only after it was claimed, at most once each; and a
  check-in that returned a booking made each of these calls, for the cottage of the booking, the guest
  that was found, and the preparation.\<close>

theorem checkIn_noted:
  assumes "receptionCheckIn um (doubledReception t) doc today (s, zeroDesk) = Some (r, (s', k))"
  shows "sgGetByDocumentCallCount (tdGuests k) = 1 \<and> sgLastGetByDocument (tdGuests k) = doc \<and>
    tdBookings k = zeroFakeBookingRepo \<and>
    fcUpdateKeyHolderCallCount (tdCottages k) = 0 \<and> fcRemovePastBookingCallCount (tdCottages k) = 0 \<and>
    scCleanRoomCallCount (tdCleaning k) \<le> fcUpdateCurrentGuestCallCount (tdCottages k) \<and>
    fcUpdateCurrentGuestCallCount (tdCottages k) \<le> fcGetByNameCallCount (tdCottages k) \<and>
    fcGetByNameCallCount (tdCottages k) \<le> 1 \<and>
    (\<forall>b. r = Inr b \<longrightarrow> scCleanRoomCallCount (tdCleaning k) = 1 \<and>
       scLastCleaningRequest (tdCleaning k) = \<lparr>RoomName = bCottageName b, RequestType = PrepareForGuest\<rparr> \<and>
       fcLastRoomName (tdCottages k) = bCottageName b \<and> fcLastUpdateCurrentGuestRoom (tdCottages k) = bCottageName b \<and>
       (\<exists>g s1. orZero zeroGuest (map_option (\<lambda>fn. fn doc) (tsGetByDocument t)) s = Some (Inr g, s1) \<and>
          fcLastUpdateCurrentGuestId (tdCottages k) = gId g))"
proof -
  from checkIn_stage [OF assms] obtain k1 st room g where k: "k = noteStage st room g k1"
    and zero: "tdCleaning k1 = zeroFakeCleaningService" "tdCottages k1 = zeroFakeCottageRepo" "tdBookings k1 = zeroFakeBookingRepo"
      "sgGetByDocumentCallCount (tdGuests k1) = 1" "sgLastGetByDocument (tdGuests k1) = doc"
    and r: "\<forall>b. r = Inr b \<longrightarrow> st = Prepared \<and> room = bCottageName b \<and>
      (\<exists>x s1. orZero zeroGuest (map_option (\<lambda>fn. fn doc) (tsGetByDocument t)) s = Some (Inr x, s1) \<and> g = gId x)" by blast
  note d = note_defs zeroFakeCleaningService_def zeroFakeCottageRepo_def
  show ?thesis using zero r unfolding k by (cases st) (auto simp: d)
qed

text \<open>The stubs of the test of a successful check-in.\<close>

definition testStubs :: "unit deskStubs" where
  "testStubs = \<lparr>tsGetByDocument = Some (\<lambda>_. retE sampleGuest), tsGetBookingByDate = Some (\<lambda>_ _. retE sampleBooking),
     tsCleanRoom = None, tsGetByName = Some (\<lambda>n. retE (zeroCottageDoc\<lparr>dcName := n, dcCleaningStatus := FullyCleaned\<rparr>)),
     tsUpdateCurrentGuest = None, tsUpdateKeyHolder = None, tsRemovePastBooking = None, tsFindByNumber = None,
     tsUpdateStatus = None, tsGetBytes = Some (\<lambda>_. failE (LibErr ''cache miss''))\<rparr>"

theorem checkIn_noted_witness:
  "\<exists>k. receptionCheckIn (\<lambda>_. Inr []) (doubledReception testStubs) ''doc-123'' sampleToday ((), zeroDesk) = Some (Inr sampleBooking, ((), k)) \<and>
     sgGetByDocumentCallCount (tdGuests k) = 1 \<and> scCleanRoomCallCount (tdCleaning k) = 1 \<and>
     fcLastUpdateCurrentGuestId (tdCottages k) = gId sampleGuest"
proof -
  have adm: "admissible sampleBooking sampleToday" "\<not> isBlank (bCottageName sampleBooking)" "sampleBooking \<noteq> zeroBooking"
    by (simp_all add: sample_admissible) (simp_all add: sampleBooking_def zeroBooking_def not_isBlank_ascii isSpace1_def byteOf_def)
  have "\<exists>k. receptionCheckIn (\<lambda>_. Inr []) (doubledReception testStubs) ''doc-123'' sampleToday ((), zeroDesk) = Some (Inr sampleBooking, ((), k))"
    using adm by (simp add: receptionCheckIn_def getFromCache_def processCheckIn_eq double_sel testStubs_def Let_def bindE_def
      mapErrE_def attemptE_def available_def zeroCottageDoc_def NewCleaningOrder_eq)
  then obtain k where run: "receptionCheckIn (\<lambda>_. Inr []) (doubledReception testStubs) ''doc-123'' sampleToday ((), zeroDesk) = Some (Inr sampleBooking, ((), k))" ..
  from checkIn_noted [OF this] run show ?thesis by (auto simp: testStubs_def)
qed

end
