(* ===== verification/ErrorText.thy ===== *)
theory ErrorText
  imports Program Lodge
begin

text \<open>
  The texts of the errors: \<open>fmt.Errorf\<close> on the formats of the program and the \<open>Error\<close> methods of
  \<open>domain/errors\<close>. An error has a text only when every verb of its format meets an argument it
  can print and no argument is left over; otherwise \<open>fmt\<close> would print a complaint in its place. The
  second part shows that the errors of the repositories, the services and the start-up have texts.
\<close>

section \<open>Formats\<close>

text \<open>\<open>id.Hex()\<close>: twelve bytes as twenty-four hexadecimal digits.\<close>

definition hexDigit :: "nat \<Rightarrow> char" where
  "hexDigit n = (if n < 10 then digitChar n else char_of (87 + n))"

fun hexDigits :: "nat \<Rightarrow> nat \<Rightarrow> string" where
  "hexDigits 0 n = []"
| "hexDigits (Suc k) n = hexDigits k (n div 16) @ [hexDigit (n mod 16)]"

definition hexText :: "objectID \<Rightarrow> string" where
  "hexText i = hexDigits 24 (unat i)"

definition intText :: "int \<Rightarrow> string" where
  "intText n = (if n < 0 then CHR ''-'' # decimal (nat (- n)) else decimal (nat n))"

text \<open>\<open>time.RFC3339\<close> of a time in UTC; the program formats no other.\<close>

definition rfc3339Text :: "gotime \<Rightarrow> string" where
  "rfc3339Text t = formatDay t @ ''T'' @ zeroPad 2 (decimal (nat (timeHour t))) @ '':'' @
     zeroPad 2 (decimal (nat (timeMinute t))) @ '':'' @ zeroPad 2 (decimal (nat (timeSecond t))) @ ''Z''"

text \<open>
  What the verbs print. A guest document prints as its fields between braces, an identifier in it by
  its \<open>String\<close> method; \<open>tt\<close> is \<open>time.Time.String\<close>, and a nil pointer with a method prints as \<open><nil>\<close>.
\<close>

fun joinWith :: "string \<Rightarrow> string list \<Rightarrow> string" where
  "joinWith sep [] = []"
| "joinWith sep [x] = x"
| "joinWith sep (x # y # xs) = x @ sep @ joinWith sep (y # xs)"

definition guestText :: "(gotime \<Rightarrow> string) \<Rightarrow> objectID \<Rightarrow> string list \<Rightarrow> gotime option list \<Rightarrow> string" where
  "guestText tt i fs ts = ''{ObjectID('' @ goQuote (hexText i) @ '') '' @
     joinWith '' '' (fs @ map (\<lambda>t. case t of None \<Rightarrow> ''<nil>'' | Some x \<Rightarrow> tt x) ts) @ ''}''"

fun printArg :: "(gotime \<Rightarrow> string) \<Rightarrow> char \<Rightarrow> fmtArg \<Rightarrow> string option" where
  "printArg tt v (FStr x) = (if v = CHR ''s'' then Some x else if v = CHR ''q'' then Some (goQuote x) else None)"
| "printArg tt v (FId i) = (if v = CHR ''s'' then Some (hexText i) else None)"
| "printArg tt v (FTime t) = (if v = CHR ''s'' then Some (rfc3339Text t) else None)"
| "printArg tt v (FDay t) = (if v = CHR ''s'' then Some (formatDay t) else None)"
| "printArg tt v (FInt n) = (if v = CHR ''d'' then Some (intText n) else None)"
| "printArg tt v (FGuest i fs ts) = (if v = CHR ''v'' then Some (guestText tt i fs ts) else None)"

text \<open>
  \<open>sprintf f as w p\<close>: the format, its arguments in order, the text of the error for \<open>%w\<close> and of the
  one printed last with \<open>%v\<close>. Every argument has to be used, and every error.
\<close>

fun sprintf :: "(gotime \<Rightarrow> string) \<Rightarrow> string \<Rightarrow> fmtArg list \<Rightarrow> string option \<Rightarrow> string option \<Rightarrow> string option" where
  "sprintf tt [] as w p = (if as = [] \<and> w = None \<and> p = None then Some [] else None)"
| "sprintf tt [c] as w p = (if c = CHR ''%'' then None else map_option ((#) c) (sprintf tt [] as w p))"
| "sprintf tt (c # v # f) as w p =
     (if c \<noteq> CHR ''%'' then map_option ((#) c) (sprintf tt (v # f) as w p)
      else if v = CHR ''w'' then (case w of None \<Rightarrow> None | Some t \<Rightarrow> map_option ((@) t) (sprintf tt f as None p))
      else (case as of
          [] \<Rightarrow> if v = CHR ''v'' then (case p of None \<Rightarrow> None | Some t \<Rightarrow> map_option ((@) t) (sprintf tt f [] w None)) else None
        | a # as' \<Rightarrow> (case printArg tt v a of None \<Rightarrow> None | Some t \<Rightarrow> map_option ((@) t) (sprintf tt f as' w p))))"

section \<open>Error texts\<close>

fun sentinelText :: "sentinel \<Rightarrow> string" where
  "sentinelText SErrBookingRepo = ''bookingRepository failure''"
| "sentinelText SErrCottageRepo = ''cottageRepository failure''"
| "sentinelText SErrGuestRepo = ''guestRepository failure''"
| "sentinelText SErrCacheMiss = ''cache miss''"
| "sentinelText SErrNoDocuments = ''mongo: no documents in result''"
| "sentinelText SErrEmptyMessageID = ''chat message must include message_id''"
| "sentinelText SErrUnexpectedGuestResponse = ''unexpected guest response''"
| "sentinelText SErrUnexpectedResponse = ''unexpected websocket response payload''"
| "sentinelText SErrDayChangeStreamClosed = ''day change stream closed''"
| "sentinelText SErrRedisNil = ''redis: nil''"
| "sentinelText SErrServerClosed = ''http: Server closed''"
| "sentinelText SErrCanceled = ''context canceled''"
| "sentinelText SErrDeadlineExceeded = ''context deadline exceeded''"

text \<open>The \<open>Error\<close> methods; \<open>guestNotFoundText\<close> is of an error nothing returns.\<close>

definition constrainText :: "string \<Rightarrow> string \<Rightarrow> string" where
  "constrainText field message = field @ '' has violations; '' @ message"

definition cottageDoesNotExistText :: "string \<Rightarrow> string" where
  "cottageDoesNotExistText cottageName = ''Cottage with name '' @ cottageName @ '' does not exist''"

definition guestDoesNotExistText :: "objectID \<Rightarrow> string \<Rightarrow> string" where
  "guestDoesNotExistText i documentId = ''Guest with document id '' @ hexText i @ '' does not exist''"

definition guestNotFoundText :: "objectID \<Rightarrow> string \<Rightarrow> string" where
  "guestNotFoundText i documentId =
     (if \<not> isBlank documentId then ''Guest with document id '' @ documentId @ '' does not exist''
      else ''Guest with id '' @ hexText i @ '' does not exist'')"

definition ackNotReceivedText :: "string \<Rightarrow> string" where
  "ackNotReceivedText err = ''ack not received: '' @ err"

definition replyNotReceivedText :: "string \<Rightarrow> string" where
  "replyNotReceivedText err = ''reply not received: '' @ err"

definition unexpectedText :: "string \<Rightarrow> string \<Rightarrow> string" where
  "unexpectedText msg err = ''unexpected error, '' @ msg @ '': '' @ err"

text \<open>The text of an error, if it has one; \<open>nt\<close> is the text of a network error of the library.\<close>

fun errText :: "(gotime \<Rightarrow> string) \<Rightarrow> (bool \<Rightarrow> string) \<Rightarrow> gerr \<Rightarrow> string option" where
  "errText tt nt (ErrValidationConstrain field message) = Some (constrainText field message)"
| "errText tt nt (ErrGuestDoesNotExist i documentId) = Some (guestDoesNotExistText i documentId)"
| "errText tt nt (ErrCottageDoesNotExist cottageName) = Some (cottageDoesNotExistText cottageName)"
| "errText tt nt (Sentinel x) = Some (sentinelText x)"
| "errText tt nt (NetErr b) = Some (nt b)"
| "errText tt nt (LibErr x) = Some x"
| "errText tt nt (Errorf f as) = sprintf tt f as None None"
| "errText tt nt (Wrapf f as e) = (case errText tt nt e of None \<Rightarrow> None | Some t \<Rightarrow> sprintf tt f as (Some t) None)"
| "errText tt nt (WrapV f as e p) = (case errText tt nt e of None \<Rightarrow> None | Some t \<Rightarrow>
     (case errText tt nt p of None \<Rightarrow> None | Some u \<Rightarrow> sprintf tt f as (Some t) (Some u)))"
| "errText tt nt (AckNotReceivedErr e) = map_option ackNotReceivedText (errText tt nt e)"
| "errText tt nt (ReplyNotReceivedErr e) = map_option replyNotReceivedText (errText tt nt e)"
| "errText tt nt (UnexpectedErr msg e) = map_option (unexpectedText msg) (errText tt nt e)"
| "errText tt nt (Joined es) = (if \<exists>e \<in> set es. errText tt nt e = None then None
     else Some (joinWith [CHR 0x0A] (map (\<lambda>e. the (errText tt nt e)) es)))"

section \<open>Which errors have a text\<close>

text \<open>A format fits its arguments whatever they hold: only their kinds and verbs matter.\<close>

datatype argKind = KindStr | KindText | KindNum | KindDoc

fun kindOf :: "fmtArg \<Rightarrow> argKind" where
  "kindOf (FStr _) = KindStr"
| "kindOf (FId _) = KindText"
| "kindOf (FTime _) = KindText"
| "kindOf (FDay _) = KindText"
| "kindOf (FInt _) = KindNum"
| "kindOf (FGuest _ _ _) = KindDoc"

fun accepts :: "char \<Rightarrow> argKind \<Rightarrow> bool" where
  "accepts v KindStr = (v = CHR ''s'' \<or> v = CHR ''q'')"
| "accepts v KindText = (v = CHR ''s'')"
| "accepts v KindNum = (v = CHR ''d'')"
| "accepts v KindDoc = (v = CHR ''v'')"

fun fits :: "string \<Rightarrow> argKind list \<Rightarrow> bool \<Rightarrow> bool \<Rightarrow> bool" where
  "fits [] ks w p = (ks = [] \<and> \<not> w \<and> \<not> p)"
| "fits [c] ks w p = (c \<noteq> CHR ''%'' \<and> fits [] ks w p)"
| "fits (c # v # f) ks w p =
     (if c \<noteq> CHR ''%'' then fits (v # f) ks w p
      else if v = CHR ''w'' then w \<and> fits f ks False p
      else (case ks of [] \<Rightarrow> v = CHR ''v'' \<and> p \<and> fits f [] w False
        | k # ks' \<Rightarrow> accepts v k \<and> fits f ks' w p))"

lemma printArg_Some: "(\<exists>t. printArg tt v a = Some t) \<longleftrightarrow> accepts v (kindOf a)"
  by (cases a) auto

lemma sprintf_Some: "(\<exists>t. sprintf tt f as w p = Some t) \<longleftrightarrow> fits f (map kindOf as) (w \<noteq> None) (p \<noteq> None)"
proof (induction tt f as w p rule: sprintf.induct)
  case (3 tt c v f as w p)
  then show ?case using printArg_Some [of tt v "hd as"]
    by (cases as) (auto split: option.splits)
qed auto

definition hasText :: "(gotime \<Rightarrow> string) \<Rightarrow> (bool \<Rightarrow> string) \<Rightarrow> gerr \<Rightarrow> bool" where
  "hasText tt nt e \<longleftrightarrow> (\<exists>t. errText tt nt e = Some t)"

lemma hasText_simps [simp]:
  "hasText tt nt (ErrValidationConstrain a b)" "hasText tt nt (ErrGuestDoesNotExist i d)" "hasText tt nt (ErrCottageDoesNotExist n)"
  "hasText tt nt (Sentinel x)" "hasText tt nt (NetErr c)" "hasText tt nt (LibErr l)"
  "hasText tt nt (Errorf f as) \<longleftrightarrow> fits f (map kindOf as) False False"
  "hasText tt nt (Wrapf f as e) \<longleftrightarrow> hasText tt nt e \<and> fits f (map kindOf as) True False"
  "hasText tt nt (WrapV f as e p) \<longleftrightarrow> hasText tt nt e \<and> hasText tt nt p \<and> fits f (map kindOf as) True True"
  "hasText tt nt (AckNotReceivedErr e) \<longleftrightarrow> hasText tt nt e" "hasText tt nt (ReplyNotReceivedErr e) \<longleftrightarrow> hasText tt nt e"
  "hasText tt nt (UnexpectedErr m e) \<longleftrightarrow> hasText tt nt e"
  "hasText tt nt (Joined es) \<longleftrightarrow> (\<forall>e \<in> set es. hasText tt nt e)"
  by (auto simp: hasText_def sprintf_Some split: option.splits)

section \<open>No wrapping hides a cause\<close>

lemmas sublist_trans = sublist_order.order.trans

lemma sublist_leftI: "sublist x z \<Longrightarrow> sublist x (y @ z)"
  by (rule sublist_trans [OF _ sublist_append_leftI])

lemma sublist_ConsI: "sublist x z \<Longrightarrow> sublist x (y # z)"
  by (simp add: sublist_Cons_right)

lemma sprintf_wrapped:
  "sprintf tt f as w p = Some t \<Longrightarrow> (\<forall>u. w = Some u \<longrightarrow> sublist u t) \<and> (\<forall>u. p = Some u \<longrightarrow> sublist u t)"
proof (induction tt f as w p arbitrary: t rule: sprintf.induct)
  case (3 tt c v f as w p)
  then show ?case
    by (auto intro: sublist_leftI sublist_ConsI split: if_splits option.splits list.splits)
qed (auto split: if_splits)

lemma sublist_joinWith: "x \<in> set xs \<Longrightarrow> sublist x (joinWith sep xs)"
proof (induction sep xs rule: joinWith.induct)
  case (3 sep y z xs)
  then show ?case by (auto intro: sublist_leftI)
qed auto

lemma sublist_texts: "sublist t (ackNotReceivedText t)" "sublist t (replyNotReceivedText t)" "sublist t (unexpectedText m t)"
  unfolding ackNotReceivedText_def replyNotReceivedText_def unexpectedText_def by (intro sublist_leftI sublist_order.order.refl)+

text \<open>Every error \<open>errors.Is\<close> can find in an error with a text has a text, and it can be read in it.\<close>

definition readable :: "(gotime \<Rightarrow> string) \<Rightarrow> (bool \<Rightarrow> string) \<Rightarrow> gerr \<Rightarrow> string \<Rightarrow> bool" where
  "readable tt nt x t \<longleftrightarrow> (\<exists>u. errText tt nt x = Some u \<and> sublist u t)"

lemma readable_trans: "readable tt nt x t \<Longrightarrow> sublist t t' \<Longrightarrow> readable tt nt x t'"
  by (auto simp: readable_def intro: sublist_trans)

lemma readable_self: "errText tt nt e = Some t \<Longrightarrow> readable tt nt e t"
  by (simp add: readable_def)

lemma cause_in_text: "errText tt nt e = Some t \<Longrightarrow> x \<in> set (errTree e) \<Longrightarrow> readable tt nt x t"
proof (induction e arbitrary: t)
  case (Wrapf f as e)
  then obtain v where v: "errText tt nt e = Some v" "sprintf tt f as (Some v) None = Some t" by (auto split: option.splits)
  with sprintf_wrapped [OF v(2)] Wrapf show ?case by (auto intro: readable_self readable_trans)
next
  case (WrapV f as e p)
  then obtain v u where v: "errText tt nt e = Some v" "sprintf tt f as (Some v) (Some u) = Some t"
    "errText tt nt p = Some u" by (auto split: option.splits)
  with sprintf_wrapped [OF v(2)] WrapV show ?case by (auto intro: readable_self readable_trans)
next
  case (Joined es)
  show ?case
  proof (cases "x = Joined es")
    case True
    with Joined.prems show ?thesis by (auto intro: readable_self)
  next
    case False
    with Joined.prems(2) obtain e where "e \<in> set es" "x \<in> set (errTree e)" by auto
    moreover from this Joined.prems(1) obtain v where "errText tt nt e = Some v" by (cases "errText tt nt e") (auto split: if_splits)
    ultimately have e: "e \<in> set es" "x \<in> set (errTree e)" "errText tt nt e = Some v" by simp_all
    with Joined.prems(1) have "sublist v t" by (auto intro!: sublist_joinWith image_eqI [of _ _ e] split: if_splits)
    with Joined.IH [OF e(1,3,2)] show ?thesis by (rule readable_trans)
  qed
next
  case (AckNotReceivedErr e)
  then show ?case by (auto intro: readable_self readable_trans sublist_texts)
next
  case (ReplyNotReceivedErr e)
  then show ?case by (auto intro: readable_self readable_trans sublist_texts)
next
  case (UnexpectedErr m e)
  then show ?case by (auto intro: readable_self readable_trans sublist_texts)
qed (auto intro: readable_self)

section \<open>Operations whose errors have texts\<close>

definition worded :: "(gotime \<Rightarrow> string) \<Rightarrow> (bool \<Rightarrow> string) \<Rightarrow> ('s, gerr, 'a) eff \<Rightarrow> bool" where
  "worded tt nt m \<longleftrightarrow> (\<forall>s e s'. m s = Some (Inl e, s') \<longrightarrow> hasText tt nt e)"

lemma wordedI: "(\<And>s e s'. m s = Some (Inl e, s') \<Longrightarrow> hasText tt nt e) \<Longrightarrow> worded tt nt m"
  by (simp add: worded_def)

lemma wordedD: "worded tt nt m \<Longrightarrow> m s = Some (Inl e, s') \<Longrightarrow> hasText tt nt e"
  by (auto simp: worded_def)

lemma worded_retE: "worded tt nt (retE x)"
  by (simp add: worded_def)

lemma worded_failE: "hasText tt nt e \<Longrightarrow> worded tt nt (failE e)"
  by (simp add: worded_def)

lemma worded_liftE: "(\<And>e. r = Inl e \<Longrightarrow> hasText tt nt e) \<Longrightarrow> worded tt nt (liftE r)"
  by (simp add: worded_def)

lemma worded_bindE: "worded tt nt m \<Longrightarrow> (\<And>x. worded tt nt (f x)) \<Longrightarrow> worded tt nt (bindE m f)"
  by (rule wordedI) (auto simp: bindE_Some_Inl dest: wordedD)

lemma worded_mapErrE: "worded tt nt m \<Longrightarrow> (\<And>e. hasText tt nt e \<Longrightarrow> hasText tt nt (h e)) \<Longrightarrow> worded tt nt (mapErrE h m)"
  by (auto simp: worded_def mapErrE_Some_Inl)

lemma worded_attemptE: "worded tt nt (attemptE m)"
  by (simp add: worded_def attemptE_Some)

lemma worded_if: "(b \<Longrightarrow> worded tt nt m) \<Longrightarrow> (\<not> b \<Longrightarrow> worded tt nt n) \<Longrightarrow> worded tt nt (if b then m else n)"
  by simp

lemma worded_case_sum: "(\<And>e. r = Inl e \<Longrightarrow> worded tt nt (f e)) \<Longrightarrow> (\<And>x. r = Inr x \<Longrightarrow> worded tt nt (g x)) \<Longrightarrow>
    worded tt nt (case r of Inl e \<Rightarrow> f e | Inr x \<Rightarrow> g x)"
  by (cases r) simp_all

lemma worded_case_prod: "(\<And>a b. x = (a, b) \<Longrightarrow> worded tt nt (f a b)) \<Longrightarrow> worded tt nt (case x of (a, b) \<Rightarrow> f a b)"
  by (cases x) simp

lemma worded_Let: "worded tt nt (f x) \<Longrightarrow> worded tt nt (let y = x in f y)"
  by (simp add: Let_def)

text \<open>A validator objects with the validation error only.\<close>

definition objects :: "validator \<Rightarrow> bool" where
  "objects v \<longleftrightarrow> (\<forall>e. Validate v = StepErr e \<longrightarrow> isValidationErr e)"

lemma objects_new: "objects newValidator"
  by (simp add: objects_def)

lemma objects_steps:
  "objects v \<Longrightarrow> objects (NotBlank f x v)" "objects v \<Longrightarrow> objects (NotNilObjectID f i v)"
  "objects v \<Longrightarrow> objects (NotZeroValue f r v)" "objects v \<Longrightarrow> objects (PositiveValue f n v)"
  "objects v \<Longrightarrow> objects (EmailFormat x v)" "objects v \<Longrightarrow> objects (PeriodStep a b v)"
  by (auto simp: objects_def step_defs violation_def isValidationErr_def split: stepResult.splits if_splits reflected.splits)

lemma validated_hasText: "objects v \<Longrightarrow> validated v x = Inl e \<Longrightarrow> hasText tt nt e"
  by (auto simp: objects_def validated_Inl_iff isValidationErr_def split: gerr.splits)

lemma worded_validE: "objects v \<Longrightarrow> worded tt nt (validE v)"
  unfolding validE_def by (rule worded_liftE) (rule validated_hasText)

lemmas worded_rules = worded_retE worded_liftE worded_bindE worded_mapErrE worded_attemptE worded_if worded_case_sum
  worded_case_prod worded_Let worded_validE objects_steps objects_new

section \<open>Repositories, services and the reception\<close>

text \<open>The operations of an interface, when all of them report errors with texts.\<close>

definition wordedCollection :: "(gotime \<Rightarrow> string) \<Rightarrow> (bool \<Rightarrow> string) \<Rightarrow> ('s, 'd) collection \<Rightarrow> bool" where
  "wordedCollection tt nt c \<longleftrightarrow> (\<forall>q. worded tt nt (colFindOne c q)) \<and> (\<forall>q. worded tt nt (colFind c q)) \<and>
     (\<forall>n. worded tt nt (colAll c n)) \<and> (\<forall>d. worded tt nt (colInsertOne c d)) \<and> (\<forall>q u. worded tt nt (colUpdateOne c q u))"

definition wordedGuests :: "(gotime \<Rightarrow> string) \<Rightarrow> (bool \<Rightarrow> string) \<Rightarrow> 's guestRepo \<Rightarrow> bool" where
  "wordedGuests tt nt r \<longleftrightarrow> (\<forall>i. worded tt nt (grGetById r i)) \<and> (\<forall>d. worded tt nt (grGetByDocument r d)) \<and>
     (\<forall>g. worded tt nt (grAdd r g)) \<and> (\<forall>i g. worded tt nt (grUpdate r i g))"

definition wordedCottages :: "(gotime \<Rightarrow> string) \<Rightarrow> (bool \<Rightarrow> string) \<Rightarrow> 's cottageRepo \<Rightarrow> bool" where
  "wordedCottages tt nt r \<longleftrightarrow> (\<forall>n. worded tt nt (ctGetByName r n)) \<and> (\<forall>n g. worded tt nt (ctUpdateCurrentGuest r n g)) \<and>
     (\<forall>n k h. worded tt nt (ctUpdateKeyHolder r n k h)) \<and> (\<forall>b. worded tt nt (ctRemovePastBooking r b))"

definition wordedBookings :: "(gotime \<Rightarrow> string) \<Rightarrow> (bool \<Rightarrow> string) \<Rightarrow> 's bookingRepo \<Rightarrow> bool" where
  "wordedBookings tt nt r \<longleftrightarrow> (\<forall>g. worded tt nt (brFindByGuestId r g)) \<and> (\<forall>d. worded tt nt (brFindByCheckInDate r d)) \<and>
     (\<forall>g d. worded tt nt (brFindByGuestIdAndCheckIn r g d)) \<and> (\<forall>g n. worded tt nt (brFindByGuestIdAndBookingNumber r g n)) \<and>
     (\<forall>b st. worded tt nt (brUpdateStatus r b st))"

lemmas worded_iface = wordedCollection_def wordedGuests_def wordedCottages_def wordedBookings_def

lemma worded_matchedOr: "hasText tt nt e \<Longrightarrow> worded tt nt (matchedOr e n)"
  by (simp add: matchedOr_def worded_retE worded_failE)

lemma worded_guestRepo:
  assumes "wordedCollection tt nt c"
  shows "wordedGuests tt nt (newGuestRepo c)"
  unfolding wordedGuests_def newGuestRepo_def guestRepo.select_convs guestRepoGetById_def guestRepoGetByDocument_def
    guestRepoAdd_def guestRepoUpdate_def
  by (intro conjI allI worded_rules) (use assms in \<open>simp_all add: worded_iface guestRepoErr_def\<close>)

lemma worded_cottageRepo:
  assumes "wordedCollection tt nt c"
  shows "wordedCottages tt nt (newCottageRepo hex c)"
  unfolding wordedCottages_def newCottageRepo_def cottageRepo.select_convs cottageRepoGetByName_def
    cottageRepoUpdateCurrentGuest_def cottageRepoUpdateKeyHolder_def cottageRepoRemovePastBooking_def
  by (intro conjI allI worded_rules worded_matchedOr) (use assms in \<open>simp_all add: worded_iface cottageRepoErr_def\<close>)

lemma decodeBooking_text:
  assumes "\<And>raw e. unm raw = Inl e \<Longrightarrow> hasText tt nt e" "decodeBooking unm raw = Inl e"
  shows "hasText tt nt e"
  using assms by (auto simp: decodeBooking_def split: sum.splits)

lemma decodeBookings_text:
  assumes "\<And>raw e. unm raw = Inl e \<Longrightarrow> hasText tt nt e" "decodeBookings unm raws = Inl e"
  shows "hasText tt nt e"
  using assms(2) by (induction raws) (auto split: sum.splits intro: decodeBooking_text [OF assms(1)])

lemma worded_bookingRepo:
  assumes c: "wordedCollection tt nt c" and unm: "\<And>raw e. unm raw = Inl e \<Longrightarrow> hasText tt nt e"
    and hex: "\<And>n e. fromHex n = Inl e \<Longrightarrow> hasText tt nt e"
  shows "wordedBookings tt nt (newBookingRepo fromHex unm c)"
proof -
  note s = c [unfolded wordedCollection_def] bookingRepoErr_def hex decodeBooking_text [OF unm] decodeBookings_text [OF unm]
  have 1: "worded tt nt (bookingRepoFindByGuestId unm c g)" for g
    unfolding bookingRepoFindByGuestId_def by (intro worded_rules) (simp_all add: s)
  have 2: "worded tt nt (bookingRepoFindByCheckInDate unm c d)" for d
    unfolding bookingRepoFindByCheckInDate_def by (intro worded_rules) (simp_all add: s)
  have 3: "worded tt nt (bookingRepoFindByGuestIdAndCheckIn unm c g d)" for g d
    unfolding bookingRepoFindByGuestIdAndCheckIn_def by (intro worded_rules) (simp_all add: s)
  have 4: "worded tt nt (bookingRepoFindByGuestIdAndBookingNumber fromHex unm c g n)" for g n
    unfolding bookingRepoFindByGuestIdAndBookingNumber_def by (intro worded_rules) (simp_all add: s)
  have 5: "worded tt nt (bookingRepoUpdateStatus c b st)" for b st
    unfolding bookingRepoUpdateStatus_def by (intro worded_rules worded_matchedOr) (simp_all add: s)
  show ?thesis by (simp add: wordedBookings_def newBookingRepo_def 1 2 3 4 5)
qed

lemma mapGuestDoc_text: "mapGuestDoc f as d = Inl e \<Longrightarrow> hasText tt nt e"
  by (auto simp: mapGuestDoc_eq isValidationErr_def dest!: NewGuest_Inl_validation split: gerr.splits)

lemma NewPeriod_text: "NewPeriod a b = Inl e \<Longrightarrow> hasText tt nt e"
  unfolding NewPeriod_def by (erule validated_hasText [rotated]) (intro objects_steps objects_new)

lemma NewBooking_text: "NewBooking i m n p c st = Inl e \<Longrightarrow> hasText tt nt e"
  unfolding NewBooking_def bookingValidator_def by (erule validated_hasText [rotated]) (intro objects_steps objects_new)

lemma NewCleaningOrder_text: "NewCleaningOrder room ty = Inl e \<Longrightarrow> hasText tt nt e"
  by (auto simp: NewCleaningOrder_eq split: if_splits)

lemma mapBookingDocs_text: "mapBookingDocs ds bs = Inl e \<Longrightarrow> hasText tt nt e"
  by (induction ds arbitrary: bs) (auto simp: mapBookingDoc_def dest: NewPeriod_text NewBooking_text split: sum.splits)

lemmas domain_texts = mapGuestDoc_text NewPeriod_text NewBooking_text NewCleaningOrder_text mapBookingDocs_text

lemma worded_guestService:
  assumes "wordedGuests tt nt gr" "wordedBookings tt nt br"
  shows "worded tt nt (guestServiceGetById gr i)" "worded tt nt (guestServiceGetByDocument gr d)"
    "worded tt nt (guestServiceAdd gr g)" "worded tt nt (guestServiceUpdate gr i g)"
    "worded tt nt (guestServiceGetBookings br i)" "worded tt nt (guestServiceGetBookingByDate gr br d day)"
proof -
  note s = assms [unfolded worded_iface]
  show 1: "worded tt nt (guestServiceGetByDocument gr d)" for d
    unfolding guestServiceGetByDocument_def by (intro worded_rules) (simp_all add: s mapGuestDoc_text)
  show "worded tt nt (guestServiceGetById gr i)"
    unfolding guestServiceGetById_def by (intro worded_rules) (simp_all add: s mapGuestDoc_text)
  show "worded tt nt (guestServiceAdd gr g)" unfolding guestServiceAdd_def by (simp add: s)
  show "worded tt nt (guestServiceUpdate gr i g)"
    unfolding guestServiceUpdate_def by (intro worded_rules) (simp_all add: s mapGuestDoc_text)
  show "worded tt nt (guestServiceGetBookings br i)"
    unfolding guestServiceGetBookings_def by (intro worded_rules) (simp_all add: s mapBookingDocs_text)
  show "worded tt nt (guestServiceGetBookingByDate gr br d day)"
    unfolding guestServiceGetBookingByDate_def by (intro worded_rules worded_failE) (simp_all add: s 1 domain_texts)
qed

text \<open>The reception, over the repositories, the broker and the cache.\<close>

lemma worded_reception:
  fixes gr :: "'s guestRepo" and ca :: "'s cachePort"
  assumes gr: "wordedGuests tt nt gr" and ct: "wordedCottages tt nt ct" and br: "wordedBookings tt nt br"
    and pub: "\<And>m k. worded tt nt (pubPublish pub m k)"
  defines "r \<equiv> wiredReception gr ct br ca pub"
  shows "worded tt nt (receptionCheckIn um r doc today)" "worded tt nt (receptionCheckinFallback r doc n today)"
    "worded tt nt (receptionCheckOut r b today)" "worded tt nt (receptionReceiveCottageKey r c kn)"
    "worded tt nt (receptionReturnCottageKey r c kn)"
proof -
  note s = r_def wiredReception_def newReceptionService_def newGuestService_def newCleaningService_def
    cleaningServiceCleanRoom_def pub worded_guestService [OF gr br] ct [unfolded worded_iface] br [unfolded worded_iface]
  have process: "worded tt nt (processCheckIn r doc b g today)" for b g
    unfolding processCheckIn_def by (intro worded_rules worded_failE) (simp_all add: s domain_texts)
  show "worded tt nt (receptionCheckIn um r doc today)"
    unfolding receptionCheckIn_def Let_def by (intro worded_rules worded_failE process) (simp_all add: s)
  show "worded tt nt (receptionCheckinFallback r doc n today)"
    unfolding receptionCheckinFallback_def by (intro worded_rules worded_failE process) (simp_all add: s domain_texts)
  show "worded tt nt (receptionCheckOut r b today)"
    unfolding receptionCheckOut_def Let_def by (intro worded_rules) (simp_all add: s domain_texts)
  show "worded tt nt (receptionReceiveCottageKey r c kn)"
    unfolding receptionReceiveCottageKey_def by (intro worded_rules) (simp_all add: s)
  show "worded tt nt (receptionReturnCottageKey r c kn)"
    unfolding receptionReturnCottageKey_def by (intro worded_rules) (simp_all add: s)
qed

section \<open>Properties\<close>

text \<open>The requests a session makes of the reception, their outcomes reduced to success or error.\<close>

datatype deskRequest =
    DeskCheckIn string gotime | DeskFallback string string gotime | DeskCheckOut booking gotime
  | DeskReceiveKey string string | DeskReturnKey string string

fun deskRun :: "(string \<Rightarrow> gerr + booking list) \<Rightarrow> 's receptionService \<Rightarrow> deskRequest \<Rightarrow> ('s, unit) io" where
  "deskRun um r (DeskCheckIn doc today) = thenE (receptionCheckIn um r doc today) (retE ())"
| "deskRun um r (DeskFallback doc n today) = thenE (receptionCheckinFallback r doc n today) (retE ())"
| "deskRun um r (DeskCheckOut b today) = receptionCheckOut r b today"
| "deskRun um r (DeskReceiveKey c kn) = receptionReceiveCottageKey r c kn"
| "deskRun um r (DeskReturnKey c kn) = receptionReturnCottageKey r c kn"

text \<open>What is assumed of the libraries: their own errors have texts.\<close>

definition wordedLibraries :: "(gotime \<Rightarrow> string) \<Rightarrow> (bool \<Rightarrow> string) \<Rightarrow> ('s, guestDoc) collection \<Rightarrow>
    ('s, cottageDoc) collection \<Rightarrow> ('s, 'raw) collection \<Rightarrow> (string \<Rightarrow> gerr + objectID) \<Rightarrow>
    ('raw \<Rightarrow> gerr + bookingDocumentCurrent) \<Rightarrow> 's mqPublisher \<Rightarrow> bool" where
  "wordedLibraries tt nt gs cs bs fromHex unm pub \<longleftrightarrow> wordedCollection tt nt gs \<and> wordedCollection tt nt cs \<and>
     wordedCollection tt nt bs \<and> (\<forall>n e. fromHex n = Inl e \<longrightarrow> hasText tt nt e) \<and>
     (\<forall>raw e. unm raw = Inl e \<longrightarrow> hasText tt nt e) \<and> (\<forall>m k. worded tt nt (pubPublish pub m k))"

text \<open>C24: every error the reception reports over the program's repositories is printed completely: no verb of
  its formats lacks an argument or has one of the wrong kind, no argument is left over, and the text of
  every error it wraps can be read in it.\<close>

theorem reception_errors_readable:
  assumes libs: "wordedLibraries tt nt gs cs bs fromHex unm pub"
    and run: "deskRun um (wiredReception (newGuestRepo gs) (newCottageRepo hex cs) (newBookingRepo fromHex unm bs) ca pub) q s
      = Some (Inl e, s')"
  shows "\<exists>t. errText tt nt e = Some t \<and> (\<forall>x \<in> set (errTree e). \<exists>u. errText tt nt x = Some u \<and> sublist u t)"
proof -
  note l = libs [unfolded wordedLibraries_def]
  have "wordedBookings tt nt (newBookingRepo fromHex unm bs)" by (rule worded_bookingRepo) (use l in blast)+
  note w = worded_reception [OF worded_guestRepo worded_cottageRepo this]
  have "worded tt nt (deskRun um (wiredReception (newGuestRepo gs) (newCottageRepo hex cs) (newBookingRepo fromHex unm bs) ca pub) q)"
    using l by (cases q) (auto intro!: worded_bindE worded_retE w)
  from wordedD [OF this run] obtain t where "errText tt nt e = Some t" by (auto simp: hasText_def)
  with cause_in_text [OF this] show ?thesis by (auto simp: readable_def)
qed

definition downCollection :: "('s, 'd) collection" where
  "downCollection = \<lparr>colFindOne = (\<lambda>_. failE (LibErr ''no server'')), colFind = (\<lambda>_. failE (LibErr ''no server'')),
     colAll = (\<lambda>_. failE (LibErr ''no server'')), colInsertOne = (\<lambda>_. failE (LibErr ''no server'')),
     colUpdateOne = (\<lambda>_ _. failE (LibErr ''no server''))\<rparr>"

theorem reception_errors_readable_witness:
  "\<exists>e t. deskRun (\<lambda>_. Inr []) (wiredReception (newGuestRepo downCollection) (newCottageRepo hexText downCollection)
       (newBookingRepo (\<lambda>_. Inr 1) (\<lambda>_ :: unit. Inl (LibErr ''bson'')) downCollection) sampleCache brokenPublisher)
       (DeskCheckIn ''D1'' sampleToday) () = Some (Inl e, ()) \<and>
     errText (\<lambda>_. []) (\<lambda>_. []) e = Some t \<and> sublist ''guestRepository failure'' t"
proof -
  let ?r = "wiredReception (newGuestRepo downCollection) (newCottageRepo hexText downCollection)
    (newBookingRepo (\<lambda>_. Inr 1) (\<lambda>_ :: unit. Inl (LibErr ''bson'')) downCollection) sampleCache brokenPublisher"
  have libs: "wordedLibraries (\<lambda>_. []) (\<lambda>_. []) downCollection downCollection downCollection (\<lambda>_. Inr 1)
      (\<lambda>_ :: unit. Inl (LibErr ''bson'')) brokenPublisher"
    by (simp add: wordedLibraries_def wordedCollection_def downCollection_def brokenPublisher_def worded_failE)
  have find: "guestServiceGetByDocument (newGuestRepo downCollection) ''D1'' () = Some (Inl (guestRepoErr
      ''%w: searchBy docoumentId failed; could not decode guest; documentId=%s: %v'' [FStr ''D1''] (LibErr ''no server'')), ())"
    by (simp add: guestServiceGetByDocument_def newGuestRepo_def guestRepoGetByDocument_def downCollection_def bindE_def
        mapErrE_def validated_def errorsIs_def NotBlank_def not_isBlank_ascii isSpace1_def byteOf_def)
  have run: "deskRun (\<lambda>_. Inr []) ?r (DeskCheckIn ''D1'' sampleToday) () = Some (Inl (Wrapf ''failed to get guest %s: %w'' [FStr ''D1'']
      (guestRepoErr ''%w: searchBy docoumentId failed; could not decode guest; documentId=%s: %v'' [FStr ''D1''] (LibErr ''no server''))), ())"
    by (simp add: receptionCheckIn_def wiredReception_def newReceptionService_def newGuestService_def bindE_def mapErrE_def find)
  from reception_errors_readable [OF libs run] show ?thesis
    using run by (auto simp: guestRepoErr_def)
qed

text \<open>C25: when the database does not answer the first ping, the error the start-up ends with, which \<open>main\<close>
  writes to the log, contains the user name and the password of the database in the clear.\<close>

theorem failed_ping_prints_password:
  assumes "NewMdb m config s = Some (Inl e, s')"
    and "moConnect m (clientOptions config) s = Some (Inr client, s1)"
    and "\<And>ls. worded tt nt (moPing m client ls)"
  shows "\<exists>t. errText tt nt e = Some t \<and> sublist (mcUsername config @ '':'' @ mcPassword config) t"
proof -
  from assms(1,2) obtain err s2 where e: "e = Wrapf ''mongo ping failed for URI: %s, error: %w''
      [FStr (buildMongoURI (mcUsername config) (mcPassword config) (mcHost config))] err"
    and ping: "moPing m client [durationInSeconds (mcStartupTimeoutInSeconds config), durationInSeconds (mcPingTimeoutInSeconds config)] s1
      = Some (Inl err, s2)"
    by (auto simp: NewMdb_def bindE_def attemptE_def split: option.splits sum.splits)
  from wordedD [OF assms(3) ping] obtain u where u: "errText tt nt err = Some u" by (auto simp: hasText_def)
  have "sublist (mcUsername config @ '':'' @ mcPassword config)
      (''mongo ping failed for URI: '' @ (''mongodb://'' @ (mcUsername config @ '':'' @ mcPassword config) @ (''@'' @ mcHost config)) @ ('', error: '' @ u))"
    by (rule sublist_leftI, rule sublist_trans [OF sublist_appendI sublist_append_rightI])
  then show ?thesis by (simp add: e u buildMongoURI_def)
qed

definition deadDatabase :: "unit mongoLib" where
  "deadDatabase = \<lparr>moConnect = (\<lambda>_. retE 0), moPing = (\<lambda>_ _. failE (Sentinel SErrDeadlineExceeded)), moDisconnect = (\<lambda>_. retE ())\<rparr>"

definition sampleMongoConfig :: mongoConfig where
  "sampleMongoConfig = \<lparr>mcUsername = ''guest'', mcPassword = ''secret'', mcHost = ''db:27017'', mcDatabase = ''resort'', mcReplicaSet = '''',
     mcConnectionTimeoutInSeconds = 5, mcServerSelectionTimeoutInSeconds = 5, mcPingTimeoutInSeconds = 5, mcStartupTimeoutInSeconds = 10,
     mcMaxConnIdleTimeInSeconds = 60, mcMaxPoolSize = 10, mcMinPoolSize = 1, mcRetryWrites = True,
     mcGuestCollection = ''guests'', mcCottageCollection = ''cottages'', mcBookingCollection = ''bookings''\<rparr>"

theorem failed_ping_prints_password_witness:
  "\<exists>e t. NewMdb deadDatabase sampleMongoConfig () = Some (Inl e, ()) \<and> errText (\<lambda>_. []) (\<lambda>_. []) e = Some t \<and> sublist ''guest:secret'' t"
proof -
  obtain e where e: "NewMdb deadDatabase sampleMongoConfig () = Some (Inl e, ())"
    by (simp add: NewMdb_def deadDatabase_def bindE_def attemptE_def)
  from failed_ping_prints_password [OF e, of 0 "()" "\<lambda>_. []" "\<lambda>_. []"] show ?thesis
    using e by (simp add: deadDatabase_def worded_failE sampleMongoConfig_def)
qed

lemma hexDigit_zero: "hexDigit 0 = CHR ''0''"
  by code_simp

lemma hexDigits_zero: "hexDigits k 0 = replicate k (CHR ''0'')"
  by (induction k) (simp_all add: hexDigit_zero replicate_append_same)

lemma zeros24: "replicate 24 (CHR ''0'') = ''000000000000000000000000''"
  by code_simp

text \<open>A guest is looked up by the number of a document; when there is none, the message speaks of a
  document and prints the identifier, which is zero here, and never the number that was asked for.\<close>

lemma unknown_document_text:
  "errText tt nt (ErrGuestDoesNotExist NilObjectID doc) = Some ''Guest with document id 000000000000000000000000 does not exist''"
  by (simp add: guestDoesNotExistText_def hexText_def hexDigits_zero zeros24)

end
