(* ===== verification/Observability.thy ===== *)
theory Observability
  imports FrontDesk Infra
begin

text \<open>
  \<open>infra/logging/log.go\<close>, the log functions of the handlers, and the trace context of a message
  (\<open>ContextFromMessage\<close> in \<open>chat.go\<close>). The package \<open>slog\<close>, its JSON handler, the host name and the
  propagator are parameters. Nothing of the program depends on what is logged, so the other theories
  leave the calls of these functions out.
\<close>

section \<open>The package slog\<close>

datatype logLevel = LevelDebug | LevelInfo | LevelWarn | LevelError

datatype logArg = ArgStr string | ArgErr gerr | ArgTime "gotime option"

type_synonym logAttr = "string \<times> logArg"

record logRecord =
  lrLevel :: logLevel
  lrMessage :: string
  lrAttrs :: "logAttr list"

text \<open>A valid span context is the texts of its two identifiers.\<close>

type_synonym spanContext = "(string \<times> string) option"

text \<open>A handler derives others from itself without end, so handlers are a codatatype.\<close>

codatatype 's slogHandler = SlogHandler
  (hEnabled: "logLevel \<Rightarrow> bool")
  (hHandle: "spanContext \<Rightarrow> logRecord \<Rightarrow> ('s, unit) io")
  (hWithAttrs: "logAttr list \<Rightarrow> 's slogHandler")
  (hWithGroup: "string \<Rightarrow> 's slogHandler")

text \<open>
  The arguments of a log call alternate between keys and values; one that is not a key where a key is
  expected, or has no value, is kept under \<open>!BADKEY\<close>.
\<close>

fun argsToAttrs :: "logArg list \<Rightarrow> logAttr list" where
  "argsToAttrs [] = []"
| "argsToAttrs [a] = [(''!BADKEY'', a)]"
| "argsToAttrs (ArgStr k # v # as) = (k, v) # argsToAttrs as"
| "argsToAttrs (a # as) = (''!BADKEY'', a) # argsToAttrs as"

text \<open>A call of the default logger, with the span of its context; the error of the handler is dropped.\<close>

definition slogContext :: "'s slogHandler \<Rightarrow> logLevel \<Rightarrow> spanContext \<Rightarrow> string \<Rightarrow> logArg list \<Rightarrow> 's \<Rightarrow> 's option" where
  "slogContext h level sc msg as s = (if hEnabled h level
     then map_option snd (hHandle h sc \<lparr>lrLevel = level, lrMessage = msg, lrAttrs = argsToAttrs as\<rparr> s) else Some s)"

section \<open>The trace handler\<close>

text \<open>Enabled, Handle, WithAttrs and WithGroup of \<open>TraceHandler\<close>.\<close>

definition traceHandle :: "'s slogHandler \<Rightarrow> spanContext \<Rightarrow> logRecord \<Rightarrow> ('s, unit) io" where
  "traceHandle base sc r = (case sc of
     Some (traceID, spanID) \<Rightarrow>
       hHandle base sc (r\<lparr>lrAttrs := lrAttrs r @ [(''trace_id'', ArgStr traceID), (''span_id'', ArgStr spanID)]\<rparr>)
   | None \<Rightarrow> hHandle base sc r)"

primcorec traceHandler :: "'s slogHandler \<Rightarrow> 's slogHandler" where
  "hEnabled (traceHandler base) = hEnabled base"
| "hHandle (traceHandler base) = traceHandle base"
| "hWithAttrs (traceHandler base) = (\<lambda>attrs. traceHandler (hWithAttrs base attrs))"
| "hWithGroup (traceHandler base) = (\<lambda>name. traceHandler (hWithGroup base name))"

text \<open>\<open>NewJSONHandler\<close> at a level, and \<open>os.Hostname\<close>; \<open>With\<close> gives the handler the attributes.\<close>

definition NewLogger :: "(logLevel \<Rightarrow> 's slogHandler) \<Rightarrow> gerr + string \<Rightarrow> 's slogHandler" where
  "NewLogger newJSONHandler hostname =
     (let base = newJSONHandler LevelInfo;
          host = (case hostname of Inl err \<Rightarrow> ''unknown'' | Inr x \<Rightarrow> x)
      in hWithAttrs (traceHandler base) (argsToAttrs [ArgStr ''app'', ArgStr host]))"

section \<open>The log functions\<close>

definition guestHttpAttrs :: "string \<Rightarrow> logArg list" where
  "guestHttpAttrs event = [ArgStr ''component'', ArgStr ''guest_http'', ArgStr ''layer'', ArgStr ''handler'', ArgStr ''event'', ArgStr event]"

definition GuestHTTPInfo :: "'s slogHandler \<Rightarrow> spanContext \<Rightarrow> string \<Rightarrow> logArg list \<Rightarrow> 's \<Rightarrow> 's option" where
  "GuestHTTPInfo h sc event attrs = slogContext h LevelInfo sc ''guest http'' (guestHttpAttrs event @ attrs)"

definition GuestHTTPWarn :: "'s slogHandler \<Rightarrow> spanContext \<Rightarrow> string \<Rightarrow> logArg list \<Rightarrow> 's \<Rightarrow> 's option" where
  "GuestHTTPWarn h sc event attrs = slogContext h LevelWarn sc ''guest http'' (guestHttpAttrs event @ attrs)"

definition GuestHTTPError :: "'s slogHandler \<Rightarrow> spanContext \<Rightarrow> string \<Rightarrow> logArg list \<Rightarrow> 's \<Rightarrow> 's option" where
  "GuestHTTPError h sc event attrs = slogContext h LevelError sc ''guest http'' (guestHttpAttrs event @ attrs)"

definition guestRequestAttrs :: "string \<Rightarrow> string \<Rightarrow> logArg list \<Rightarrow> logArg list" where
  "guestRequestAttrs method fullPath attrs = [ArgStr ''method'', ArgStr method, ArgStr ''path'', ArgStr fullPath] @ attrs"

definition handlerArgs :: "string \<Rightarrow> logArg list" where
  "handlerArgs event = concat (map (\<lambda>(k, v). [ArgStr k, ArgStr v]) (baseHandlerAttrs event))"

definition logHandlerInfo :: "'s slogHandler \<Rightarrow> spanContext \<Rightarrow> string \<Rightarrow> logArg list \<Rightarrow> 's \<Rightarrow> 's option" where
  "logHandlerInfo h sc event attrs = slogContext h LevelInfo sc ''lodging chat'' (handlerArgs event @ attrs)"

definition logHandlerWarn :: "'s slogHandler \<Rightarrow> spanContext \<Rightarrow> string \<Rightarrow> logArg list \<Rightarrow> 's \<Rightarrow> 's option" where
  "logHandlerWarn h sc event attrs = slogContext h LevelWarn sc ''lodging chat'' (handlerArgs event @ attrs)"

definition logHandlerError :: "'s slogHandler \<Rightarrow> spanContext \<Rightarrow> string \<Rightarrow> logArg list \<Rightarrow> 's \<Rightarrow> 's option" where
  "logHandlerError h sc event attrs = slogContext h LevelError sc ''lodging chat'' (handlerArgs event @ attrs)"

section \<open>The trace context of a message\<close>

text \<open>\<open>extract\<close> is the propagator; a map copied entry by entry keeps the last value of a key.\<close>

definition ContextFromMessage :: "('c \<Rightarrow> (string \<rightharpoonup> string) \<Rightarrow> 'c) \<Rightarrow> 'c \<Rightarrow> chatMessage option \<Rightarrow> 'c" where
  "ContextFromMessage extract ctx msg = (case msg of
     None \<Rightarrow> ctx
   | Some m \<Rightarrow> if length (traceContext m) = 0 then ctx
       else extract ctx (foldl (\<lambda>carrier (key, v). carrier(key \<mapsto> v)) (\<lambda>_. None) (traceContext m)))"

section \<open>The spans of the cache client\<close>

text \<open>What a span has been told; \<open>spStatus\<close> is the description of an error status.\<close>

record opSpan =
  spName :: string
  spAttributes :: "(string \<times> string) list"
  spErrors :: "gerr list"
  spStatus :: "string option"

definition redisSpan :: "string \<Rightarrow> (string \<times> string) list \<Rightarrow> opSpan" where
  "redisSpan operation attrs = \<lparr>spName = ''redis '' @ operation,
     spAttributes = [(''db.system'', ''redis''), (''db.operation'', operation)] @ attrs, spErrors = [], spStatus = None\<rparr>"

text \<open>\<open>msg\<close> is the method \<open>Error\<close> of an error.\<close>

definition recordSpanError :: "(gerr \<Rightarrow> string) \<Rightarrow> opSpan \<Rightarrow> gerr option \<Rightarrow> opSpan" where
  "recordSpanError msg span err = (case err of None \<Rightarrow> span
   | Some e \<Rightarrow> span\<lparr>spErrors := spErrors span @ [e], spStatus := Some (msg e)\<rparr>)"

definition errOf :: "gerr + 'a \<Rightarrow> gerr option" where
  "errOf r = (case r of Inl e \<Rightarrow> Some e | Inr _ \<Rightarrow> None)"

text \<open>The operations with their spans: the state is paired with the spans that have ended.\<close>

definition tracedPing :: "(gerr \<Rightarrow> string) \<Rightarrow> 's redisLib \<Rightarrow> ('s \<times> opSpan list, unit) io" where
  "tracedPing msg r = logged (\<lambda>err. recordSpanError msg (redisSpan ''PING'' []) (errOf err)) (rlPing r)"

definition tracedGetBytes :: "(gerr \<Rightarrow> string) \<Rightarrow> 's redisLib \<Rightarrow> string \<Rightarrow> ('s \<times> opSpan list, string) io" where
  "tracedGetBytes msg r key = (let span = redisSpan ''GET'' [(''db.redis.key'', key)] in
     mapErrE (\<lambda>err. if errorsIs err SErrRedisNil then Sentinel SErrCacheMiss else err)
       (logged (\<lambda>v. case v of
           Inl err \<Rightarrow> if errorsIs err SErrRedisNil then recordSpanError msg span (Some (Sentinel SErrCacheMiss)) else recordSpanError msg span (Some err)
         | Inr _ \<Rightarrow> recordSpanError msg span None) (rlGet r key)))"

definition tracedSetBytes :: "(gerr \<Rightarrow> string) \<Rightarrow> (nat \<Rightarrow> string) \<Rightarrow> (int \<Rightarrow> string) \<Rightarrow> 's redisLib \<Rightarrow> string \<Rightarrow> string \<Rightarrow> int
    \<Rightarrow> ('s \<times> opSpan list, unit) io" where
  "tracedSetBytes msg dec dur r key value expiration = logged (\<lambda>err. recordSpanError msg
       (redisSpan ''SET'' [(''db.redis.key'', key), (''db.redis.value_size'', dec (length value)), (''db.redis.expiration'', dur expiration)]) (errOf err))
     (rlSet r key value expiration)"

section \<open>Lemmas\<close>

text \<open>
  Tracing the cache client changes nothing but the spans, and every call leaves one, whose status is an
  error exactly when the call returned one, a missing key included.
\<close>

definition spanOf :: "(gerr \<Rightarrow> string) \<Rightarrow> opSpan \<Rightarrow> gerr + 'a \<Rightarrow> bool" where
  "spanOf msg span r \<longleftrightarrow> spStatus span = map_option msg (errOf r) \<and> spErrors span = (case errOf r of None \<Rightarrow> [] | Some e \<Rightarrow> [e])"

lemma spanOf_record: "spanOf msg (recordSpanError msg (redisSpan op as) (errOf r)) r"
  by (auto simp: spanOf_def recordSpanError_def redisSpan_def split: option.splits)

lemma traced_cache:
  "tracedPing msg lib (s, l) = map_option (\<lambda>(r, s'). (r, (s', l @ [recordSpanError msg (redisSpan ''PING'' []) (errOf r)]))) (redisPing lib s)"
  "tracedGetBytes msg lib k (s, l) =
     map_option (\<lambda>(r, s'). (r, (s', l @ [recordSpanError msg (redisSpan ''GET'' [(''db.redis.key'', k)]) (errOf r)]))) (redisGetBytes lib k s)"
  "tracedSetBytes msg dec dur lib k v x (s, l) = map_option (\<lambda>(r, s'). (r, (s', l @ [recordSpanError msg (redisSpan ''SET''
     [(''db.redis.key'', k), (''db.redis.value_size'', dec (length v)), (''db.redis.expiration'', dur x)]) (errOf r)]))) (redisSetBytes lib k v x s)"
  by (auto simp: tracedPing_def tracedGetBytes_def tracedSetBytes_def redisPing_def redisGetBytes_def redisSetBytes_def errOf_def
      Let_def bindE_def attemptE_def mapErrE_def
      split: option.splits sum.splits)

text \<open>Arguments that begin with complete pairs keep them, in order, whatever follows.\<close>

lemma argsToAttrs_pairs:
  "argsToAttrs (concat (map (\<lambda>(k, v). [ArgStr k, v]) ps) @ as) = ps @ argsToAttrs as"
  by (induction ps) auto

text \<open>A derivation of loggers: attributes and groups added one after the other.\<close>

datatype derivation = WithAttrs "logAttr list" | WithGroup string

fun derive :: "'s slogHandler \<Rightarrow> derivation list \<Rightarrow> 's slogHandler" where
  "derive h [] = h"
| "derive h (WithAttrs as # ds) = derive (hWithAttrs h as) ds"
| "derive h (WithGroup n # ds) = derive (hWithGroup h n) ds"

text \<open>Every logger derived from the program's adds the identifiers of the span, and is otherwise the base
  handler derived in the same way.\<close>

lemma derive_traceHandler: "derive (traceHandler base) ds = traceHandler (derive base ds)"
  by (induction "traceHandler base" ds arbitrary: base rule: derive.induct) auto

lemma logger_keeps_trace:
  "hHandle (derive (NewLogger js host) ds) (Some (t, sp)) r =
     hHandle (derive (js LevelInfo) (WithAttrs [(''app'', ArgStr (case host of Inl _ \<Rightarrow> ''unknown'' | Inr x \<Rightarrow> x))] # ds)) (Some (t, sp))
       (r\<lparr>lrAttrs := lrAttrs r @ [(''trace_id'', ArgStr t), (''span_id'', ArgStr sp)]\<rparr>)"
  by (simp add: NewLogger_def Let_def derive_traceHandler traceHandle_def)

text \<open>A log call of the chat handlers begins with its component, layer and event.\<close>

lemma handlerArgs_first:
  "argsToAttrs (handlerArgs event @ as) =
     [(''component'', ArgStr ''lodging_chat''), (''layer'', ArgStr ''handler''), (''event'', ArgStr event)] @ argsToAttrs as"
  by (simp add: handlerArgs_def baseHandlerAttrs_def)

lemma foldl_map_upd: "foldl (\<lambda>carrier (key, v). carrier(key \<mapsto> v)) m kvs = m ++ map_of (rev kvs)"
  by (induction kvs arbitrary: m) (auto simp: map_add_def fun_eq_iff map_of_append split: option.splits)

end
