(* ===== verification/StartUp.thy ===== *)
theory StartUp
  imports Program
begin

text \<open>
  A start-up that fails (\<open>internal/main.go\<close>): which of its steps had succeeded, and what is left of the
  telemetry, the database, the broker and the cache, whose clean-up \<open>os.Exit\<close> skips.
\<close>

section \<open>The steps of the start-up\<close>

text \<open>The state after the telemetry, the database, the broker and the cache have been opened, in this order.\<close>

definition telemetryUp :: "('s, 'raw) platform \<Rightarrow> 's broker \<Rightarrow> configs \<Rightarrow> 's broker \<Rightarrow> bool" where
  "telemetryUp p b cfg b1 \<longleftrightarrow> pfParse p = Inr cfg \<and>
     (\<exists>tel. telemetryInit (pfOtel p) (cfTelemetry cfg) (cfApp cfg) b = Some (Inr tel, b1))"

definition databaseUp :: "('s, 'raw) platform \<Rightarrow> 's broker \<Rightarrow> configs \<Rightarrow> 's broker \<Rightarrow> bool" where
  "databaseUp p b cfg b2 \<longleftrightarrow> (\<exists>b1 mongoDb. telemetryUp p b cfg b1 \<and>
     NewMongoDb (pfMongo p) (pfDriver p) (cfMongo cfg) b1 = Some (Inr mongoDb, b2))"

definition brokerUp :: "('s, 'raw) platform \<Rightarrow> 's broker \<Rightarrow> configs \<Rightarrow> 's broker \<Rightarrow> bool" where
  "brokerUp p b cfg b3 \<longleftrightarrow> (\<exists>b2 rabbit. databaseUp p b cfg b2 \<and>
     NewRabbitmq (pfAmqp p) (cfRabbitMq cfg) b2 = Some (Inr rabbit, b3))"

definition cacheUp :: "('s, 'raw) platform \<Rightarrow> 's broker \<Rightarrow> configs \<Rightarrow> 's broker \<Rightarrow> bool" where
  "cacheUp p b cfg b4 \<longleftrightarrow> (\<exists>b3 redis. brokerUp p b cfg b3 \<and>
     NewRedisClient (pfRedis p) (cfRedis cfg) b3 = Some (Inr redis, b4))"

lemmas up_defs = telemetryUp_def databaseUp_def brokerUp_def cacheUp_def

text \<open>A start-up fails at one of six steps, in the state this step leaves.\<close>

definition failsIn :: "('s, 'raw) platform \<Rightarrow> 's broker \<Rightarrow> 's broker \<Rightarrow> bool" where
  "failsIn p b b' \<longleftrightarrow>
     (\<exists>x. pfParse p = Inl x \<and> b' = b) \<or>
     (\<exists>cfg x. pfParse p = Inr cfg \<and> telemetryInit (pfOtel p) (cfTelemetry cfg) (cfApp cfg) b = Some (Inl x, b')) \<or>
     (\<exists>cfg b1 x. telemetryUp p b cfg b1 \<and> NewMongoDb (pfMongo p) (pfDriver p) (cfMongo cfg) b1 = Some (Inl x, b')) \<or>
     (\<exists>cfg b2 x. databaseUp p b cfg b2 \<and> NewRabbitmq (pfAmqp p) (cfRabbitMq cfg) b2 = Some (Inl x, b')) \<or>
     (\<exists>cfg b3 x. brokerUp p b cfg b3 \<and> NewRedisClient (pfRedis p) (cfRedis cfg) b3 = Some (Inl x, b')) \<or>
     (\<exists>cfg x. cacheUp p b cfg b' \<and> pfClock p (cfClockSimulator cfg) = Inl x)"

lemma mainStart_fails: "mainStart p b = Some (Inl e, b') \<longleftrightarrow> e = ExitCode 1 \<and> failsIn p b b'"
proof
  assume run: "mainStart p b = Some (Inl e, b')"
  then show "e = ExitCode 1 \<and> failsIn p b b'"
    by (auto simp: mainStart_def LoadConfigs_def Let_def bindE_Some_Inl exitOnError_Some_Inl NewClockEmu_def
        failsIn_def up_defs dest: mainServices_Inr)
next
  assume "e = ExitCode 1 \<and> failsIn p b b'"
  then show "mainStart p b = Some (Inl e, b')"
    unfolding failsIn_def up_defs
    by (auto simp: mainStart_def LoadConfigs_def Let_def NewClockEmu_def bindE_def exitOnError_Inr exitOnError_Inl)
qed

lemma mainRun_fails: "failsIn p b b' \<Longrightarrow> mainRun p b = Some (Inl (ExitCode 1), b')"
  using mainStart_fails [of p b "ExitCode 1" b'] by (simp add: mainRun_def bindE_def)

section \<open>The same platform with other clean-up functions\<close>

definition otherShutdown ::
  "(handle \<Rightarrow> ('s broker, unit) io) \<Rightarrow> (handle \<Rightarrow> ('s broker, unit) io) \<Rightarrow> ('s, 'raw) platform \<Rightarrow> ('s, 'raw) platform" where
  "otherShutdown f g p = p\<lparr>pfOtel := (pfOtel p)\<lparr>otShutdownTrace := f, otShutdownMeter := g\<rparr>\<rparr>"

definition otherDisconnect :: "(handle \<Rightarrow> ('s broker, unit) io) \<Rightarrow> ('s, 'raw) platform \<Rightarrow> ('s, 'raw) platform" where
  "otherDisconnect f p = p\<lparr>pfMongo := (pfMongo p)\<lparr>moDisconnect := f\<rparr>\<rparr>"

definition otherCacheClose :: "('s broker, unit) io \<Rightarrow> ('s, 'raw) platform \<Rightarrow> ('s, 'raw) platform" where
  "otherCacheClose f p = p\<lparr>pfRedis := (\<lambda>addr u w db t. (pfRedis p addr u w db t)\<lparr>rlClose := f\<rparr>)\<rparr>"

lemmas other_defs = otherShutdown_def otherDisconnect_def otherCacheClose_def

text \<open>The telemetry calls its shutdown functions nowhere in its initialisation; the other two close their client
  only when its first ping fails.\<close>

lemma telemetry_other:
  "telemetryInit (o'\<lparr>otShutdownTrace := f, otShutdownMeter := g\<rparr>) tc ac b = Some (Inl x, b') \<longleftrightarrow>
     telemetryInit o' tc ac b = Some (Inl x, b')"
  "(\<exists>tel. telemetryInit (o'\<lparr>otShutdownTrace := f, otShutdownMeter := g\<rparr>) tc ac b = Some (Inr tel, b')) \<longleftrightarrow>
     (\<exists>tel. telemetryInit o' tc ac b = Some (Inr tel, b'))"
  unfolding telemetryInit_def provider_defs initMetrics_def
  by (auto simp: bindE_Some_Inl bindE_Some_Inr simp del: cleanupLoop.simps)

lemma NewMongoDb_other:
  "(\<exists>db. NewMongoDb (m\<lparr>moDisconnect := f\<rparr>) d c b = Some (Inr db, b')) \<longleftrightarrow> (\<exists>db. NewMongoDb m d c b = Some (Inr db, b'))"
proof -
  have "NewMdb (m\<lparr>moDisconnect := f\<rparr>) c b = Some (Inr x, b') \<longleftrightarrow> NewMdb m c b = Some (Inr x, b')" for x
    unfolding NewMdb_def bindE_Some_Inr by (auto simp: attemptE_Some bindE_Some_Inr split: sum.splits)
  then show ?thesis by (simp add: NewMongoDb_def bindE_Some_Inr)
qed

lemma NewRedis_other:
  "(\<exists>r. NewRedisClient (\<lambda>addr u w db t. (rd addr u w db t)\<lparr>rlClose := f\<rparr>) c b = Some (Inr r, b')) \<longleftrightarrow>
     (\<exists>r. NewRedisClient rd c b = Some (Inr r, b'))"
  unfolding NewRedisClient_def Let_def bindE_Some_Inr redisPing_def
  by (auto simp: attemptE_Some bindE_Some_Inr split: sum.splits)

lemma shutdown_same: "failsIn p b b' \<Longrightarrow> failsIn (otherShutdown f g p) b b'"
proof -
  have up: "telemetryUp (otherShutdown f g p) b cfg b1 \<longleftrightarrow> telemetryUp p b cfg b1" for cfg b1
    by (simp add: telemetryUp_def otherShutdown_def telemetry_other)
  show "failsIn p b b' \<Longrightarrow> failsIn (otherShutdown f g p) b b'"
    by (simp add: failsIn_def databaseUp_def brokerUp_def cacheUp_def up)
      (simp add: otherShutdown_def telemetry_other)
qed

lemma disconnect_same:
  assumes "failsIn p b b'" and "databaseUp p b cfg b2"
  shows "failsIn (otherDisconnect f p) b b'"
proof -
  have t: "telemetryUp (otherDisconnect f p) = telemetryUp p"
    by (simp add: fun_eq_iff telemetryUp_def otherDisconnect_def)
  have "databaseUp (otherDisconnect f p) b c y \<longleftrightarrow> databaseUp p b c y" for c y
    using NewMongoDb_other [where m = "pfMongo p" and f = f and d = "pfDriver p" and c = "cfMongo c" and b' = y]
    by (simp add: databaseUp_def t) (simp add: otherDisconnect_def)
  then have d: "databaseUp (otherDisconnect f p) b = databaseUp p b" by (simp add: fun_eq_iff)
  from assms show ?thesis
    unfolding failsIn_def brokerUp_def cacheUp_def d t
    by (auto simp: otherDisconnect_def) (auto simp: databaseUp_def telemetryUp_def)
qed

lemma cacheClose_same:
  assumes "failsIn p b b'" and "cacheUp p b cfg b4"
  shows "failsIn (otherCacheClose f p) b b'"
proof -
  have u: "brokerUp (otherCacheClose f p) = brokerUp p"
    by (simp add: fun_eq_iff brokerUp_def databaseUp_def telemetryUp_def otherCacheClose_def)
  have c: "cacheUp (otherCacheClose f p) b c y \<longleftrightarrow> cacheUp p b c y" for c y
    using NewRedis_other [where rd = "pfRedis p" and f = f and c = "cfRedis c" and b' = y]
    by (simp add: cacheUp_def u) (simp add: otherCacheClose_def)
  from assms have "cacheUp p b cfg b'" "\<exists>x. pfClock p (cfClockSimulator cfg) = Inl x"
    unfolding failsIn_def up_defs by auto
  then have "cacheUp (otherCacheClose f p) b cfg b'" "\<exists>x. pfClock (otherCacheClose f p) (cfClockSimulator cfg) = Inl x"
    by (simp_all add: c) (simp add: otherCacheClose_def)
  then show ?thesis unfolding failsIn_def by blast
qed

section \<open>A broker connection that nobody closes\<close>

fun closesConn :: "brokerCall \<Rightarrow> bool" where
  "closesConn (BConnClose _ _) = True"
| "closesConn _ = False"

definition unclosed :: "('s \<times> brokerCall list) broker \<Rightarrow> ('s \<times> brokerCall list) broker \<Rightarrow> bool" where
  "unclosed b b' \<longleftrightarrow> (\<exists>new. calls b' = calls b @ new \<and> list_all (\<lambda>c. \<not> closesConn c) new)"

interpretation nc: frame unclosed
  by unfold_locales (auto simp: unclosed_def)

lemma unclosed_connecting: "keeps connecting m \<Longrightarrow> keeps unclosed m"
proof (rule keepsI)
  fix b r b'
  assume "keeps connecting m" and "m b = Some (r, b')"
  then have "connecting b b'" by (rule keepsD)
  then obtain new where "calls b' = calls b @ new" "list_all connects new"
    unfolding connecting_def by blast
  moreover have "connects c \<Longrightarrow> \<not> closesConn c" for c by (cases c) simp_all
  ultimately show "unclosed b b'" unfolding unclosed_def by (auto simp: list_all_iff)
qed

lemma unclosed_logged: "(\<And>r. \<not> closesConn (ev r)) \<Longrightarrow> keeps unclosed (onWorld (logged ev m))"
  by (rule keepsI) (auto simp: onWorld_Some logged_Some unclosed_def)

lemma unclosed_pick: "(\<And>x. \<not> closesConn (ev x)) \<Longrightarrow> keeps unclosed (onWorld (pickE (loggedPick ev g)))"
  by (rule keepsI) (auto simp: onWorld_Some pickE_def loggedPick_def unclosed_def split: option.splits prod.splits)

lemma unclosed_mod: "(\<And>b. calls (f b) = calls b) \<Longrightarrow> keeps unclosed (modE f)"
  by (rule keepsI) (auto simp: unclosed_def)

lemma unclosed_read: "keeps unclosed (readE f)"
  by (rule keepsI) (auto simp: unclosed_def)

lemma unclosed_deref: "keeps unclosed (derefE q)"
  by (cases q) (auto simp: derefE_def intro: nc.keeps_retE nc.keeps_failE)

lemmas unclosed_intros = nc.keeps_rules unclosed_logged unclosed_pick unclosed_mod unclosed_read unclosed_deref

lemmas unclosed_ensure = unclosed_connecting [OF connecting_ensure]
  and unclosed_openChannel = unclosed_connecting [OF connecting_openChannel]

lemma unclosed_connection: "keeps unclosed (NewRabbitMqConnection (logAmqp a) cfg)"
  unfolding NewRabbitMqConnection_def reconnectLocked_def
  by (auto intro!: unclosed_intros unclosed_connecting [OF connecting_dialLoop])

lemma unclosed_producer: "keeps unclosed (NewRabbitmqProducer (logAmqp a) pc)"
  unfolding NewRabbitmqProducer_def NewRabbitMqChannel_def by (auto intro!: unclosed_intros unclosed_ensure unclosed_openChannel)

lemma unclosed_exchange: "keeps unclosed (DeclareExchange (logAmqp a) q ex)"
  unfolding DeclareExchange_def Let_def channelOf_def by (auto intro!: unclosed_intros unclosed_ensure unclosed_openChannel)

lemma unclosed_consumer: "keeps unclosed (NewRabbitmqConsumer (logAmqp a) cc)"
  unfolding NewRabbitmqConsumer_def NewRabbitMqChannel_def by (auto intro!: unclosed_intros unclosed_ensure unclosed_openChannel)

lemma unclosed_bindConsumer: "keeps unclosed (declareAndBindConsumer (logAmqp a) c q bi)"
  unfolding declareAndBindConsumer_def DeclareQueue_def BindQueue_def channelOf_def
  by (auto intro!: unclosed_intros unclosed_ensure unclosed_openChannel split: option.splits)

text \<open>An operation that, when it succeeds, has closed no connection: a step with a clean-up is one.\<close>

definition opens :: "(('s \<times> brokerCall list) broker, 'a) io \<Rightarrow> bool" where
  "opens m \<longleftrightarrow> (\<forall>b x b'. m b = Some (Inr x, b') \<longrightarrow> unclosed b b')"

lemma opens_ret: "opens (retE x)"
  by (auto simp: opens_def intro: nc.frame_refl)

lemma opens_bind:
  assumes "opens m" and "\<And>x. opens (f x)"
  shows "opens (bindE m f)"
  unfolding opens_def
proof (intro allI impI)
  fix b x b'
  assume "bindE m f b = Some (Inr x, b')"
  then obtain y b1 where "m b = Some (Inr y, b1)" "f y b1 = Some (Inr x, b')" by (auto simp: bindE_Some_Inr)
  with assms have "unclosed b b1" "unclosed b1 b'" unfolding opens_def by blast+
  then show "unclosed b b'" by (rule nc.frame_trans)
qed

lemma opens_orCleanup:
  assumes "keeps unclosed m"
  shows "opens (orCleanup fs h m)"
  unfolding opens_def
proof (intro allI impI)
  fix b x b'
  assume run: "orCleanup fs h m b = Some (Inr x, b')"
  then obtain y b1 where y: "m b = Some (y, b1)" by (auto simp: orCleanup_def bind_attempt)
  with run have "b' = b1" by (cases y) (auto simp: orCleanup_def bind_attempt)
  with keepsD [OF assms y] show "unclosed b b'" by simp
qed

lemma opens_keeps: "keeps unclosed m \<Longrightarrow> opens m"
  unfolding opens_def by (auto dest: keepsD)

lemma opens_NewRabbitmq: "opens (NewRabbitmq (logAmqp a) cfg)"
  unfolding NewRabbitmq_def openRabbitmq_def Let_def
  by (intro opens_ret opens_bind opens_orCleanup unclosed_producer unclosed_exchange unclosed_consumer unclosed_bindConsumer
      opens_keeps [OF unclosed_connection])

text \<open>Opening the broker fails with no connection open.\<close>

lemma NewRabbitmq_fails:
  assumes "NewRabbitmq (logAmqp a) cfg b = Some (Inl e, b')" and "openConns (calls b) = {}"
  shows "openConns (calls b') = {}"
proof -
  from assms(1) consider (stop) "NewRabbitMqConnection (logAmqp a) cfg b = Some (Inl e, b')"
    | (go) b1 where "NewRabbitMqConnection (logAmqp a) cfg b = Some (Inr (), b1)" "openRabbitmq (logAmqp a) cfg b1 = Some (Inl e, b')"
    by (auto simp: NewRabbitmq_def bindE_Some)
  then show ?thesis
  proof cases
    case stop
    from connect_fails [OF stop assms(2)] show ?thesis .
  next
    case go
    have "oneConn b1" by (rule connected_oneConn [OF go(1) assms(2)])
    with openRabbitmq_failsClosed go(2) have "oneConn b'" "bkClosed b'" unfolding failsClosed_def by force+
    then show ?thesis by (rule oneConn_closed)
  qed
qed

context broker_client
begin

lemma telemetryUp_untouched: "telemetryUp p b cfg b1 \<Longrightarrow> untouched b b1"
  by (auto simp: telemetryUp_def dest: keepsD [OF un_telemetry])

lemma up_untouched:
  assumes "databaseUp p b cfg b2"
  shows "untouched b b2"
proof -
  from assms obtain b1 m where "telemetryUp p b cfg b1" and m: "NewMongoDb (pfMongo p) (pfDriver p) (cfMongo cfg) b1 = Some (Inr m, b2)"
    by (auto simp: databaseUp_def)
  from telemetryUp_untouched [OF this(1)] keepsD [OF un_NewMongoDb m] show ?thesis by (rule un.frame_trans)
qed

lemma brokerUp_unclosed: "brokerUp p b cfg b3 \<Longrightarrow> unclosed b b3"
proof -
  assume "brokerUp p b cfg b3"
  then obtain b2 rabbit where b2: "databaseUp p b cfg b2" and "NewRabbitmq (logAmqp a) (cfRabbitMq cfg) b2 = Some (Inr rabbit, b3)"
    by (auto simp: brokerUp_def amqp)
  then have "unclosed b2 b3" using opens_NewRabbitmq unfolding opens_def by blast
  with up_untouched [OF b2] show ?thesis by (simp add: untouched_def unclosed_def)
qed

lemma cacheUp_unclosed: "cacheUp p b cfg b4 \<Longrightarrow> unclosed b b4"
proof -
  assume "cacheUp p b cfg b4"
  then obtain b3 r where b3: "brokerUp p b cfg b3" and r: "NewRedisClient (pfRedis p) (cfRedis cfg) b3 = Some (Inr r, b4)"
    by (auto simp: cacheUp_def)
  from brokerUp_unclosed [OF b3] keepsD [OF un_NewRedis r] show ?thesis by (simp add: unclosed_def untouched_def)
qed

lemma fails_with_broker:
  assumes "failsIn p b b'" and "brokerUp p b cfg b3"
  shows "unclosed b b'"
proof -
  from assms consider x where "NewRedisClient (pfRedis p) (cfRedis cfg) b3 = Some (Inl x, b')" | "cacheUp p b cfg b'"
    unfolding failsIn_def up_defs by auto
  then show ?thesis
  proof cases
    case 1
    from brokerUp_unclosed [OF assms(2)] keepsD [OF un_NewRedis 1] show ?thesis by (simp add: unclosed_def untouched_def)
  qed (rule cacheUp_unclosed)
qed

lemma fails_without_broker:
  assumes "failsIn p b b'" and "\<nexists>cfg b3. brokerUp p b cfg b3" and "calls b = []"
  shows "openConns (calls b') = {}"
proof -
  from assms(1,2) consider "b' = b"
    | cfg :: configs and x where "telemetryInit (pfOtel p) (cfTelemetry cfg) (cfApp cfg) b = Some (Inl x, b')"
    | cfg b1 x where "telemetryUp p b cfg b1" "NewMongoDb (pfMongo p) (pfDriver p) (cfMongo cfg) b1 = Some (Inl x, b')"
    | cfg b2 x where "databaseUp p b cfg b2" "NewRabbitmq (logAmqp a) (cfRabbitMq cfg) b2 = Some (Inl x, b')"
    unfolding failsIn_def cacheUp_def amqp by blast
  then show ?thesis
  proof cases
    case 2
    with keepsD [OF un_telemetry 2] assms(3) show ?thesis by (simp add: untouched_def)
  next
    case 3
    from telemetryUp_untouched [OF 3(1)] keepsD [OF un_NewMongoDb 3(2)] assms(3) show ?thesis by (simp add: untouched_def)
  next
    case 4
    from up_untouched [OF 4(1)] assms(3) have "openConns (calls b2) = {}" by (simp add: untouched_def)
    with 4(2) show ?thesis by (rule NewRabbitmq_fails)
  qed (simp add: assms(3))
qed

end

section \<open>Properties\<close>

text \<open>C16: a start-up that fails, at whichever step, exits with status 1 in the state the failing step left, and
  nothing registered for clean-up is run, because \<open>os.Exit\<close> skips the deferred function: the run is the
  same whatever the shutdown functions of the telemetry do; once the database was opened, whatever
  disconnecting it does; once the cache was opened, whatever closing it does; and once the broker was
  opened, no call has closed a connection to it. A start-up that fails before leaves no broker
  connection open.\<close>

theorem failed_startup_skips_cleanup:
  assumes "broker_client p a" and "calls b = []" and "mainStart p b = Some (Inl e, b')"
  shows "mainRun p b = Some (Inl (ExitCode 1), b') \<and>
    (\<forall>f g. mainRun (otherShutdown f g p) b = Some (Inl (ExitCode 1), b')) \<and>
    ((\<exists>cfg b2. databaseUp p b cfg b2) \<longrightarrow> (\<forall>f. mainRun (otherDisconnect f p) b = Some (Inl (ExitCode 1), b'))) \<and>
    ((\<exists>cfg b4. cacheUp p b cfg b4) \<longrightarrow> (\<forall>f. mainRun (otherCacheClose f p) b = Some (Inl (ExitCode 1), b'))) \<and>
    (if \<exists>cfg b3. brokerUp p b cfg b3 then \<forall>c x. BConnClose c x \<notin> set (calls b') else openConns (calls b') = {})"
proof -
  from assms(3) have f: "failsIn p b b'" by (simp add: mainStart_fails)
  have "\<forall>c x. BConnClose c x \<notin> set (calls b')" if "brokerUp p b cfg b3" for cfg b3
    using broker_client.fails_with_broker [OF assms(1) f that] assms(2) by (auto simp: unclosed_def list_all_iff)
  then show ?thesis
    using mainRun_fails [OF f] mainRun_fails [OF shutdown_same [OF f]] mainRun_fails [OF disconnect_same [OF f]]
      mainRun_fails [OF cacheClose_same [OF f]] broker_client.fails_without_broker [OF assms(1) f _ assms(2)]
    by auto
qed

interpretation fp: broker_client "samplePlatform False" slowBroker
proof unfold_locales
  show "keeps conn_kept (pfServe (samplePlatform False) app router)" for app router
    by (simp add: samplePlatform_def sampleServe_def) (intro bc.keeps_rules kept_Publish bc.keeps_failE)
qed (auto simp: samplePlatform_def sampleOtel_def sampleMongo_def sampleRedis_def keeps_def untouched_def conn_kept_def)

text \<open>The cache does not answer: the broker connection 9, dialed before, is open at the exit, and the exit comes although
  the shutdown functions and the disconnection would never return.\<close>

theorem failed_startup_skips_cleanup_witness:
  "\<exists>b. mainRun (samplePlatform False) (freshBroker 0) = Some (Inl (ExitCode 1), b) \<and>
     mainRun (otherShutdown (\<lambda>_ _. None) (\<lambda>_ _. None) (samplePlatform False)) (freshBroker 0) = Some (Inl (ExitCode 1), b) \<and>
     mainRun (otherDisconnect (\<lambda>_ _. None) (samplePlatform False)) (freshBroker 0) = Some (Inl (ExitCode 1), b) \<and>
     (\<forall>c x. BConnClose c x \<notin> set (calls b)) \<and> openConns (calls b) = {9}"
proof -
  let ?p = "samplePlatform False"
  have "\<exists>tel. telemetryInit (pfOtel ?p) (cfTelemetry sampleConfigs) (cfApp sampleConfigs) (freshBroker 0) = Some (Inr tel, freshBroker 0)"
    by (simp add: telemetryInit_def provider_defs initMetrics_def samplePlatform_def sampleOtel_def bindE_def modE_def)
  then have t: "telemetryUp ?p (freshBroker 0) sampleConfigs (freshBroker 0)" by (simp add: telemetryUp_def samplePlatform_def)
  have "\<exists>m. NewMongoDb (pfMongo ?p) (pfDriver ?p) (cfMongo sampleConfigs) (freshBroker 0) = Some (Inr m, freshBroker 0)"
    by (simp add: NewMongoDb_def NewMdb_def samplePlatform_def sampleMongo_def bindE_def attemptE_def)
  with t have m: "databaseUp ?p (freshBroker 0) sampleConfigs (freshBroker 0)" unfolding databaseUp_def by blast
  obtain ri b where "NewRabbitmq (pfAmqp ?p) (cfRabbitMq sampleConfigs) (freshBroker 0) = Some (Inr ri, b)" and o': "openConns (calls b) = {9}"
    using started_sample by (auto simp: samplePlatform_def sampleConfigs_def)
  with m have r: "brokerUp ?p (freshBroker 0) sampleConfigs b" unfolding brokerUp_def by blast
  have "\<exists>e. NewRedisClient (pfRedis ?p) (cfRedis sampleConfigs) b = Some (Inl e, b)"
    by (simp add: NewRedisClient_def redisPing_def samplePlatform_def sampleRedis_def bindE_def attemptE_def)
  with r have "failsIn ?p (freshBroker 0) b" unfolding failsIn_def by blast
  then have s: "mainStart ?p (freshBroker 0) = Some (Inl (ExitCode 1), b)" by (simp add: mainStart_fails)
  have "\<exists>cfg b2. databaseUp ?p (freshBroker 0) cfg b2" "\<exists>cfg b3. brokerUp ?p (freshBroker 0) cfg b3" using m r by blast+
  moreover have "calls (freshBroker 0) = []" by (simp add: freshBroker_def)
  note failed_startup_skips_cleanup [OF fp.broker_client_axioms this s]
  ultimately show ?thesis using o' by (intro exI [of _ b]) simp
qed

end
