(* ===== verification/Harness.thy ===== *)
theory Harness
  imports Config ErrorText
begin

text \<open>
  \<open>integration_test/helpers/application_starter.go\<close>: how the integration tests build the program, start
  it as a process with an environment of its own, and stop it. The environment is what connects the
  tests with the configuration of the program (\<open>Config\<close>); stopping is a small protocol between the
  function \<open>stop\<close>, the goroutine that waits for the process and the one that loses patience.
\<close>

section \<open>The environment of the process\<close>

record applicationConfig =
  haAppPort :: int
  haClockHost :: string
  haClockPort :: int
  haMongoHost :: string
  haMongoDatabase :: string
  haRabbitHost :: string
  haRabbitPort :: int
  haRedisHost :: string
  haRedisPort :: int
  haCleaningExchange :: string
  haDayExchange :: string
  haHourExchange :: string

text \<open>The map literal, as its entries.\<close>

definition applicationEnv :: "applicationConfig \<Rightarrow> (string \<times> string) list" where
  "applicationEnv cfg =
    [(''SERVICE_NAME'', ''guest-manager''), (''VERSION'', ''integration-test''), (''SERVICE_HOST'', ''127.0.0.1''),
     (''SERVICE_PORT'', intText (haAppPort cfg)), (''CLOCK_EMU_GRPC_HOST'', haClockHost cfg),
     (''CLOCK_EMU_GRPC_PORT'', intText (haClockPort cfg)), (''MONGO_INITDB_ROOT_USERNAME'', ''test_user''),
     (''MONGO_INITDB_ROOT_PASSWORD'', ''test_pass''), (''MONGO_HOST'', haMongoHost cfg),
     (''MONGO_DATABASE'', haMongoDatabase cfg), (''GUEST_COLLECTION'', ''guest''),
     (''COTTAGE_COLLECTION'', ''cottage''), (''BOOKING_COLLECTION'', ''booking''),
     (''RABBITMQ_USERNAME'', ''test_user''), (''RABBITMQ_PASSWORD'', ''test_pass''),
     (''RABBITMQ_HOST'', haRabbitHost cfg), (''RABBITMQ_PORT'', intText (haRabbitPort cfg)),
     (''CLEANING_EXCHANGE_NAME'', haCleaningExchange cfg), (''CLEANING_EXCHANGE_KIND'', ''direct''),
     (''CLEANING_EXCHANGE_DURABLE'', ''false''), (''CLEANING_EXCHANGE_AUTO_DELETE'', ''false''),
     (''CLEANING_PUBLISH_MANDATORY'', ''false''), (''CLEANING_PUBLISH_IMMEDIATE'', ''false''),
     (''HOUR_CHANGE_QUEUE_NAME'', ''integration.hour.queue.'' @ intText (haAppPort cfg)),
     (''HOUR_CHANGE_QUEUE_DURABLE'', ''false''), (''HOUR_CHANGE_QUEUE_AUTO_DELETE'', ''true''),
     (''HOUR_CHANGE_BINDING_EXCHANGE_NAME'', haHourExchange cfg),
     (''HOUR_CHANGE_BINDING_ROUTING_KEY'', ''hour.change''),
     (''HOUR_CHANGE_CONSUME_CONSUMER'', ''integration-hour-consumer-'' @ intText (haAppPort cfg)),
     (''DAY_CHANGE_QUEUE_NAME'', ''integration.day.queue.'' @ intText (haAppPort cfg)),
     (''DAY_CHANGE_QUEUE_DURABLE'', ''false''), (''DAY_CHANGE_QUEUE_AUTO_DELETE'', ''true''),
     (''DAY_CHANGE_BINDING_EXCHANGE_NAME'', haDayExchange cfg), (''DAY_CHANGE_BINDING_ROUTING_KEY'', ''day.change''),
     (''DAY_CHANGE_CONSUME_CONSUMER'', ''integration-day-consumer-'' @ intText (haAppPort cfg)),
     (''REDIS_HOST'', haRedisHost cfg), (''REDIS_PORT'', intText (haRedisPort cfg)),
     (''OTEL_EXPORTER_OTLP_ENDPOINT'', ''127.0.0.1''), (''OTEL_EXPORTER_OTLP_GRPC_PORT'', ''4317''),
     (''OTEL_EXPORTER_OTLP_HEALTH_PORT'', ''13133''), (''OTEL_EXPORTER_OTLP_INSECURE'', ''true'')]"

text \<open>\<open>stringsCut\<close>: the loop up to the first equals sign.\<close>

fun stringsCut :: "string \<Rightarrow> string \<times> string \<times> bool" where
  "stringsCut [] = ([], [], False)"
| "stringsCut (c # cs) = (if c = CHR ''='' then ([], cs, True)
     else case stringsCut cs of (k, v, ok) \<Rightarrow> if ok then (c # k, v, True) else ([], [], False))"

definition envEntry :: "string \<times> string \<Rightarrow> string" where
  "envEntry kv = fst kv @ ''='' @ snd kv"

text \<open>
  The first loop of \<open>envWithOverrides\<close>, over the entries of the environment, returns the result so
  far and the keys seen; the second ranges over the overrides, in any order (their list here).
\<close>

definition overrideStep :: "(string \<times> string) list \<Rightarrow> string \<Rightarrow> string list \<times> string set \<Rightarrow> string list \<times> string set" where
  "overrideStep overrides entry = (\<lambda>(result, seen). case stringsCut entry of (key, _, ok) \<Rightarrow>
     if \<not> ok then (result @ [entry], seen)
     else (result @ [case map_of overrides key of Some override \<Rightarrow> envEntry (key, override) | None \<Rightarrow> entry], insert key seen))"

definition envWithOverrides :: "string list \<Rightarrow> (string \<times> string) list \<Rightarrow> string list" where
  "envWithOverrides baseEnv overrides = (case fold (overrideStep overrides) baseEnv ([], {}) of
     (result, seen) \<Rightarrow> result @ map envEntry (filter (\<lambda>(key, _). key \<notin> seen) overrides))"

text \<open>What a process started with these entries reads (\<open>os/exec\<close>): of several entries of a key, the last.\<close>

definition processEnv :: "string list \<Rightarrow> string \<Rightarrow> string option" where
  "processEnv entries = map_of (rev (List.map_filter (\<lambda>e. case stringsCut e of (k, v, ok) \<Rightarrow> if ok then Some (k, v) else None) entries))"

lemma stringsCut_entry: "CHR ''='' \<notin> set k \<Longrightarrow> stringsCut (envEntry (k, v)) = (k, v, True)"
  by (induction k) (auto simp: envEntry_def)

lemma stringsCut_key: "stringsCut e = (k, v, True) \<Longrightarrow> CHR ''='' \<notin> set k \<and> e = envEntry (k, v)"
  by (induction e arbitrary: k) (auto simp: envEntry_def split: if_splits prod.splits)

lemma processEnv_append: "processEnv (xs @ ys) = processEnv xs ++ processEnv ys"
  by (simp add: processEnv_def map_filter_def)

lemma processEnv_Nil [simp]: "processEnv [] = Map.empty"
  by (simp add: processEnv_def map_filter_def)

lemma processEnv_one: "processEnv [e] = (case stringsCut e of (k, v, ok) \<Rightarrow> if ok then [k \<mapsto> v] else Map.empty)"
  by (simp add: processEnv_def map_filter_def split: prod.splits)

lemma processEnv_entries:
  assumes "list_all (\<lambda>(k, _). CHR ''='' \<notin> set k) kvs"
  shows "processEnv (map envEntry kvs) = map_of (rev kvs)"
proof -
  have "List.map_filter (\<lambda>e. case stringsCut e of (k, v, ok) \<Rightarrow> if ok then Some (k, v) else None) (map envEntry kvs) = kvs"
    using assms by (induction kvs) (auto simp: map_filter_def stringsCut_entry)
  then show ?thesis by (simp add: processEnv_def)
qed

text \<open>The first loop keeps what a process would read, but for the overridden keys it has seen.\<close>

lemma override_loop:
  assumes "list_all (\<lambda>(k, _). CHR ''='' \<notin> set k) ov"
    and "fold (overrideStep ov) es (res0, seen0) = (res, seen)"
  shows "\<exists>added. res = res0 @ added \<and> seen = seen0 \<union> dom (processEnv es) \<and>
    processEnv added = (\<lambda>k. case processEnv es k of None \<Rightarrow> None | Some v \<Rightarrow> (case map_of ov k of Some x \<Rightarrow> Some x | None \<Rightarrow> Some v))"
  using assms(2)
proof (induction es arbitrary: res0 seen0)
  case Nil
  then show ?case by auto
next
  case (Cons e es)
  obtain k v ok where cut: "stringsCut e = (k, v, ok)" by (cases "stringsCut e")
  let ?e = "if ok then (case map_of ov k of Some x \<Rightarrow> envEntry (k, x) | None \<Rightarrow> e) else e"
  have "overrideStep ov e (res0, seen0) = (res0 @ [?e], if ok then insert k seen0 else seen0)"
    by (simp add: overrideStep_def cut)
  with Cons.prems have "fold (overrideStep ov) es (res0 @ [?e], if ok then insert k seen0 else seen0) = (res, seen)" by simp
  from Cons.IH [OF this] obtain added where added: "res = res0 @ ?e # added"
    "seen = (if ok then insert k seen0 else seen0) \<union> dom (processEnv es)"
    "processEnv added = (\<lambda>k. case processEnv es k of None \<Rightarrow> None | Some v \<Rightarrow> (case map_of ov k of Some x \<Rightarrow> Some x | None \<Rightarrow> Some v))"
    by auto
  have e: "processEnv [?e] = (if ok then [k \<mapsto> (case map_of ov k of Some x \<Rightarrow> x | None \<Rightarrow> v)] else Map.empty)"
    using stringsCut_key [of e k v] cut by (auto simp: processEnv_one stringsCut_entry split: option.splits)
  have "processEnv (?e # added) = processEnv [?e] ++ processEnv added" using processEnv_append [of "[?e]" added] by simp
  moreover have "processEnv (e # es) = processEnv [e] ++ processEnv es" using processEnv_append [of "[e]" es] by simp
  ultimately show ?case using added e cut
    by (intro exI [of _ "?e # added"]) (auto simp: processEnv_one map_add_def fun_eq_iff split: option.splits)
qed

text \<open>
  Whatever the environment of the tests holds, duplicates and entries without an equals sign
  included, the process reads every override and else what the tests would read.
\<close>

lemma overrides_win:
  assumes keys: "list_all (\<lambda>(k, _). CHR ''='' \<notin> set k) ov" and "distinct (map fst ov)"
  shows "processEnv (envWithOverrides base ov) = processEnv base ++ map_of ov"
proof -
  obtain res seen where loop: "fold (overrideStep ov) base ([], {}) = (res, seen)" by (metis surj_pair)
  let ?new = "filter (\<lambda>(k, _). k \<notin> seen) ov"
  from override_loop [OF keys loop] have res: "seen = dom (processEnv base)"
    "processEnv res = (\<lambda>k. case processEnv base k of None \<Rightarrow> None | Some v \<Rightarrow> (case map_of ov k of Some x \<Rightarrow> Some x | None \<Rightarrow> Some v))"
    by auto
  have "list_all (\<lambda>(k, _). CHR ''='' \<notin> set k) ?new" using keys by (auto simp: list_all_iff)
  then have "processEnv (map envEntry ?new) = map_of (rev ?new)" by (rule processEnv_entries)
  also have "\<dots> = map_of ?new" using assms(2) by (intro map_of_eqI) (auto simp: map_of_eq_None_iff map_of_eq_Some_iff distinct_map_filter rev_map [symmetric])
  also have "\<dots> = (\<lambda>k. if k \<in> seen then None else map_of ov k)"
    by (induction ov) auto
  finally have "processEnv (map envEntry ?new) = (\<lambda>k. if k \<in> seen then None else map_of ov k)" .
  with res show ?thesis
    by (auto simp: envWithOverrides_def loop processEnv_append map_add_def fun_eq_iff split: option.splits)
qed

text \<open>The keys of the environment of the tests.\<close>

definition emptyApplication :: applicationConfig where
  "emptyApplication = \<lparr>haAppPort = 0, haClockHost = [], haClockPort = 0, haMongoHost = [], haMongoDatabase = [], haRabbitHost = [],
     haRabbitPort = 0, haRedisHost = [], haRedisPort = 0, haCleaningExchange = [], haDayExchange = [], haHourExchange = []\<rparr>"

lemma same_keys: "map fst (applicationEnv cfg) = map fst (applicationEnv emptyApplication)"
  by (simp add: applicationEnv_def)

lemma sample_keys: "list_all (\<lambda>k. CHR ''='' \<notin> set k) (map fst (applicationEnv emptyApplication))"
  "distinct (map fst (applicationEnv emptyApplication))"
  by code_simp+

lemma applicationEnv_keys: "list_all (\<lambda>(k, _). CHR ''='' \<notin> set k) (applicationEnv cfg)" "distinct (map fst (applicationEnv cfg))"
  using sample_keys unfolding same_keys [of cfg, symmetric] by (auto simp: list_all_iff)

definition startedEnv :: "string list \<Rightarrow> applicationConfig \<Rightarrow> string \<Rightarrow> string option" where
  "startedEnv environ cfg = processEnv (envWithOverrides environ (applicationEnv cfg))"

lemma startedEnv_eq: "startedEnv environ cfg = processEnv environ ++ map_of (applicationEnv cfg)"
  unfolding startedEnv_def by (rule overrides_win [OF applicationEnv_keys])

lemma startedEnv_set: "map_of (applicationEnv cfg) n = Some x \<Longrightarrow> startedEnv environ cfg n = Some x"
  by (simp add: startedEnv_eq)

text \<open>Every variable the program requires and has no default for is set.\<close>

lemma required_covered:
  "list_all (\<lambda>(fp, k, t). tagRequired t \<longrightarrow> tagDefault t = None \<longrightarrow> map_of (applicationEnv cfg) (tagName t) \<noteq> None) (envVars [] configsType)"
proof -
  have "list_all (\<lambda>(fp, k, t). tagRequired t \<longrightarrow> tagDefault t = None \<longrightarrow> tagName t \<in> set (map fst (applicationEnv emptyApplication)))
    (envVars [] configsType)" by code_simp
  then show ?thesis unfolding same_keys [of cfg, symmetric] by (simp add: map_of_eq_None_iff)
qed

text \<open>A variable the tests set to a text that converts is read as its value.\<close>

lemma started_var:
  assumes "readsVar conv (startedEnv environ cfg) v (fp, k, t)" and "map_of (applicationEnv cfg) (tagName t) = Some x"
    and "x \<noteq> []" and "conv k x = Some y"
  shows "v fp = y"
  using assms startedEnv_set [OF assms(2), of environ] by (simp add: readsVar_def)

text \<open>The fields the tests decide, with their variables: path, kind, tag, text and value.\<close>

definition testedFields :: "applicationConfig \<Rightarrow> (string list \<times> leafKind \<times> envTag \<times> string \<times> confValue) list" where
  "testedFields cfg = (let req = (\<lambda>n. \<lparr>tagName = n, tagRequired = True, tagDefault = None\<rparr>);
      def = (\<lambda>n d. \<lparr>tagName = n, tagRequired = True, tagDefault = Some d\<rparr>);
      txt = (\<lambda>p t x. (p, KString, t, x, VStr x)); port = (\<lambda>p t n. (p, KInt, t, intText n, VInt n)) in
    [txt [''AppConfig'', ''Server'', ''Host''] (req ''SERVICE_HOST'') ''127.0.0.1'',
     port [''AppConfig'', ''Server'', ''Port''] (req ''SERVICE_PORT'') (haAppPort cfg),
     txt [''Services'', ''ClockSimulator'', ''GrpcHost''] (req ''CLOCK_EMU_GRPC_HOST'') (haClockHost cfg),
     port [''Services'', ''ClockSimulator'', ''GrpcPort''] (req ''CLOCK_EMU_GRPC_PORT'') (haClockPort cfg),
     txt [''MongoConfig'', ''Host''] (req ''MONGO_HOST'') (haMongoHost cfg),
     txt [''MongoConfig'', ''Database''] (req ''MONGO_DATABASE'') (haMongoDatabase cfg),
     txt [''RabbitMqConfig'', ''Host''] (req ''RABBITMQ_HOST'') (haRabbitHost cfg),
     port [''RabbitMqConfig'', ''Port''] (req ''RABBITMQ_PORT'') (haRabbitPort cfg),
     txt [''RabbitMqConfig'', ''Producers'', ''Cleaning'', ''Exchange'', ''Name'']
       (def ''CLEANING_EXCHANGE_NAME'' ''ex.communication'') (haCleaningExchange cfg),
     txt [''RabbitMqConfig'', ''Consumers'', ''HourChange'', ''Queue'', ''Name''] (req ''HOUR_CHANGE_QUEUE_NAME'')
       (''integration.hour.queue.'' @ intText (haAppPort cfg)),
     txt [''RabbitMqConfig'', ''Consumers'', ''DayChange'', ''Queue'', ''Name''] (req ''DAY_CHANGE_QUEUE_NAME'')
       (''integration.day.queue.'' @ intText (haAppPort cfg)),
     txt [''RabbitMqConfig'', ''Consumers'', ''HourChange'', ''Binding'', ''ExchangeName'']
       (req ''HOUR_CHANGE_BINDING_EXCHANGE_NAME'') (haHourExchange cfg),
     txt [''RabbitMqConfig'', ''Consumers'', ''DayChange'', ''Binding'', ''ExchangeName'']
       (req ''DAY_CHANGE_BINDING_EXCHANGE_NAME'') (haDayExchange cfg),
     txt [''RedisConfig'', ''Host''] (def ''REDIS_HOST'' ''localhost'') (haRedisHost cfg),
     port [''RedisConfig'', ''Port''] (def ''REDIS_PORT'' ''6379'') (haRedisPort cfg)])"

lemma testedFields_declared:
  "list_all (\<lambda>(fp, k, t, x, y). (fp, k, t) \<in> set (envVars [] configsType) \<and> map_of (applicationEnv cfg) (tagName t) = Some x)
     (testedFields cfg)"
proof -
  let ?decl = "\<lambda>cfg. map (\<lambda>(fp, k, t, x, y). (fp, k, t)) (testedFields cfg)"
  have "?decl cfg = ?decl emptyApplication" by (simp add: testedFields_def Let_def)
  moreover have "set (?decl emptyApplication) \<subseteq> set (envVars [] configsType)" by code_simp
  ultimately have "set (?decl cfg) \<subseteq> set (envVars [] configsType)" by (simp only:)
  then have "list_all (\<lambda>x. x \<in> set (envVars [] configsType)) (?decl cfg)" by (auto simp: list_all_iff)
  moreover have "list_all (\<lambda>(fp, k, t, x, y). (tagName t, x) \<in> set (applicationEnv cfg)) (testedFields cfg)"
    unfolding testedFields_def applicationEnv_def Let_def list.pred_inject prod.case envTag.simps
    by (intro conjI TrueI list.pred_inject(1)) (rule list.set_intros(1) | rule list.set_intros(2))+
  ultimately show ?thesis by (auto simp: list_all_iff map_of_eq_Some_iff [OF applicationEnv_keys(2)])
qed

text \<open>The texts that must not be empty, and the numbers the library must read back.\<close>

definition usableConfig :: "(leafKind \<Rightarrow> string \<Rightarrow> confValue option) \<Rightarrow> applicationConfig \<Rightarrow> bool" where
  "usableConfig conv cfg \<longleftrightarrow> list_all (\<lambda>(fp, k, t, x, y). x \<noteq> [] \<and> conv k x = Some y) (testedFields cfg)"

text \<open>
  What the tests configure is what the program loads: with a reader of the documented behaviour, and in
  whatever environment the tests themselves run, a configuration that loads has the addresses the tests
  chose for the server, the clock, the database, the broker and the cache, and their exchanges and queues.
\<close>

lemma tests_configure_program:
  assumes parser: "documentedParser conv parse" and usable: "usableConfig conv cfg"
    and load: "LoadConfigs (envParse parse (startedEnv environ cfg)) s = Some (Inr c, s')"
  shows "acHost (cfApp c) = ''127.0.0.1'' \<and> acPort (cfApp c) = haAppPort cfg \<and>
    cfClockSimulator c = (haClockHost cfg, haClockPort cfg) \<and>
    mcHost (cfMongo c) = haMongoHost cfg \<and> mcDatabase (cfMongo c) = haMongoDatabase cfg \<and>
    rmHost (cfRabbitMq c) = haRabbitHost cfg \<and> rmPort (cfRabbitMq c) = haRabbitPort cfg \<and>
    exName (rpExchange (rmCleaning (cfRabbitMq c))) = haCleaningExchange cfg \<and>
    quName (rcQueue (rmHourChange (cfRabbitMq c))) = ''integration.hour.queue.'' @ intText (haAppPort cfg) \<and>
    quName (rcQueue (rmDayChange (cfRabbitMq c))) = ''integration.day.queue.'' @ intText (haAppPort cfg) \<and>
    biExchangeName (rcBinding (rmHourChange (cfRabbitMq c))) = haHourExchange cfg \<and>
    biExchangeName (rcBinding (rmDayChange (cfRabbitMq c))) = haDayExchange cfg \<and>
    rdHost (cfRedis c) = haRedisHost cfg \<and> rdPort (cfRedis c) = haRedisPort cfg"
proof -
  from load have "envParse parse (startedEnv environ cfg) = Inr c" by (simp add: LoadConfigs_def)
  with parser show ?thesis
  proof (rule parsed_var)
    fix v
    assume c: "c = toConfigs v" and v: "\<And>x. x \<in> set (envVars [] configsType) \<Longrightarrow> readsVar conv (startedEnv environ cfg) v x"
    have "v fp = y" if "(fp, k, t, x, y) \<in> set (testedFields cfg)" for fp k t x y
    proof -
      from that testedFields_declared [of cfg] usable
      have "(fp, k, t) \<in> set (envVars [] configsType)" "map_of (applicationEnv cfg) (tagName t) = Some x" "x \<noteq> []" "conv k x = Some y"
        by (auto simp: usableConfig_def list_all_iff)
      with started_var [OF v] show ?thesis by blast
    qed
    then have "list_all (\<lambda>(fp, k, t, x, y). v fp = y) (testedFields cfg)" by (auto simp: list_all_iff)
    then show ?thesis
      by (simp add: testedFields_def Let_def c toConfigs_def toApp_def toMongo_def toRabbitMq_def toProducer_def toConsumer_def)
  qed
qed

text \<open>Programs under test on different ports share no queue, and no program uses one queue for both events.\<close>

lemma intText_inj: "intText a = intText b \<longleftrightarrow> a = b"
proof
  assume eq: "intText a = intText b"
  have minus: "CHR ''-'' # xs \<noteq> decimal n" for xs n using dash_notin_decimal [of n] by (metis list.set_intros(1))
  from eq minus minus [THEN not_sym] show "a = b"
    by (auto simp: intText_def split: if_splits dest: arg_cong [where f = readDecimal])
qed simp

lemma queues_apart:
  "''integration.hour.queue.'' @ intText a = ''integration.hour.queue.'' @ intText b \<longleftrightarrow> a = b"
  "''integration.hour.queue.'' @ intText a \<noteq> ''integration.day.queue.'' @ intText b"
  by (simp_all add: intText_inj)

section \<open>The process\<close>

text \<open>
  \<open>osMkdirTemp\<close> takes a pattern, \<open>osRun\<close> runs a command to its end in a directory, \<open>osStart\<close> starts one
  with an environment and returns its process number.
\<close>

record 's osLib =
  osMkdirTemp :: "string \<Rightarrow> ('s, string) io"
  osRemoveAll :: "string \<Rightarrow> ('s, unit) io"
  osRun :: "string \<Rightarrow> string list \<Rightarrow> ('s, unit) io"
  osStart :: "string \<Rightarrow> string \<Rightarrow> string list \<Rightarrow> ('s, int) io"

abbreviation projectDir :: string where "projectDir \<equiv> ''/home/kenjiuema/Documents/projects/guestManager''"

text \<open>Returns the path of the binary and the directory its cleanup removes.\<close>

definition buildApplicationBinary :: "'s osLib \<Rightarrow> ('s, string \<times> string) io" where
  "buildApplicationBinary os = bindE (osMkdirTemp os ''guestmanager-integration-*'') (\<lambda>tempDir.
     let binPath = tempDir @ ''/guest-manager-under-test'' in
     bindE (attemptE (osRun os projectDir [''go'', ''build'', ''-o'', binPath, ''./internal''])) (\<lambda>r. case r of
       Inl err \<Rightarrow> bindE (attemptE (osRemoveAll os tempDir)) (\<lambda>_. failE err)
     | Inr _ \<Rightarrow> retE (binPath, tempDir)))"

text \<open>
  \<open>ApplicationStart\<close> up to its return. A build or a start that fails is sent on the channel; a process that
  was started goes on in the protocol below.
\<close>

datatype appStart = BuildFailed gerr | StartFailed gerr string | Started int string

definition ApplicationStart :: "'s osLib \<Rightarrow> string list \<Rightarrow> applicationConfig \<Rightarrow> ('s, appStart) io" where
  "ApplicationStart os environ cfg = bindE (attemptE (buildApplicationBinary os)) (\<lambda>r. case r of
     Inl err \<Rightarrow> retE (BuildFailed err)
   | Inr (binPath, tempDir) \<Rightarrow>
       bindE (attemptE (osStart os projectDir binPath (envWithOverrides environ (applicationEnv cfg)))) (\<lambda>r2. case r2 of
         Inl err \<Rightarrow> bindE (attemptE (osRemoveAll os tempDir)) (\<lambda>_. retE (StartFailed err tempDir))
       | Inr pid \<Rightarrow> retE (Started pid tempDir)))"

text \<open>\<open>isExpectedStopError\<close>: the first exit error in the tree has a negative code, which is a signal; \<open>ec\<close> is the
  code of an error that is an \<open>*exec.ExitError\<close>.\<close>

definition isExpectedStopError :: "(gerr \<Rightarrow> int option) \<Rightarrow> gerr option \<Rightarrow> bool" where
  "isExpectedStopError ec err = (case err of None \<Rightarrow> False
   | Some e \<Rightarrow> (case errorsAs (\<lambda>x. ec x \<noteq> None) e of None \<Rightarrow> False | Some x \<Rightarrow> the (ec x) < 0))"

text \<open>What the waiting goroutine sends when the process has ended with \<open>err\<close>.\<close>

definition reportedErr :: "(gerr \<Rightarrow> int option) \<Rightarrow> bool \<Rightarrow> bool \<Rightarrow> gerr option \<Rightarrow> gerr option" where
  "reportedErr ec stopClosed ctxDone err =
     (if stopClosed \<and> (err = None \<or> isExpectedStopError ec err) then None
      else if ctxDone \<and> isExpectedStopError ec err then None else err)"

datatype signal = SIGTERM | SIGKILL

datatype patience = NoTimer | TimerRuns | TimerDone

record appRun =
  arStopRequested :: bool
  arCancelled :: bool
  arSignals :: "signal list"
  arTimer :: patience
  arExited :: "gerr option option"
  arRunErr :: "gerr option list"
  arCleaned :: bool
  arWaitDone :: bool

definition newAppRun :: appRun where
  "newAppRun = \<lparr>arStopRequested = False, arCancelled = False, arSignals = [], arTimer = NoTimer, arExited = None,
     arRunErr = [], arCleaned = False, arWaitDone = False\<rparr>"

text \<open>
  The steps: of \<open>stop\<close>, which runs once, of the process, of the goroutine that waits for it, with its
  deferred calls, and of the goroutine with the timer, whose \<open>select\<close> may take either of two ready cases.
\<close>

inductive appStep :: "(gerr \<Rightarrow> int option) \<Rightarrow> appRun \<Rightarrow> appRun \<Rightarrow> bool" for ec where
  stop_closes: "\<not> arStopRequested r \<Longrightarrow> appStep ec r (r\<lparr>arStopRequested := True\<rparr>)"
| stop_cancels: "arStopRequested r \<Longrightarrow> \<not> arCancelled r \<Longrightarrow> appStep ec r (r\<lparr>arCancelled := True\<rparr>)"
| stop_signals: "arCancelled r \<Longrightarrow> arTimer r = NoTimer \<Longrightarrow>
    appStep ec r (r\<lparr>arSignals := arSignals r @ [SIGTERM], arTimer := TimerRuns\<rparr>)"
| process_exits: "arExited r = None \<Longrightarrow> appStep ec r (r\<lparr>arExited := Some err\<rparr>)"
| waiter_reports: "arExited r = Some err \<Longrightarrow> arRunErr r = [] \<Longrightarrow>
    appStep ec r (r\<lparr>arRunErr := [reportedErr ec (arStopRequested r) (arCancelled r) err]\<rparr>)"
| waiter_cleans: "arRunErr r \<noteq> [] \<Longrightarrow> \<not> arCleaned r \<Longrightarrow> appStep ec r (r\<lparr>arCleaned := True\<rparr>)"
| waiter_done: "arCleaned r \<Longrightarrow> \<not> arWaitDone r \<Longrightarrow> appStep ec r (r\<lparr>arWaitDone := True\<rparr>)"
| timer_stops: "arTimer r = TimerRuns \<Longrightarrow> arWaitDone r \<Longrightarrow> appStep ec r (r\<lparr>arTimer := TimerDone\<rparr>)"
| timer_kills: "arTimer r = TimerRuns \<Longrightarrow> appStep ec r (r\<lparr>arSignals := arSignals r @ [SIGKILL], arTimer := TimerDone\<rparr>)"

inductive_cases appStepE: "appStep ec r r'"

definition runOk :: "(gerr \<Rightarrow> int option) \<Rightarrow> appRun \<Rightarrow> bool" where
  "runOk ec r \<longleftrightarrow>
     (arCancelled r \<longrightarrow> arStopRequested r) \<and>
     (case arTimer r of NoTimer \<Rightarrow> arSignals r = [] | TimerRuns \<Rightarrow> arCancelled r \<and> arSignals r = [SIGTERM]
      | TimerDone \<Rightarrow> arCancelled r \<and> (arSignals r = [SIGTERM, SIGKILL] \<or> arSignals r = [SIGTERM] \<and> arWaitDone r)) \<and>
     (arWaitDone r \<longrightarrow> arCleaned r) \<and> (arCleaned r \<longrightarrow> arRunErr r \<noteq> []) \<and>
     (arRunErr r \<noteq> [] \<longrightarrow> (\<exists>err sent. arExited r = Some err \<and> arRunErr r = [sent] \<and>
        (sent = err \<or> sent = None \<and> arStopRequested r \<and> isExpectedStopError ec err)))"

lemma runOk_step: "appStep ec r r' \<Longrightarrow> runOk ec r \<Longrightarrow> runOk ec r'"
  by (erule appStepE) (auto simp: runOk_def reportedErr_def split: patience.splits)

lemma runOk_reachable: "(appStep ec)\<^sup>*\<^sup>* newAppRun r \<Longrightarrow> runOk ec r"
proof (induction rule: rtranclp_induct)
  case base
  show ?case by (simp add: runOk_def newAppRun_def)
next
  case (step r r')
  then show ?case by (blast intro: runOk_step)
qed

text \<open>
  However the goroutines interleave: the outcome of the process is sent at most once (so the buffered
  channel never blocks the goroutine) and it is the process's own, except that a program which was asked to
  stop and died by a signal counts as stopped; a program nobody asked to stop gets no signal, and the
  second signal is only ever the last resort after the first.
\<close>

lemma run_reported_truthfully:
  assumes "(appStep ec)\<^sup>*\<^sup>* newAppRun r"
  shows "length (arRunErr r) \<le> 1" and "\<not> arStopRequested r \<Longrightarrow> arSignals r = []"
    and "prefix (arSignals r) [SIGTERM, SIGKILL]"
    and "sent \<in> set (arRunErr r) \<Longrightarrow> \<exists>err. arExited r = Some err \<and>
      (sent = err \<or> sent = None \<and> arStopRequested r \<and> isExpectedStopError ec err)"
  using runOk_reachable [OF assms] by (auto simp: runOk_def split: patience.splits)

end
