(* ===== verification/Containers.thy ===== *)
theory Containers
  imports Harness
begin

text \<open>
  \<open>integration_test/helpers\<close>: the containers the integration tests start and close again
  (\<open>start_containers.go\<close>), the fixtures they seed (\<open>mongo_seed_helper.go\<close>), the requests they send
  (\<open>http_helper.go\<close>). The container library, the driver and the file system are parameters. What the
  lemmas show is which containers are let go of, on every path.
\<close>

section \<open>Starting containers\<close>

datatype containerImage = MongoLatest | Rabbit313 | Redis72

text \<open>\<open>clRun\<close> starts an image with the options of the code and waits for it; ports are the mapped ones.\<close>

record 's containerLib =
  clRun :: "containerImage \<Rightarrow> ('s, handle) io"
  clHost :: "handle \<Rightarrow> ('s, string) io"
  clMappedPort :: "handle \<Rightarrow> string \<Rightarrow> ('s, int) io"
  clTerminate :: "handle \<Rightarrow> ('s, unit) io"

text \<open>The clock of the tests in nanoseconds, and the \<open>select\<close> of a context and a timer: an error is \<open>ctx.Err()\<close>.\<close>

record 's waitLib =
  wlConnect :: "string \<Rightarrow> int \<Rightarrow> ('s, handle) io"
  wlPing :: "handle \<Rightarrow> int \<Rightarrow> ('s, unit) io"
  wlDisconnect :: "handle \<Rightarrow> ('s, unit) io"
  wlNow :: "'s \<Rightarrow> int"
  wlSleep :: "int \<Rightarrow> ('s, unit) io"

text \<open>The temporary directory of the process and its variable \<open>TMPDIR\<close>.\<close>

record 's tmpLib =
  tlUserCacheDir :: "('s, string) io"
  tlMkdirAll :: "string \<Rightarrow> ('s, unit) io"
  tlMkdirTemp :: "string \<Rightarrow> string \<Rightarrow> ('s, string) io"
  tlLookupEnv :: "string \<Rightarrow> 's \<Rightarrow> string option"
  tlSetenv :: "string \<Rightarrow> string \<Rightarrow> ('s, unit) io"
  tlUnsetenv :: "string \<Rightarrow> ('s, unit) io"
  tlRemoveAll :: "string \<Rightarrow> ('s, unit) io"

text \<open>A call whose error is dropped.\<close>

definition ignoreE :: "('s, unit) io \<Rightarrow> ('s, unit) io" where
  "ignoreE m = bindE (attemptE m) (\<lambda>_. retE ())"

text \<open>One round: connect, ping with its own limit, disconnect; give up after the deadline or when the context ends.\<close>

definition authRound :: "'s waitLib \<Rightarrow> string \<Rightarrow> int \<Rightarrow> ('s, gerr, unit option) eff" where
  "authRound w uri deadline =
     bindE (attemptE (bindE (wlConnect w uri (2 * nsPerSec)) (\<lambda>client.
       bindE (attemptE (wlPing w client (2 * nsPerSec))) (\<lambda>p. thenE (ignoreE (wlDisconnect w client)) (liftE p))))) (\<lambda>r. case r of
       Inr _ \<Rightarrow> retE (Some ())
     | Inl err \<Rightarrow> (\<lambda>s. if wlNow w s > deadline then Some (Inl (Wrapf ''wait for mongo auth readiness: %w'' [] err), s)
         else bindE (mapErrE (Wrapf ''wait for mongo auth readiness: %w'' []) (wlSleep w (nsPerSec div 2))) (\<lambda>_. retE None) s))"

definition waitForMongoAuth :: "'s waitLib \<Rightarrow> string \<Rightarrow> ('s, unit) io" where
  "waitForMongoAuth w host = (\<lambda>s. loopE (authRound w (''mongodb://test_user:test_pass@'' @ host) (wlNow w s + 30 * nsPerSec)) s)"

definition startMongoContainer :: "'s containerLib \<Rightarrow> 's waitLib \<Rightarrow> ('s, handle \<times> string) io" where
  "startMongoContainer cl w =
     bindE (mapErrE (Wrapf ''start mongo container: %w'' []) (clRun cl MongoLatest)) (\<lambda>container.
     bindE (mapErrE (Wrapf ''resolve mongo host: %w'' []) (clHost cl container)) (\<lambda>hostName.
     bindE (mapErrE (Wrapf ''resolve mongo port: %w'' []) (clMappedPort cl container ''27017/tcp'')) (\<lambda>mappedPort.
     let host = hostName @ '':'' @ intText mappedPort @ ''/?directConnection=true'' in
     thenE (waitForMongoAuth w host) (retE (container, host)))))"

text \<open>\<open>useProjectTempDir\<close> returns the function that restores the variable and removes the directory.\<close>

definition useProjectTempDir :: "'s tmpLib \<Rightarrow> ('s, ('s, unit) io) io" where
  "useProjectTempDir t = bindE (tlUserCacheDir t) (\<lambda>cache.
     let tempRoot = cache @ ''/guestmanager-testcontainers'' in
     thenE (tlMkdirAll t tempRoot)
     (bindE (tlMkdirTemp t tempRoot ''rabbitmq-*'') (\<lambda>tempDir s.
       let previous = tlLookupEnv t ''TMPDIR'' s in
       bindE (attemptE (tlSetenv t ''TMPDIR'' tempDir)) (\<lambda>r. case r of
         Inl err \<Rightarrow> thenE (ignoreE (tlRemoveAll t tempDir)) (failE err)
       | Inr _ \<Rightarrow> retE (thenE (ignoreE (case previous of Some dir \<Rightarrow> tlSetenv t ''TMPDIR'' dir | None \<Rightarrow> tlUnsetenv t ''TMPDIR''))
           (ignoreE (tlRemoveAll t tempDir)))) s)))"

text \<open>\<open>deferE m d\<close>: \<open>defer d()\<close> before the rest \<open>m\<close> of a function.\<close>

definition deferE :: "('s, 'a) io \<Rightarrow> ('s, unit) io \<Rightarrow> ('s, 'a) io" where
  "deferE m d = bindE (attemptE m) (\<lambda>r. thenE d (liftE r))"

definition startRabbitContainer :: "'s containerLib \<Rightarrow> 's tmpLib \<Rightarrow> ('s, handle \<times> string \<times> int) io" where
  "startRabbitContainer cl t =
     bindE (mapErrE (Wrapf ''prepare rabbitmq temp dir: %w'' []) (useProjectTempDir t)) (\<lambda>restoreTmpDir. deferE
       (bindE (mapErrE (Wrapf ''start rabbitmq container: %w'' []) (clRun cl Rabbit313)) (\<lambda>container.
        bindE (mapErrE (Wrapf ''resolve rabbitmq host: %w'' []) (clHost cl container)) (\<lambda>host.
        bindE (mapErrE (Wrapf ''resolve rabbitmq port: %w'' []) (clMappedPort cl container ''5672/tcp'')) (\<lambda>mappedPort.
        retE (container, host, mappedPort))))) restoreTmpDir)"

definition startRedisContainer :: "'s containerLib \<Rightarrow> ('s, handle \<times> string \<times> int) io" where
  "startRedisContainer cl =
     bindE (mapErrE (Wrapf ''start redis container: %w'' []) (clRun cl Redis72)) (\<lambda>container.
     bindE (mapErrE (Wrapf ''resolve redis host: %w'' []) (clHost cl container)) (\<lambda>host.
     bindE (mapErrE (Wrapf ''resolve redis port: %w'' []) (clMappedPort cl container ''6379/tcp'')) (\<lambda>mappedPort.
     retE (container, host, mappedPort))))"

record containers =
  coMongo :: "handle option"
  coRabbit :: "handle option"
  coRedis :: "handle option"
  coMongoHost :: string
  coRabbitHost :: string
  coRabbitPort :: int
  coRedisHost :: string
  coRedisPort :: int

text \<open>\<open>if err != nil\<close>, terminate some containers, return the error.\<close>

definition orTerminate :: "'s containerLib \<Rightarrow> handle list \<Rightarrow> ('s, 'a) io \<Rightarrow> ('s, 'a) io" where
  "orTerminate cl hs m = bindE (attemptE m) (\<lambda>r. case r of
     Inl err \<Rightarrow> thenE (foldr (\<lambda>h rest. thenE (ignoreE (clTerminate cl h)) rest) hs (retE ())) (failE err)
   | Inr x \<Rightarrow> retE x)"

definition StartContainers :: "'s containerLib \<Rightarrow> 's waitLib \<Rightarrow> 's tmpLib \<Rightarrow> ('s, containers) io" where
  "StartContainers cl w t =
     bindE (startMongoContainer cl w) (\<lambda>(mongo, mongoHost).
     bindE (orTerminate cl [mongo] (startRabbitContainer cl t)) (\<lambda>(rabbit, rabbitHost, rabbitPort).
     bindE (orTerminate cl [rabbit, mongo] (startRedisContainer cl)) (\<lambda>(redis, redisHost, redisPort).
     retE \<lparr>coMongo = Some mongo, coRabbit = Some rabbit, coRedis = Some redis, coMongoHost = mongoHost,
       coRabbitHost = rabbitHost, coRabbitPort = rabbitPort, coRedisHost = redisHost, coRedisPort = redisPort\<rparr>)))"

text \<open>One step of \<open>Close\<close>: the error so far is printed in the next one, not wrapped.\<close>

definition closeStep :: "'s containerLib \<Rightarrow> string \<Rightarrow> handle option \<Rightarrow> gerr option \<Rightarrow> ('s, gerr option) io" where
  "closeStep cl what h closeErr = (case h of None \<Rightarrow> retE closeErr
   | Some c \<Rightarrow> bindE (attemptE (clTerminate cl c)) (\<lambda>r. retE (case r of Inr _ \<Rightarrow> closeErr
       | Inl err \<Rightarrow> Some (case closeErr of
           Some e \<Rightarrow> WrapV (''%v; terminate '' @ what @ '' container: %w'') [] err e
         | None \<Rightarrow> Wrapf (''terminate '' @ what @ '' container: %w'') [] err))))"

definition containersClose :: "'s containerLib \<Rightarrow> containers \<Rightarrow> ('s, unit) io" where
  "containersClose cl c = bindE (closeStep cl ''redis'' (coRedis c) None) (\<lambda>e1.
     bindE (closeStep cl ''rabbitmq'' (coRabbit c) e1) (\<lambda>e2.
     bindE (closeStep cl ''mongo'' (coMongo c) e2) (\<lambda>e3. case e3 of None \<Rightarrow> retE () | Some e \<Rightarrow> failE e)))"

section \<open>Waiting for the database\<close>

text \<open>
  With a timer that does not fire early and a clock that does not run back, the wait ends: each round
  takes at least half a second and none starts more than thirty seconds after the first.
\<close>

definition fairClock :: "'s waitLib \<Rightarrow> bool" where
  "fairClock w \<longleftrightarrow>
     (\<forall>uri d s. \<exists>r s'. wlConnect w uri d s = Some (r, s') \<and> wlNow w s \<le> wlNow w s') \<and>
     (\<forall>c d s. \<exists>r s'. wlPing w c d s = Some (r, s') \<and> wlNow w s \<le> wlNow w s') \<and>
     (\<forall>c s. \<exists>r s'. wlDisconnect w c s = Some (r, s') \<and> wlNow w s \<le> wlNow w s') \<and>
     (\<forall>d s. \<exists>r s'. wlSleep w d s = Some (r, s') \<and> wlNow w s \<le> wlNow w s' \<and> (\<forall>u. r = Inr u \<longrightarrow> wlNow w s + d \<le> wlNow w s'))"

lemma authRound_progress:
  assumes "fairClock w"
  shows "\<exists>r s'. authRound w uri deadline s = Some (r, s') \<and>
    (r = Inr None \<longrightarrow> wlNow w s \<le> deadline \<and> wlNow w s + nsPerSec div 2 \<le> wlNow w s')"
proof -
  let ?attempt = "bindE (wlConnect w uri (2 * nsPerSec)) (\<lambda>client.
       bindE (attemptE (wlPing w client (2 * nsPerSec))) (\<lambda>p. thenE (ignoreE (wlDisconnect w client)) (liftE p)))"
  obtain c s1 where c: "wlConnect w uri (2 * nsPerSec) s = Some (c, s1)" "wlNow w s \<le> wlNow w s1"
    using assms unfolding fairClock_def by blast
  have "\<exists>r s2. ?attempt s = Some (r, s2) \<and> wlNow w s \<le> wlNow w s2"
  proof (cases c)
    case (Inl e)
    with c show ?thesis by simp
  next
    case (Inr client)
    obtain p s2 where p: "wlPing w client (2 * nsPerSec) s1 = Some (p, s2)" "wlNow w s1 \<le> wlNow w s2"
      using assms unfolding fairClock_def by blast
    obtain d s3 where d: "wlDisconnect w client s2 = Some (d, s3)" "wlNow w s2 \<le> wlNow w s3"
      using assms unfolding fairClock_def by blast
    from c p d Inr show ?thesis by (simp add: ignoreE_def)
  qed
  then obtain r s2 where r: "?attempt s = Some (r, s2)" "wlNow w s \<le> wlNow w s2" by blast
  obtain z s3 where z: "wlSleep w (nsPerSec div 2) s2 = Some (z, s3)" "wlNow w s2 \<le> wlNow w s3"
    "\<forall>u. z = Inr u \<longrightarrow> wlNow w s2 + nsPerSec div 2 \<le> wlNow w s3"
    using assms unfolding fairClock_def by blast
  from r z show ?thesis
    by (cases r; cases z) (auto simp: authRound_def mapErrE_def)
qed

lemma waitForMongoAuth_ends:
  assumes "fairClock w"
  shows "\<exists>r s'. waitForMongoAuth w host s = Some (r, s')"
proof -
  define deadline where "deadline = wlNow w s + 30 * nsPerSec"
  define body where "body = authRound w (''mongodb://test_user:test_pass@'' @ host) deadline"
  have "\<exists>r s'. loopE body t = Some (r, s')" for t
  proof (induction "nat (deadline + nsPerSec div 2 - wlNow w t)" arbitrary: t rule: less_induct)
    case less
    obtain r s1 where r: "body t = Some (r, s1)"
      "r = Inr None \<longrightarrow> wlNow w t \<le> deadline \<and> wlNow w t + nsPerSec div 2 \<le> wlNow w s1"
      using authRound_progress [OF assms] unfolding body_def by blast
    show ?case
    proof (cases "r = Inr None")
      case True
      with r have "nat (deadline + nsPerSec div 2 - wlNow w s1) < nat (deadline + nsPerSec div 2 - wlNow w t)"
        by (simp add: nsPerSec_def)
      from less [OF this] loopE_again [of body t s1] r(1) True show ?thesis by (simp add: again_def)
    next
      case False
      with r(1) have "stops body t (map_sum id the r) s1" by (cases r) (auto simp: stops_def)
      then show ?thesis by (blast dest: loopE_stops)
    qed
  qed
  then show ?thesis by (simp add: waitForMongoAuth_def body_def deadline_def)
qed

section \<open>Which containers are let go of\<close>

text \<open>The library with a list, in front of its state, of the containers that run and were not terminated.\<close>

definition tracked :: "'s containerLib \<Rightarrow> (handle list \<times> 's) containerLib" where
  "tracked cl = \<lparr>
     clRun = (\<lambda>i (l, s). case clRun cl i s of None \<Rightarrow> None
       | Some (r, s') \<Rightarrow> Some (r, (case r of Inl _ \<Rightarrow> l | Inr h \<Rightarrow> l @ [h], s'))),
     clHost = (\<lambda>h. onSnd (clHost cl h)),
     clMappedPort = (\<lambda>h p. onSnd (clMappedPort cl h p)),
     clTerminate = (\<lambda>h (l, s). case clTerminate cl h s of None \<Rightarrow> None | Some (r, s') \<Rightarrow> Some (r, (remove1 h l, s')))\<rparr>"

definition besideWait :: "'s waitLib \<Rightarrow> ('p \<times> 's) waitLib" where
  "besideWait w = \<lparr>wlConnect = (\<lambda>u d. onSnd (wlConnect w u d)), wlPing = (\<lambda>c d. onSnd (wlPing w c d)),
     wlDisconnect = (\<lambda>c. onSnd (wlDisconnect w c)), wlNow = (\<lambda>(p, s). wlNow w s), wlSleep = (\<lambda>d. onSnd (wlSleep w d))\<rparr>"

definition besideTmp :: "'s tmpLib \<Rightarrow> ('p \<times> 's) tmpLib" where
  "besideTmp t = \<lparr>tlUserCacheDir = onSnd (tlUserCacheDir t), tlMkdirAll = (\<lambda>d. onSnd (tlMkdirAll t d)),
     tlMkdirTemp = (\<lambda>d p. onSnd (tlMkdirTemp t d p)), tlLookupEnv = (\<lambda>k (p, s). tlLookupEnv t k s),
     tlSetenv = (\<lambda>k v. onSnd (tlSetenv t k v)), tlUnsetenv = (\<lambda>k. onSnd (tlUnsetenv t k)),
     tlRemoveAll = (\<lambda>d. onSnd (tlRemoveAll t d))\<rparr>"

lemma besideWait_sel [simp]:
  "wlConnect (besideWait w) u d = onSnd (wlConnect w u d)" "wlPing (besideWait w) c d = onSnd (wlPing w c d)"
  "wlDisconnect (besideWait w) c = onSnd (wlDisconnect w c)" "wlSleep (besideWait w) d = onSnd (wlSleep w d)"
  by (simp_all add: besideWait_def)

lemma besideTmp_sel [simp]:
  "tlUserCacheDir (besideTmp t) = onSnd (tlUserCacheDir t)" "tlMkdirAll (besideTmp t) d = onSnd (tlMkdirAll t d)"
  "tlMkdirTemp (besideTmp t) d p = onSnd (tlMkdirTemp t d p)" "tlSetenv (besideTmp t) k v = onSnd (tlSetenv t k v)"
  "tlUnsetenv (besideTmp t) k = onSnd (tlUnsetenv t k)" "tlRemoveAll (besideTmp t) d = onSnd (tlRemoveAll t d)"
  by (simp_all add: besideTmp_def)

lemma tracked_sel [simp]:
  "clHost (tracked cl) h = onSnd (clHost cl h)" "clMappedPort (tracked cl) h p = onSnd (clMappedPort cl h p)"
  by (simp_all add: tracked_def)

text \<open>Everything but starting and terminating keeps the list.\<close>

definition sameFirst :: "'p \<times> 's \<Rightarrow> 'p \<times> 's \<Rightarrow> bool" where
  "sameFirst a b \<longleftrightarrow> fst a = fst b"

interpretation sf: frame sameFirst
  by unfold_locales (auto simp: sameFirst_def)

lemma keeps_onSnd: "keeps sameFirst (onSnd m)"
  by (rule keepsI) (auto simp: sameFirst_def onSnd_Some)

lemmas keeps_list = sf.keeps_rules keeps_onSnd

lemma keeps_state: "(\<And>x. keeps R (m x)) \<Longrightarrow> keeps R (\<lambda>s. m (f s) s)"
  by (auto simp: keeps_def)

lemma keeps_ignoreE: "keeps sameFirst (ignoreE (onSnd m))"
  unfolding ignoreE_def by (intro keeps_list)

lemma keeps_authRound: "keeps sameFirst (authRound (besideWait w) uri deadline)"
proof -
  let ?sleep = "bindE (mapErrE (Wrapf ''wait for mongo auth readiness: %w'' []) (onSnd (wlSleep w (nsPerSec div 2)))) (\<lambda>_. retE None)"
  have sleep: "keeps sameFirst ?sleep" by (intro keeps_list)
  have give: "keeps sameFirst (\<lambda>s. if wlNow (besideWait w) s > deadline
      then Some (Inl (Wrapf ''wait for mongo auth readiness: %w'' [] err), s) else ?sleep s)" for err
    by (rule keepsI) (auto simp: sf.frame_refl dest: keepsD [OF sleep] split: if_splits simp del: split_paired_All)
  show ?thesis unfolding authRound_def besideWait_sel by (intro keeps_list keeps_ignoreE give)
qed

lemma keeps_waitForMongoAuth: "keeps sameFirst (waitForMongoAuth (besideWait w) host)"
  unfolding waitForMongoAuth_def
  by (rule keeps_state [where f = "wlNow (besideWait w)"]) (rule sf.keeps_loopE [OF keeps_authRound])

text \<open>A step that starts one container: on success it runs beside the others, on an error it may.\<close>

definition startsOne :: "(handle list \<times> 's, 'a) io \<Rightarrow> ('a \<Rightarrow> handle) \<Rightarrow> bool" where
  "startsOne m h \<longleftrightarrow> (\<forall>l s r l' s'. m (l, s) = Some (r, (l', s')) \<longrightarrow>
     (case r of Inr x \<Rightarrow> l' = l @ [h x] | Inl _ \<Rightarrow> l' = l \<or> (\<exists>c. l' = l @ [c])))"

lemma startsOne_run:
  assumes "\<And>c. keeps sameFirst (f c)" and "\<And>c l s x t. f c (l, s) = Some (Inr x, t) \<Longrightarrow> h x = c"
  shows "startsOne (bindE (mapErrE g (clRun (tracked cl) i)) f) h"
proof -
  have step: "(case r of Inr x \<Rightarrow> l' = l @ [h x] | Inl _ \<Rightarrow> l' = l \<or> (\<exists>c. l' = l @ [c]))"
    if run: "bindE (mapErrE g (clRun (tracked cl) i)) f (l, s) = Some (r, (l', s'))" for l s r l' s'
  proof (cases "clRun cl i s")
    case None
    with run show ?thesis by (simp add: tracked_def bindE_def mapErrE_def)
  next
    case (Some y)
    obtain z s1 where y: "y = (z, s1)" by (cases y)
    show ?thesis
    proof (cases z)
      case (Inl e)
      with run Some y show ?thesis by (auto simp: tracked_def bindE_def mapErrE_def)
    next
      case (Inr c)
      with run Some y have f: "f c (l @ [c], s1) = Some (r, (l', s'))" by (simp add: tracked_def bindE_def mapErrE_def)
      from keepsD [OF assms(1) f] assms(2) [of c "l @ [c]" s1] f show ?thesis
        by (auto simp: sameFirst_def split: sum.splits)
    qed
  qed
  then show ?thesis unfolding startsOne_def by blast
qed

lemma startsOne_mongo: "startsOne (startMongoContainer (tracked cl) (besideWait w)) fst"
  unfolding startMongoContainer_def Let_def
proof (rule startsOne_run)
  show "keeps sameFirst (bindE (mapErrE (Wrapf ''resolve mongo host: %w'' []) (clHost (tracked cl) c)) (\<lambda>hostName.
      bindE (mapErrE (Wrapf ''resolve mongo port: %w'' []) (clMappedPort (tracked cl) c ''27017/tcp'')) (\<lambda>mappedPort.
      thenE (waitForMongoAuth (besideWait w) (hostName @ '':'' @ intText mappedPort @ ''/?directConnection=true''))
        (retE (c, hostName @ '':'' @ intText mappedPort @ ''/?directConnection=true'')))))" for c
    by (simp, intro keeps_list keeps_waitForMongoAuth)
qed (auto simp: eff_inv)

lemma startsOne_redis: "startsOne (startRedisContainer (tracked cl)) fst"
  unfolding startRedisContainer_def
proof (rule startsOne_run)
  show "keeps sameFirst (bindE (mapErrE (Wrapf ''resolve redis host: %w'' []) (clHost (tracked cl) c)) (\<lambda>host.
      bindE (mapErrE (Wrapf ''resolve redis port: %w'' []) (clMappedPort (tracked cl) c ''6379/tcp'')) (\<lambda>mappedPort.
      retE (c, host, mappedPort))))" for c
    by (simp, intro keeps_list)
qed (auto simp: eff_inv)

lemma keeps_useProjectTempDir: "keeps sameFirst (useProjectTempDir (besideTmp t))"
proof -
  have inner: "keeps sameFirst (\<lambda>s. bindE (attemptE (onSnd m)) (\<lambda>r. case r of
      Inl err \<Rightarrow> thenE (ignoreE (onSnd n)) (failE err) | Inr _ \<Rightarrow> retE (f s)) s)" for m n f
    by (rule keeps_state [where f = f]) (intro keeps_list keeps_ignoreE)
  show ?thesis unfolding useProjectTempDir_def Let_def besideTmp_sel by (intro keeps_list inner)
qed

lemma useProjectTempDir_restore:
  assumes "useProjectTempDir t s = Some (Inr restore, s')"
  obtains d x where "restore = thenE (ignoreE (case x of Some dir \<Rightarrow> tlSetenv t ''TMPDIR'' dir
      | None \<Rightarrow> tlUnsetenv t ''TMPDIR'')) (ignoreE (tlRemoveAll t d))"
proof -
  have no_case: "\<forall>e. z \<noteq> Inl e \<Longrightarrow> z \<noteq> Inr () \<Longrightarrow> False" for z :: "gerr + unit" by (cases z) auto
  from assms that show ?thesis
    by (auto simp: useProjectTempDir_def eff_inv Let_def split: sum.splits dest: no_case)
qed

lemma keeps_restore:
  assumes "useProjectTempDir (besideTmp t) s = Some (Inr restore, s')"
  shows "keeps sameFirst restore"
proof -
  obtain d x where restore: "restore = thenE (ignoreE (case x of Some dir \<Rightarrow> tlSetenv (besideTmp t) ''TMPDIR'' dir
      | None \<Rightarrow> tlUnsetenv (besideTmp t) ''TMPDIR'')) (ignoreE (tlRemoveAll (besideTmp t) d))"
    using useProjectTempDir_restore [OF assms] .
  show ?thesis unfolding restore by (cases x) (simp_all, (intro keeps_list keeps_ignoreE)+)
qed

lemma startsOneD:
  assumes "startsOne m h" and "m (l, s) = Some (r, (l', s'))"
  shows "r = Inr x \<Longrightarrow> l' = l @ [h x]" and "r = Inl e \<Longrightarrow> l' = l \<or> (\<exists>c. l' = l @ [c])"
proof -
  from assms have "case r of Inr x \<Rightarrow> l' = l @ [h x] | Inl _ \<Rightarrow> l' = l \<or> (\<exists>c. l' = l @ [c])"
    unfolding startsOne_def by blast
  then show "r = Inr x \<Longrightarrow> l' = l @ [h x]" and "r = Inl e \<Longrightarrow> l' = l \<or> (\<exists>c. l' = l @ [c])" by simp_all
qed

lemma startsOne_rabbit: "startsOne (startRabbitContainer (tracked cl) (besideTmp t)) fst"
proof -
  define start where "start = bindE (mapErrE (Wrapf ''start rabbitmq container: %w'' []) (clRun (tracked cl) Rabbit313)) (\<lambda>container.
      bindE (mapErrE (Wrapf ''resolve rabbitmq host: %w'' []) (onSnd (clHost cl container))) (\<lambda>host.
      bindE (mapErrE (Wrapf ''resolve rabbitmq port: %w'' []) (onSnd (clMappedPort cl container ''5672/tcp''))) (\<lambda>mappedPort.
      retE (container, host, mappedPort))))"
  have one: "startsOne start fst"
    unfolding start_def by (rule startsOne_run) (intro keeps_list, auto simp: eff_inv)
  have eq: "startRabbitContainer (tracked cl) (besideTmp t) =
      bindE (mapErrE (Wrapf ''prepare rabbitmq temp dir: %w'' []) (useProjectTempDir (besideTmp t))) (\<lambda>restore. deferE start restore)"
    by (simp add: startRabbitContainer_def start_def)
  have "case r of Inr x \<Rightarrow> l' = l @ [fst x] | Inl _ \<Rightarrow> l' = l \<or> (\<exists>c. l' = l @ [c])"
    if run: "startRabbitContainer (tracked cl) (besideTmp t) (l, s) = Some (r, (l', s'))" for l s r l' s'
    using run [unfolded eq] sf.keeps_mapErrE [OF keeps_useProjectTempDir]
  proof (cases rule: sf.keeps_bind_cases)
    case (stop e)
    then show ?thesis by (simp add: sameFirst_def)
  next
    case (go restore u)
    obtain s1 where u: "u = (l, s1)" using go(2) by (cases u) (simp add: sameFirst_def)
    from go(3) obtain z l2 s2 where z: "start (l, s1) = Some (z, (l2, s2))"
      and rest: "thenE restore (liftE z) (l2, s2) = Some (r, (l', s'))" by (auto simp: deferE_def bind_attempt u)
    have "keeps sameFirst restore" using go(1) by (auto dest: keeps_restore simp del: split_paired_All)
    then have "keeps sameFirst (thenE restore (liftE z))" by (intro keeps_list)
    from keepsD [OF this rest] rest have "l' = l2" and "r = z \<or> (\<exists>e. r = Inl e)"
      by (auto simp: sameFirst_def bindE_Some)
    with startsOneD [OF one z] show ?thesis by (cases z; cases r) auto
  qed
  then show ?thesis unfolding startsOne_def by blast
qed

text \<open>
  On success the three containers run. A start that fails lets go of the containers of the earlier steps; it
  leaves at most one, and it does leave one when a container runs but its address cannot be read, or the
  data base in it does not become ready: the failing step drops the only reference to it.
\<close>

lemma terminate_step:
  "thenE (ignoreE (clTerminate (tracked cl) h)) m (l, s) = Some y \<longleftrightarrow>
     (\<exists>z s1. clTerminate cl h s = Some (z, s1) \<and> m (remove1 h l, s1) = Some y)"
  by (auto simp: ignoreE_def bindE_def attemptE_def tracked_def split: option.splits)

lemma orTerminate_tracked:
  assumes "startsOne m h" and "orTerminate (tracked cl) hs m (l, s) = Some (r, (l', s'))"
  shows "(\<exists>x. r = Inr x \<and> l' = l @ [h x]) \<or>
    (\<exists>e l1. r = Inl e \<and> (l1 = l \<or> (\<exists>c. l1 = l @ [c])) \<and> l' = fold remove1 hs l1)"
proof -
  have many: "foldr (\<lambda>h rest. thenE (ignoreE (clTerminate (tracked cl) h)) rest) hs (retE ()) (l1, s1) = Some (q, (l2, s2)) \<Longrightarrow>
      l2 = fold remove1 hs l1 \<and> q = Inr ()" for hs l1 s1 q l2 s2
  proof (induction hs arbitrary: l1 s1)
    case Nil
    then show ?case by simp
  next
    case (Cons h hs)
    from Cons.prems [unfolded foldr_Cons comp_apply terminate_step] obtain z s3 where "clTerminate cl h s1 = Some (z, s3)"
      and "foldr (\<lambda>h rest. thenE (ignoreE (clTerminate (tracked cl) h)) rest) hs (retE ()) (remove1 h l1, s3) = Some (q, (l2, s2))"
      by blast
    from Cons.IH [OF this(2)] show ?case by simp
  qed
  from assms(2) obtain z l1 s1 where z: "m (l, s) = Some (z, (l1, s1))"
    and rest: "(case z of Inl err \<Rightarrow> thenE (foldr (\<lambda>h rest. thenE (ignoreE (clTerminate (tracked cl) h)) rest) hs (retE ())) (failE err)
      | Inr x \<Rightarrow> retE x) (l1, s1) = Some (r, (l', s'))"
    by (auto simp: orTerminate_def bind_attempt)
  from startsOneD [OF assms(1) z] rest show ?thesis
    by (cases z) (auto simp: bindE_Some dest!: many)
qed

lemma failed_start_leaves_one:
  assumes "StartContainers (tracked cl) (besideWait w) (besideTmp t) ([], s) = Some (r, (l, s'))"
  shows "case r of Inr c \<Rightarrow> (\<exists>m b d. coMongo c = Some m \<and> coRabbit c = Some b \<and> coRedis c = Some d \<and> l = [m, b, d])
    | Inl _ \<Rightarrow> length l \<le> 1"
proof -
  from assms [unfolded StartContainers_def bindE_Some] consider
      (mongo) e where "startMongoContainer (tracked cl) (besideWait w) ([], s) = Some (Inl e, (l, s'))" "r = Inl e"
    | (go) m mh l1 s1 where "startMongoContainer (tracked cl) (besideWait w) ([], s) = Some (Inr (m, mh), (l1, s1))"
      "bindE (orTerminate (tracked cl) [m] (startRabbitContainer (tracked cl) (besideTmp t))) (\<lambda>(rabbit, rabbitHost, rabbitPort).
         bindE (orTerminate (tracked cl) [rabbit, m] (startRedisContainer (tracked cl))) (\<lambda>(redis, redisHost, redisPort).
         retE \<lparr>coMongo = Some m, coRabbit = Some rabbit, coRedis = Some redis, coMongoHost = mh,
           coRabbitHost = rabbitHost, coRabbitPort = rabbitPort, coRedisHost = redisHost, coRedisPort = redisPort\<rparr>)) (l1, s1)
       = Some (r, (l, s'))" by (auto split: prod.splits)
  then show ?thesis
  proof cases
    case mongo
    with startsOneD [OF startsOne_mongo mongo(1)] show ?thesis by auto
  next
    case (go m mh l1 s1)
    from startsOneD(1) [OF startsOne_mongo go(1)] have l1: "l1 = [m]" by simp
    from go(2) [unfolded bindE_Some l1] consider
        (rabbit) e where "orTerminate (tracked cl) [m] (startRabbitContainer (tracked cl) (besideTmp t)) ([m], s1) = Some (Inl e, (l, s'))" "r = Inl e"
      | (go2) b bh bp l2 s2 where "orTerminate (tracked cl) [m] (startRabbitContainer (tracked cl) (besideTmp t)) ([m], s1) = Some (Inr (b, bh, bp), (l2, s2))"
        "bindE (orTerminate (tracked cl) [b, m] (startRedisContainer (tracked cl))) (\<lambda>(redis, redisHost, redisPort).
         retE \<lparr>coMongo = Some m, coRabbit = Some b, coRedis = Some redis, coMongoHost = mh,
           coRabbitHost = bh, coRabbitPort = bp, coRedisHost = redisHost, coRedisPort = redisPort\<rparr>) (l2, s2) = Some (r, (l, s'))"
      by (auto split: prod.splits)
    then show ?thesis
    proof cases
      case rabbit
      with orTerminate_tracked [OF startsOne_rabbit rabbit(1)] show ?thesis by (auto split: if_splits)
    next
      case (go2 b bh bp l2 s2)
      from orTerminate_tracked [OF startsOne_rabbit go2(1)] have "l2 = [m, b]" by simp
      with go2(2) show ?thesis by (auto simp: bindE_Some dest!: orTerminate_tracked [OF startsOne_redis] split: if_splits)
    qed
  qed
qed

lemma unread_address_leaks:
  assumes "clRun cl MongoLatest s = Some (Inr h, s1)" and "clHost cl h s1 = Some (Inl e, s2)"
  shows "StartContainers (tracked cl) w t ([], s) = Some (Inl (Wrapf ''resolve mongo host: %w'' [] e), ([h], s2))"
  using assms by (simp add: StartContainers_def startMongoContainer_def bindE_def mapErrE_def tracked_def)

text \<open>
  \<open>Close\<close> asks every container to terminate, whatever fails on the way, and returns an error exactly
  when one of them could not be terminated; that error wraps the last failure only.
\<close>

lemma closeStep_tracked:
  assumes "closeStep (tracked cl) what (Some c) e (l, s) = Some (r, (l', s'))"
  obtains e' x where "r = Inr e'" "l' = remove1 c l" "clTerminate cl c s = Some (x, s')"
    "e' = None \<longleftrightarrow> e = None \<and> x = Inr ()"
proof -
  from assms obtain x where x: "clTerminate cl c s = Some (x, s')" "l' = remove1 c l"
    and r: "r = Inr (case x of Inr _ \<Rightarrow> e | Inl err \<Rightarrow> Some (case e of
          Some e0 \<Rightarrow> WrapV (''%v; terminate '' @ what @ '' container: %w'') [] err e0
        | None \<Rightarrow> Wrapf (''terminate '' @ what @ '' container: %w'') [] err))"
    by (auto simp: closeStep_def bind_attempt tracked_def split: option.splits)
  show thesis using that [OF r x(2) x(1)] by (cases x) auto
qed

lemma close_terminates_all:
  assumes "containersClose (tracked cl) c ([m, b, d], s) = Some (r, (l, s'))"
    and "coMongo c = Some m" "coRabbit c = Some b" "coRedis c = Some d"
  shows "l = []" and "(\<exists>u. r = Inr u) \<longleftrightarrow> (\<exists>s1 s2. clTerminate cl d s = Some (Inr (), s1) \<and>
    clTerminate cl b s1 = Some (Inr (), s2) \<and> clTerminate cl m s2 = Some (Inr (), s'))"
proof -
  let ?step = "closeStep (tracked cl)"
  let ?last = "\<lambda>e3. case e3 of None \<Rightarrow> retE () | Some e \<Rightarrow> failE e"
  note run = assms(1) [unfolded containersClose_def assms(2-4)]
  from run obtain y1 l1 s1 where c1: "?step ''redis'' (Some d) None ([m, b, d], s) = Some (y1, (l1, s1))"
    by (auto simp: bindE_Some)
  from closeStep_tracked [OF this] obtain e1 x1 where 1: "y1 = Inr e1" "l1 = remove1 d [m, b, d]"
    "clTerminate cl d s = Some (x1, s1)" "e1 = None \<longleftrightarrow> x1 = Inr ()" by metis
  with run c1 have run2: "bindE (?step ''rabbitmq'' (Some b) e1) (\<lambda>e2. bindE (?step ''mongo'' (Some m) e2) ?last) (l1, s1)
      = Some (r, (l, s'))" by simp
  then obtain y2 l2 s2 where c2: "?step ''rabbitmq'' (Some b) e1 (l1, s1) = Some (y2, (l2, s2))" by (auto simp: bindE_Some)
  from closeStep_tracked [OF this] obtain e2 x2 where 2: "y2 = Inr e2" "l2 = remove1 b l1"
    "clTerminate cl b s1 = Some (x2, s2)" "e2 = None \<longleftrightarrow> e1 = None \<and> x2 = Inr ()" by metis
  with run2 c2 have run3: "bindE (?step ''mongo'' (Some m) e2) ?last (l2, s2) = Some (r, (l, s'))" by simp
  then obtain y3 l3 s3 where c3: "?step ''mongo'' (Some m) e2 (l2, s2) = Some (y3, (l3, s3))" by (auto simp: bindE_Some)
  from closeStep_tracked [OF this] obtain e3 x3 where 3: "y3 = Inr e3" "l3 = remove1 m l2"
    "clTerminate cl m s2 = Some (x3, s3)" "e3 = None \<longleftrightarrow> e2 = None \<and> x3 = Inr ()" by metis
  with run3 c3 have fin: "r = (case e3 of None \<Rightarrow> Inr () | Some e \<Rightarrow> Inl e)" "l = l3" "s' = s3" by (auto split: option.splits)
  from fin(2) 1(2) 2(2) 3(2) show "l = []" by auto
  from 1 2 3 fin show "(\<exists>u. r = Inr u) \<longleftrightarrow> (\<exists>s1 s2. clTerminate cl d s = Some (Inr (), s1) \<and>
    clTerminate cl b s1 = Some (Inr (), s2) \<and> clTerminate cl m s2 = Some (Inr (), s'))"
    by (cases e3) auto
qed

text \<open>
  The variable \<open>TMPDIR\<close>: with the environment of the process, as \<open>os\<close> keeps it, in front of the state, it
  has its old value again when the broker's container has been started, or failed to.
\<close>

definition withEnviron :: "'s tmpLib \<Rightarrow> ((string \<Rightarrow> string option) \<times> 's) tmpLib" where
  "withEnviron t = (besideTmp t)\<lparr>tlLookupEnv := (\<lambda>k (env, s). env k),
     tlSetenv := (\<lambda>k v (env, s). Some (Inr (), (env(k \<mapsto> v), s))),
     tlUnsetenv := (\<lambda>k (env, s). Some (Inr (), (env(k := None), s)))\<rparr>"

definition besideContainers :: "'s containerLib \<Rightarrow> ('p \<times> 's) containerLib" where
  "besideContainers cl = \<lparr>clRun = (\<lambda>i. onSnd (clRun cl i)), clHost = (\<lambda>h. onSnd (clHost cl h)),
     clMappedPort = (\<lambda>h p. onSnd (clMappedPort cl h p)), clTerminate = (\<lambda>h. onSnd (clTerminate cl h))\<rparr>"

lemma tmpdir_set_and_restored:
  assumes "useProjectTempDir (withEnviron t) (env, s) = Some (r, (env', s'))"
  shows "case r of Inl _ \<Rightarrow> env' = env
    | Inr restore \<Rightarrow> \<forall>v s1 q v2 s2. v = env' \<longrightarrow> restore (v, s1) = Some (q, (v2, s2)) \<longrightarrow> v2 = env"
  using assms
  by (cases "env ''TMPDIR''") (auto simp: useProjectTempDir_def withEnviron_def besideTmp_def bindE_Some attemptE_Some ignoreE_def Let_def
      onSnd_Some map_upd_triv fun_upd_idem simp del: onSnd_pair split: sum.splits prod.splits)

end
