(* ===== verification/Testbed.thy ===== *)
theory Testbed
  imports Containers
begin

text \<open>
  The other ends the program talks to in the integration tests: the clock service, with the generated
  code of both its sides (\<open>infra/clock/nowService_grpc.pb.go\<close>, \<open>helpers/clock_helper.go\<close>), the fixtures in
  the data base (\<open>mongo_seed_helper.go\<close>) and the HTTP client (\<open>http_helper.go\<close>). The gRPC library, the
  driver, the network and the file system are parameters.
\<close>

section \<open>Listeners\<close>

text \<open>\<open>liPort\<close> is the port of a TCP address and \<open>None\<close> for an address of another type.\<close>

record listener =
  liHandle :: handle
  liPort :: "int option"
  liNetwork :: string

record 's netLib =
  neListen :: "string \<Rightarrow> string \<Rightarrow> ('s, listener) io"
  neClose :: "handle \<Rightarrow> ('s, unit) io"

definition errUnexpectedAddrType :: "string \<Rightarrow> gerr" where
  "errUnexpectedAddrType network = LibErr (''unexpected listener address type: '' @ network)"

definition FreeTCPPort :: "'s netLib \<Rightarrow> ('s, int) io" where
  "FreeTCPPort n = bindE (neListen n ''tcp'' ''127.0.0.1:0'') (\<lambda>ln. deferE
     (case liPort ln of None \<Rightarrow> failE (errUnexpectedAddrType (liNetwork ln)) | Some port \<Rightarrow> retE port)
     (ignoreE (neClose n (liHandle ln))))"

section \<open>The clock service\<close>

text \<open>
  A server of the service, as its method \<open>Now\<close>; a reply is the time field of \<open>dto.TimeEvent\<close>, a pointer. A
  server struct that embeds \<open>UnimplementedClockServiceServer\<close> may do so by value or by a pointer, which may be nil.
\<close>

type_synonym timeReply = "gotime option"

datatype embedding = ByValue | ByPointer | ByNilPointer

record 's clockServiceServer =
  csEmbeds :: embedding
  csNow :: "('s, timeReply) io"

definition unimplementedNow :: "('s, timeReply) io" where
  "unimplementedNow = failE (LibErr ''Unimplemented: method Now not implemented'')"

abbreviation ClockService_Now_FullMethodName :: string where
  "ClockService_Now_FullMethodName \<equiv> ''/clock.ClockService/Now''"

text \<open>An interceptor gets the name of the method and the rest of the handling.\<close>

type_synonym 's interceptor = "string \<Rightarrow> ('s, timeReply) io \<Rightarrow> ('s, timeReply) io"

type_synonym 's methodHandler = "'s clockServiceServer \<Rightarrow> ('s, unit) io \<Rightarrow> 's interceptor option \<Rightarrow> ('s, timeReply) io"

definition clockNowHandler :: "'s methodHandler" where
  "clockNowHandler srv dec intercept = bindE dec (\<lambda>_. case intercept of
     None \<Rightarrow> csNow srv
   | Some i \<Rightarrow> i ClockService_Now_FullMethodName (csNow srv))"

record 's serviceDesc =
  sdServiceName :: string
  sdMethods :: "(string \<times> 's methodHandler) list"
  sdStreams :: "string list"
  sdMetadata :: string

definition ClockService_ServiceDesc :: "'s serviceDesc" where
  "ClockService_ServiceDesc = \<lparr>sdServiceName = ''clock.ClockService'', sdMethods = [(''Now'', clockNowHandler)],
     sdStreams = [], sdMetadata = ''clock/nowService.proto''\<rparr>"

text \<open>
  Registration calls a method of the embedded value, so that a nil pointer panics here (\<open>None\<close>) and not
  when the first request arrives. \<open>register\<close> is the library's.
\<close>

definition RegisterClockServiceServer :: "('s serviceDesc \<Rightarrow> 's clockServiceServer \<Rightarrow> 'r \<Rightarrow> 'r) \<Rightarrow> 's clockServiceServer \<Rightarrow> 'r \<Rightarrow> 'r option" where
  "RegisterClockServiceServer register srv reg =
     (if csEmbeds srv = ByNilPointer then None else Some (register ClockService_ServiceDesc srv reg))"

text \<open>The client: \<open>invoke\<close> is the connection's call of a method by its full name.\<close>

definition clockServiceClientNow :: "(string \<Rightarrow> ('s, timeReply) io) \<Rightarrow> ('s, timeReply) io" where
  "clockServiceClientNow invoke = bindE (invoke ClockService_Now_FullMethodName) (\<lambda>out. retE out)"

definition NewClockServiceClient :: "(string \<Rightarrow> ('s, timeReply) io) \<Rightarrow> ('s, unit) io \<Rightarrow> 's clockStub" where
  "NewClockServiceClient invoke close = \<lparr>stNow = clockServiceClientNow invoke, stClose = close\<rparr>"

text \<open>The server of the tests keeps the time in front of the state; its mutex makes each operation one step.\<close>

record mutableClockServer =
  mcsNow :: gotime

definition newMutableClockServer :: "gotime \<Rightarrow> mutableClockServer" where
  "newMutableClockServer initialNow = \<lparr>mcsNow = timeUTC initialNow\<rparr>"

definition clockServerSet :: "gotime \<Rightarrow> mutableClockServer \<times> 's \<Rightarrow> mutableClockServer \<times> 's" where
  "clockServerSet now = (\<lambda>(srv, s). (srv\<lparr>mcsNow := timeUTC now\<rparr>, s))"

definition clockServerNow :: "(mutableClockServer \<times> 's, timeReply) io" where
  "clockServerNow = (\<lambda>(srv, s). Some (Inr (Some (mcsNow srv)), (srv, s)))"

definition mutableServer :: "(mutableClockServer \<times> 's) clockServiceServer" where
  "mutableServer = \<lparr>csEmbeds = ByValue, csNow = clockServerNow\<rparr>"

text \<open>\<open>StartClockServer\<close>: the address, the server's first state and the function that stops it.\<close>

definition StartClockServer :: "'s netLib \<Rightarrow> (handle \<Rightarrow> ('s, unit) io) \<Rightarrow> gotime \<Rightarrow>
    ('s, string \<times> int \<times> mutableClockServer \<times> ('s, unit) io) io" where
  "StartClockServer n gracefulStop initialNow = bindE (neListen n ''tcp'' ''127.0.0.1:0'') (\<lambda>ln. case liPort ln of
     None \<Rightarrow> thenE (ignoreE (neClose n (liHandle ln))) (failE (errUnexpectedAddrType (liNetwork ln)))
   | Some port \<Rightarrow> retE (''127.0.0.1'', port, newMutableClockServer initialNow,
       thenE (ignoreE (gracefulStop (liHandle ln))) (ignoreE (neClose n (liHandle ln)))))"

text \<open>
  What the library documents of a connection to a server on which a service is registered: a call by the
  full name of one of its methods runs the handler of that method, with the request decoded.
\<close>

definition connectedTo :: "'s serviceDesc \<Rightarrow> 's clockServiceServer \<Rightarrow> 's interceptor option \<Rightarrow> (string \<Rightarrow> ('s, timeReply) io) \<Rightarrow> bool" where
  "connectedTo desc srv intercept invoke \<longleftrightarrow> (\<forall>m h. (m, h) \<in> set (sdMethods desc) \<longrightarrow>
     invoke (''/'' @ sdServiceName desc @ ''/'' @ m) = h srv (retE ()) intercept)"

lemma stub_reaches_server:
  assumes "connectedTo ClockService_ServiceDesc srv None invoke"
  shows "clockServiceClientNow invoke = csNow srv"
proof -
  have "(''Now'', clockNowHandler) \<in> set (sdMethods (ClockService_ServiceDesc :: 'a serviceDesc))"
    by (simp add: ClockService_ServiceDesc_def)
  with assms have "invoke (''/'' @ sdServiceName (ClockService_ServiceDesc :: 'a serviceDesc) @ ''/'' @ ''Now'') = clockNowHandler srv (retE ()) None"
    unfolding connectedTo_def by blast
  then have "invoke ClockService_Now_FullMethodName = csNow srv"
    by (simp add: ClockService_ServiceDesc_def clockNowHandler_def)
  moreover have "bindE m (\<lambda>x. retE x) = m" for m :: "('a, timeReply) io"
    by (auto simp: bindE_def fun_eq_iff split: option.splits sum.splits)
  ultimately show ?thesis by (simp add: clockServiceClientNow_def)
qed

text \<open>
  The program's own clock client, over the generated stub, against the server of the tests: it reads the
  instant that was set last, in UTC, whatever zone it was set in, and reading changes nothing. A server that
  does not implement the method yields an error and no time.
\<close>

lemma clock_reads_what_was_set:
  assumes "connectedTo ClockService_ServiceDesc mutableServer None invoke"
  shows "clockEmuNow (NewClockServiceClient invoke close) (clockServerSet t s) = Some (Inr (Some (timeUTC t)), clockServerSet t s)"
    and "clockEmuNow (NewClockServiceClient invoke close) (newMutableClockServer t, w) = Some (Inr (Some (timeUTC t)), (newMutableClockServer t, w))"
  using stub_reaches_server [OF assms]
  by (simp_all add: clockEmuNow_def NewClockServiceClient_def mutableServer_def clockServerNow_def clockServerSet_def
      newMutableClockServer_def timeUTC_def bindE_def split: prod.splits)

lemma connectedTo_exists:
  "connectedTo ClockService_ServiceDesc srv i
     (\<lambda>m. if m = ClockService_Now_FullMethodName then clockNowHandler srv (retE ()) i else failE (LibErr ''unknown method''))"
  by (simp add: connectedTo_def ClockService_ServiceDesc_def)

lemma clock_unimplemented:
  assumes "connectedTo ClockService_ServiceDesc \<lparr>csEmbeds = ByValue, csNow = unimplementedNow\<rparr> None invoke"
  shows "clockEmuNow (NewClockServiceClient invoke close) s = Some (Inl (LibErr ''Unimplemented: method Now not implemented''), s)"
  using stub_reaches_server [OF assms]
  by (simp add: clockEmuNow_def NewClockServiceClient_def unimplementedNow_def)

section \<open>Requests\<close>

record httpRequest =
  hrMethod :: string
  hrUrl :: string
  hrBody :: "string option"
  hrHeader :: "(string \<times> string) list"

definition headerSet :: "string \<Rightarrow> string \<Rightarrow> httpRequest \<Rightarrow> httpRequest" where
  "headerSet k v r = r\<lparr>hrHeader := filter (\<lambda>(n, _). n \<noteq> k) (hrHeader r) @ [(k, v)]\<rparr>"

text \<open>A response is its status and the handle of its body.\<close>

record 's httpLib =
  htNewRequest :: "string \<Rightarrow> string \<Rightarrow> string option \<Rightarrow> gerr + httpRequest"
  htDo :: "httpRequest \<Rightarrow> ('s, int \<times> handle) io"
  htReadAll :: "handle \<Rightarrow> ('s, string) io"
  htClose :: "handle \<Rightarrow> ('s, unit) io"

text \<open>\<open>t.Fatalf\<close> ends the test, running the deferred calls; its message has the error printed in it, if any.\<close>

datatype fatal = Fatalf string "fmtArg list" "gerr option"

definition deferClose :: "('s, fatal, 'a) eff \<Rightarrow> ('s, unit) io \<Rightarrow> ('s, fatal, 'a) eff" where
  "deferClose m d = bindE (attemptE m) (\<lambda>r. bindE (attemptE d) (\<lambda>_. liftE r))"

definition DoJSON :: "'s httpLib \<Rightarrow> string \<Rightarrow> string \<Rightarrow> string option \<Rightarrow> int \<Rightarrow> ('s, fatal, string) eff" where
  "DoJSON h method endpoint body expectedStatus =
     (case htNewRequest h method endpoint body of
       Inl err \<Rightarrow> failE (Fatalf ''create %s %s request: %v'' [FStr method, FStr endpoint] (Some err))
     | Inr req0 \<Rightarrow>
        let req = (case body of None \<Rightarrow> req0
          | Some _ \<Rightarrow> headerSet ''Content-Type'' ''application/json'' req0) in
        bindE (mapErrE (\<lambda>err. Fatalf ''%s %s: %v'' [FStr method, FStr endpoint] (Some err)) (htDo h req)) (\<lambda>(status, b).
        deferClose (bindE (mapErrE (\<lambda>err. Fatalf ''read %s %s response: %v'' [FStr method, FStr endpoint] (Some err)) (htReadAll h b))
          (\<lambda>respBody. if status \<noteq> expectedStatus
            then failE (Fatalf ''unexpected status from %s %s: got=%d want=%d body=%s''
              [FStr method, FStr endpoint, FInt status, FInt expectedStatus, FStr respBody] None)
            else retE respBody)) (htClose h b)))"

text \<open>It returns a body only of a response with the expected status, and has then closed it.\<close>

lemma DoJSON_returns:
  assumes "DoJSON h method endpoint body expectedStatus s = Some (Inr x, s')"
  obtains req b s1 s2 z where "htDo h req s = Some (Inr (expectedStatus, b), s1)" "htReadAll h b s1 = Some (Inr x, s2)"
    "htClose h b s2 = Some (z, s')"
proof (cases "htNewRequest h method endpoint body")
  case (Inl e)
  with assms show ?thesis by (simp add: DoJSON_def)
next
  case (Inr req0)
  define req where "req = (case body of None \<Rightarrow> req0 | Some _ \<Rightarrow> headerSet ''Content-Type'' ''application/json'' req0)"
  from assms Inr obtain st b s1 where d: "htDo h req s = Some (Inr (st, b), s1)"
    and rest: "deferClose (bindE (mapErrE (\<lambda>err. Fatalf ''read %s %s response: %v'' [FStr method, FStr endpoint] (Some err)) (htReadAll h b))
          (\<lambda>respBody. if st \<noteq> expectedStatus
            then failE (Fatalf ''unexpected status from %s %s: got=%d want=%d body=%s''
              [FStr method, FStr endpoint, FInt st, FInt expectedStatus, FStr respBody] None)
            else retE respBody)) (htClose h b) s1 = Some (Inr x, s')"
    by (auto simp: DoJSON_def req_def [symmetric] Let_def bindE_Some_Inr)
  then obtain q s2 z where "htReadAll h b s1 = Some (Inr q, s2)" "htClose h b s2 = Some (z, s')" "st = expectedStatus" "q = x"
    by (auto simp: deferClose_def attemptE_Some bindE_Some mapErrE_Some_Inl split: if_splits)
  with d show ?thesis by (intro that) auto
qed

section \<open>Fixtures\<close>

text \<open>A document is of any type; the files are read once, so they are a function of the path.\<close>

record ('s, 'doc) seedLib =
  seConnect :: "string \<Rightarrow> ('s, handle) io"
  seDisconnect :: "handle \<Rightarrow> ('s, unit) io"
  seReadFile :: "string \<Rightarrow> gerr + string"
  seUnmarshal :: "string \<Rightarrow> gerr + 'doc list"
  seDeleteMany :: "handle \<Rightarrow> string \<Rightarrow> string \<Rightarrow> ('s, unit) io"
  seInsertMany :: "handle \<Rightarrow> string \<Rightarrow> string \<Rightarrow> 'doc list \<Rightarrow> ('s, unit) io"

definition seedCollectionFromFixture :: "('s, 'doc) seedLib \<Rightarrow> handle \<Rightarrow> string \<Rightarrow> string \<Rightarrow> string \<Rightarrow> ('s, unit) io" where
  "seedCollectionFromFixture l client db coll fixturePath =
     bindE (mapErrE (Wrapf ''read fixture %q: %w'' [FStr fixturePath]) (liftE (seReadFile l fixturePath))) (\<lambda>data.
     bindE (mapErrE (Wrapf ''unmarshal fixture %q: %w'' [FStr fixturePath]) (liftE (seUnmarshal l data))) (\<lambda>rawDocs.
     thenE (mapErrE (Wrapf ''clear collection %q before seeding: %w'' [FStr coll]) (seDeleteMany l client db coll))
     (if rawDocs = [] then retE ()
      else mapErrE (Wrapf ''insert fixture docs into %q: %w'' [FStr coll]) (seInsertMany l client db coll rawDocs))))"

primrec seedAll :: "('s, 'doc) seedLib \<Rightarrow> handle \<Rightarrow> string \<Rightarrow> (string \<times> string) list \<Rightarrow> ('s, unit) io" where
  "seedAll l client db [] = retE ()"
| "seedAll l client db (cf # cfs) = thenE (seedCollectionFromFixture l client db (fst cf) (snd cf)) (seedAll l client db cfs)"

text \<open>The collections are seeded in the order in which the map is ranged over, any order.\<close>

definition SeedMongoFromFixtures :: "('s, 'doc) seedLib \<Rightarrow> string \<Rightarrow> string \<Rightarrow> (string \<times> string) list \<Rightarrow> ('s, unit) io" where
  "SeedMongoFromFixtures l mongoHost db collectionToFixture =
     bindE (mapErrE (Wrapf ''connect mongo for fixture seed: %w'' []) (seConnect l (''mongodb://test_user:test_pass@'' @ mongoHost)))
       (\<lambda>client. deferE (seedAll l client db collectionToFixture) (ignoreE (seDisconnect l client)))"

text \<open>What the driver documents: \<open>look\<close> is the content of a collection of the data base.\<close>

definition seedsInto :: "('s, 'doc) seedLib \<Rightarrow> (string \<Rightarrow> 's \<Rightarrow> 'doc list) \<Rightarrow> bool" where
  "seedsInto l look \<longleftrightarrow>
     (\<forall>u s r s'. seConnect l u s = Some (r, s') \<longrightarrow> (\<forall>c. look c s' = look c s)) \<and>
     (\<forall>h s r s'. seDisconnect l h s = Some (r, s') \<longrightarrow> (\<forall>c. look c s' = look c s)) \<and>
     (\<forall>h db x s s'. seDeleteMany l h db x s = Some (Inr (), s') \<longrightarrow> (\<forall>c. look c s' = (if c = x then [] else look c s))) \<and>
     (\<forall>h db x ds s s'. seInsertMany l h db x ds s = Some (Inr (), s') \<longrightarrow> (\<forall>c. look c s' = (if c = x then look c s @ ds else look c s)))"

definition fixtureDocs :: "('s, 'doc) seedLib \<Rightarrow> string \<Rightarrow> 'doc list" where
  "fixtureDocs l file = (case seReadFile l file of Inl _ \<Rightarrow> [] | Inr data \<Rightarrow> (case seUnmarshal l data of Inl _ \<Rightarrow> [] | Inr docs \<Rightarrow> docs))"

lemma seedsIntoD:
  assumes "seedsInto l look"
  shows "seConnect l u s = Some (r, s') \<Longrightarrow> look c s' = look c s"
    and "seDisconnect l h s = Some (q, s') \<Longrightarrow> look c s' = look c s"
  using assms unfolding seedsInto_def by fast+

lemma seed_one:
  assumes "seedsInto l look" and "seedCollectionFromFixture l h db x file s = Some (Inr (), s')"
  shows "look c s' = (if c = x then fixtureDocs l file else look c s)"
proof -
  from assms(2) obtain d docs s1 where "seReadFile l file = Inr d" and docs: "seUnmarshal l d = Inr docs"
    and del: "seDeleteMany l h db x s = Some (Inr (), s1)"
    and ins: "(if docs = [] then s' = s1 else seInsertMany l h db x docs s1 = Some (Inr (), s'))"
    by (auto simp: seedCollectionFromFixture_def bindE_Some_Inr split: if_splits)
  then have "fixtureDocs l file = docs" by (simp add: fixtureDocs_def)
  moreover from assms(1) del have "look c s1 = (if c = x then [] else look c s)" unfolding seedsInto_def by blast
  moreover from assms(1) ins have "docs \<noteq> [] \<Longrightarrow> look c s' = (if c = x then look c s1 @ docs else look c s1)"
    unfolding seedsInto_def by auto
  ultimately show ?thesis using ins by (cases "docs = []") auto
qed

text \<open>
  Seeding that succeeds leaves in every collection it was given exactly the documents of its fixture,
  whatever was in it before, and touches no other collection.
\<close>

lemma seed_replaces:
  assumes laws: "seedsInto l look" and "distinct (map fst fixtures)"
    and run: "SeedMongoFromFixtures l host db fixtures s = Some (Inr (), s')"
  shows "look c s' = (case map_of fixtures c of Some file \<Rightarrow> fixtureDocs l file | None \<Rightarrow> look c s)"
proof -
  have all: "seedAll l h db fs t = Some (Inr (), t') \<Longrightarrow> distinct (map fst fs) \<Longrightarrow>
      look c t' = (case map_of fs c of Some file \<Rightarrow> fixtureDocs l file | None \<Rightarrow> look c t)" for h fs t t'
  proof (induction fs arbitrary: t)
    case Nil
    then show ?case by simp
  next
    case (Cons f fs)
    from Cons.prems(1) obtain t1 where "seedCollectionFromFixture l h db (fst f) (snd f) t = Some (Inr (), t1)"
      and rest: "seedAll l h db fs t1 = Some (Inr (), t')" by (auto simp: bindE_Some_Inr)
    from seed_one [OF laws this(1), of c] Cons.IH [OF rest] Cons.prems(2) show ?case
      by (auto simp: map_of_eq_None_iff [symmetric] split: option.splits)
  qed
  from run obtain h s1 s2 z where conn: "seConnect l (''mongodb://test_user:test_pass@'' @ host) s = Some (Inr h, s1)"
    and seed: "seedAll l h db fixtures s1 = Some (Inr (), s2)" and disc: "seDisconnect l h s2 = Some (z, s')"
    by (auto simp: SeedMongoFromFixtures_def deferE_def ignoreE_def bindE_Some_Inr attemptE_Some)
  from all [OF seed assms(2)] show ?thesis
    by (simp only: seedsIntoD(1) [OF laws conn] seedsIntoD(2) [OF laws disc])
qed

end
