(* ===== verification/Wire.thy ===== *)
theory Wire
  imports ErrorText ChatWriter
begin

text \<open>
  The generated code of the messages in \<open>domain/dto\<close>, as far as a client sees it: the numbers and
  names of the enumerations, and the getters, which read a nil message as its zero value. The codecs
  are the library's; of \<open>protojson\<close> the rule for enumerations is stated: a known value is written as its
  name, an unknown one as its number, and both forms are read.
\<close>

section \<open>Enumerations\<close>

datatype jsonEnum = JName string | JNumber int

text \<open>\<open>EnumStringOf\<close>: the name, or the number in decimal.\<close>

definition enumString :: "(int \<times> string) list \<Rightarrow> int \<Rightarrow> string" where
  "enumString names n = (case map_of names n of Some x \<Rightarrow> x | None \<Rightarrow> intText n)"

definition enumToJson :: "(int \<times> string) list \<Rightarrow> int \<Rightarrow> jsonEnum" where
  "enumToJson names n = (case map_of names n of Some x \<Rightarrow> JName x | None \<Rightarrow> JNumber n)"

fun enumFromJson :: "(string \<times> int) list \<Rightarrow> jsonEnum \<Rightarrow> int option" where
  "enumFromJson vals (JName x) = map_of vals x"
| "enumFromJson vals (JNumber n) = Some n"

text \<open>
  What the generated code of an enumeration promises: the two tables are each other's inverse, and a
  value is its number. A value is canonical when a number with a name is not kept as an unknown one.
\<close>

locale enum_tables =
  fixes names :: "(int \<times> string) list"
    and vals :: "(string \<times> int) list"
    and number :: "'e \<Rightarrow> int"
    and ofNumber :: "int \<Rightarrow> 'e"
    and canonical :: "'e \<Rightarrow> bool"
  assumes vals_names: "vals = map (\<lambda>(n, x). (x, n)) names"
    and distinct_names: "distinct (map snd names)"
    and distinct_numbers: "distinct (map fst names)"
    and ofNumber_number: "canonical x \<Longrightarrow> ofNumber (number x) = x"
begin

lemma name_value: "map_of names n = Some x \<longleftrightarrow> map_of vals x = Some n"
proof -
  have "distinct (map fst vals)" using distinct_names by (simp add: vals_names comp_def case_prod_beta)
  then show ?thesis using distinct_numbers by (auto simp: map_of_eq_Some_iff vals_names)
qed

text \<open>Writing a value and reading it gives the value, whether its number has a name or not.\<close>

lemma json_roundtrip: "enumFromJson vals (enumToJson names n) = Some n"
  by (simp add: enumToJson_def name_value split: option.split)

lemma enum_roundtrip:
  "canonical x \<Longrightarrow> map_option ofNumber (enumFromJson vals (enumToJson names (number x))) = Some x"
  by (simp add: json_roundtrip ofNumber_number)

text \<open>Different values are written differently.\<close>

lemma toJson_inj: "canonical x \<Longrightarrow> canonical y \<Longrightarrow> enumToJson names (number x) = enumToJson names (number y) \<Longrightarrow> x = y"
  by (metis enum_roundtrip option.inject)

end

section \<open>\<open>Sender\<close>\<close>

definition Sender_name :: "(int \<times> string) list" where
  "Sender_name = [(0, ''SENDER_UNSPECIFIED''), (1, ''SENDER_GUEST''), (2, ''SENDER_SYSTEM'')]"

definition Sender_value :: "(string \<times> int) list" where
  "Sender_value = [(''SENDER_UNSPECIFIED'', 0), (''SENDER_GUEST'', 1), (''SENDER_SYSTEM'', 2)]"

fun senderNumber :: "sender \<Rightarrow> int" where
  "senderNumber SENDER_UNSPECIFIED = 0"
| "senderNumber SENDER_GUEST = 1"
| "senderNumber SENDER_SYSTEM = 2"
| "senderNumber (SENDER_OTHER n) = n"

definition senderOf :: "int \<Rightarrow> sender" where
  "senderOf n = (if n = 0 then SENDER_UNSPECIFIED else if n = 1 then SENDER_GUEST else if n = 2 then SENDER_SYSTEM else SENDER_OTHER n)"

definition senderString :: "sender \<Rightarrow> string" where
  "senderString x = enumString Sender_name (senderNumber x)"

definition senderCanonical :: "sender \<Rightarrow> bool" where
  "senderCanonical x \<longleftrightarrow> (case x of SENDER_OTHER n \<Rightarrow> map_of Sender_name n = None | _ \<Rightarrow> True)"

interpretation senderWire: enum_tables Sender_name Sender_value senderNumber senderOf senderCanonical
  by unfold_locales (auto simp: Sender_name_def Sender_value_def senderOf_def senderCanonical_def split: sender.splits if_splits)

section \<open>\<open>AckStatus\<close>\<close>

definition AckStatus_name :: "(int \<times> string) list" where
  "AckStatus_name = [(0, ''ACK_STATUS_UNSPECIFIED''), (1, ''ACK_STATUS_ACCEPTED''), (2, ''ACK_STATUS_REJECTED'')]"

definition AckStatus_value :: "(string \<times> int) list" where
  "AckStatus_value = [(''ACK_STATUS_UNSPECIFIED'', 0), (''ACK_STATUS_ACCEPTED'', 1), (''ACK_STATUS_REJECTED'', 2)]"

fun ackStatusNumber :: "ackStatus \<Rightarrow> int" where
  "ackStatusNumber ACK_STATUS_UNSPECIFIED = 0"
| "ackStatusNumber ACK_STATUS_ACCEPTED = 1"
| "ackStatusNumber ACK_STATUS_REJECTED = 2"
| "ackStatusNumber (ACK_STATUS_OTHER n) = n"

definition ackStatusOf :: "int \<Rightarrow> ackStatus" where
  "ackStatusOf n = (if n = 0 then ACK_STATUS_UNSPECIFIED else if n = 1 then ACK_STATUS_ACCEPTED else
     if n = 2 then ACK_STATUS_REJECTED else ACK_STATUS_OTHER n)"

definition ackStatusString :: "ackStatus \<Rightarrow> string" where
  "ackStatusString x = enumString AckStatus_name (ackStatusNumber x)"

definition ackStatusCanonical :: "ackStatus \<Rightarrow> bool" where
  "ackStatusCanonical x \<longleftrightarrow> (case x of ACK_STATUS_OTHER n \<Rightarrow> map_of AckStatus_name n = None | _ \<Rightarrow> True)"

interpretation ackStatusWire: enum_tables AckStatus_name AckStatus_value ackStatusNumber ackStatusOf ackStatusCanonical
  by unfold_locales (auto simp: AckStatus_name_def AckStatus_value_def ackStatusOf_def ackStatusCanonical_def split: ackStatus.splits if_splits)

section \<open>\<open>ErrorCode\<close>\<close>

definition ErrorCode_name :: "(int \<times> string) list" where
  "ErrorCode_name = [(0, ''ERROR_CODE_UNSPECIFIED''), (1, ''ERROR_CODE_NONE'')]"

definition ErrorCode_value :: "(string \<times> int) list" where
  "ErrorCode_value = [(''ERROR_CODE_UNSPECIFIED'', 0), (''ERROR_CODE_NONE'', 1)]"

fun errorCodeNumber :: "errorCode \<Rightarrow> int" where
  "errorCodeNumber ERROR_CODE_UNSPECIFIED = 0"
| "errorCodeNumber ERROR_CODE_NONE = 1"
| "errorCodeNumber (ERROR_CODE_OTHER n) = n"

definition errorCodeOf :: "int \<Rightarrow> errorCode" where
  "errorCodeOf n = (if n = 0 then ERROR_CODE_UNSPECIFIED else if n = 1 then ERROR_CODE_NONE else ERROR_CODE_OTHER n)"

definition errorCodeString :: "errorCode \<Rightarrow> string" where
  "errorCodeString x = enumString ErrorCode_name (errorCodeNumber x)"

definition errorCodeCanonical :: "errorCode \<Rightarrow> bool" where
  "errorCodeCanonical x \<longleftrightarrow> (case x of ERROR_CODE_OTHER n \<Rightarrow> map_of ErrorCode_name n = None | _ \<Rightarrow> True)"

interpretation errorCodeWire: enum_tables ErrorCode_name ErrorCode_value errorCodeNumber errorCodeOf errorCodeCanonical
  by unfold_locales (auto simp: ErrorCode_name_def ErrorCode_value_def errorCodeOf_def errorCodeCanonical_def split: errorCode.splits if_splits)

section \<open>\<open>GuestAction\<close>\<close>

definition GuestAction_name :: "(int \<times> string) list" where
  "GuestAction_name = [(0, ''GUEST_ACTION_UNSPECIFIED''), (1, ''SHOW_FOR_CHECKIN''), (2, ''SHOW_DOCUMENT''),
     (3, ''SHOW_BOOKING_NUMBER''), (4, ''ENTER_COTTAGE''), (5, ''LEAVE_COTTAGE''), (6, ''GO_FOR_A_BATH''),
     (7, ''RETURN_FROM_BATH''), (8, ''GO_FOR_DINNER''), (9, ''GO_FOR_BREAKFAST''), (10, ''GO_TO_SLEEP''),
     (11, ''WAKEUP''), (12, ''LEAVE_CLEANUP_NOTIFICATION''), (13, ''ENJOY_RESORT''),
     (14, ''PROCEED_TO_CHECKOUT''), (15, ''RETURN_COTTAGE_KEY''), (16, ''TAKE_COTTAGE_KEY'')]"

definition GuestAction_value :: "(string \<times> int) list" where
  "GuestAction_value = [(''GUEST_ACTION_UNSPECIFIED'', 0), (''SHOW_FOR_CHECKIN'', 1), (''SHOW_DOCUMENT'', 2),
     (''SHOW_BOOKING_NUMBER'', 3), (''ENTER_COTTAGE'', 4), (''LEAVE_COTTAGE'', 5), (''GO_FOR_A_BATH'', 6),
     (''RETURN_FROM_BATH'', 7), (''GO_FOR_DINNER'', 8), (''GO_FOR_BREAKFAST'', 9), (''GO_TO_SLEEP'', 10),
     (''WAKEUP'', 11), (''LEAVE_CLEANUP_NOTIFICATION'', 12), (''ENJOY_RESORT'', 13),
     (''PROCEED_TO_CHECKOUT'', 14), (''RETURN_COTTAGE_KEY'', 15), (''TAKE_COTTAGE_KEY'', 16)]"

fun guestActionNumber :: "guestAction \<Rightarrow> int" where
  "guestActionNumber GUEST_ACTION_UNSPECIFIED = 0"
| "guestActionNumber SHOW_FOR_CHECKIN = 1"
| "guestActionNumber SHOW_DOCUMENT = 2"
| "guestActionNumber SHOW_BOOKING_NUMBER = 3"
| "guestActionNumber ENTER_COTTAGE = 4"
| "guestActionNumber LEAVE_COTTAGE = 5"
| "guestActionNumber GO_FOR_A_BATH = 6"
| "guestActionNumber RETURN_FROM_BATH = 7"
| "guestActionNumber GO_FOR_DINNER = 8"
| "guestActionNumber GO_FOR_BREAKFAST = 9"
| "guestActionNumber GO_TO_SLEEP = 10"
| "guestActionNumber WAKEUP = 11"
| "guestActionNumber LEAVE_CLEANUP_NOTIFICATION = 12"
| "guestActionNumber ENJOY_RESORT = 13"
| "guestActionNumber PROCEED_TO_CHECKOUT = 14"
| "guestActionNumber RETURN_COTTAGE_KEY = 15"
| "guestActionNumber TAKE_COTTAGE_KEY = 16"
| "guestActionNumber (GUEST_ACTION_OTHER n) = n"

definition guestActionOf :: "int \<Rightarrow> guestAction" where
  "guestActionOf n = (if n = 0 then GUEST_ACTION_UNSPECIFIED else if n = 1 then SHOW_FOR_CHECKIN else
     if n = 2 then SHOW_DOCUMENT else if n = 3 then SHOW_BOOKING_NUMBER else if n = 4 then ENTER_COTTAGE else
     if n = 5 then LEAVE_COTTAGE else if n = 6 then GO_FOR_A_BATH else if n = 7 then RETURN_FROM_BATH else
     if n = 8 then GO_FOR_DINNER else if n = 9 then GO_FOR_BREAKFAST else if n = 10 then GO_TO_SLEEP else
     if n = 11 then WAKEUP else if n = 12 then LEAVE_CLEANUP_NOTIFICATION else if n = 13 then ENJOY_RESORT else
     if n = 14 then PROCEED_TO_CHECKOUT else if n = 15 then RETURN_COTTAGE_KEY else if n = 16 then TAKE_COTTAGE_KEY else GUEST_ACTION_OTHER n)"

definition guestActionString :: "guestAction \<Rightarrow> string" where
  "guestActionString x = enumString GuestAction_name (guestActionNumber x)"

definition guestActionCanonical :: "guestAction \<Rightarrow> bool" where
  "guestActionCanonical x \<longleftrightarrow> (case x of GUEST_ACTION_OTHER n \<Rightarrow> map_of GuestAction_name n = None | _ \<Rightarrow> True)"

interpretation guestActionWire: enum_tables GuestAction_name GuestAction_value guestActionNumber guestActionOf guestActionCanonical
  by unfold_locales (auto simp: GuestAction_name_def GuestAction_value_def guestActionOf_def guestActionCanonical_def split: guestAction.splits if_splits)

section \<open>\<open>SystemNotification\<close>\<close>

definition SystemNotification_name :: "(int \<times> string) list" where
  "SystemNotification_name = [(0, ''SYSTEM_NOTIFICATION_UNSPECIFIED''), (1, ''BOOKING_CHECKING''), (2, ''CHECK_IN_COMPLETE''),
     (3, ''DINNER_READY''), (4, ''PREPARE_COTTAGE_TO_SLEEP''), (5, ''BREAKFAST_READY''),
     (6, ''CHECK_OUT_TOMORROW''), (7, ''CHECK_OUT_COMPLETE'')]"

definition SystemNotification_value :: "(string \<times> int) list" where
  "SystemNotification_value = [(''SYSTEM_NOTIFICATION_UNSPECIFIED'', 0), (''BOOKING_CHECKING'', 1), (''CHECK_IN_COMPLETE'', 2),
     (''DINNER_READY'', 3), (''PREPARE_COTTAGE_TO_SLEEP'', 4), (''BREAKFAST_READY'', 5),
     (''CHECK_OUT_TOMORROW'', 6), (''CHECK_OUT_COMPLETE'', 7)]"

fun systemNotificationNumber :: "systemNotification \<Rightarrow> int" where
  "systemNotificationNumber SYSTEM_NOTIFICATION_UNSPECIFIED = 0"
| "systemNotificationNumber BOOKING_CHECKING = 1"
| "systemNotificationNumber CHECK_IN_COMPLETE = 2"
| "systemNotificationNumber DINNER_READY = 3"
| "systemNotificationNumber PREPARE_COTTAGE_TO_SLEEP = 4"
| "systemNotificationNumber BREAKFAST_READY = 5"
| "systemNotificationNumber CHECK_OUT_TOMORROW = 6"
| "systemNotificationNumber CHECK_OUT_COMPLETE = 7"
| "systemNotificationNumber (SYSTEM_NOTIFICATION_OTHER n) = n"

definition systemNotificationOf :: "int \<Rightarrow> systemNotification" where
  "systemNotificationOf n = (if n = 0 then SYSTEM_NOTIFICATION_UNSPECIFIED else if n = 1 then BOOKING_CHECKING else
     if n = 2 then CHECK_IN_COMPLETE else if n = 3 then DINNER_READY else
     if n = 4 then PREPARE_COTTAGE_TO_SLEEP else if n = 5 then BREAKFAST_READY else
     if n = 6 then CHECK_OUT_TOMORROW else if n = 7 then CHECK_OUT_COMPLETE else SYSTEM_NOTIFICATION_OTHER n)"

definition systemNotificationString :: "systemNotification \<Rightarrow> string" where
  "systemNotificationString x = enumString SystemNotification_name (systemNotificationNumber x)"

definition systemNotificationCanonical :: "systemNotification \<Rightarrow> bool" where
  "systemNotificationCanonical x \<longleftrightarrow> (case x of SYSTEM_NOTIFICATION_OTHER n \<Rightarrow> map_of SystemNotification_name n = None | _ \<Rightarrow> True)"

interpretation systemNotificationWire: enum_tables SystemNotification_name SystemNotification_value systemNotificationNumber systemNotificationOf systemNotificationCanonical
  by unfold_locales (auto simp: SystemNotification_name_def SystemNotification_value_def systemNotificationOf_def systemNotificationCanonical_def split: systemNotification.splits if_splits)

section \<open>\<open>SystemRequest\<close>\<close>

definition SystemRequest_name :: "(int \<times> string) list" where
  "SystemRequest_name = [(0, ''SYSTEM_REQUEST_UNSPECIFIED''), (1, ''REQUEST_DOCUMENT''), (2, ''REQUEST_BOOKING_NUMBER''),
     (3, ''GIVE_COTTAGE_KEY''), (4, ''REQUEST_COTTAGE_KEY'')]"

definition SystemRequest_value :: "(string \<times> int) list" where
  "SystemRequest_value = [(''SYSTEM_REQUEST_UNSPECIFIED'', 0), (''REQUEST_DOCUMENT'', 1), (''REQUEST_BOOKING_NUMBER'', 2),
     (''GIVE_COTTAGE_KEY'', 3), (''REQUEST_COTTAGE_KEY'', 4)]"

fun systemRequestNumber :: "systemRequest \<Rightarrow> int" where
  "systemRequestNumber SYSTEM_REQUEST_UNSPECIFIED = 0"
| "systemRequestNumber REQUEST_DOCUMENT = 1"
| "systemRequestNumber REQUEST_BOOKING_NUMBER = 2"
| "systemRequestNumber GIVE_COTTAGE_KEY = 3"
| "systemRequestNumber REQUEST_COTTAGE_KEY = 4"
| "systemRequestNumber (SYSTEM_REQUEST_OTHER n) = n"

definition systemRequestOf :: "int \<Rightarrow> systemRequest" where
  "systemRequestOf n = (if n = 0 then SYSTEM_REQUEST_UNSPECIFIED else if n = 1 then REQUEST_DOCUMENT else
     if n = 2 then REQUEST_BOOKING_NUMBER else if n = 3 then GIVE_COTTAGE_KEY else
     if n = 4 then REQUEST_COTTAGE_KEY else SYSTEM_REQUEST_OTHER n)"

definition systemRequestString :: "systemRequest \<Rightarrow> string" where
  "systemRequestString x = enumString SystemRequest_name (systemRequestNumber x)"

definition systemRequestCanonical :: "systemRequest \<Rightarrow> bool" where
  "systemRequestCanonical x \<longleftrightarrow> (case x of SYSTEM_REQUEST_OTHER n \<Rightarrow> map_of SystemRequest_name n = None | _ \<Rightarrow> True)"

interpretation systemRequestWire: enum_tables SystemRequest_name SystemRequest_value systemRequestNumber systemRequestOf systemRequestCanonical
  by unfold_locales (auto simp: SystemRequest_name_def SystemRequest_value_def systemRequestOf_def systemRequestCanonical_def split: systemRequest.splits if_splits)

section \<open>\<open>RequestType\<close>\<close>

definition RequestType_name :: "(int \<times> string) list" where
  "RequestType_name = [(0, ''UNSPECIFIED''), (1, ''PREPARE_FOR_GUEST''), (2, ''DAILY_CLEANING''), (3, ''FULL_CLEANING''),
     (4, ''PREPARE_FOR_SLEEP'')]"

definition RequestType_value :: "(string \<times> int) list" where
  "RequestType_value = [(''UNSPECIFIED'', 0), (''PREPARE_FOR_GUEST'', 1), (''DAILY_CLEANING'', 2), (''FULL_CLEANING'', 3),
     (''PREPARE_FOR_SLEEP'', 4)]"

fun requestTypeNumber :: "requestType \<Rightarrow> int" where
  "requestTypeNumber RT_UNSPECIFIED = 0"
| "requestTypeNumber RT_PREPARE_FOR_GUEST = 1"
| "requestTypeNumber RT_DAILY_CLEANING = 2"
| "requestTypeNumber RT_FULL_CLEANING = 3"
| "requestTypeNumber RT_PREPARE_FOR_SLEEP = 4"

definition requestTypeOf :: "int \<Rightarrow> requestType" where
  "requestTypeOf n = (if n = 0 then RT_UNSPECIFIED else if n = 1 then RT_PREPARE_FOR_GUEST else
     if n = 2 then RT_DAILY_CLEANING else if n = 3 then RT_FULL_CLEANING else if n = 4 then RT_PREPARE_FOR_SLEEP else RT_UNSPECIFIED)"

definition requestTypeString :: "requestType \<Rightarrow> string" where
  "requestTypeString x = enumString RequestType_name (requestTypeNumber x)"

text \<open>The request types are finite, and ordered by their numbers.\<close>

instantiation requestType :: enum
begin

definition enum_requestType :: "requestType list" where
  "enum_requestType = [RT_UNSPECIFIED, RT_PREPARE_FOR_GUEST, RT_DAILY_CLEANING, RT_FULL_CLEANING, RT_PREPARE_FOR_SLEEP]"

definition enum_all_requestType :: "(requestType \<Rightarrow> bool) \<Rightarrow> bool" where
  "enum_all_requestType P \<longleftrightarrow> list_all P Enum.enum"

definition enum_ex_requestType :: "(requestType \<Rightarrow> bool) \<Rightarrow> bool" where
  "enum_ex_requestType P \<longleftrightarrow> list_ex P Enum.enum"

instance
proof
  show univ: "(UNIV :: requestType set) = set Enum.enum"
    by (auto simp: enum_requestType_def intro: requestType.exhaust)
  show "distinct (Enum.enum :: requestType list)" by (simp add: enum_requestType_def)
  show "Enum.enum_all P \<longleftrightarrow> Ball UNIV P" "Enum.enum_ex P \<longleftrightarrow> Bex UNIV P" for P :: "requestType \<Rightarrow> bool"
    unfolding univ by (simp_all add: enum_all_requestType_def enum_ex_requestType_def list_all_iff list_ex_iff)
qed

end

lemma requestTypeOf_number: "requestTypeOf (requestTypeNumber x) = x"
  by (cases x) (simp_all add: requestTypeOf_def)

lemma requestTypeNumber_inject [simp]: "requestTypeNumber x = requestTypeNumber y \<longleftrightarrow> x = y"
  by (metis requestTypeOf_number)

instantiation requestType :: linorder
begin

definition less_eq_requestType :: "requestType \<Rightarrow> requestType \<Rightarrow> bool" where
  "x \<le> y \<longleftrightarrow> requestTypeNumber x \<le> requestTypeNumber y"

definition less_requestType :: "requestType \<Rightarrow> requestType \<Rightarrow> bool" where
  "x < y \<longleftrightarrow> requestTypeNumber x < requestTypeNumber y"

instance
  by standard (auto simp: less_eq_requestType_def less_requestType_def)

end

text \<open>Every request type but the unspecified one is the request of exactly one kind of cleaning order, and
  the first in the order is the one no order has.\<close>

lemma orders_of_requests:
  "t \<in> ran cleaningOrderTypeDtoMap \<longleftrightarrow> t \<noteq> RT_UNSPECIFIED"
proof -
  have "distinct (map fst [(PrepareForGuest, RT_PREPARE_FOR_GUEST), (DailyCleaning, RT_DAILY_CLEANING),
      (FullCleaning, RT_FULL_CLEANING), (PrepareForSleep, RT_PREPARE_FOR_SLEEP)])"
    by (simp add: enum_defs)
  then have "ran cleaningOrderTypeDtoMap = {RT_PREPARE_FOR_GUEST, RT_DAILY_CLEANING, RT_FULL_CLEANING, RT_PREPARE_FOR_SLEEP}"
    unfolding cleaningOrderTypeDtoMap_def by (subst ran_distinct) simp_all
  then show ?thesis by (cases t) simp_all
qed

lemma unspecified_least: "RT_UNSPECIFIED \<le> t"
  by (cases t) (simp_all add: less_eq_requestType_def)

interpretation requestTypeWire: enum_tables RequestType_name RequestType_value requestTypeNumber requestTypeOf "\<lambda>_. True"
  by unfold_locales (auto simp: RequestType_name_def RequestType_value_def requestTypeOf_number)

section \<open>Getters\<close>

text \<open>A nil message reads as the zero value of the field.\<close>

definition chatMessageGetMessageId :: "chatMessage option \<Rightarrow> string" where
  "chatMessageGetMessageId x = (case x of Some m \<Rightarrow> messageId m | None \<Rightarrow> [])"

definition chatMessageGetCorrelationId :: "chatMessage option \<Rightarrow> string" where
  "chatMessageGetCorrelationId x = (case x of Some m \<Rightarrow> correlationId m | None \<Rightarrow> [])"

definition chatMessageGetSender :: "chatMessage option \<Rightarrow> sender" where
  "chatMessageGetSender x = (case x of Some m \<Rightarrow> msgSender m | None \<Rightarrow> SENDER_UNSPECIFIED)"

definition chatMessageGetProtocolVersion :: "chatMessage option \<Rightarrow> string" where
  "chatMessageGetProtocolVersion x = (case x of Some m \<Rightarrow> protocolVersion m | None \<Rightarrow> [])"

definition chatMessageGetTraceContext :: "chatMessage option \<Rightarrow> (string \<times> string) list" where
  "chatMessageGetTraceContext x = (case x of Some m \<Rightarrow> traceContext m | None \<Rightarrow> [])"

definition chatMessageGetPayload :: "chatMessage option \<Rightarrow> chatPayload" where
  "chatMessageGetPayload x = (case x of Some m \<Rightarrow> msgPayload m | None \<Rightarrow> PUnset)"

definition ackGetAcknowledgedMessageId :: "ack option \<Rightarrow> string" where
  "ackGetAcknowledgedMessageId x = (case x of Some m \<Rightarrow> ackMessageId m | None \<Rightarrow> [])"

definition ackGetStatus :: "ack option \<Rightarrow> ackStatus" where
  "ackGetStatus x = (case x of Some m \<Rightarrow> ackStatus m | None \<Rightarrow> ACK_STATUS_UNSPECIFIED)"

definition ackGetCode :: "ack option \<Rightarrow> errorCode" where
  "ackGetCode x = (case x of Some m \<Rightarrow> ackCode m | None \<Rightarrow> ERROR_CODE_UNSPECIFIED)"

definition checkInTodayNotificationGetBookingId :: "checkInTodayNotification option \<Rightarrow> string" where
  "checkInTodayNotificationGetBookingId x = (case x of Some m \<Rightarrow> nBookingId m | None \<Rightarrow> [])"

definition checkInTodayNotificationGetGuestId :: "checkInTodayNotification option \<Rightarrow> string" where
  "checkInTodayNotificationGetGuestId x = (case x of Some m \<Rightarrow> nGuestId m | None \<Rightarrow> [])"

definition checkInTodayNotificationGetCottageName :: "checkInTodayNotification option \<Rightarrow> string" where
  "checkInTodayNotificationGetCottageName x = (case x of Some m \<Rightarrow> nCottageName m | None \<Rightarrow> [])"

definition checkInTodayNotificationGetNumberOfGuests :: "checkInTodayNotification option \<Rightarrow> int" where
  "checkInTodayNotificationGetNumberOfGuests x = (case x of Some m \<Rightarrow> nNumberOfGuests m | None \<Rightarrow> 0)"

definition cleaningRequestGetRoomName :: "cleaningRequest option \<Rightarrow> string" where
  "cleaningRequestGetRoomName x = (case x of Some m \<Rightarrow> crRoomName m | None \<Rightarrow> [])"

definition cleaningRequestGetRequest :: "cleaningRequest option \<Rightarrow> requestType" where
  "cleaningRequestGetRequest x = (case x of Some m \<Rightarrow> crRequest m | None \<Rightarrow> RT_UNSPECIFIED)"

end
