(* ===== verification/Spec2Isabelle.thy ===== *)
theory Spec2Isabelle
  imports Config Conform FakeDesk ErrorText Observability StartUp Testbed Wire
begin

text \<open>
  \<^bold>\<open>The guest manager: a model of \<open>src/internal\<close> and what is proved of it\<close>

  The program registers guests over HTTP, leads a guest through check-in, stay and check-out in one
  websocket session, arranges cottages when a day begins, and tells sessions the hours of meals. It
  keeps its data in MongoDB and Redis, receives time events and sends requests over RabbitMQ, and
  asks a clock service for the time. This library models it in layers, each over the interfaces of
  the one below.

  \<^bold>\<open>How code is modelled\<close>

  A function that may fail and has effects is a value of \<open>('s, 'e, 'a) eff\<close> (Prelude): from a state it
  returns \<open>Some\<close> outcome and new state, or \<open>None\<close> when it does not return; the outcome is \<open>Inl\<close> of an error
  or \<open>Inr\<close> of a value. The state type is a parameter, so each operation is what the code does with any
  collaborators. \<open>bindE\<close> is the sequence with the early return on an error, \<open>attemptE\<close> the call whose
  error is looked at, \<open>mapErrE\<close> the wrapping of an error. An endless \<open>for\<close> is \<open>loopE\<close> (Loops), a partial
  function without fuel: not returning is the value \<open>None\<close>, and that a loop ends or does not is proved.
  Loops over slices are structural recursions. A Go interface is a record of operations (Ports,
  Protocol, ChatModel); services, repositories and clients build such records. Error values keep
  their format and arguments (GoErrors), times are nanoseconds with an optional zone offset
  (GoTime), identifiers are 96-bit words, \<open>int32\<close> conversions are taken modulo two to the 32. Using a nil
  pointer panics: inside a session or an operation the panic is the error \<open>nilDereference\<close>, which
  the program's own code does not recover (the recovery of gin answers a handler's panic with 500); in the start-up panics,
  errors and \<open>os.Exit\<close> are different outcomes.

  Drivers, the AMQP and gRPC libraries, the containers and processes of the tests, gin, the JSON, BSON and protobuf codecs, the reader of the environment,
  \<open>slog\<close>, generated identifiers, the choices of \<open>select\<close> and the order of map iteration are arguments of
  the definitions that use them.
  Calls are recorded by wrapping a record of operations so that each call is appended, with its
  outcome, to a list in the state (\<open>logged\<close> in Prelude): the theorems about which calls are made, and in
  which order, hold for every collaborator.

  \<^bold>\<open>Theories\<close>

  \<^item> Prelude, Loops, Paths: effects, loops, recorded calls; the locale \<open>frame\<close> for relations every
    step respects; \<open>path\<close> and \<open>runs\<close>, the rules by which the calls of an effect are a path of a state
    machine.
  \<^item> GoTime, GoErrors, GoSet: the standard library's instants, calendar and formats; \<open>errors.Is\<close>, \<open>As\<close>
    and \<open>Join\<close>; \<open>domain/set_datatype.go\<close> with the locale \<open>set_adt\<close>. ErrorText: \<open>fmt.Errorf\<close> on the
    program's formats and the \<open>Error\<close> methods of \<open>domain/errors\<close>.
  \<^item> Validation, DomainModel: \<open>app/validation\<close> (the first violation wins, the e-mail pattern by
    derivatives) and \<open>domain\<close>, \<open>domain/documents\<close>, \<open>domain/dto\<close>, \<open>domain/enum\<close> (constructors,
    normalisation, conversions).
  \<^item> Ports, MongoRepos: \<open>port\<close> and \<open>infra/mdb/*_repo.go\<close> over a collection. CottageStore: what a
    collection does with the filters and updates of the cottage repository (locale
    \<open>cottage_collection\<close>), and that the repository over it is a store of cottages (locale
    \<open>cottage_store\<close>).
  \<^item> GuestService, Reception: \<open>app/guest_service.go\<close>, \<open>app/cleaning_service.go\<close>,
    \<open>app/reception_service.go\<close> with what a check-in may write. Lodge: the reception over such a
    store (locale \<open>lodge\<close>), a whole stay, and check-ins that interleave, as three steps each
    (\<open>ckStep\<close>) under any schedule. Conform: the values that are well formed and the operations that
    return only such.
  \<^item> TimeEvents, Arrange, DayCycle: \<open>app/time_event_service.go\<close> as a run of scheduler steps,
    \<open>app/arrange_cottage_service.go\<close>, \<open>app/notification_service.go\<close>; the locale \<open>expiring_cache\<close> is what
    they rely on from the cache, \<open>day_cache\<close> what the day change relies on, and \<open>dayCycle\<close> the days one after the other.
  \<^item> ChatModel, ChatReader, ChatWriter: \<open>transport/websocket/chat\<close>; the locale \<open>keyed_queue\<close> for the
    actions that wait.
  \<^item> Protocol, FrontDesk, Stay, Session: \<open>transport/websocket/handler\<close> and \<open>websocket.go\<close>. Protocol
    states the session as the state machine \<open>lodging\<close>; the handlers are shown to follow it.
  \<^item> HttpGuest: \<open>transport/http\<close>, the routes for guests and the probes.
  \<^item> Broker, BrokerRun: \<open>infra/mq\<close>, and the states its clients reach.
  \<^item> Infra: \<open>infra/redis\<close>, \<open>infra/mdb/mongo_db.go\<close>, \<open>infra/clock/client.go\<close>, \<open>infra/init.go\<close>; the locale
    \<open>redis_server\<close>, of which \<open>expiring_cache\<close> over the client is a sublocale.
  \<^item> Program: the constructors of \<open>app\<close>, \<open>app/init.go\<close>, \<open>transport/init.go\<close>, \<open>infra/telemetry\<close>,
    \<open>main.go\<close>; the locale \<open>broker_client\<close> says what the whole program relies on so that its broker
    connection is its own. StartUp: the steps of a start-up and what a failing one leaves. Config: the structures of \<open>config\<close> with their tags, the variables they
    declare, and the line that shows the configuration. Observability: \<open>infra/logging\<close>, the log
    functions of the handlers, the trace context of a message, the spans of the cache client.
  \<^item> Wire: the generated code of \<open>domain/dto\<close> a client sees, the tables of the enumerations (locale
    \<open>enum_tables\<close>) and the getters.
  \<^item> Fakes, FakeServices, FakeDesk: the test doubles in the directories \<open>fakes\<close>, and the reception on them.
  \<^item> Harness, Containers, Testbed: \<open>integration_test/helpers\<close>, how the integration tests build, configure,
    start and stop the program (\<open>appStep\<close>, the steps of its goroutines), which containers they start and
    let go of, what they seed; with the generated code of \<open>infra/clock\<close>, the clock server they serve.

  \<^bold>\<open>What is shown\<close>

  \<^item> Check-in and check-out (Reception): a cottage is claimed only when it was just read as free and
    clean, for a confirmed booking of the day; the steps and their order, which a check-out takes on any
    day although a test wants it refused on another day than its own; that a failed preparation
    blocks the guest for good; what the doubles of a test have noted after a check-in, whatever its
    stubs.
  \<^item> Stays and sessions side by side (Lodge): a whole stay gives the cottage back as it was; however
    check-ins interleave, a cottage is only taken while it was available, but two guests can both
    be told that they have it, since the check and the claim are two calls.
  \<^item> Sessions (Session, Stay): every session is a path of the lodging protocol; it checks out only what
    it checked in, after the check-out day and the return of the key; it gives back its
    subscription; the calls of a day, and that the second wait for dinner ends a day later; how the wait for
    the next day ends. The cleaning in the middle of a stay is the daily one, as the code has it; two tests
    expect the full cleaning there.
  \<^item> Messages (ChatReader, ChatWriter): what a wait returns and keeps; replies are acknowledged and
    correlated; requests are repeated without bound; a request keeps no other message it reads, so an action sent
    meanwhile is lost, acknowledged or not.
  \<^item> Time (TimeEvents, Arrange, DayCycle): each delivery is answered once; a subscriber finds the latest
    day, and over a whole run only days of its subscription; what a day change stores and announces; that
    the check-out notification can name only stays of a single night.
  \<^item> Data (DomainModel, MongoRepos, GuestService, HttpGuest, Conform): constructors and their errors,
    queries by day, updates, round trips through the documents and the HTTP routes; services and the
    cache return only well-formed guests and bookings.
  \<^item> Texts (ErrorText, Config): every error of the reception prints completely and shows its causes;
    the error of a failed ping shows the password of the database; the line that is to show the
    configuration shows no secret, but no host either; the defaults of the configuration.
  \<^item> Life cycle (BrokerRun, Infra, Program, StartUp): dialing is bounded; at most one connection is open, whatever
    the operations; a message is published once; a start-up that fails and a program that ends leave
    no connection to the broker, but an error later in the start-up exits without the clean-up.
  \<^item> Integration tests (Harness, Containers, Testbed): the configuration the program loads is the one the
    tests chose, whatever their own environment; the outcome of the process is reported once and
    truthfully; the wait for the database ends; a failed start of the containers leaves at most one,
    and may leave one; the clock client of the program reads the time the tests have set; a seeded
    collection holds its fixture and nothing else.

  \<^bold>\<open>Not modelled\<close>

  The calls of the log functions and of the tracer inside the operations, on which nothing depends;
  contexts, except the errors they end an operation with; generated code beyond the message types, their
  getters and the clock service, since what is left of it are descriptors and reflection for the library
  that encodes messages; the structures of \<open>domain/cottage.go\<close>, which nothing uses. The goroutine that shuts the server down on a signal
  is only recorded as started. Operations on one broker channel are taken one after the other: the
  channel objects have no lock, so concurrent reopening is outside the model. Sessions interleave in
  Lodge at the calls of a check-in; other operations of different sessions are not interleaved.

  \<^bold>\<open>Bounds\<close>

  No definition takes fuel. Loops over lists and the dial loop are recursions over a finite list;
  an endless \<open>for\<close> is \<open>loopE\<close>, where \<open>None\<close> says that it does not return, and each theorem about a
  loop says whether it returns. Integers keep their width where it can matter: \<open>int32\<close> of the
  announcements, durations computed from seconds (\<open>durationInSeconds\<close>), pool sizes, delivery tags and
  identifiers; the counters of the doubles, which no run exhausts, are \<open>int\<close>.
\<close>

end
